(* ===== verification/Prelude.thy ===== *)
theory Prelude
  imports Complex_Main "HOL-Library.Multiset" "HOL-Library.Product_Lexorder"
begin

text \<open>
  Shared vocabulary of the catalog cross-match development: the Python errors the
  modelled code can raise, the names of the model's value types, the collection of
  evaluation rules used by the witnesses, and generic facts on lists and sorting that
  the component theories share.
\<close>

section \<open>Errors and value types\<close>

text \<open>
  The exceptions raised along the modelled code paths: numpy fancy indexing and
  boolean-mask indexing raise \<open>IndexError\<close>; numpy broadcasting of incompatible
  shapes and astropy's nearest-neighbour search on an empty catalog raise
  \<open>ValueError\<close>; astropy's \<open>hstack\<close> of tables of different lengths is not
  reached by the code (both call sites pass tables of equal length) and is reported as
  \<open>TableLengthError\<close>.  The PSF cells raise a bare \<open>Exception\<close> for an unknown
  model name (\<open>GenericException\<close>), and reading a parameter the fitted model does not
  have is an \<open>AttributeError\<close>, and renaming a table column to a name already in use
  a \<open>KeyError\<close>.  Opening a file that does not exist raises \<open>FileNotFoundError\<close>,
  reading a variable a loop never bound a \<open>NameError\<close>, datetime arithmetic past
  the last ordinal an \<open>OverflowError\<close>, and an operation on a value of the wrong type
  (\<open>len(None)\<close>, arithmetic on a table row) a \<open>TypeError\<close>.
\<close>

datatype py_error = IndexError | ValueError | TableLengthError | GenericException | AttributeError
  | KeyError | FileNotFoundError | NameError | OverflowError | TypeError

type_synonym 'a result = "py_error + 'a"

text \<open>Sequencing of statements that may raise: the first exception stops the rest.\<close>

definition bind_result :: "'a result \<Rightarrow> ('a \<Rightarrow> 'b result) \<Rightarrow> 'b result" where
  "bind_result r f = (case r of Inl e \<Rightarrow> Inl e | Inr v \<Rightarrow> f v)"

lemma bind_result_simps [simp]:
  "bind_result (Inl e) f = Inl e"
  "bind_result (Inr v) f = f v"
  by (simp_all add: bind_result_def)

text \<open>A loop whose body may raise, collecting the body's values in order.\<close>

fun map_result :: "('a \<Rightarrow> 'b result) \<Rightarrow> 'a list \<Rightarrow> 'b list result" where
  "map_result f [] = Inr []"
| "map_result f (x # xs) = bind_result (f x) (\<lambda>y. bind_result (map_result f xs) (\<lambda>ys. Inr (y # ys)))"

lemma map_result_Inr:
  "(\<forall>x\<in>set xs. f x = Inr (g x)) \<Longrightarrow> map_result f xs = Inr (map g xs)"
  by (induction xs) auto

text \<open>A loop whose body updates a state and may raise.\<close>

fun fold_result :: "('a \<Rightarrow> 's \<Rightarrow> 's result) \<Rightarrow> 'a list \<Rightarrow> 's \<Rightarrow> 's result" where
  "fold_result f [] s = Inr s"
| "fold_result f (x # xs) s = bind_result (f x s) (fold_result f xs)"

text \<open>What a cell shows: \<open>print\<close> with its arguments, the display of a table
  (\<open>show_in_notebook\<close> or the cell's last expression) with the rows shown, and a call
  of the plotting or display libraries with its positional and keyword arguments.
  Floats are reals; NaN is \<open>VNaN\<close>; a string built by \<open>%\<close>-formatting or an
  f-string is \<open>VFormat\<close> of its template and arguments.\<close>

datatype py_value = VStr string | VInt int | VReal real | VNaN | VBool bool | VList "py_value list"
  | VFormat string "py_value list"

datatype cell_output = Print "py_value list" | Display string nat | Call string "py_value list" "(string \<times> py_value) list"

definition v_reals :: "real list \<Rightarrow> py_value" where
  "v_reals xs = VList (map VReal xs)"

definition v_image :: "real list list \<Rightarrow> py_value" where
  "v_image rows = VList (map v_reals rows)"

definition v_opt :: "real option \<Rightarrow> py_value" where
  "v_opt r = (case r of None \<Rightarrow> VNaN | Some x \<Rightarrow> VReal x)"

text \<open>Angles are reals: degrees where the code reads \<open>.degree\<close>, radians inside the
  trigonometry.  Python floats are idealised as reals.\<close>

type_synonym degrees = real
type_synonym radians = real

text \<open>astropy's \<open>Table.rename_column(name, new_name)\<close> on the column names:
  \<open>KeyError\<close> when \<open>name\<close> is not a column, nothing when the names agree,
  \<open>KeyError\<close> when \<open>new_name\<close> is already a column; the column keeps its place.\<close>

definition rename_colnames :: "string list \<Rightarrow> string \<Rightarrow> string \<Rightarrow> string list result" where
  "rename_colnames names name new_name =
     (if name \<notin> set names then Inl KeyError
      else if name = new_name then Inr names
      else if new_name \<in> set names then Inl KeyError
      else Inr (map (\<lambda>n. if n = name then new_name else n) names))"

named_theorems model_eval \<open>equations that evaluate the model on concrete catalogs\<close>

declare rename_colnames_def [model_eval]

lemma rename_colnames_fresh:
  assumes "name \<in> set names" "\<not> (new_name \<noteq> name \<and> new_name \<in> set names)"
  shows "rename_colnames names name new_name = Inr (map (\<lambda>n. if n = name then new_name else n) names)"
  using assms by (auto simp: rename_colnames_def map_idI)

section \<open>Generic facts on sorted lists\<close>

text \<open>Two sorted arrangements of the same multiset agree on their sort keys: the key
  sequence of a sorted permutation does not depend on how ties were broken.\<close>

lemma sorted_key_seq_unique:
  assumes "mset xs = mset ys" "sorted (map f xs)" "sorted (map f ys)"
  shows "map f xs = map f ys"
proof -
  have "mset (map f xs) = mset (map f ys)" using assms(1) by simp
  then have "sort (map f ys) = map f xs" using assms(2) by (rule properties_for_sort)
  moreover have "sort (map f ys) = map f ys" using assms(3) by (simp add: sorted_sort_id)
  ultimately show ?thesis by simp
qed

lemma sorted_map_ConsD:
  "sorted (map f (x # xs)) \<Longrightarrow> y \<in> set xs \<Longrightarrow> f x \<le> f y"
  by simp

lemma sorted_map_tl:
  "sorted (map f (x # xs)) \<Longrightarrow> sorted (map f xs)"
  by simp

lemma lex_pair_le_same_fst:
  fixes a :: "'a::linorder" and b c :: "'b::linorder"
  shows "(a, b) \<le> (a, c) \<longleftrightarrow> b \<le> c"
  by (simp add: less_eq_prod_def)

lemma lex_pair_le_fst:
  fixes a c :: "'a::linorder" and b d :: "'b::linorder"
  shows "(a, b) \<le> (c, d) \<Longrightarrow> a \<le> c"
  by (auto simp: less_eq_prod_def)

lemmas lex_pair_facts = lex_pair_le_same_fst lex_pair_le_fst

text \<open>A list of pairs whose first components strictly increase is sorted and
  duplicate-free in the lexicographic order.\<close>

lemma strict_fst_sorted_distinct:
  fixes xs :: "('a::linorder \<times> 'b::linorder) list"
  assumes "sorted_wrt (<) (map fst xs)"
  shows "sorted xs \<and> distinct xs"
proof -
  have "sorted_wrt (\<lambda>a b. fst a < fst b) xs" using assms by (simp add: sorted_wrt_map)
  then have "sorted_wrt (<) xs"
    by (rule sorted_wrt_mono_rel [rotated]) (auto simp: less_prod_def)
  then show ?thesis by (simp add: strict_sorted_iff)
qed

end
