(* ===== verification/Nearest.thy ===== *)
theory Nearest
  imports Prelude
begin

text \<open>
  The nearest-neighbour lookup the notebook obtains from astropy,
  \<open>pos_by = table.Table(b_pos.match_to_catalog_sky(y_pos), ..., names=['index',
  'distance', '3d'])\<close> followed by \<open>del pos_by['3d']\<close>: for every coordinate of the
  left catalog, the index of the nearest coordinate of the right catalog and its angular
  distance.  The lookup is stated over any separation function \<open>sep\<close>; the root theory
  instantiates it with the great-circle separation of \<open>Sky\<close>.  One row of the
  resulting index table is the record \<open>match_row\<close>.  A catalog with no entries makes
  astropy raise \<open>ValueError\<close>.  Among entries at the same least separation astropy's
  KD-tree returns one it does not specify; the model's scan returns the lowest index, a
  deterministic choice of one of them that no claim relies on.
\<close>

record match_row =
  index :: nat
  distance :: degrees

text \<open>The scan: \<open>k\<close> is the catalog position of the head of \<open>rs\<close>, \<open>best\<close> the
  best (position, distance) so far; a candidate replaces it only when strictly closer.\<close>

fun nearest_acc :: "('p \<Rightarrow> real) \<Rightarrow> nat \<Rightarrow> 'p list \<Rightarrow> nat \<times> real \<Rightarrow> nat \<times> real" where
  "nearest_acc d k [] best = best"
| "nearest_acc d k (r # rs) best =
     nearest_acc d (Suc k) rs (if d r < snd best then (k, d r) else best)"

definition nearest_in :: "('p \<Rightarrow> 'p \<Rightarrow> real) \<Rightarrow> 'p \<Rightarrow> 'p \<Rightarrow> 'p list \<Rightarrow> match_row" where
  "nearest_in sep q r rs =
     (case nearest_acc (sep q) 1 rs (0, sep q r) of (i, m) \<Rightarrow> \<lparr>index = i, distance = m\<rparr>)"

definition match_to_catalog_sky ::
  "('p \<Rightarrow> 'p \<Rightarrow> real) \<Rightarrow> 'p list \<Rightarrow> 'p list \<Rightarrow> match_row list result" where
  "match_to_catalog_sky sep qs cat =
     (case cat of
        [] \<Rightarrow> Inl ValueError
      | r # rs \<Rightarrow> Inr (map (\<lambda>q. nearest_in sep q r rs) qs))"

section \<open>The scan finds the first nearest entry\<close>

lemma nearest_acc_cases:
  assumes "nearest_acc d k rs best = (i, m)"
  shows "(i, m) = best \<or> (k \<le> i \<and> i - k < length rs \<and> m = d (rs ! (i - k)) \<and> m < snd best)"
  using assms
proof (induction rs arbitrary: k best)
  case Nil
  then show ?case by simp
next
  case (Cons r rs)
  let ?b = "if d r < snd best then (k, d r) else best"
  from Cons.prems have "nearest_acc d (Suc k) rs ?b = (i, m)" by simp
  then have IH: "(i, m) = ?b \<or> (Suc k \<le> i \<and> i - Suc k < length rs \<and>
      m = d (rs ! (i - Suc k)) \<and> m < snd ?b)"
    by (rule Cons.IH)
  then show ?case
  proof
    assume "(i, m) = ?b"
    then show ?thesis by (auto split: if_splits)
  next
    assume a: "Suc k \<le> i \<and> i - Suc k < length rs \<and> m = d (rs ! (i - Suc k)) \<and> m < snd ?b"
    then have "(r # rs) ! (i - k) = rs ! (i - Suc k)"
      by (simp add: Suc_diff_Suc)
    with a show ?thesis by (auto split: if_splits)
  qed
qed

lemma nearest_acc_le:
  assumes "nearest_acc d k rs best = (i, m)"
  shows "m \<le> snd best \<and> (\<forall>j<length rs. m \<le> d (rs ! j))"
  using assms
proof (induction rs arbitrary: k best)
  case Nil
  then show ?case by auto
next
  case (Cons r rs)
  let ?b = "if d r < snd best then (k, d r) else best"
  from Cons.prems have "nearest_acc d (Suc k) rs ?b = (i, m)" by simp
  then have IH: "m \<le> snd ?b \<and> (\<forall>j<length rs. m \<le> d (rs ! j))"
    by (rule Cons.IH)
  then have "m \<le> snd best" and "m \<le> d r" by (auto split: if_splits)
  with IH show ?case by (auto simp: less_Suc_eq_0_disj)
qed

lemma nearest_acc_first:
  assumes "nearest_acc d k rs best = (i, m)" and "fst best < k"
  shows "\<forall>j<length rs. k + j < i \<longrightarrow> m < d (rs ! j)"
  using assms
proof (induction rs arbitrary: k best)
  case Nil
  then show ?case by simp
next
  case (Cons r rs)
  let ?b = "if d r < snd best then (k, d r) else best"
  from Cons.prems have run: "nearest_acc d (Suc k) rs ?b = (i, m)" by simp
  have "fst ?b < Suc k" using Cons.prems(2) by simp
  with run have IH: "\<forall>j<length rs. Suc k + j < i \<longrightarrow> m < d (rs ! j)"
    by (rule Cons.IH)
  have head: "k < i \<Longrightarrow> m < d r"
  proof -
    assume "k < i"
    from nearest_acc_cases [OF run] show "m < d r"
    proof
      assume "(i, m) = ?b"
      with \<open>k < i\<close> Cons.prems(2) show ?thesis by (auto split: if_splits)
    next
      assume "Suc k \<le> i \<and> i - Suc k < length rs \<and> m = d (rs ! (i - Suc k)) \<and> m < snd ?b"
      then show ?thesis by (auto split: if_splits)
    qed
  qed
  show ?case
  proof (intro allI impI)
    fix j assume "j < length (r # rs)" "k + j < i"
    then show "m < d ((r # rs) ! j)"
      using IH head by (cases j) auto
  qed
qed

text \<open>One query: the returned index is in range, its distance is the separation to that
  entry, no entry is closer, and every entry before it is strictly farther.\<close>

lemma nearest_in_spec:
  assumes "m = nearest_in sep q r rs"
  shows "index m < length (r # rs)"
    and "distance m = sep q ((r # rs) ! index m)"
    and "\<forall>j<length (r # rs). distance m \<le> sep q ((r # rs) ! j)"
    and "\<forall>j<index m. distance m < sep q ((r # rs) ! j)"
proof -
  obtain i d where run: "nearest_acc (sep q) 1 rs (0, sep q r) = (i, d)"
    by (cases "nearest_acc (sep q) 1 rs (0, sep q r)")
  then have m: "index m = i" "distance m = d"
    using assms by (simp_all add: nearest_in_def)
  have c: "(i, d) = (0, sep q r) \<or>
      (1 \<le> i \<and> i - 1 < length rs \<and> d = sep q (rs ! (i - 1)) \<and> d < sep q r)"
    using nearest_acc_cases [OF run] by simp
  have le: "d \<le> sep q r" "\<forall>j<length rs. d \<le> sep q (rs ! j)"
    using nearest_acc_le [OF run] by simp_all
  have first: "\<forall>j<length rs. 1 + j < i \<longrightarrow> d < sep q (rs ! j)"
    using nearest_acc_first [OF run] by simp
  show "index m < length (r # rs)" using c m by auto
  show "distance m = sep q ((r # rs) ! index m)"
    using c m by (auto simp: nth_Cons')
  show "\<forall>j<length (r # rs). distance m \<le> sep q ((r # rs) ! j)"
    using le m by (auto simp: nth_Cons')
  show "\<forall>j<index m. distance m < sep q ((r # rs) ! j)"
  proof (intro allI impI)
    fix j assume "j < index m"
    then have "0 < i" "j < i" using m by simp_all
    with c have "d < sep q r" "i - 1 < length rs" by auto
    with first \<open>j < i\<close> show "distance m < sep q ((r # rs) ! j)"
      using m by (cases j) auto
  qed
qed

lemma match_to_catalog_sky_Nil [simp]:
  "match_to_catalog_sky sep qs [] = Inl ValueError"
  by (simp add: match_to_catalog_sky_def)

lemma match_to_catalog_sky_Cons:
  "match_to_catalog_sky sep qs (r # rs) = Inr (map (\<lambda>q. nearest_in sep q r rs) qs)"
  by (simp add: match_to_catalog_sky_def)

text \<open>C9: every row of a computed index table, read against its query: one row per
  query, an index into the catalog, the separation to that entry as distance, and no
  entry of the catalog closer.\<close>

theorem match_to_catalog_sky_rows:
  assumes "match_to_catalog_sky sep qs cat = Inr ms" and "n < length ms"
  shows "length ms = length qs \<and> index (ms ! n) < length cat
    \<and> distance (ms ! n) = sep (qs ! n) (cat ! index (ms ! n))
    \<and> (\<forall>j<length cat. distance (ms ! n) \<le> sep (qs ! n) (cat ! j))"
proof (cases cat)
  case Nil
  with assms show ?thesis by simp
next
  case (Cons r rs)
  with assms have ms: "ms = map (\<lambda>q. nearest_in sep q r rs) qs"
    by (simp add: match_to_catalog_sky_Cons)
  with assms have "n < length qs" by simp
  then have "ms ! n = nearest_in sep (qs ! n) r rs" using ms by simp
  from nearest_in_spec [OF this] ms Cons show ?thesis by simp
qed

lemma match_to_catalog_sky_example:
  "match_to_catalog_sky (\<lambda>a b. \<bar>a - b\<bar>) [1::real] [0, 3, 1] = Inr [\<lparr>index = 2, distance = 0\<rparr>]"
  by (simp add: match_to_catalog_sky_def nearest_in_def)

theorem match_to_catalog_sky_rows_witness:
  "(2::nat) < length [0::real, 3, 1] \<and> (0::real) = \<bar>1 - [0::real, 3, 1] ! 2\<bar>
    \<and> (0::real) \<le> \<bar>1 - [0::real, 3, 1] ! 1\<bar> \<and> (0::real) \<le> \<bar>1 - [0::real, 3, 1] ! 0\<bar>"
  using match_to_catalog_sky_rows [OF match_to_catalog_sky_example, of 0] by simp

end
