(* ===== verification/Join.thy ===== *)
theory Join
  imports Nearest
begin

text \<open>
  The notebook's own cross-match routine, \<open>join_catalogs(index_table, left_table,
  right_table)\<close> (src/unnamed/part_000, lines 102--116).  Rows of the left and right
  tables are kept opaque (\<open>'l\<close>, \<open>'r\<close>); a row of the stacked table \<open>matched\<close> is
  the index-table row, the left row and the gathered right row.  Every numpy and astropy
  operation the routine performs is a definition here, with the exception it can raise:
  fancy indexing \<open>right_table[index_table['index']]\<close>, \<open>table.hstack\<close>, the sort on
  \<open>['index', 'distance']\<close>, the shifted comparison \<open>good_match\<close>, the cutoff mask
  \<open>nearby\<close>, the broadcasting product \<open>good_match * nearby\<close>, boolean-mask
  indexing, and the deletion of the two bookkeeping columns.
\<close>

type_synonym ('l, 'r) matched_row = "match_row \<times> 'l \<times> 'r"

section \<open>The table operations\<close>

text \<open>\<open>right_table[index_table['index']]\<close>: numpy fancy indexing with non-negative
  indices; an index past the end raises \<open>IndexError\<close>.\<close>

definition fancy_index :: "'r list \<Rightarrow> nat list \<Rightarrow> 'r list result" where
  "fancy_index rt idxs =
     (if list_all (\<lambda>i. i < length rt) idxs then Inr (map ((!) rt) idxs) else Inl IndexError)"

text \<open>\<open>table.hstack([index_table, left_table, right_rows])\<close> on tables of equal length,
  row by row.  The notebook's call always stacks tables of one length (the index table
  has one row per left row, \<open>right_rows\<close> one per index row).  astropy's default outer
  hstack pads shorter tables with masked rows; the model has no masked rows and stops
  there with \<open>TableLengthError\<close>, a case no claim relies on.\<close>

definition hstack :: "match_row list \<Rightarrow> 'l list \<Rightarrow> 'r list \<Rightarrow> ('l, 'r) matched_row list result" where
  "hstack it lt rt =
     (if length it = length lt \<and> length lt = length rt then Inr (zip it (zip lt rt))
      else Inl TableLengthError)"

text \<open>The key of \<open>matched.sort(['index', 'distance'])\<close>: lexicographic on the pair.\<close>

definition sort_key_of :: "('l, 'r) matched_row \<Rightarrow> nat \<times> degrees" where
  "sort_key_of row = (index (fst row), distance (fst row))"

text \<open>\<open>good_match = [True]\<close> followed by \<open>star != oldstar\<close> over
  \<open>zip(index, index[1:])\<close>: entry \<open>k + 1\<close> compares positions \<open>k\<close> and \<open>k + 1\<close>.\<close>

definition good_match :: "nat list \<Rightarrow> bool list" where
  "good_match idx = True # map2 (\<lambda>star oldstar. star \<noteq> oldstar) idx (tl idx)"

text \<open>\<open>coord.Angle('3 arcsec').degree\<close>.\<close>

definition arcsec3 :: degrees where
  "arcsec3 = 3 / 3600"

definition nearby_mask :: "degrees \<Rightarrow> ('l, 'r) matched_row list \<Rightarrow> bool list" where
  "nearby_mask tol rows = map (\<lambda>row. distance (fst row) < tol) rows"

text \<open>\<open>good_match * nearby\<close>: a Python list of booleans times a numpy boolean array is
  the element-wise product (logical and) under one-dimensional broadcasting: equal
  lengths, or one operand of length one; other shapes raise \<open>ValueError\<close>.\<close>

definition broadcast_and :: "bool list \<Rightarrow> bool list \<Rightarrow> bool list result" where
  "broadcast_and a b =
     (if length a = length b then Inr (map2 (\<and>) a b)
      else if length a = 1 then Inr (map (\<lambda>y. hd a \<and> y) b)
      else if length b = 1 then Inr (map (\<lambda>x. x \<and> hd b) a)
      else Inl ValueError)"

text \<open>\<open>matched[mask]\<close>: boolean-mask indexing; a mask of another length raises
  \<open>IndexError\<close>.\<close>

definition mask_rows :: "'a list \<Rightarrow> bool list \<Rightarrow> 'a list result" where
  "mask_rows rows flags =
     (if length flags = length rows then Inr (map fst (filter snd (zip rows flags)))
      else Inl IndexError)"

text \<open>\<open>del result['index', 'distance']\<close>.\<close>

definition del_index_distance :: "('l, 'r) matched_row list \<Rightarrow> ('l \<times> 'r) list" where
  "del_index_distance rows = map snd rows"

text \<open>The routine, with the cutoff as a parameter; the notebook's routine fixes it at
  three arcseconds.\<close>

definition join_catalogs_at ::
  "degrees \<Rightarrow> match_row list \<Rightarrow> 'l list \<Rightarrow> 'r list \<Rightarrow> ('l \<times> 'r) list result" where
  "join_catalogs_at tol index_table left_table right_table =
     (case fancy_index right_table (map index index_table) of
        Inl e \<Rightarrow> Inl e
      | Inr right_rows \<Rightarrow>
          (case hstack index_table left_table right_rows of
             Inl e \<Rightarrow> Inl e
           | Inr stacked \<Rightarrow>
               (let matched = sort_key sort_key_of stacked;
                    idx = map (index \<circ> fst) matched;
                    good = good_match idx;
                    nearby = nearby_mask tol matched
                in (case broadcast_and good nearby of
                      Inl e \<Rightarrow> Inl e
                    | Inr keep \<Rightarrow>
                        (case mask_rows matched keep of
                           Inl e \<Rightarrow> Inl e
                         | Inr result \<Rightarrow> Inr (del_index_distance result))))))"

definition join_catalogs ::
  "match_row list \<Rightarrow> 'l list \<Rightarrow> 'r list \<Rightarrow> ('l \<times> 'r) list result" where
  "join_catalogs = join_catalogs_at arcsec3"

section \<open>A reference scan for the two masks\<close>

text \<open>The shifted comparison, as a scan that remembers the previous index.\<close>

fun first_flags :: "nat option \<Rightarrow> nat list \<Rightarrow> bool list" where
  "first_flags p [] = []"
| "first_flags p (i # ns) = (p \<noteq> Some i) # first_flags (Some i) ns"

text \<open>Both masks applied in one pass: a row survives when its index differs from the
  previous row's and its distance is below the cutoff.\<close>

fun keep_first :: "degrees \<Rightarrow> nat option \<Rightarrow> ('l, 'r) matched_row list \<Rightarrow> ('l, 'r) matched_row list" where
  "keep_first tol p [] = []"
| "keep_first tol p (x # xs) =
     (if p \<noteq> Some (index (fst x)) \<and> distance (fst x) < tol
      then x # keep_first tol (Some (index (fst x))) xs
      else keep_first tol (Some (index (fst x))) xs)"

definition join_table :: "degrees \<Rightarrow> match_row list \<Rightarrow> 'l list \<Rightarrow> 'r list \<Rightarrow> ('l, 'r) matched_row list" where
  "join_table tol it lt rt =
     keep_first tol None (sort_key sort_key_of (zip it (zip lt (map (\<lambda>m. rt ! index m) it))))"

section \<open>The code's masks agree with the reference scan\<close>

lemma map2_neq_first_flags:
  "map2 (\<lambda>star oldstar. star \<noteq> oldstar) (i # ns) ns = first_flags (Some i) ns"
  by (induction ns arbitrary: i) auto

lemma good_match_first_flags:
  "ns \<noteq> [] \<Longrightarrow> good_match ns = first_flags None ns"
  by (cases ns) (auto simp: good_match_def map2_neq_first_flags)

lemma length_first_flags [simp]: "length (first_flags p ns) = length ns"
  by (induction ns arbitrary: p) auto

lemma filter_flags_keep_first:
  "map fst (filter snd (zip s (map2 (\<and>) (first_flags p (map (index \<circ> fst) s))
      (map (\<lambda>row. distance (fst row) < tol) s)))) = keep_first tol p s"
  by (induction s arbitrary: p) auto

lemma mask_rows_keep_first:
  "mask_rows s (map2 (\<and>) (first_flags p (map (index \<circ> fst) s)) (nearby_mask tol s))
     = Inr (keep_first tol p s)"
  by (simp add: mask_rows_def nearby_mask_def filter_flags_keep_first)

theorem join_catalogs_at_eq:
  assumes "list_all (\<lambda>m. index m < length rt) it" and "length it = length lt"
  shows "join_catalogs_at tol it lt rt = Inr (del_index_distance (join_table tol it lt rt))"
proof -
  let ?rows = "map (\<lambda>m. rt ! index m) it"
  let ?s = "sort_key sort_key_of (zip it (zip lt ?rows))"
  have fi: "fancy_index rt (map index it) = Inr ?rows"
    using assms(1) by (simp add: fancy_index_def list_all_iff)
  have hs: "hstack it lt ?rows = Inr (zip it (zip lt ?rows))"
    using assms(2) by (simp add: hstack_def)
  have mask: "broadcast_and (good_match (map (index \<circ> fst) ?s)) (nearby_mask tol ?s)
      = Inr (map2 (\<and>) (first_flags None (map (index \<circ> fst) ?s)) (nearby_mask tol ?s))"
  proof (cases "?s = []")
    case True
    then show ?thesis by (simp add: broadcast_and_def good_match_def nearby_mask_def)
  next
    case False
    then show ?thesis
      by (simp add: broadcast_and_def good_match_first_flags nearby_mask_def)
  qed
  show ?thesis
    using fi hs mask mask_rows_keep_first [of ?s None tol]
    by (simp add: join_catalogs_at_def join_table_def)
qed

section \<open>Properties of the scan\<close>

lemma set_keep_first: "set (keep_first tol p s) \<subseteq> set s"
  by (induction s arbitrary: p) auto

lemma mset_keep_first: "mset (keep_first tol p s) \<subseteq># mset s"
proof (induction s arbitrary: p)
  case Nil
  then show ?case by simp
next
  case (Cons x s)
  have "mset (keep_first tol (Some (index (fst x))) s) \<subseteq># mset s" by (rule Cons.IH)
  then show ?case by (auto intro: subset_mset.order_trans)
qed

lemma keep_first_cut: "x \<in> set (keep_first tol p s) \<Longrightarrow> distance (fst x) < tol"
  by (induction s arbitrary: p) (auto split: if_splits)

text \<open>The cutoff only removes rows: a tighter cutoff keeps the rows of a looser one
  that are below it, because the remembered index never depends on the cutoff.\<close>

lemma keep_first_filter:
  "tol1 \<le> tol2 \<Longrightarrow>
     keep_first tol1 p s = filter (\<lambda>x. distance (fst x) < tol1) (keep_first tol2 p s)"
  by (induction s arbitrary: p) auto

text \<open>On a table sorted by \<open>(index, distance)\<close>, starting after an index no larger
  than any of the table.\<close>

definition index_from :: "nat option \<Rightarrow> ('l, 'r) matched_row list \<Rightarrow> bool" where
  "index_from p s = (case p of None \<Rightarrow> True | Some j \<Rightarrow> list_all (\<lambda>x. j \<le> index (fst x)) s)"

lemma sorted_key_index_le:
  "sorted (map sort_key_of (x # s)) \<Longrightarrow> y \<in> set s \<Longrightarrow> index (fst x) \<le> index (fst y)"
  by (auto simp: sort_key_of_def less_eq_prod_def)

lemma sorted_key_distance_le:
  "sorted (map sort_key_of (x # s)) \<Longrightarrow> y \<in> set s \<Longrightarrow> index (fst y) = index (fst x)
     \<Longrightarrow> distance (fst x) \<le> distance (fst y)"
  by (auto simp: sort_key_of_def less_eq_prod_def)

lemma index_from_step:
  "sorted (map sort_key_of (x # s)) \<Longrightarrow> index_from (Some (index (fst x))) s"
  by (auto simp: index_from_def list_all_iff sort_key_of_def less_eq_prod_def)

lemmas sorted_key_facts = sorted_key_index_le sorted_key_distance_le index_from_step

lemma keep_first_index_gt:
  assumes "sorted (map sort_key_of s)" "index_from p s" "y \<in> set (keep_first tol p s)"
  shows "p \<noteq> Some (index (fst y))"
  using assms
proof (induction s arbitrary: p)
  case Nil
  then show ?case by simp
next
  case (Cons x s)
  let ?q = "Some (index (fst x))"
  have s: "sorted (map sort_key_of s)" and q: "index_from ?q s"
    using Cons.prems(1) by (simp_all add: index_from_step)
  show ?case
  proof (cases "y \<in> set (keep_first tol ?q s)")
    case True
    then have ne: "index (fst x) \<noteq> index (fst y)" using Cons.IH [OF s q] by simp
    have "index (fst x) \<le> index (fst y)"
      using True set_keep_first Cons.prems(1) sorted_key_index_le by blast
    with ne Cons.prems(2) show ?thesis
      by (auto simp: index_from_def)
  next
    case False
    with Cons.prems(3) have "y = x" "p \<noteq> ?q" by (auto split: if_splits)
    then show ?thesis by simp
  qed
qed

lemma keep_first_strict:
  assumes "sorted (map sort_key_of s)" "index_from p s"
  shows "sorted_wrt (<) (map (index \<circ> fst) (keep_first tol p s))"
  using assms
proof (induction s arbitrary: p)
  case Nil
  then show ?case by simp
next
  case (Cons x s)
  let ?q = "Some (index (fst x))"
  have s: "sorted (map sort_key_of s)" and q: "index_from ?q s"
    using Cons.prems(1) by (simp_all add: index_from_step)
  have IH: "sorted_wrt (<) (map (index \<circ> fst) (keep_first tol ?q s))"
    using Cons.IH [OF s q] .
  have "\<forall>y\<in>set (keep_first tol ?q s). index (fst x) < index (fst y)"
  proof
    fix y assume y: "y \<in> set (keep_first tol ?q s)"
    then have "index (fst x) \<le> index (fst y)"
      using set_keep_first Cons.prems(1) sorted_key_index_le by blast
    moreover have "?q \<noteq> Some (index (fst y))" by (rule keep_first_index_gt [OF s q y])
    ultimately show "index (fst x) < index (fst y)" by simp
  qed
  with IH show ?case by (auto simp: comp_def)
qed

text \<open>Soundness: a kept row is below the cutoff and no row of the table with the same
  right index is closer.\<close>

lemma keep_first_sound:
  assumes "sorted (map sort_key_of s)" "index_from p s" "x \<in> set (keep_first tol p s)"
  shows "distance (fst x) < tol \<and>
    (\<forall>y\<in>set s. index (fst y) = index (fst x) \<longrightarrow> distance (fst x) \<le> distance (fst y))"
  using assms
proof (induction s arbitrary: p)
  case Nil
  then show ?case by simp
next
  case (Cons z s)
  let ?q = "Some (index (fst z))"
  have s: "sorted (map sort_key_of s)" and q: "index_from ?q s"
    using Cons.prems(1) by (simp_all add: index_from_step)
  show ?case
  proof (cases "x \<in> set (keep_first tol ?q s)")
    case True
    note IH = Cons.IH [OF s q True]
    have "index (fst z) \<noteq> index (fst x)" using keep_first_index_gt [OF s q True] by simp
    with IH show ?thesis by auto
  next
    case False
    with Cons.prems(3) have "x = z" "distance (fst z) < tol" by (auto split: if_splits)
    with sorted_key_distance_le [OF Cons.prems(1)] show ?thesis by auto
  qed
qed

text \<open>Completeness: every right index with a row below the cutoff (and not the
  remembered one) keeps a row.\<close>

lemma keep_first_complete:
  assumes "sorted (map sort_key_of s)" "y \<in> set s" "p \<noteq> Some (index (fst y))"
    "distance (fst y) < tol"
  shows "\<exists>x\<in>set (keep_first tol p s). index (fst x) = index (fst y)"
  using assms
proof (induction s arbitrary: p)
  case Nil
  then show ?case by simp
next
  case (Cons z s)
  let ?q = "Some (index (fst z))"
  have s: "sorted (map sort_key_of s)" using Cons.prems(1) by simp
  show ?case
  proof (cases "index (fst y) = index (fst z)")
    case True
    have "distance (fst z) \<le> distance (fst y)"
      using Cons.prems(2) sorted_key_distance_le [OF Cons.prems(1) _ True]
      by (cases "y = z") auto
    with True Cons.prems(3,4) show ?thesis by auto
  next
    case False
    with Cons.prems(2) have "y \<in> set s" by auto
    have "?q \<noteq> Some (index (fst y))" using False by simp
    from Cons.IH [OF s \<open>y \<in> set s\<close> this Cons.prems(4)]
    obtain x where "x \<in> set (keep_first tol ?q s)" "index (fst x) = index (fst y)" by blast
    then show ?thesis by auto
  qed
qed

section \<open>Abstract specification: the best candidate of every right index\<close>

text \<open>What the routine promises on the candidate keys \<open>(right index, distance)\<close>:
  for every right index that occurs, in increasing order, its smallest distance, kept
  when below the cutoff.\<close>

definition best_per_index :: "degrees \<Rightarrow> (nat \<times> degrees) list \<Rightarrow> (nat \<times> degrees) list" where
  "best_per_index tol ks =
     filter (\<lambda>k. snd k < tol)
       (map (\<lambda>i. (i, Min (set (map snd (filter (\<lambda>k. fst k = i) ks)))))
         (sort (remdups (map fst ks))))"

lemma group_distances:
  "set (map snd (filter (\<lambda>k. fst k = i) (map sort_key_of s)))
     = (\<lambda>y. distance (fst y)) ` {y \<in> set s. index (fst y) = i}"
proof -
  have "map snd (filter (\<lambda>k. fst k = i) (map sort_key_of s))
      = map (\<lambda>y. distance (fst y)) (filter (\<lambda>y. index (fst y) = i) s)"
    by (induction s) (auto simp: sort_key_of_def)
  then show ?thesis by simp
qed

lemma best_per_index_strict:
  "sorted_wrt (<) (map fst (best_per_index tol ks))"
proof -
  let ?is = "sort (remdups (map fst ks))"
  let ?g = "\<lambda>i. (i, Min (set (map snd (filter (\<lambda>k. fst k = i) ks))))"
  have "sorted_wrt (<) ?is" by (simp add: strict_sorted_iff)
  then have "sorted_wrt (\<lambda>a b. fst a < fst b) (map ?g ?is)"
    by (simp add: sorted_wrt_map)
  then have "sorted_wrt (\<lambda>a b. fst a < fst b) (filter (\<lambda>k. snd k < tol) (map ?g ?is))"
    by (rule sorted_wrt_filter)
  then show ?thesis by (simp add: best_per_index_def sorted_wrt_map)
qed

lemma set_best_per_index:
  "set (best_per_index tol ks) =
     {(i, Min (set (map snd (filter (\<lambda>k. fst k = i) ks)))) | i. i \<in> fst ` set ks
        \<and> Min (set (map snd (filter (\<lambda>k. fst k = i) ks))) < tol}"
  by (auto simp: best_per_index_def)

theorem keep_first_refines:
  assumes sorted: "sorted (map sort_key_of s)"
  shows "map sort_key_of (keep_first tol None s) = best_per_index tol (map sort_key_of s)"
proof (rule sorted_distinct_set_unique)
  let ?kf = "keep_first tol None s"
  let ?G = "\<lambda>i. Min (set (map snd (filter (\<lambda>k. fst k = i) (map sort_key_of s))))"
  have from_none: "index_from None s" by (simp add: index_from_def)
  have "sorted_wrt (<) (map fst (map sort_key_of ?kf))"
    using keep_first_strict [OF sorted from_none] by (simp add: sort_key_of_def comp_def)
  then show "sorted (map sort_key_of ?kf)" "distinct (map sort_key_of ?kf)"
    by (simp_all add: strict_fst_sorted_distinct)
  show "sorted (best_per_index tol (map sort_key_of s))"
    "distinct (best_per_index tol (map sort_key_of s))"
    using strict_fst_sorted_distinct [OF best_per_index_strict] by simp_all
  have fin: "finite ((\<lambda>y. distance (fst y)) ` {y \<in> set s. index (fst y) = i})" for i
    by simp
  have G_eq: "?G (index (fst x)) = distance (fst x)" if "x \<in> set ?kf" for x
  proof -
    have "x \<in> set s" using that set_keep_first by blast
    moreover have "\<forall>y\<in>set s. index (fst y) = index (fst x) \<longrightarrow> distance (fst x) \<le> distance (fst y)"
      using keep_first_sound [OF sorted from_none that] by blast
    ultimately show ?thesis
      unfolding group_distances by (intro Min_eqI) auto
  qed
  show "set (map sort_key_of ?kf) = set (best_per_index tol (map sort_key_of s))"
  proof
    show "set (map sort_key_of ?kf) \<subseteq> set (best_per_index tol (map sort_key_of s))"
    proof
      fix k assume "k \<in> set (map sort_key_of ?kf)"
      then obtain x where x: "x \<in> set ?kf" "k = sort_key_of x" by auto
      then have "x \<in> set s" "distance (fst x) < tol"
        using set_keep_first keep_first_sound [OF sorted from_none] by blast+
      then have "fst (sort_key_of x) \<in> fst ` set (map sort_key_of s)" by simp
      with x G_eq [OF x(1)] \<open>distance (fst x) < tol\<close> show "k \<in> set (best_per_index tol (map sort_key_of s))"
        unfolding set_best_per_index by (auto simp: sort_key_of_def)
    qed
  next
    show "set (best_per_index tol (map sort_key_of s)) \<subseteq> set (map sort_key_of ?kf)"
    proof
      fix k assume "k \<in> set (best_per_index tol (map sort_key_of s))"
      then obtain i where k: "k = (i, ?G i)" "i \<in> fst ` set (map sort_key_of s)" "?G i < tol"
        unfolding set_best_per_index by blast
      then obtain y0 where "y0 \<in> set s" "index (fst y0) = i"
        by (auto simp: sort_key_of_def)
      then have ne: "{y \<in> set s. index (fst y) = i} \<noteq> {}" by blast
      have "?G i \<in> (\<lambda>y. distance (fst y)) ` {y \<in> set s. index (fst y) = i}"
        unfolding group_distances using ne by (intro Min_in) auto
      then obtain y where y: "y \<in> set s" "index (fst y) = i" "distance (fst y) = ?G i"
        by auto
      have "distance (fst y) < tol" using y(3) k(3) by simp
      from keep_first_complete [OF sorted y(1) _ this]
      obtain x where x: "x \<in> set ?kf" "index (fst x) = i"
        using y(2) by blast
      with G_eq [OF x(1)] k(1) show "k \<in> set (map sort_key_of ?kf)"
        by (auto simp: sort_key_of_def)
    qed
  qed
qed

lemma best_per_index_set_eq:
  "set ks = set ks' \<Longrightarrow> best_per_index tol ks = best_per_index tol ks'"
proof -
  assume eq: "set ks = set ks'"
  have "sort (remdups (map fst ks)) = sort (remdups (map fst ks'))"
    using eq by (metis sorted_list_of_set_sort_remdups set_map)
  moreover have "set (map snd (filter (\<lambda>k. fst k = i) ks)) = set (map snd (filter (\<lambda>k. fst k = i) ks'))"
    for i using eq by simp
  ultimately show ?thesis by (simp add: best_per_index_def)
qed

lemma stacked_keys:
  "map sort_key_of (zip it z) = map (\<lambda>m. (index m, distance m)) (take (min (length it) (length z)) it)"
proof -
  have "map sort_key_of (zip it z) = map (\<lambda>m. (index m, distance m)) (map fst (zip it z))"
    by (simp add: sort_key_of_def)
  then show ?thesis by (simp add: map_fst_zip_take)
qed

lemma join_table_keys:
  assumes "length it = length lt"
  shows "map sort_key_of (join_table tol it lt rt) = best_per_index tol (map (\<lambda>m. (index m, distance m)) it)"
proof -
  let ?st = "zip it (zip lt (map (\<lambda>m. rt ! index m) it))"
  have "map sort_key_of (join_table tol it lt rt) = best_per_index tol (map sort_key_of (sort_key sort_key_of ?st))"
    unfolding join_table_def by (rule keep_first_refines) simp
  also have "\<dots> = best_per_index tol (map sort_key_of ?st)"
    by (rule best_per_index_set_eq) simp
  finally show ?thesis using assms by (simp add: stacked_keys)
qed

text \<open>The routine returns a table exactly when the index table points into the right
  table and is as long as the left table; the table is then the reference scan.\<close>

lemma join_catalogs_at_Inr:
  assumes "join_catalogs_at tol it lt rt = Inr out"
  shows "list_all (\<lambda>m. index m < length rt) it \<and> length it = length lt
    \<and> out = del_index_distance (join_table tol it lt rt)"
proof -
  have ok: "list_all (\<lambda>m. index m < length rt) it"
  proof (rule ccontr)
    assume "\<not> ?thesis"
    then have "fancy_index rt (map index it) = Inl IndexError"
      by (simp add: fancy_index_def list_all_iff)
    with assms show False by (simp add: join_catalogs_at_def)
  qed
  have len: "length it = length lt"
  proof (rule ccontr)
    assume "length it \<noteq> length lt"
    then have "hstack it lt (map (\<lambda>m. rt ! index m) it) = Inl TableLengthError"
      by (simp add: hstack_def)
    with ok assms show False
      by (simp add: join_catalogs_at_def fancy_index_def list_all_iff comp_def)
  qed
  from ok len assms show ?thesis by (simp add: join_catalogs_at_eq)
qed

lemma join_table_sorted:
  "sorted (map sort_key_of (sort_key sort_key_of s))"
  by simp

lemma join_table_strict:
  "sorted_wrt (<) (map (index \<circ> fst) (join_table tol it lt rt))"
  unfolding join_table_def by (rule keep_first_strict) (simp_all add: index_from_def)

lemma mset_join_table:
  "mset (join_table tol it lt rt) \<subseteq># mset (zip it (zip lt (map (\<lambda>m. rt ! index m) it)))"
  unfolding join_table_def using mset_keep_first by (metis mset_sort)

lemma join_table_subset:
  "set (join_table tol it lt rt) \<subseteq> set (zip it (zip lt (map (\<lambda>m. rt ! index m) it)))"
  unfolding join_table_def using set_keep_first by fastforce

lemma join_table_sound:
  assumes "x \<in> set (join_table tol it lt rt)"
  shows "distance (fst x) < tol \<and>
    (\<forall>y\<in>set (zip it (zip lt (map (\<lambda>m. rt ! index m) it))).
        index (fst y) = index (fst x) \<longrightarrow> distance (fst x) \<le> distance (fst y))"
  using keep_first_sound [OF join_table_sorted _ assms [unfolded join_table_def]]
  by (simp add: index_from_def)

lemma zip_it_rows:
  "x \<in> set (zip it (zip lt (map (\<lambda>m. rt ! index m) it))) \<Longrightarrow> snd (snd x) = rt ! index (fst x)"
proof (induction it arbitrary: lt)
  case Nil
  then show ?case by simp
next
  case (Cons m it)
  then show ?case by (cases lt) auto
qed

declare fancy_index_def [model_eval] hstack_def [model_eval] sort_key_of_def [model_eval]
  good_match_def [model_eval] nearby_mask_def [model_eval] broadcast_and_def [model_eval]
  mask_rows_def [model_eval] del_index_distance_def [model_eval] join_catalogs_at_def [model_eval]
  arcsec3_def [model_eval] join_catalogs_def [model_eval]

text \<open>A small index table: left rows 0 and 1 both nearest to right row 0, left row 1
  closer; left row 2 nearest to right row 1 but five arcseconds away.\<close>

abbreviation example_index_table :: "match_row list" where
  "example_index_table \<equiv>
     [\<lparr>index = 0, distance = 2 / 3600\<rparr>, \<lparr>index = 0, distance = 1 / 3600\<rparr>,
      \<lparr>index = 1, distance = 5 / 3600\<rparr>]"

lemma join_catalogs_example:
  "join_catalogs_at arcsec3 example_index_table [10::nat, 11, 12] [20::nat, 21] = Inr [(11, 20)]"
  by (simp add: model_eval)

lemma join_catalogs_example_wide:
  "join_catalogs_at (10 / 3600) example_index_table [10::nat, 11, 12] [20::nat, 21]
     = Inr [(11, 20), (12, 21)]"
  by (simp add: model_eval)

lemma fst_stacked:
  assumes "length it = length lt"
  shows "fst ` set (zip it (zip lt (map f it))) = set it"
proof -
  have "map fst (zip it (zip lt (map f it))) = it" using assms by (simp add: map_fst_zip)
  then show ?thesis by (metis set_map)
qed

section \<open>Properties of the cross-match\<close>

text \<open>C1: no right-catalog record is used twice.  Whenever the routine returns a table,
  it is the two-column projection of rows whose right index strictly increases, and the
  right record of each row is the right-table entry at that index.\<close>

theorem join_no_right_reuse:
  assumes "join_catalogs_at tol it lt rt = Inr out"
  shows "\<exists>rows. out = del_index_distance rows \<and> sorted_wrt (<) (map (index \<circ> fst) rows)
    \<and> (\<forall>x\<in>set rows. snd (snd x) = rt ! index (fst x))"
proof (intro exI conjI)
  show "out = del_index_distance (join_table tol it lt rt)"
    using join_catalogs_at_Inr [OF assms] by simp
  show "sorted_wrt (<) (map (index \<circ> fst) (join_table tol it lt rt))"
    by (rule join_table_strict)
  show "\<forall>x\<in>set (join_table tol it lt rt). snd (snd x) = rt ! index (fst x)"
    using join_table_subset zip_it_rows by blast
qed

theorem join_no_right_reuse_witness:
  "\<exists>rows. [(11::nat, 20::nat)] = del_index_distance rows \<and> sorted_wrt (<) (map (index \<circ> fst) rows)
     \<and> (\<forall>x\<in>set rows. snd (snd x) = [20::nat, 21] ! index (fst x))"
  using join_no_right_reuse [OF join_catalogs_example] .

text \<open>C2: the closer match wins.  A returned table is the stacked table's rows (each the
  index row, the left record and the right record it points at), each row used at most
  once, minus the index and distance columns; every kept row is below the cutoff, and no
  candidate of the index table with the same right index is closer.\<close>

theorem join_closer_wins:
  assumes "join_catalogs_at tol it lt rt = Inr out"
  shows "\<exists>rows. out = del_index_distance rows \<and> mset rows \<subseteq># mset (zip it (zip lt (map (\<lambda>m. rt ! index m) it))) \<and>
    (\<forall>x\<in>set rows. distance (fst x) < tol \<and>
       (\<forall>m\<in>set it. index m = index (fst x) \<longrightarrow> distance (fst x) \<le> distance m))"
proof (intro exI conjI ballI impI)
  show "out = del_index_distance (join_table tol it lt rt)"
    using join_catalogs_at_Inr [OF assms] by simp
  show "mset (join_table tol it lt rt) \<subseteq># mset (zip it (zip lt (map (\<lambda>m. rt ! index m) it)))" by (rule mset_join_table)
  have len: "length it = length lt" using join_catalogs_at_Inr [OF assms] by simp
  fix x assume x: "x \<in> set (join_table tol it lt rt)"
  show "distance (fst x) < tol" using join_table_sound [OF x] by blast
  fix m assume "m \<in> set it" "index m = index (fst x)"
  then have "m \<in> fst ` set (zip it (zip lt (map (\<lambda>m. rt ! index m) it)))"
    by (simp only: fst_stacked [OF len])
  with join_table_sound [OF x] \<open>index m = index (fst x)\<close>
  show "distance (fst x) \<le> distance m" by force
qed

theorem join_closer_wins_witness:
  "\<exists>rows. [(11::nat, 20::nat)] = del_index_distance rows \<and>
    mset rows \<subseteq># mset (zip example_index_table (zip [10::nat, 11, 12] (map (\<lambda>m. [20::nat, 21] ! index m) example_index_table))) \<and>
    (\<forall>x\<in>set rows. distance (fst x) < arcsec3 \<and>
       (\<forall>m\<in>set example_index_table. index m = index (fst x) \<longrightarrow> distance (fst x) \<le> distance m))"
  using join_closer_wins [OF join_catalogs_example] .

text \<open>C3: refinement.  A returned table is made of rows of the stacked table, each used
  at most once, and keeps, for every right index of the index table in increasing order,
  one row whose distance is the smallest candidate distance of that index, exactly when
  that distance is below the cutoff (the abstract \<open>best_per_index\<close>).\<close>

theorem join_refines_best_per_index:
  assumes "join_catalogs_at tol it lt rt = Inr out"
  shows "\<exists>rows. out = del_index_distance rows \<and> mset rows \<subseteq># mset (zip it (zip lt (map (\<lambda>m. rt ! index m) it))) \<and>
    map sort_key_of rows = best_per_index tol (map (\<lambda>m. (index m, distance m)) it)"
proof (intro exI conjI)
  show "out = del_index_distance (join_table tol it lt rt)"
    using join_catalogs_at_Inr [OF assms] by simp
  show "mset (join_table tol it lt rt) \<subseteq># mset (zip it (zip lt (map (\<lambda>m. rt ! index m) it)))" by (rule mset_join_table)
  show "map sort_key_of (join_table tol it lt rt) = best_per_index tol (map (\<lambda>m. (index m, distance m)) it)"
    using join_catalogs_at_Inr [OF assms] by (simp add: join_table_keys)
qed

theorem join_refines_best_per_index_witness:
  "\<exists>rows. [(11::nat, 20::nat)] = del_index_distance rows \<and>
    mset rows \<subseteq># mset (zip example_index_table (zip [10::nat, 11, 12] (map (\<lambda>m. [20::nat, 21] ! index m) example_index_table))) \<and>
    map sort_key_of rows = best_per_index arcsec3 (map (\<lambda>m. (index m, distance m)) example_index_table)"
  using join_refines_best_per_index [OF join_catalogs_example] .

text \<open>C4: a left record that loses its right record is dropped, never matched to another
  one.  The returned pairs are a sub-multiset of the pairs (left record, right record at
  its nearest index): each left record appears at most once, and only with its own
  nearest right record.\<close>

theorem join_left_once_no_reassign:
  assumes "join_catalogs_at tol it lt rt = Inr out"
  shows "mset out \<subseteq># mset (zip lt (map (\<lambda>m. rt ! index m) it))"
proof -
  let ?st = "zip it (zip lt (map (\<lambda>m. rt ! index m) it))"
  have out: "out = map snd (keep_first tol None (sort_key sort_key_of ?st))"
    using join_catalogs_at_Inr [OF assms] by (simp add: join_table_def del_index_distance_def)
  have "mset (keep_first tol None (sort_key sort_key_of ?st)) \<subseteq># mset ?st"
    using mset_keep_first [of tol None "sort_key sort_key_of ?st"] by simp
  then have "image_mset snd (mset (keep_first tol None (sort_key sort_key_of ?st)))
      \<subseteq># image_mset snd (mset ?st)"
    by (rule image_mset_subseteq_mono)
  moreover have "map snd ?st = zip lt (map (\<lambda>m. rt ! index m) it)"
    using join_catalogs_at_Inr [OF assms] by (simp add: map_snd_zip)
  ultimately show ?thesis using out by (metis mset_map)
qed

theorem join_left_once_no_reassign_witness:
  "mset [(11::nat, 20::nat)] \<subseteq># mset (zip [10::nat, 11, 12] (map (\<lambda>m. [20::nat, 21] ! index m) example_index_table))"
  using join_left_once_no_reassign [OF join_catalogs_example] .

text \<open>C5: a tighter cutoff only removes rows.  With two cutoffs on the same input, the
  result under the larger is made of rows of the stacked table (with their own
  distances), and the result under the smaller is the same rows with those at or past
  the smaller cutoff taken out.\<close>

theorem join_cutoff_monotone:
  assumes "join_catalogs_at tol1 it lt rt = Inr out1" "join_catalogs_at tol2 it lt rt = Inr out2"
    and "tol1 \<le> tol2"
  shows "\<exists>rows. out2 = del_index_distance rows \<and> mset rows \<subseteq># mset (zip it (zip lt (map (\<lambda>m. rt ! index m) it))) \<and>
    out1 = del_index_distance (filter (\<lambda>x. distance (fst x) < tol1) rows)"
proof (intro exI conjI)
  show "out2 = del_index_distance (join_table tol2 it lt rt)"
    using join_catalogs_at_Inr [OF assms(2)] by simp
  show "mset (join_table tol2 it lt rt) \<subseteq># mset (zip it (zip lt (map (\<lambda>m. rt ! index m) it)))" by (rule mset_join_table)
  show "out1 = del_index_distance (filter (\<lambda>x. distance (fst x) < tol1) (join_table tol2 it lt rt))"
    using join_catalogs_at_Inr [OF assms(1)]
    unfolding join_table_def keep_first_filter [OF assms(3)] by simp
qed

theorem join_cutoff_monotone_witness:
  "\<exists>rows. [(11::nat, 20::nat), (12, 21)] = del_index_distance rows \<and>
    mset rows \<subseteq># mset (zip example_index_table (zip [10::nat, 11, 12] (map (\<lambda>m. [20::nat, 21] ! index m) example_index_table))) \<and>
    [(11, 20)] = del_index_distance (filter (\<lambda>x. distance (fst x) < arcsec3) rows)"
proof -
  have "arcsec3 \<le> 10 / 3600" by (simp add: arcsec3_def)
  from join_cutoff_monotone [OF join_catalogs_example join_catalogs_example_wide this]
  show ?thesis .
qed

text \<open>Which left record wins a tie is decided by the tie order alone: two arrangements
  of the same stacked table, both sorted by \<open>(index, distance)\<close>, return different
  left records.\<close>

theorem join_tie_order_dependent:
  "mset [(\<lparr>index = 0, distance = 1 / 3600\<rparr>, 10::nat, 20::nat), (\<lparr>index = 0, distance = 1 / 3600\<rparr>, 11, 20)]
     = mset [(\<lparr>index = 0, distance = 1 / 3600\<rparr>, 11, 20), (\<lparr>index = 0, distance = 1 / 3600\<rparr>, 10, 20)]
   \<and> del_index_distance (keep_first arcsec3 None
       [(\<lparr>index = 0, distance = 1 / 3600\<rparr>, 10::nat, 20::nat), (\<lparr>index = 0, distance = 1 / 3600\<rparr>, 11, 20)])
     = [(10, 20)]
   \<and> del_index_distance (keep_first arcsec3 None
       [(\<lparr>index = 0, distance = 1 / 3600\<rparr>, 11::nat, 20::nat), (\<lparr>index = 0, distance = 1 / 3600\<rparr>, 10, 20)])
     = [(11, 20)]"
  by (simp add: add_mset_commute arcsec3_def del_index_distance_def)

text \<open>C6: the routine on the tables the notebook passes it (an index table with one row
  per left record): \<open>IndexError\<close> when an index points past the right table, and
  otherwise the table of the masks \<open>good_match * nearby\<close>, which is the one-pass scan
  \<open>keep_first\<close> over the sorted stacked table (first row of each index, below the
  cutoff).\<close>

theorem join_catalogs_at_cases:
  assumes "length it = length lt"
  shows "join_catalogs_at tol it lt rt =
     (if \<not> list_all (\<lambda>m. index m < length rt) it then Inl IndexError
      else Inr (del_index_distance (join_table tol it lt rt)))"
proof (cases "list_all (\<lambda>m. index m < length rt) it")
  case False
  then show ?thesis
    by (auto simp: join_catalogs_at_def fancy_index_def list_all_iff)
next
  case True
  with assms show ?thesis by (simp add: join_catalogs_at_eq)
qed

theorem join_catalogs_at_cases_witness:
  "length example_index_table = length [10::nat, 11, 12]
   \<and> join_catalogs_at arcsec3 example_index_table [10::nat, 11, 12] [20::nat] = Inl IndexError"
  using join_catalogs_at_cases [of example_index_table "[10::nat, 11, 12]" arcsec3 "[20::nat]"]
  by simp

text \<open>Empty catalogs give an empty table, not an error: the one-element
  \<open>good_match\<close> broadcasts against the empty \<open>nearby\<close> mask.\<close>

lemma join_catalogs_empty:
  "join_catalogs_at tol [] [] rt = Inr []"
  by (simp add: join_catalogs_at_def fancy_index_def hstack_def good_match_def nearby_mask_def
      broadcast_and_def mask_rows_def del_index_distance_def)

text \<open>The meaning of \<open>good_match\<close>: it has one entry per row (one entry for an
  empty table), and entry \<open>k\<close> says that row \<open>k\<close> is the first row or has another
  index than row \<open>k - 1\<close>.\<close>

theorem good_match_nth:
  "length (good_match ns) = max 1 (length ns) \<and>
   (\<forall>k<length ns. good_match ns ! k = (k = 0 \<or> ns ! (k - 1) \<noteq> ns ! k))"
proof (cases ns)
  case Nil
  then show ?thesis by (simp add: good_match_def)
next
  case (Cons n ms)
  have "good_match ns ! Suc j = (ns ! j \<noteq> ns ! Suc j)" if "Suc j < length ns" for j
    using that Cons by (simp add: good_match_def)
  then show ?thesis using Cons by (auto simp: good_match_def nth_Cons' max_def)
qed

theorem good_match_nth_witness:
  "length (good_match [0::nat, 0, 1]) = 3 \<and> good_match [0::nat, 0, 1] ! 1 = False
    \<and> good_match [0::nat, 0, 1] ! 2 = True"
  using good_match_nth [of "[0::nat, 0, 1]"] by simp

end
