(* ===== verification/Sky.thy ===== *)
theory Sky
  imports Prelude
begin

text \<open>
  Sky positions and the angular separation the notebook's matches are measured in.
  \<open>coord.SkyCoord(ra, dec, unit=('degree', 'degree'))\<close> (src/unnamed/part_000, lines
  77--80 and 157--158) builds positions from right ascension and declination in
  degrees; \<open>match_to_catalog_sky\<close> reports as distance the great-circle separation, which
  astropy computes with the Vincenty formula (\<open>angular_separation\<close>, an \<open>arctan2\<close> of a
  \<open>hypot\<close>), in radians, read back in degrees through \<open>.degree\<close>.  Floats are
  idealised as reals.
\<close>

record sky_coord =
  ra :: degrees
  dec :: degrees

definition radians_of :: "degrees \<Rightarrow> radians" where
  "radians_of x = x * pi / 180"

definition degrees_of :: "radians \<Rightarrow> degrees" where
  "degrees_of x = x * 180 / pi"

text \<open>\<open>numpy.arctan2(y, x)\<close> (signed zeros aside).\<close>

definition arctan2 :: "real \<Rightarrow> real \<Rightarrow> real" where
  "arctan2 y x =
     (if 0 < x then arctan (y / x)
      else if x < 0 then (if 0 \<le> y then arctan (y / x) + pi else arctan (y / x) - pi)
      else if 0 < y then pi / 2 else if y < 0 then - (pi / 2) else 0)"

text \<open>astropy's \<open>angular_separation(lon1, lat1, lon2, lat2)\<close>.\<close>

definition angular_separation :: "radians \<Rightarrow> radians \<Rightarrow> radians \<Rightarrow> radians \<Rightarrow> radians" where
  "angular_separation lon1 lat1 lon2 lat2 =
     (let sdlon = sin (lon2 - lon1); cdlon = cos (lon2 - lon1);
          slat1 = sin lat1; slat2 = sin lat2; clat1 = cos lat1; clat2 = cos lat2;
          num1 = clat2 * sdlon;
          num2 = clat1 * slat2 - slat1 * clat2 * cdlon;
          denominator = slat1 * slat2 + clat1 * clat2 * cdlon
      in arctan2 (sqrt (num1\<^sup>2 + num2\<^sup>2)) denominator)"

definition separation :: "sky_coord \<Rightarrow> sky_coord \<Rightarrow> degrees" where
  "separation p q =
     degrees_of (angular_separation (radians_of (ra p)) (radians_of (dec p))
                                    (radians_of (ra q)) (radians_of (dec q)))"

section \<open>The arctangent of two arguments\<close>

lemma arctan2_range:
  assumes "0 \<le> y"
  shows "0 \<le> arctan2 y x \<and> arctan2 y x \<le> pi"
proof -
  have a: "- (pi / 2) < arctan t \<and> arctan t < pi / 2" for t
    using arctan_bounded by blast
  consider "0 < x" | "x < 0" | "x = 0" by linarith
  then show ?thesis
  proof cases
    case 1
    then have "0 \<le> arctan (y / x)" using assms by (simp add: arctan_le_zero_iff)
    with 1 a [of "y / x"] show ?thesis by (simp add: arctan2_def)
  next
    case 2
    then have "arctan (y / x) \<le> 0" using assms by (simp add: arctan_le_zero_iff divide_nonneg_neg)
    with 2 assms a [of "y / x"] show ?thesis by (simp add: arctan2_def)
  next
    case 3
    with assms show ?thesis by (simp add: arctan2_def)
  qed
qed

lemma arctan2_zero_pos: "0 < x \<Longrightarrow> arctan2 0 x = 0"
  by (simp add: arctan2_def)

lemma arctan2_pos_pos: "0 < x \<Longrightarrow> arctan2 y x = arctan (y / x)"
  by (simp add: arctan2_def)

section \<open>The Vincenty numerator is symmetric\<close>

lemma vincenty_hypot_sym:
  fixes a b d :: real
  shows "(cos b * sin d)\<^sup>2 + (cos a * sin b - sin a * cos b * cos d)\<^sup>2
       = (cos a * sin (- d))\<^sup>2 + (cos b * sin a - sin b * cos a * cos (- d))\<^sup>2"
proof -
  have sa: "(sin a)\<^sup>2 + (cos a)\<^sup>2 = 1" and sb: "(sin b)\<^sup>2 + (cos b)\<^sup>2 = 1"
    and sd: "(sin d)\<^sup>2 + (cos d)\<^sup>2 = 1"
    by simp_all
  show ?thesis
    unfolding sin_minus cos_minus using sa sb sd by algebra
qed

lemma angular_separation_sym:
  "angular_separation lon1 lat1 lon2 lat2 = angular_separation lon2 lat2 lon1 lat1"
proof -
  have h: "(cos lat2 * sin (lon2 - lon1))\<^sup>2 + (cos lat1 * sin lat2 - sin lat1 * cos lat2 * cos (lon2 - lon1))\<^sup>2
      = (cos lat1 * sin (lon1 - lon2))\<^sup>2 + (cos lat2 * sin lat1 - sin lat2 * cos lat1 * cos (lon1 - lon2))\<^sup>2"
    using vincenty_hypot_sym [where a = lat1 and b = lat2 and d = "lon2 - lon1"]
    by (simp only: minus_diff_eq)
  have c: "cos (lon1 - lon2) = cos (lon2 - lon1)"
    by (metis cos_minus minus_diff_eq)
  have den: "sin lat1 * sin lat2 + cos lat1 * cos lat2 * cos (lon2 - lon1)
      = sin lat2 * sin lat1 + cos lat2 * cos lat1 * cos (lon1 - lon2)"
    by (simp add: c mult.commute)
  show ?thesis
    by (simp only: angular_separation_def Let_def h den)
qed

lemma angular_separation_self: "angular_separation lon lat lon lat = 0"
proof -
  have "sin lat * sin lat + cos lat * cos lat = 1"
    by (simp add: power2_eq_square [symmetric])
  then show ?thesis by (simp add: angular_separation_def Let_def arctan2_def)
qed

lemma angular_separation_range:
  "0 \<le> angular_separation lon1 lat1 lon2 lat2 \<and> angular_separation lon1 lat1 lon2 lat2 \<le> pi"
  unfolding angular_separation_def Let_def by (rule arctan2_range) simp

text \<open>On the celestial equator the separation is the difference in longitude, for
  differences below a right angle.\<close>

lemma angular_separation_equator:
  assumes "\<bar>d\<bar> < pi / 2"
  shows "angular_separation lon 0 (lon + d) 0 = \<bar>d\<bar>"
proof -
  have c: "0 < cos d" using assms by (simp add: cos_gt_zero_pi abs_less_iff)
  have "\<bar>sin d\<bar> / cos d = tan \<bar>d\<bar>"
  proof (cases "0 \<le> d")
    case True
    then have "0 \<le> sin d" using assms by (intro sin_ge_zero) auto
    with True show ?thesis by (simp add: tan_def)
  next
    case False
    then have "0 \<le> sin (- d)" using assms by (intro sin_ge_zero) auto
    then have "sin d \<le> 0" by simp
    with False show ?thesis by (simp add: tan_def)
  qed
  moreover have "arctan (tan \<bar>d\<bar>) = \<bar>d\<bar>" using assms by (intro arctan_tan) auto
  ultimately show ?thesis
    using c by (simp add: angular_separation_def arctan2_pos_pos real_sqrt_abs)
qed

section \<open>Separation of sky positions\<close>

text \<open>The separation is symmetric, so the distance astropy reports (catalog entry
  to query) equals the one the search minimises (query to catalog entry).\<close>

theorem separation_sym: "separation p q = separation q p"
  by (simp add: separation_def angular_separation_sym)

lemma separation_self: "separation p p = 0"
  by (simp add: separation_def angular_separation_self degrees_of_def)

lemma separation_equator:
  assumes "\<bar>b - a\<bar> < 90"
  shows "separation \<lparr>ra = a, dec = 0\<rparr> \<lparr>ra = b, dec = 0\<rparr> = \<bar>b - a\<bar>"
proof -
  let ?d = "radians_of b - radians_of a"
  have d: "?d = (b - a) * pi / 180" by (simp add: radians_of_def algebra_simps diff_divide_distrib)
  have "\<bar>?d\<bar> < pi / 2" using assms by (simp add: d abs_mult)
  then have "angular_separation (radians_of a) 0 (radians_of a + ?d) 0 = \<bar>?d\<bar>"
    by (rule angular_separation_equator)
  moreover have "\<bar>?d\<bar> * 180 / pi = \<bar>b - a\<bar>"
    by (simp add: d abs_mult)
  moreover have "radians_of 0 = 0" by (simp add: radians_of_def)
  ultimately show ?thesis
    by (simp add: separation_def degrees_of_def)
qed

end
