(* ===== verification/Stats.thy ===== *)
theory Stats
  imports Prelude
begin

text \<open>
  The array statistics the photometry notebook (src/notebooks/photutils.ipynb) takes
  from numpy and astropy: \<open>np.median\<close>, \<open>np.mean\<close>, \<open>np.std\<close> and astropy's
  iterative \<open>sigma_clip\<close>, with the statistics of an empty array (NaN) as \<open>None\<close>.
  They are modelled as the libraries document them, at the call sites of the
  statistics cell (lines 157--171), the validity cell (lines 244--263) and the annulus
  cells (lines 818--847).
\<close>

text \<open>\<open>np.median\<close>: the middle of the sorted values, or the mean of the two middle ones.\<close>

definition np_median :: "real list \<Rightarrow> real option" where
  "np_median xs =
     (let s = sort xs; n = length s
      in if n = 0 then None
         else if odd n then Some (s ! (n div 2))
         else Some ((s ! (n div 2 - 1) + s ! (n div 2)) / 2))"

text \<open>\<open>np.mean\<close> and \<open>np.std\<close> (population standard deviation, \<open>ddof=0\<close>).\<close>

definition np_mean :: "real list \<Rightarrow> real option" where
  "np_mean xs = (if xs = [] then None else Some (sum_list xs / real (length xs)))"

definition np_std :: "real list \<Rightarrow> real option" where
  "np_std xs =
     (case np_mean xs of
        None \<Rightarrow> None
      | Some mu \<Rightarrow> Some (sqrt (sum_list (map (\<lambda>x. (x - mu)\<^sup>2) xs) / real (length xs))))"

text \<open>One pass of astropy's \<open>SigmaClip\<close> with the default \<open>cenfunc='median'\<close> and
  \<open>stdfunc='std'\<close>: the bounds \<open>cen - std * sigma\<close> and \<open>cen + std * sigma\<close>, and the
  values within them (bounds included) in their order.\<close>

definition clip_bounds :: "real \<Rightarrow> real list \<Rightarrow> (real \<times> real) option" where
  "clip_bounds sigma xs =
     (case (np_median xs, np_std xs) of
        (Some cen, Some std) \<Rightarrow> Some (cen - std * sigma, cen + std * sigma)
      | _ \<Rightarrow> None)"

definition clip_pass :: "real \<Rightarrow> real list \<Rightarrow> real list" where
  "clip_pass sigma xs =
     (case clip_bounds sigma xs of
        None \<Rightarrow> xs
      | Some (min_value, max_value) \<Rightarrow> filter (\<lambda>x. min_value \<le> x \<and> x \<le> max_value) xs)"

text \<open>\<open>sigma_clip(data, sigma, maxiters)\<close>: passes until one clips nothing
  (\<open>nchanged == 0\<close>) or \<open>maxiters\<close> passes have run; the values left unmasked.\<close>

fun sigma_clip :: "real list \<Rightarrow> real \<Rightarrow> nat \<Rightarrow> real list" where
  "sigma_clip data sigma 0 = data"
| "sigma_clip data sigma (Suc n) =
     (let filtered = clip_pass sigma data
      in if length filtered = length data then filtered else sigma_clip filtered sigma n)"

text \<open>\<open>sigma_clipped_stats(data, sigma, maxiters)\<close>: mean, median and standard
  deviation of the clipped values.\<close>

definition sigma_clipped_stats :: "real list \<Rightarrow> real \<Rightarrow> nat \<Rightarrow> real option \<times> real option \<times> real option" where
  "sigma_clipped_stats data sigma maxiters =
     (let c = sigma_clip data sigma maxiters in (np_mean c, np_median c, np_std c))"

declare np_median_def [model_eval] np_mean_def [model_eval] np_std_def [model_eval]
  clip_bounds_def [model_eval] clip_pass_def [model_eval] sigma_clipped_stats_def [model_eval]

lemma sigma_clip_numeral [model_eval]:
  "sigma_clip data sigma (numeral k) =
     (let filtered = clip_pass sigma data
      in if length filtered = length data then filtered else sigma_clip filtered sigma (pred_numeral k))"
  by (simp only: numeral_eq_Suc sigma_clip.simps)

section \<open>Medians\<close>

lemma np_median_mset:
  assumes "mset xs = mset ys"
  shows "np_median xs = np_median ys"
proof -
  have "sort xs = sort ys"
    using assms by (metis properties_for_sort mset_sort sorted_sort)
  then show ?thesis by (simp add: np_median_def)
qed

lemma np_median_nonempty:
  assumes "xs \<noteq> []"
  shows "np_median xs = Some (if odd (length xs) then sort xs ! (length xs div 2)
           else (sort xs ! (length xs div 2 - 1) + sort xs ! (length xs div 2)) / 2)"
proof -
  have "sort xs \<noteq> []" using assms by (metis length_sort length_0_conv)
  then show ?thesis by (simp add: np_median_def Let_def)
qed

lemma np_median_Some_nonempty: "np_median xs = Some m \<Longrightarrow> xs \<noteq> []"
  by (auto simp: np_median_def)

lemma np_median_bounds:
  assumes "np_median xs = Some m"
  shows "Min (set xs) \<le> m \<and> m \<le> Max (set xs)"
proof -
  let ?s = "sort xs" and ?n = "length xs"
  have ne: "xs \<noteq> []" using np_median_Some_nonempty [OF assms] .
  have mem: "i < ?n \<Longrightarrow> ?s ! i \<in> set xs" for i
    by (metis length_sort nth_mem set_sort)
  have lo: "i < ?n \<Longrightarrow> Min (set xs) \<le> ?s ! i" and hi: "i < ?n \<Longrightarrow> ?s ! i \<le> Max (set xs)" for i
    using mem [of i] by simp_all
  have n: "0 < ?n" using ne by simp
  show ?thesis
  proof (cases "odd ?n")
    case True
    then have "m = ?s ! (?n div 2)" using assms np_median_nonempty [OF ne] by simp
    with lo [of "?n div 2"] hi [of "?n div 2"] n show ?thesis by simp
  next
    case False
    then have m: "m = (?s ! (?n div 2 - 1) + ?s ! (?n div 2)) / 2"
      using assms np_median_nonempty [OF ne] by simp
    have "?n div 2 < ?n" using n by simp
    then have h: "?n div 2 - 1 < ?n" by arith
    have avg: "c \<le> a \<Longrightarrow> c \<le> b \<Longrightarrow> c \<le> (a + b) / 2"
      and avg': "a \<le> c \<Longrightarrow> b \<le> c \<Longrightarrow> (a + b) / 2 \<le> c" for a b c :: real
      by simp_all
    have "Min (set xs) \<le> m"
      unfolding m by (rule avg [OF lo [OF h] lo [OF \<open>?n div 2 < ?n\<close>]])
    moreover have "m \<le> Max (set xs)"
      unfolding m by (rule avg' [OF hi [OF h] hi [OF \<open>?n div 2 < ?n\<close>]])
    ultimately show ?thesis by simp
  qed
qed

lemma sorted_count_below:
  fixes s :: "'a::linorder list"
  assumes "sorted s" and "a < length s" and "m \<le> s ! a"
  shows "length (filter (\<lambda>x. x < m) s) \<le> a"
proof -
  have "{i. i < length s \<and> s ! i < m} \<subseteq> {..<a}"
  proof
    fix i assume i: "i \<in> {i. i < length s \<and> s ! i < m}"
    have "\<not> a \<le> i"
    proof
      assume "a \<le> i"
      then have "s ! a \<le> s ! i" using i assms(1) by (simp add: sorted_nth_mono)
      with assms(3) have "m \<le> s ! i" by (rule order.trans)
      with i show False by (auto dest: leD)
    qed
    then show "i \<in> {..<a}" by simp
  qed
  then have "card {i. i < length s \<and> s ! i < m} \<le> a"
    by (metis card_lessThan card_mono finite_lessThan)
  then show ?thesis by (simp add: length_filter_conv_card)
qed

lemma sorted_count_above:
  fixes s :: "'a::linorder list"
  assumes "sorted s" and "b < length s" and "s ! b \<le> m"
  shows "length (filter (\<lambda>x. m < x) s) \<le> length s - Suc b"
proof -
  have "{i. i < length s \<and> m < s ! i} \<subseteq> {Suc b..<length s}"
  proof
    fix i assume i: "i \<in> {i. i < length s \<and> m < s ! i}"
    have "\<not> i \<le> b"
    proof
      assume "i \<le> b"
      then have "s ! i \<le> s ! b" using assms(1,2) by (simp add: sorted_nth_mono)
      then have "s ! i \<le> m" using assms(3) by (rule order.trans)
      with i show False by (auto dest: leD)
    qed
    with i show "i \<in> {Suc b..<length s}" by simp
  qed
  then have "card {i. i < length s \<and> m < s ! i} \<le> length s - Suc b"
    by (metis card_atLeastLessThan card_mono finite_atLeastLessThan)
  then show ?thesis by (simp add: length_filter_conv_card)
qed

lemma length_filter_sort: "length (filter P (sort xs)) = length (filter P xs)"
  by (metis mset_filter mset_sort size_mset)

section \<open>Sigma clipping\<close>

lemma clip_pass_filter: "\<exists>P. clip_pass sigma xs = filter P xs"
  by (cases "clip_bounds sigma xs") (auto simp: clip_pass_def intro: exI [of _ "\<lambda>_. True"])

lemma clip_pass_fix:
  assumes "length (clip_pass sigma xs) = length xs"
  shows "clip_pass sigma xs = xs"
proof -
  obtain P where P: "clip_pass sigma xs = filter P xs" using clip_pass_filter by blast
  have "\<forall>x\<in>set xs. P x"
  proof
    fix x assume "x \<in> set xs"
    show "P x"
    proof (rule ccontr)
      assume "\<not> P x"
      with \<open>x \<in> set xs\<close> have "length (filter P xs) < length xs" by (rule length_filter_less)
      with assms P show False by simp
    qed
  qed
  then show ?thesis by (simp add: P)
qed

lemma funpow_fixed: "f x = x \<Longrightarrow> (f ^^ n) x = x"
  by (induction n) simp_all

lemma clip_pass_Nil: "clip_pass sigma [] = []"
  by (cases "clip_bounds sigma []") (auto simp: clip_pass_def)

lemma clip_pass_length_le: "length (clip_pass sigma xs) \<le> length xs"
  using clip_pass_filter [of sigma xs] by auto

lemma sigma_clip_filter: "\<exists>P. sigma_clip data sigma n = filter P data"
proof (induction n arbitrary: data)
  case 0
  then show ?case by (auto intro: exI [of _ "\<lambda>_. True"])
next
  case (Suc n)
  obtain P where P: "clip_pass sigma data = filter P data" using clip_pass_filter by blast
  obtain Q where Q: "sigma_clip (clip_pass sigma data) sigma n = filter Q (clip_pass sigma data)"
    using Suc.IH by blast
  show ?case
  proof (cases "length (clip_pass sigma data) = length data")
    case True
    then show ?thesis by (auto simp: P)
  next
    case False
    then show ?thesis
      by (intro exI [of _ "\<lambda>x. P x \<and> Q x"]) (simp add: P Q [unfolded P] filter_filter conj_commute)
  qed
qed

lemma sum_list_ge_const:
  fixes f :: "'a \<Rightarrow> real"
  assumes "\<forall>y\<in>set ys. c \<le> f y"
  shows "real (length ys) * c \<le> sum_list (map f ys)"
  using assms by (induction ys) (auto simp: distrib_right intro: add_mono)

lemma sum_list_sort_map:
  fixes f :: "'a::linorder \<Rightarrow> real"
  shows "sum_list (map f (sort xs)) = sum_list (map f xs)"
proof -
  have "mset (map f (sort xs)) = mset (map f xs)" by simp
  then have "sum_mset (mset (map f (sort xs))) = sum_mset (mset (map f xs))" by (rule arg_cong)
  then show ?thesis by (simp only: sum_mset_sum_list)
qed

lemma sorted_drop_ge:
  assumes "sorted s" and "y \<in> set (drop k s)"
  shows "s ! k \<le> y"
proof -
  obtain j where j: "j < length (drop k s)" "y = drop k s ! j" using assms(2) by (auto simp: in_set_conv_nth)
  then have "y = s ! (k + j)" "k + j < length s" by simp_all
  with assms(1) show ?thesis by (simp add: sorted_nth_mono)
qed

lemma sorted_take_le:
  assumes "sorted s" and "k \<le> length s" and "y \<in> set (take k s)"
  shows "y \<le> s ! (k - 1)"
proof -
  obtain j where j: "j < length (take k s)" "y = take k s ! j" using assms(3) by (auto simp: in_set_conv_nth)
  then have "y = s ! j" "j \<le> k - 1" "k - 1 < length s" using assms(2) by auto
  with assms(1) show ?thesis by (simp add: sorted_nth_mono)
qed

lemma sq_dist_ge:
  fixes y c h :: real
  assumes "0 \<le> h" and "h \<le> \<bar>y - c\<bar>"
  shows "h\<^sup>2 \<le> (y - c)\<^sup>2"
  using power_mono [OF assms(2,1), of 2] by simp

text \<open>Half of an even array lies on each side of the gap between its two middle values,
  so the spread around any centre is at least half the array times the squared
  half-gap.\<close>

lemma spread_ge_half_gap:
  fixes s :: "real list"
  assumes "sorted s" and "length s = 2 * k" and "0 < k"
  shows "real k * ((s ! k - s ! (k - 1)) / 2)\<^sup>2 \<le> sum_list (map (\<lambda>x. (x - c)\<^sup>2) s)"
proof -
  let ?h = "(s ! k - s ! (k - 1)) / 2" and ?m = "(s ! (k - 1) + s ! k) / 2"
  let ?f = "\<lambda>x. (x - c)\<^sup>2"
  have ab: "s ! (k - 1) \<le> s ! k" using assms by (simp add: sorted_nth_mono)
  then have h: "0 \<le> ?h" by simp
  have split: "sum_list (map ?f s) = sum_list (map ?f (take k s)) + sum_list (map ?f (drop k s))"
    by (metis append_take_drop_id map_append sum_list_append)
  have nn: "0 \<le> sum_list (map ?f xs)" for xs by (rule sum_list_nonneg) auto
  show ?thesis
  proof (cases "c \<le> ?m")
    case True
    have "\<forall>y\<in>set (drop k s). ?h\<^sup>2 \<le> ?f y"
    proof
      fix y assume "y \<in> set (drop k s)"
      then have "s ! k \<le> y" by (rule sorted_drop_ge [OF assms(1)])
      with True have "?h \<le> \<bar>y - c\<bar>" by (simp add: abs_if)
      with h show "?h\<^sup>2 \<le> ?f y" by (rule sq_dist_ge)
    qed
    from sum_list_ge_const [OF this] assms(2) have "real k * ?h\<^sup>2 \<le> sum_list (map ?f (drop k s))"
      by simp
    with split nn [of "take k s"] show ?thesis by linarith
  next
    case False
    have "\<forall>y\<in>set (take k s). ?h\<^sup>2 \<le> ?f y"
    proof
      fix y assume "y \<in> set (take k s)"
      then have "y \<le> s ! (k - 1)" using assms(1,2) by (intro sorted_take_le) simp_all
      with False have "?h \<le> \<bar>y - c\<bar>" by (simp add: abs_if)
      with h show "?h\<^sup>2 \<le> ?f y" by (rule sq_dist_ge)
    qed
    from sum_list_ge_const [OF this] assms(2) have "real k * ?h\<^sup>2 \<le> sum_list (map ?f (take k s))"
      by simp
    with split nn [of "drop k s"] show ?thesis by linarith
  qed
qed


lemma np_std_Some:
  "np_std xs = Some sd \<Longrightarrow>
     \<exists>mu. np_mean xs = Some mu \<and> sd = sqrt (sum_list (map (\<lambda>x. (x - mu)\<^sup>2) xs) / real (length xs))"
  by (auto simp: np_std_def split: option.splits)

lemma np_std_nonneg: "np_std xs = Some sd \<Longrightarrow> 0 \<le> sd"
  by (auto dest!: np_std_Some intro!: divide_nonneg_nonneg sum_list_nonneg)

lemma np_std_nonempty: "xs \<noteq> [] \<Longrightarrow> \<exists>sd. np_std xs = Some sd"
  by (simp add: np_std_def np_mean_def)

lemma sorted_nth_in_set: "i < length xs \<Longrightarrow> sort xs ! i \<in> set xs"
  by (metis length_sort nth_mem set_sort)

text \<open>Some value of an array lies within \<open>sqrt 2\<close> standard deviations of its median.\<close>

lemma median_near_element:
  assumes "np_median xs = Some m" and "np_std xs = Some sd"
  shows "\<exists>x\<in>set xs. \<bar>x - m\<bar> \<le> sqrt 2 * sd"
proof -
  obtain mu where sd: "sd = sqrt (sum_list (map (\<lambda>x. (x - mu)\<^sup>2) xs) / real (length xs))"
    using np_std_Some [OF assms(2)] by blast
  let ?V = "sum_list (map (\<lambda>x. (x - mu)\<^sup>2) xs)" and ?s = "sort xs" and ?n = "length xs"
  have ne: "xs \<noteq> []" by (rule np_median_Some_nonempty [OF assms(1)])
  have sd0: "0 \<le> sd" by (rule np_std_nonneg [OF assms(2)])
  show ?thesis
  proof (cases "odd ?n")
    case True
    then have "m = ?s ! (?n div 2)" using assms(1) np_median_nonempty [OF ne] by simp
    moreover have "?s ! (?n div 2) \<in> set xs" using ne by (intro sorted_nth_in_set) simp
    ultimately have "m \<in> set xs" by simp
    moreover have "\<bar>m - m\<bar> \<le> sqrt 2 * sd" using sd0 by simp
    ultimately show ?thesis by (rule bexI [rotated])
  next
    case False
    then obtain k where n: "?n = 2 * k" by (auto elim: evenE)
    with ne have k: "0 < k" by (cases k) auto
    let ?h = "(?s ! k - ?s ! (k - 1)) / 2"
    have m: "m = (?s ! (k - 1) + ?s ! k) / 2" using assms(1) np_median_nonempty [OF ne] False n by simp
    have "?s ! (k - 1) \<le> ?s ! k" using n k by (simp add: sorted_nth_mono)
    then have h0: "0 \<le> ?h" by simp
    have "real k * ?h\<^sup>2 \<le> sum_list (map (\<lambda>x. (x - mu)\<^sup>2) ?s)"
      using n k by (intro spread_ge_half_gap) simp_all
    then have "real k * ?h\<^sup>2 \<le> ?V" by (simp only: sum_list_sort_map)
    then have "?h\<^sup>2 \<le> ?V / real k" using k by (simp add: pos_le_divide_eq mult.commute)
    also have "?V / real k = (sqrt 2 * sd)\<^sup>2"
    proof -
      have "0 \<le> ?V" by (rule sum_list_nonneg) auto
      then have "(sqrt (?V / real ?n))\<^sup>2 = ?V / real ?n" by simp
      then show ?thesis using n k by (simp add: sd power_mult_distrib)
    qed
    finally have sq: "?h\<^sup>2 \<le> (sqrt 2 * sd)\<^sup>2" .
    have "?h \<le> sqrt 2 * sd" by (rule power2_le_imp_le [OF sq]) (simp add: sd0)
    moreover have "?s ! (k - 1) \<in> set xs" using n k by (intro sorted_nth_in_set) simp
    moreover have "\<bar>?s ! (k - 1) - m\<bar> = ?h" using h0 unfolding m by simp
    ultimately show ?thesis by metis
  qed
qed

lemma clip_pass_nonempty:
  assumes "xs \<noteq> []" and "sqrt 2 \<le> sigma"
  shows "clip_pass sigma xs \<noteq> []"
proof -
  obtain m where m: "np_median xs = Some m" using np_median_nonempty [OF assms(1)] by blast
  obtain sd where sd: "np_std xs = Some sd" using np_std_nonempty [OF assms(1)] by blast
  obtain x where x: "x \<in> set xs" "\<bar>x - m\<bar> \<le> sqrt 2 * sd" using median_near_element [OF m sd] by blast
  have "sqrt 2 * sd \<le> sd * sigma"
    using mult_right_mono [OF assms(2) np_std_nonneg [OF sd]] by (simp add: mult.commute)
  with x have "m - sd * sigma \<le> x \<and> x \<le> m + sd * sigma" by linarith
  with x show ?thesis by (auto simp: clip_pass_def clip_bounds_def m sd filter_empty_conv)
qed

lemma sigma_clip_nonempty:
  "data \<noteq> [] \<Longrightarrow> sqrt 2 \<le> sigma \<Longrightarrow> sigma_clip data sigma n \<noteq> []"
proof (induction n arbitrary: data)
  case 0
  then show ?case by simp
next
  case (Suc n)
  then have "clip_pass sigma data \<noteq> []" by (intro clip_pass_nonempty)
  with Suc.IH Suc.prems(2) show ?case by (simp add: Let_def)
qed

section \<open>Properties\<close>

text \<open> \<open>np.median\<close> is a median: it lies between the least and the greatest
  value, at most half the values are below it and at most half above it.\<close>

theorem np_median_halves:
  assumes "np_median xs = Some m"
  shows "Min (set xs) \<le> m \<and> m \<le> Max (set xs)
    \<and> 2 * length (filter (\<lambda>x. x < m) xs) \<le> length xs
    \<and> 2 * length (filter (\<lambda>x. m < x) xs) \<le> length xs"
proof -
  let ?s = "sort xs" and ?n = "length xs" and ?k = "length xs div 2"
  have ne: "xs \<noteq> []" using np_median_Some_nonempty [OF assms] .
  have srt: "sorted ?s" and len: "length ?s = ?n" by simp_all
  have k: "?k < ?n" using ne by simp
  obtain a b where ab: "a < ?n" "m \<le> ?s ! a" "2 * a \<le> ?n"
      "b < ?n" "?s ! b \<le> m" "2 * (?n - Suc b) \<le> ?n"
  proof (cases "odd ?n")
    case True
    then have "m = ?s ! ?k" using assms np_median_nonempty [OF ne] by simp
    then show ?thesis using k True by (intro that [of ?k ?k]) auto
  next
    case False
    then have m: "m = (?s ! (?k - 1) + ?s ! ?k) / 2"
      using assms np_median_nonempty [OF ne] by simp
    have "?s ! (?k - 1) \<le> ?s ! ?k" using k by (simp add: sorted_nth_mono)
    then have "m \<le> ?s ! ?k" "?s ! (?k - 1) \<le> m" unfolding m by simp_all
    moreover have "?k - 1 < ?n" using k by arith
    moreover have "2 * (?n - Suc (?k - 1)) \<le> ?n" "2 * ?k \<le> ?n"
      using False ne by auto
    ultimately show ?thesis using k by (intro that [of ?k "?k - 1"]) simp_all
  qed
  have "length (filter (\<lambda>x. x < m) ?s) \<le> a"
    using sorted_count_below [OF srt] ab len by simp
  moreover have "length (filter (\<lambda>x. m < x) ?s) \<le> ?n - Suc b"
    using sorted_count_above [OF srt] ab len by simp
  ultimately show ?thesis
    using np_median_bounds [OF assms] ab by (simp add: length_filter_sort)
qed


theorem np_median_halves_witness:
  "np_median [3, 1, 2, 7] = Some (5 / 2) \<and> Min (set [3, 1, 2, 7::real]) \<le> 5 / 2
    \<and> 2 * length (filter (\<lambda>x. x < 5 / 2) [3, 1, 2, 7::real]) \<le> 4"
proof -
  have m: "np_median [3, 1, 2, 7] = Some (5 / 2)" by (simp add: model_eval)
  from np_median_halves [OF m] m show ?thesis by simp
qed


lemma sqrt2_le_3: "sqrt 2 \<le> (3::real)"
proof -
  have "sqrt 2 \<le> sqrt (3\<^sup>2)" by (simp only: real_sqrt_le_iff) simp
  then show ?thesis by simp
qed

text \<open>Stopping at the first pass that clips nothing, as astropy does, gives the
  same values as running all \<open>maxiters\<close> passes: a pass that clips nothing leaves
  every later pass nothing to clip.\<close>

theorem sigma_clip_early_exit:
  "sigma_clip data sigma maxiters = (clip_pass sigma ^^ maxiters) data"
proof (induction maxiters arbitrary: data)
  case 0
  then show ?case by simp
next
  case (Suc n)
  show ?case
  proof (cases "length (clip_pass sigma data) = length data")
    case True
    then have fixed: "clip_pass sigma data = data" by (rule clip_pass_fix)
    then have "(clip_pass sigma ^^ n) (clip_pass sigma data) = data" by (simp add: funpow_fixed)
    with fixed show ?thesis by (simp add: funpow_Suc_right)
  next
    case False
    then show ?thesis using Suc.IH by (simp add: funpow_swap1)
  qed
qed

text \<open>C19: for a non-empty array and \<open>sigma\<close> at least \<open>sqrt 2\<close> (the notebook uses 3),
  clipping never removes every value, so the clipped mean, median and standard deviation
  are all numbers, never NaN.\<close>

theorem sigma_clipped_stats_defined:
  assumes "data \<noteq> []" and "sqrt 2 \<le> sigma"
  shows "\<exists>mean median std. sigma_clipped_stats data sigma maxiters = (Some mean, Some median, Some std)"
proof -
  have ne: "sigma_clip data sigma maxiters \<noteq> []" using assms by (rule sigma_clip_nonempty)
  obtain med where "np_median (sigma_clip data sigma maxiters) = Some med"
    using np_median_nonempty [OF ne] by blast
  moreover obtain std where "np_std (sigma_clip data sigma maxiters) = Some std"
    using np_std_nonempty [OF ne] by blast
  ultimately show ?thesis using ne by (simp add: sigma_clipped_stats_def np_mean_def Let_def)
qed

theorem sigma_clipped_stats_defined_witness:
  "sigma_clipped_stats [0, 0, 0, 0, 0, 0, 0, 0, 0, 10] 3 5 = (Some 0, Some 0, Some 0)
    \<and> (\<exists>mean median std. sigma_clipped_stats [0, 0, 0, 0, 0, 0, 0, 0, 0, 10] 3 5
         = (Some mean, Some median, Some std))"
  using sigma_clipped_stats_defined [where data = "[0, 0, 0, 0, 0, 0, 0, 0, 0, 10]" and sigma = 3
      and maxiters = 5, OF _ sqrt2_le_3]
  by (simp add: model_eval Let_def)

text \<open>With at least as many iterations allowed as there are values, sigma clipping
  stops at a fixed point: one more pass would clip nothing.  Each pass that clips removes
  a value, so \<open>length data\<close> passes are always enough.\<close>

theorem sigma_clip_converges:
  assumes "length data \<le> maxiters"
  shows "clip_pass sigma (sigma_clip data sigma maxiters) = sigma_clip data sigma maxiters"
  using assms
proof (induction maxiters arbitrary: data)
  case 0
  then show ?case by (simp add: clip_pass_Nil)
next
  case (Suc n)
  show ?case
  proof (cases "length (clip_pass sigma data) = length data")
    case True
    then show ?thesis using clip_pass_fix [OF True] by simp
  next
    case False
    then have "length (clip_pass sigma data) \<le> n"
      using clip_pass_length_le [of sigma data] Suc.prems by simp
    then show ?thesis using False Suc.IH by (simp add: Let_def)
  qed
qed

theorem sigma_clip_converges_witness:
  "length [1, 1 :: real] \<le> 2 \<and> clip_pass 3 (sigma_clip [1, 1] 3 2) = sigma_clip [1, 1] 3 2"
  using sigma_clip_converges [of "[1, 1]" 2 3] by simp
end
