(* ===== verification/Validity.thy ===== *)
theory Validity
  imports Stats
begin

text \<open>
  The star-validity cell of the photometry notebook (src/notebooks/photutils.ipynb,
  lines 244--263).  For every image (a group of \<open>catalogs\<close> grouped by
  \<open>Filename\<close>), a detected source is kept as a valid star when its \<open>sharpness\<close> and
  its \<open>roundness1\<close> lie within three median absolute deviations of the group's median
  (written as \<open>(x - med)**2 < 9 * mad**2\<close>) and its \<open>peak\<close> is below 50000; the
  masks of all groups are appended to \<open>valid\<close> and added as a column.  \<open>np.median\<close>
  of an empty array is NaN, modelled as \<open>None\<close>; every comparison with NaN is false.
\<close>

text \<open>The columns of a DAOStarFinder row the cell reads.\<close>

record star_row =
  sharpness :: real
  roundness1 :: real
  peak :: real

text \<open>astropy's \<open>median_absolute_deviation\<close>: the median of the absolute deviations from
  the median.\<close>

definition median_absolute_deviation :: "real list \<Rightarrow> real option" where
  "median_absolute_deviation xs =
     (case np_median xs of
        None \<Rightarrow> None
      | Some m \<Rightarrow> np_median (map (\<lambda>x. \<bar>x - m\<bar>) xs))"

text \<open>\<open>(x - med)**2 < 9 * mas**2\<close> with NaN for a missing statistic.\<close>

definition within_3_mad :: "real option \<Rightarrow> real option \<Rightarrow> real \<Rightarrow> bool" where
  "within_3_mad med mas x =
     (case (med, mas) of (Some m, Some d) \<Rightarrow> (x - m)\<^sup>2 < 9 * d\<^sup>2 | _ \<Rightarrow> False)"

text \<open>The body of the loop for one group: the three masks combined by \<open>&=\<close>.\<close>

definition star_mask :: "'a star_row_scheme list \<Rightarrow> bool list" where
  "star_mask sources =
     (let sharp = map sharpness sources;
          round = map roundness1 sources;
          sharp_med = np_median sharp;
          sharp_mas = median_absolute_deviation sharp;
          round_med = np_median round;
          round_mas = median_absolute_deviation round;
          mask0 = map (within_3_mad sharp_med sharp_mas) sharp;
          mask1 = map2 (\<and>) mask0 (map (within_3_mad round_med round_mas) round);
          mask2 = map2 (\<and>) mask1 (map (\<lambda>s. peak s < 50000) sources)
      in mask2)"

text \<open>\<open>valid += list(mask)\<close> over the groups.\<close>

fun valid_loop :: "bool list \<Rightarrow> 'a star_row_scheme list list \<Rightarrow> bool list" where
  "valid_loop valid [] = valid"
| "valid_loop valid (sources # groups) = valid_loop (valid @ star_mask sources) groups"

text \<open>\<open>catalogs.add_column(valid, index=1, name='valid')\<close>: a column of another length
  raises \<open>ValueError\<close>.\<close>

definition add_column :: "'a list \<Rightarrow> bool list \<Rightarrow> ('a \<times> bool) list result" where
  "add_column rows col = (if length col = length rows then Inr (zip rows col) else Inl ValueError)"

text \<open>The reference reading of one star's test, against the statistics of its group.\<close>

definition valid_in :: "'a star_row_scheme list \<Rightarrow> 'a star_row_scheme \<Rightarrow> bool" where
  "valid_in sources s =
     (within_3_mad (np_median (map sharpness sources)) (median_absolute_deviation (map sharpness sources))
        (sharpness s)
      \<and> within_3_mad (np_median (map roundness1 sources)) (median_absolute_deviation (map roundness1 sources))
        (roundness1 s)
      \<and> peak s < 50000)"

declare median_absolute_deviation_def [model_eval]
  within_3_mad_def [model_eval] star_mask_def [model_eval] add_column_def [model_eval]

section \<open>The loop and the masks\<close>

lemma map2_conj3:
  "map2 (\<and>) (map2 (\<and>) (map f xs) (map h xs)) (map p xs) = map (\<lambda>s. f s \<and> h s \<and> p s) xs"
  by (induction xs) auto

lemma star_mask_valid_in: "star_mask sources = map (valid_in sources) sources"
  unfolding star_mask_def Let_def by (simp add: map2_conj3 valid_in_def comp_def)

lemma length_star_mask [simp]: "length (star_mask sources) = length sources"
  by (simp add: star_mask_valid_in)

lemma valid_loop_concat: "valid_loop valid groups = valid @ concat (map star_mask groups)"
  by (induction groups arbitrary: valid) auto

lemma median_absolute_deviation_nonneg:
  assumes "median_absolute_deviation xs = Some d"
  shows "0 \<le> d"
proof -
  obtain m where "np_median xs = Some m" "np_median (map (\<lambda>x. \<bar>x - m\<bar>) xs) = Some d"
    using assms by (auto simp: median_absolute_deviation_def split: option.splits)
  from np_median_bounds [OF this(2)] np_median_Some_nonempty [OF this(2)]
  have "Min (set (map (\<lambda>x. \<bar>x - m\<bar>) xs)) \<le> d" by simp
  moreover have "0 \<le> Min (set (map (\<lambda>x. \<bar>x - m\<bar>) xs))"
    using np_median_Some_nonempty [OF \<open>np_median xs = Some m\<close>] by simp
  ultimately show ?thesis by simp
qed

lemma square_lt_9_iff:
  fixes a b :: real
  shows "a\<^sup>2 < 9 * b\<^sup>2 \<longleftrightarrow> \<bar>a\<bar> < 3 * \<bar>b\<bar>"
proof -
  have "a\<^sup>2 < 9 * b\<^sup>2 \<longleftrightarrow> \<not> (3 * b)\<^sup>2 \<le> a\<^sup>2" by (simp add: power2_eq_square not_le)
  also have "\<dots> \<longleftrightarrow> \<not> \<bar>3 * b\<bar> \<le> \<bar>a\<bar>" by (simp only: abs_le_square_iff)
  also have "\<dots> \<longleftrightarrow> \<bar>a\<bar> < 3 * \<bar>b\<bar>" by (simp add: abs_mult not_le)
  finally show ?thesis .
qed

lemma within_3_mad_iff:
  "within_3_mad med mas x \<longleftrightarrow> (\<exists>m d. med = Some m \<and> mas = Some d \<and> \<bar>x - m\<bar> < 3 * \<bar>d\<bar>)"
  by (auto simp: within_3_mad_def square_lt_9_iff split: option.splits)

lemma zip_concat_map:
  assumes "\<And>g. length (f g) = length g"
  shows "zip (concat gs) (concat (map f gs)) = concat (map (\<lambda>g. zip g (f g)) gs)"
  by (induction gs) (simp_all add: assms)

lemma np_median_in_mset: "mset g' = mset g \<Longrightarrow> np_median (map h g') = np_median (map h g)"
  by (rule np_median_mset) simp

lemma median_absolute_deviation_mset:
  "mset g' = mset g \<Longrightarrow> median_absolute_deviation (map h g') = median_absolute_deviation (map h g)"
  unfolding median_absolute_deviation_def
  by (simp add: np_median_in_mset [of g' g h] np_median_mset mset_map split: option.splits)

lemma valid_in_mset:
  assumes "mset g' = mset g"
  shows "valid_in g' = valid_in g"
  unfolding valid_in_def np_median_in_mset [OF assms] median_absolute_deviation_mset [OF assms] ..

text \<open>C14: the column added to the grouped table: row by row, each source is paired with
  the test against the statistics of its own image, and the column never has the wrong
  length.\<close>

theorem valid_column:
  fixes gs :: "'a star_row_scheme list list"
  shows "add_column (concat gs) (valid_loop [] gs) = Inr (concat (map (\<lambda>g. map (\<lambda>s. (s, valid_in g s)) g) gs))"
proof -
  have "zip (concat gs) (concat (map star_mask gs)) = concat (map (\<lambda>g. zip g (star_mask g)) gs)"
    by (rule zip_concat_map) simp
  moreover have "zip g (star_mask g) = map (\<lambda>s. (s, valid_in g s)) g" for g :: "'a star_row_scheme list"
    by (simp add: star_mask_valid_in zip_map2 zip_same_conv_map comp_def)
  ultimately show ?thesis
    by (simp add: add_column_def valid_loop_concat length_concat comp_def)
qed

text \<open>A saturated source (peak of 50000 counts or more) is never flagged valid.\<close>

theorem star_mask_saturated:
  assumes "i < length g" and "50000 \<le> peak (g ! i)"
  shows "\<not> star_mask g ! i"
  using assms by (simp add: star_mask_valid_in valid_in_def)

text \<open>C15: when the median absolute deviation of the sharpness is zero (more than half
  the sources of an image share one sharpness), no source of that image is valid, not even
  those exactly at the median.\<close>

theorem star_mask_zero_mad:
  assumes "median_absolute_deviation (map sharpness g) = Some 0"
  shows "star_mask g = replicate (length g) False"
proof -
  have "valid_in g = (\<lambda>s. False)"
    using assms by (auto simp: fun_eq_iff valid_in_def within_3_mad_def split: option.splits)
  then show ?thesis by (simp add: star_mask_valid_in map_replicate_const)
qed

text \<open>The test of a source does not depend on the order of the sources in its image.\<close>

theorem star_mask_perm:
  assumes "mset g' = mset g"
  shows "star_mask g' = map (valid_in g) g'"
  unfolding star_mask_valid_in valid_in_mset [OF assms] ..

text \<open>Examples: a group of four sources, three of which share the sharpness 1.\<close>

abbreviation flat_group :: "star_row list" where
  "flat_group \<equiv> [\<lparr>sharpness = 1, roundness1 = 0, peak = 10\<rparr>, \<lparr>sharpness = 1, roundness1 = 1, peak = 10\<rparr>,
     \<lparr>sharpness = 1, roundness1 = 2, peak = 10\<rparr>, \<lparr>sharpness = 2, roundness1 = 3, peak = 10\<rparr>]"

lemma flat_group_mad: "median_absolute_deviation (map sharpness flat_group) = Some 0"
  by (simp add: model_eval)

theorem star_mask_saturated_witness:
  "0 < length [\<lparr>sharpness = 0, roundness1 = 0, peak = 60000\<rparr>]
    \<and> (50000::real) \<le> peak ([\<lparr>sharpness = 0, roundness1 = 0, peak = 60000\<rparr>] ! 0)
    \<and> \<not> star_mask [\<lparr>sharpness = 0, roundness1 = 0, peak = 60000\<rparr>] ! 0"
  using star_mask_saturated [of 0 "[\<lparr>sharpness = 0, roundness1 = 0, peak = 60000\<rparr>]"] by simp

theorem star_mask_zero_mad_witness:
  "median_absolute_deviation (map sharpness flat_group) = Some 0
    \<and> star_mask flat_group = [False, False, False, False]"
  using star_mask_zero_mad [OF flat_group_mad] flat_group_mad by simp

theorem star_mask_perm_witness:
  "mset (rev flat_group) = mset flat_group
    \<and> star_mask (rev flat_group) = map (valid_in flat_group) (rev flat_group)"
  using star_mask_perm [of "rev flat_group" flat_group] by simp

end
