(* ===== verification/Psf.thy ===== *)
theory Psf
  imports Validity
begin

text \<open>
  The PSF-modelling cells of the photometry notebook (src/notebooks/photutils.ipynb):
  the choice of the brightest valid star of every image (lines 354--360), the radial
  profile sampled in a square window around a source (lines 376--390), the choice of
  the profile model (lines 406--424) and the conversion of its fitted parameters to a
  FWHM (lines 440--448).  Images are lists of rows indexed as \<open>image[y][x]\<close>, with
  Python's negative indices counting from the end.  The profile loop and the two
  model formulas are functions of the values the cells read; the cells themselves, run
  on the names the notebook has bound when they are reached, are modelled in
  \<open>PsfCells\<close>.
\<close>

text \<open>A detected source with its centroid, as the cells read it from \<open>catalogs\<close>.\<close>

record psf_source = star_row +
  xcentroid :: real
  ycentroid :: real

section \<open>The brightest valid star of every image\<close>

text \<open>\<open>sources.sort('mag')\<close> followed by \<open>sources[sources['valid']][0]\<close>, which raises
  \<open>IndexError\<close> when no source of the image is valid; the rows are appended to
  \<open>psf_sources\<close> in group order.\<close>

fun psf_loop :: "('a \<Rightarrow> real) \<Rightarrow> ('a \<Rightarrow> bool) \<Rightarrow> 'a list \<Rightarrow> 'a list list \<Rightarrow> 'a list result" where
  "psf_loop mag valid acc [] = Inr acc"
| "psf_loop mag valid acc (sources # groups) =
     (case filter valid (sort_key mag sources) of
        [] \<Rightarrow> Inl IndexError
      | selected # _ \<Rightarrow> psf_loop mag valid (acc @ [selected]) groups)"

definition psf_sources :: "('a \<Rightarrow> real) \<Rightarrow> ('a \<Rightarrow> bool) \<Rightarrow> 'a list list \<Rightarrow> 'a list result" where
  "psf_sources mag valid groups = psf_loop mag valid [] groups"

section \<open>Python indexing and the sampling window\<close>

text \<open>\<open>int()\<close> of a float truncates towards zero.\<close>

definition py_int :: "real \<Rightarrow> int" where
  "py_int v = (if 0 \<le> v then \<lfloor>v\<rfloor> else \<lceil>v\<rceil>)"

text \<open>\<open>range(a, b)\<close>.\<close>

definition py_range :: "int \<Rightarrow> int \<Rightarrow> int list" where
  "py_range a b = [a..b - 1]"

text \<open>\<open>xs[i]\<close>: a negative index counts from the end; outside \<open>[-n, n)\<close> it raises.\<close>

definition py_index :: "'a list \<Rightarrow> int \<Rightarrow> 'a result" where
  "py_index xs i =
     (if 0 \<le> i \<and> i < int (length xs) then Inr (xs ! nat i)
      else if - int (length xs) \<le> i \<and> i < 0 then Inr (xs ! nat (int (length xs) + i))
      else Inl IndexError)"

text \<open>numpy's slice \<open>xs[a:b]\<close>: negative bounds count from the end, bounds are
  clamped to the array, and a start past the stop gives an empty slice.\<close>

definition slice_bound :: "nat \<Rightarrow> int \<Rightarrow> nat" where
  "slice_bound n i = (if i < 0 then nat (max 0 (i + int n)) else min (nat i) n)"

definition np_slice :: "'a list \<Rightarrow> int \<Rightarrow> int \<Rightarrow> 'a list" where
  "np_slice xs a b =
     (let start = slice_bound (length xs) a; stop = slice_bound (length xs) b
      in take (stop - start) (drop start xs))"

type_synonym image = "real list list"

text \<open>\<open>bkg_subtracted_image = image - median\<close>.\<close>

definition bkg_subtract :: "image \<Rightarrow> real \<Rightarrow> image" where
  "bkg_subtract img median = map (map (\<lambda>v. v - median)) img"

definition analysis_radius :: int where
  "analysis_radius = 10"

text \<open>The pixels the two nested loops visit, in the order they visit them.\<close>

definition window_pixels :: "int \<Rightarrow> int \<Rightarrow> int \<Rightarrow> (int \<times> int) list" where
  "window_pixels x_cen y_cen r =
     concat (map (\<lambda>x. map (\<lambda>y. (x, y)) (py_range (y_cen - r) (y_cen + r)))
       (py_range (x_cen - r) (x_cen + r)))"

text \<open>The body of the inner loop: the normalised flux \<open>bkg[y][x] / peak\<close> and the
  distance \<open>np.linalg.norm((xcentroid - x, ycentroid - y))\<close>.\<close>

definition pixel_sample :: "image \<Rightarrow> 'a psf_source_scheme \<Rightarrow> int \<times> int \<Rightarrow> (real \<times> real) result" where
  "pixel_sample bkg isource p =
     (case p of (x, y) \<Rightarrow>
       (case py_index bkg y of
          Inl e \<Rightarrow> Inl e
        | Inr row \<Rightarrow>
            (case py_index row x of
               Inl e \<Rightarrow> Inl e
             | Inr v \<Rightarrow> Inr (v / peak isource,
                 sqrt ((xcentroid isource - of_int x)\<^sup>2 + (ycentroid isource - of_int y)\<^sup>2)))))"

fun sample_loop ::
  "image \<Rightarrow> 'a psf_source_scheme \<Rightarrow> (int \<times> int) list \<Rightarrow> real list \<Rightarrow> real list
     \<Rightarrow> (real list \<times> real list) result" where
  "sample_loop bkg isource [] flux_counts pixel_distance = Inr (flux_counts, pixel_distance)"
| "sample_loop bkg isource (p # ps) flux_counts pixel_distance =
     (case pixel_sample bkg isource p of
        Inl e \<Rightarrow> Inl e
      | Inr (f, d) \<Rightarrow> sample_loop bkg isource ps (flux_counts @ [f]) (pixel_distance @ [d]))"

text \<open>The whole cell: \<open>(flux_counts, pixel_distance)\<close>, or the error that stops it.\<close>

definition pixel_profile :: "image \<Rightarrow> real \<Rightarrow> 'a psf_source_scheme \<Rightarrow> (real list \<times> real list) result" where
  "pixel_profile img median isource =
     (let bkg = bkg_subtract img median;
          x_cen = py_int (xcentroid isource);
          y_cen = py_int (ycentroid isource)
      in sample_loop bkg isource (window_pixels x_cen y_cen analysis_radius) [] [])"

section \<open>Profile models and the FWHM\<close>

text \<open>astropy's \<open>Gaussian1D(amplitude, mean, stddev)\<close> and
  \<open>Moffat1D(amplitude, x_0, gamma, alpha)\<close>.\<close>

datatype psf_model = Gaussian1D real real real | Moffat1D real real real real

fun psf_value :: "psf_model \<Rightarrow> real \<Rightarrow> real" where
  "psf_value (Gaussian1D a mu stddev) x = a * exp (- (x - mu)\<^sup>2 / (2 * stddev\<^sup>2))"
| "psf_value (Moffat1D a x_0 gamma alpha) x = a * (1 + ((x - x_0) / gamma)\<^sup>2) powr (- alpha)"

text \<open>The initial model chosen by the name in \<open>model\<close>.\<close>

definition model_init :: "string \<Rightarrow> psf_model result" where
  "model_init model =
     (if model = ''gaussian'' then (let fwhm_best_guess = 1.5 in Inr (Gaussian1D 1 0 fwhm_best_guess))
      else if model = ''moffat'' then Inr (Moffat1D 1 0 2 3.5)
      else Inl GenericException)"

text \<open>\<open>iFWHM\<close> from the fitted parameters, in the units of \<open>pixelscale\<close>.\<close>

definition iFWHM :: "string \<Rightarrow> psf_model \<Rightarrow> real \<Rightarrow> real result" where
  "iFWHM model fitted_model pixelscale =
     (if model = ''gaussian'' then
        (case fitted_model of Gaussian1D _ _ stddev \<Rightarrow> Inr (2.355 * stddev * pixelscale)
         | _ \<Rightarrow> Inl AttributeError)
      else if model = ''moffat'' then
        (case fitted_model of
           Moffat1D _ _ gamma alpha \<Rightarrow> Inr (gamma * 2 * sqrt (2 powr (1 / alpha) - 1) * pixelscale)
         | _ \<Rightarrow> Inl AttributeError)
      else Inl GenericException)"

text \<open>A fitter returns a model of the kind it was given.\<close>

fun same_kind :: "psf_model \<Rightarrow> psf_model \<Rightarrow> bool" where
  "same_kind (Gaussian1D _ _ _) (Gaussian1D _ _ _) = True"
| "same_kind (Moffat1D _ _ _ _) (Moffat1D _ _ _ _) = True"
| "same_kind _ _ = False"

declare py_index_def [model_eval] py_range_def [model_eval] py_int_def [model_eval]
  window_pixels_def [model_eval] pixel_sample_def [model_eval] bkg_subtract_def [model_eval]
  pixel_profile_def [model_eval] analysis_radius_def [model_eval] psf_sources_def [model_eval]
  model_init_def [model_eval] iFWHM_def [model_eval]
  upto_rec1 [model_eval] upto_empty [model_eval] slice_bound_def [model_eval] np_slice_def [model_eval]

section \<open>Python indexing\<close>

text \<open>The indices Python accepts for a sequence of length \<open>n\<close>, and the position they
  denote.\<close>

definition py_in_range :: "nat \<Rightarrow> int \<Rightarrow> bool" where
  "py_in_range n i \<longleftrightarrow> - int n \<le> i \<and> i < int n"

definition py_wrap :: "nat \<Rightarrow> int \<Rightarrow> nat" where
  "py_wrap n i = nat (if i < 0 then int n + i else i)"

lemma py_index_eq:
  "py_index xs i = (if py_in_range (length xs) i then Inr (xs ! py_wrap (length xs) i) else Inl IndexError)"
  by (auto simp: py_index_def py_in_range_def py_wrap_def)

lemma py_wrap_less: "py_in_range n i \<Longrightarrow> py_wrap n i < n"
  by (auto simp: py_in_range_def py_wrap_def)

lemma py_wrap_nonneg: "0 \<le> i \<Longrightarrow> py_wrap n i = nat i"
  by (simp add: py_wrap_def)

lemma py_wrap_neg: "i < 0 \<Longrightarrow> py_wrap n i = nat (int n + i)"
  by (simp add: py_wrap_def)

lemma np_slice_empty:
  "slice_bound (length xs) b \<le> slice_bound (length xs) a \<Longrightarrow> np_slice xs a b = []"
  by (simp add: np_slice_def)

section \<open>The sampling loop\<close>

lemma set_py_range [simp]: "set (py_range a b) = {a..b - 1}"
  by (simp add: py_range_def)

lemma set_window_pixels:
  "set (window_pixels x_cen y_cen r) = {x_cen - r..x_cen + r - 1} \<times> {y_cen - r..y_cen + r - 1}"
  by (auto simp: window_pixels_def)

lemma length_window_pixels:
  "length (window_pixels x_cen y_cen r) = nat (2 * r) * nat (2 * r)"
  by (simp add: window_pixels_def py_range_def length_concat comp_def sum_list_triv)

lemma pixel_sample_Inl: "pixel_sample bkg s p = Inl e \<Longrightarrow> e = IndexError"
  by (auto simp: pixel_sample_def py_index_def split: prod.splits sum.splits if_splits)

lemma pixel_sample_rect:
  assumes "\<forall>row\<in>set bkg. length row = w"
  shows "pixel_sample bkg s (x, y) =
    (if py_in_range (length bkg) y \<and> py_in_range w x
     then Inr (bkg ! py_wrap (length bkg) y ! py_wrap w x / peak s,
               sqrt ((xcentroid s - of_int x)\<^sup>2 + (ycentroid s - of_int y)\<^sup>2))
     else Inl IndexError)"
proof (cases "py_in_range (length bkg) y")
  case True
  then have "bkg ! py_wrap (length bkg) y \<in> set bkg" by (simp add: py_wrap_less)
  with assms have "length (bkg ! py_wrap (length bkg) y) = w" by blast
  with True show ?thesis by (simp add: pixel_sample_def py_index_eq)
next
  case False
  then show ?thesis by (simp add: pixel_sample_def py_index_eq)
qed

lemma sample_loop_ok:
  assumes "\<forall>p\<in>set ps. pixel_sample bkg s p = Inr (g p)"
  shows "sample_loop bkg s ps fc pd = Inr (fc @ map (fst \<circ> g) ps, pd @ map (snd \<circ> g) ps)"
  using assms by (induction ps arbitrary: fc pd) (auto split: prod.splits)

lemma sample_loop_err:
  assumes "\<exists>p\<in>set ps. isl (pixel_sample bkg s p)"
  shows "sample_loop bkg s ps fc pd = Inl IndexError"
  using assms
proof (induction ps arbitrary: fc pd)
  case Nil
  then show ?case by simp
next
  case (Cons p ps)
  show ?case
  proof (cases "pixel_sample bkg s p")
    case (Inl e)
    then show ?thesis using pixel_sample_Inl [OF Inl] by simp
  next
    case (Inr v)
    with Cons.prems have "\<exists>p\<in>set ps. isl (pixel_sample bkg s p)" by auto
    with Inr show ?thesis using Cons.IH by (simp split: prod.splits)
  qed
qed

text \<open>The whole cell on a rectangular image of width \<open>w\<close>: every pixel of the window
  in Python's index range is read, the first one outside makes it raise.\<close>

lemma pixel_profile_eq:
  assumes rect: "\<forall>row\<in>set img. length row = w"
  shows "pixel_profile img median s =
    (let ps = window_pixels (py_int (xcentroid s)) (py_int (ycentroid s)) analysis_radius in
     if \<forall>(x, y)\<in>set ps. py_in_range w x \<and> py_in_range (length img) y
     then Inr (map (\<lambda>(x, y). (img ! py_wrap (length img) y ! py_wrap w x - median) / peak s) ps,
               map (\<lambda>(x, y). sqrt ((xcentroid s - of_int x)\<^sup>2 + (ycentroid s - of_int y)\<^sup>2)) ps)
     else Inl IndexError)"
proof -
  define bkg where "bkg = bkg_subtract img median"
  define ps where "ps = window_pixels (py_int (xcentroid s)) (py_int (ycentroid s)) analysis_radius"
  define g where "g = (\<lambda>(x, y). ((img ! py_wrap (length img) y ! py_wrap w x - median) / peak s,
    sqrt ((xcentroid s - of_int x)\<^sup>2 + (ycentroid s - of_int y)\<^sup>2)))"
  have rect': "\<forall>row\<in>set bkg. length row = w" and len: "length bkg = length img"
    using rect by (auto simp: bkg_def bkg_subtract_def)
  have run: "pixel_profile img median s = sample_loop bkg s ps [] []"
    by (simp add: pixel_profile_def bkg_def ps_def Let_def)
  show ?thesis
  proof (cases "\<forall>(x, y)\<in>set ps. py_in_range w x \<and> py_in_range (length img) y")
    case True
    have "pixel_sample bkg s p = Inr (g p)" if "p \<in> set ps" for p
    proof -
      obtain x y where p: "p = (x, y)" by fastforce
      with True that have x: "py_in_range w x" and y: "py_in_range (length img) y" by auto
      have row: "img ! py_wrap (length img) y \<in> set img" using y by (simp add: py_wrap_less)
      with rect have "py_wrap w x < length (img ! py_wrap (length img) y)"
        using py_wrap_less [OF x] by simp
      then have "bkg ! py_wrap (length img) y ! py_wrap w x
          = img ! py_wrap (length img) y ! py_wrap w x - median"
        using py_wrap_less [OF y] by (simp add: bkg_def bkg_subtract_def)
      then show ?thesis using x y by (simp add: p g_def pixel_sample_rect [OF rect'] len)
    qed
    then have "sample_loop bkg s ps [] [] = Inr (map (fst \<circ> g) ps, map (snd \<circ> g) ps)"
      using sample_loop_ok [of ps bkg s g "[]" "[]"] by simp
    with True show ?thesis
      by (simp add: run ps_def [symmetric] g_def comp_def case_prod_unfold)
  next
    case False
    then obtain x y where "(x, y) \<in> set ps" "\<not> (py_in_range w x \<and> py_in_range (length img) y)"
      by auto
    then have "\<exists>p\<in>set ps. isl (pixel_sample bkg s p)"
      by (intro bexI [of _ "(x, y)"]) (auto simp: pixel_sample_rect [OF rect'] len)
    with False show ?thesis by (simp add: run ps_def [symmetric] sample_loop_err)
  qed
qed

section \<open>The PSF star lemmas\<close>

lemma filter_sort_key_Nil: "filter valid (sort_key mag g) = [] \<longleftrightarrow> \<not> (\<exists>s\<in>set g. valid s)"
  by (simp add: filter_empty_conv)

lemma psf_loop_eq:
  "psf_loop mag valid acc gs =
    (if \<forall>g\<in>set gs. \<exists>s\<in>set g. valid s
     then Inr (acc @ map (\<lambda>g. hd (filter valid (sort_key mag g))) gs) else Inl IndexError)"
proof (induction gs arbitrary: acc)
  case Nil
  then show ?case by simp
next
  case (Cons g gs)
  show ?case
  proof (cases "filter valid (sort_key mag g)")
    case Nil
    then show ?thesis using filter_sort_key_Nil [of valid mag g] by auto
  next
    case (Cons x xs)
    then have "\<exists>s\<in>set g. valid s" using filter_sort_key_Nil [of valid mag g] by auto
    with Cons show ?thesis using Cons.IH by simp
  qed
qed

lemma hd_filter_sort_key:
  assumes "\<exists>s\<in>set g. valid s"
  shows "hd (filter valid (sort_key mag g)) \<in> set g \<and> valid (hd (filter valid (sort_key mag g)))
    \<and> (\<forall>s\<in>set g. valid s \<longrightarrow> mag (hd (filter valid (sort_key mag g))) \<le> mag s)"
proof -
  obtain x xs where eq: "filter valid (sort_key mag g) = x # xs"
    using assms filter_sort_key_Nil [of valid mag g] by (cases "filter valid (sort_key mag g)") auto
  have x: "x \<in> set g" "valid x"
    using eq set_filter [of valid "sort_key mag g"] by auto
  have srt: "sorted (map mag (x # xs))"
    using sorted_filter [of mag "sort_key mag g" valid] eq by simp
  have "mag x \<le> mag s" if "s \<in> set g" "valid s" for s
  proof -
    have "s \<in> set (x # xs)" using that eq set_filter [of valid "sort_key mag g"] by (metis mem_Collect_eq set_sort)
    then show ?thesis using sorted_map_ConsD [OF srt] by auto
  qed
  with x eq show ?thesis by simp
qed

section \<open>The FWHM lemmas\<close>

lemma moffat_half_max:
  assumes "0 < alpha" and "gamma \<noteq> 0"
  shows "psf_value (Moffat1D a centre gamma alpha) (centre + gamma * sqrt (2 powr (1 / alpha) - 1)) = a / 2"
proof -
  have ge: "1 \<le> (2::real) powr (1 / alpha)" using assms(1) by (simp add: ge_one_powr_ge_zero)
  have "((gamma * sqrt (2 powr (1 / alpha) - 1)) / gamma)\<^sup>2 = 2 powr (1 / alpha) - 1"
    using assms(2) ge by simp
  then have "1 + ((centre + gamma * sqrt (2 powr (1 / alpha) - 1) - centre) / gamma)\<^sup>2 = 2 powr (1 / alpha)"
    by simp
  moreover have "((2::real) powr (1 / alpha)) powr (- alpha) = 1 / 2"
    using assms(1) by (simp add: powr_powr powr_minus_divide)
  ultimately show ?thesis by simp
qed

lemma model_init_kind:
  "model_init model = Inr m \<Longrightarrow>
     (model = ''gaussian'' \<and> (\<exists>a mu sd. m = Gaussian1D a mu sd))
     \<or> (model = ''moffat'' \<and> (\<exists>a x g al. m = Moffat1D a x g al))"
  by (auto simp: model_init_def split: if_splits)

lemma same_kind_cases:
  "same_kind p q \<longleftrightarrow> (\<exists>a mu sd a' mu' sd'. p = Gaussian1D a mu sd \<and> q = Gaussian1D a' mu' sd')
     \<or> (\<exists>a x g al a' x' g' al'. p = Moffat1D a x g al \<and> q = Moffat1D a' x' g' al')"
  by (cases p; cases q) auto

lemma same_kind_refl [simp]: "same_kind p p"
  by (cases p) auto

section \<open>Properties\<close>

text \<open>C16: every selected PSF star is a valid source of its own image, and no valid
  source of that image is brighter (has a smaller magnitude).\<close>

theorem psf_sources_brightest:
  assumes "psf_sources mag valid groups = Inr ps" and "i < length groups"
  shows "length ps = length groups \<and> ps ! i \<in> set (groups ! i) \<and> valid (ps ! i)
    \<and> (\<forall>s\<in>set (groups ! i). valid s \<longrightarrow> mag (ps ! i) \<le> mag s)"
proof -
  have all: "\<forall>g\<in>set groups. \<exists>s\<in>set g. valid s"
    and ps: "ps = map (\<lambda>g. hd (filter valid (sort_key mag g))) groups"
    using assms(1) by (simp_all add: psf_sources_def psf_loop_eq split: if_splits)
  then have "\<exists>s\<in>set (groups ! i). valid s" using assms(2) by simp
  from hd_filter_sort_key [OF this, of mag] ps assms(2) show ?thesis by simp
qed

text \<open>For a source whose window lies inside the image, the profile cell samples
  400 pixels and every flux sample is the background-subtracted pixel value divided by
  the source's peak.\<close>

theorem pixel_profile_inside:
  assumes "\<forall>row\<in>set img. length row = w"
    and "py_int (xcentroid s) = x_cen" and "py_int (ycentroid s) = y_cen"
    and "10 \<le> x_cen" and "x_cen + 10 \<le> int w" and "10 \<le> y_cen" and "y_cen + 10 \<le> int (length img)"
  shows "\<exists>fc pd. pixel_profile img median s = Inr (fc, pd) \<and> length fc = 400 \<and> length pd = 400
    \<and> fc = map (\<lambda>(x, y). (img ! nat y ! nat x - median) / peak s) (window_pixels x_cen y_cen 10)"
proof -
  let ?ps = "window_pixels x_cen y_cen 10"
  have inside: "0 \<le> x \<and> x < int w \<and> 0 \<le> y \<and> y < int (length img)" if "(x, y) \<in> set ?ps" for x y
    using that assms(4-7) by (auto simp: set_window_pixels)
  have ok: "\<forall>(x, y)\<in>set ?ps. py_in_range w x \<and> py_in_range (length img) y"
  proof (intro ballI, clarify)
    fix x y assume "(x, y) \<in> set ?ps"
    from inside [OF this] show "py_in_range w x \<and> py_in_range (length img) y"
      by (simp add: py_in_range_def)
  qed
  have eqmap: "map (\<lambda>(x, y). (img ! py_wrap (length img) y ! py_wrap w x - median) / peak s) ?ps
      = map (\<lambda>(x, y). (img ! nat y ! nat x - median) / peak s) ?ps"
    using inside by (intro map_cong) (auto simp: py_wrap_nonneg)
  have run: "pixel_profile img median s =
      Inr (map (\<lambda>(x, y). (img ! py_wrap (length img) y ! py_wrap w x - median) / peak s) ?ps,
           map (\<lambda>(x, y). sqrt ((xcentroid s - of_int x)\<^sup>2 + (ycentroid s - of_int y)\<^sup>2)) ?ps)"
    using ok pixel_profile_eq [OF assms(1), of median s]
    by (simp add: assms(2,3) analysis_radius_def Let_def)
  show ?thesis unfolding run eqmap by (simp add: length_window_pixels)
qed

text \<open>The window is not centred on the source: with \<open>range(x_cen - r, x_cen + r)\<close>
  it holds the pixels \<open>x_cen - 10\<close> to \<open>x_cen + 9\<close> (and likewise in \<open>y\<close>), 400
  pixels, so the column and the row ten pixels after the centre are never sampled while
  those ten pixels before it are.\<close>

theorem window_pixels_asymmetric:
  "length (window_pixels x_cen y_cen analysis_radius) = 400
    \<and> (x_cen - analysis_radius, y_cen - analysis_radius) \<in> set (window_pixels x_cen y_cen analysis_radius)
    \<and> (x_cen + analysis_radius, y_cen) \<notin> set (window_pixels x_cen y_cen analysis_radius)
    \<and> (x_cen, y_cen + analysis_radius) \<notin> set (window_pixels x_cen y_cen analysis_radius)"
  by (simp add: set_window_pixels length_window_pixels analysis_radius_def)

text \<open>A source closer than ten pixels to the left edge does not make the loop fail:
  the negative column indices wrap around, and the first flux sample is read from the
  opposite edge of the image.\<close>

theorem pixel_profile_wraps:
  assumes "\<forall>row\<in>set img. length row = w"
    and "py_int (xcentroid s) = x_cen" and "py_int (ycentroid s) = y_cen"
    and "0 \<le> x_cen" and "x_cen < 10" and "10 \<le> x_cen + int w" and "x_cen + 10 \<le> int w"
    and "10 \<le> y_cen" and "y_cen + 10 \<le> int (length img)"
  shows "\<exists>fc pd. pixel_profile img median s = Inr (fc, pd)
    \<and> fc ! 0 = (img ! nat (y_cen - 10) ! nat (int w + x_cen - 10) - median) / peak s"
proof -
  let ?ps = "window_pixels x_cen y_cen 10"
  have ok: "\<forall>(x, y)\<in>set ?ps. py_in_range w x \<and> py_in_range (length img) y"
    using assms(4-9) by (auto simp: set_window_pixels py_in_range_def)
  have hd: "?ps ! 0 = (x_cen - 10, y_cen - 10)"
    by (simp add: window_pixels_def py_range_def upto_rec1)
  have ne: "0 < length ?ps" by (simp add: length_window_pixels)
  have "py_wrap w (x_cen - 10) = nat (int w + x_cen - 10)" using assms(5) by (simp add: py_wrap_neg)
  moreover have "py_wrap (length img) (y_cen - 10) = nat (y_cen - 10)" using assms(8) by (simp add: py_wrap_nonneg)
  ultimately show ?thesis
    using ok pixel_profile_eq [OF assms(1), of median s] ne hd
    by (simp add: assms(2,3) analysis_radius_def Let_def)
qed

text \<open>A source closer than ten pixels to the right edge makes the loop raise
  \<open>IndexError\<close>.\<close>

theorem pixel_profile_right_edge:
  assumes "\<forall>row\<in>set img. length row = w"
    and "py_int (xcentroid s) = x_cen" and "py_int (ycentroid s) = y_cen"
    and "int w < x_cen + 10" and "0 \<le> x_cen" and "10 \<le> y_cen" and "y_cen + 10 \<le> int (length img)"
  shows "pixel_profile img median s = Inl IndexError"
proof -
  have "(max (x_cen + 9) (int w), y_cen) \<in> set (window_pixels x_cen y_cen 10)"
    using assms(4-7) by (auto simp: set_window_pixels)
  moreover have "\<not> py_in_range w (max (x_cen + 9) (int w))" by (simp add: py_in_range_def)
  ultimately have "\<not> (\<forall>(x, y)\<in>set (window_pixels x_cen y_cen 10). py_in_range w x \<and> py_in_range (length img) y)"
    by fastforce
  then show ?thesis
    using pixel_profile_eq [OF assms(1), of median s] by (simp add: assms(2,3) analysis_radius_def Let_def)
qed

text \<open>C18: the Moffat conversion is the full width at half maximum: half of \<open>iFWHM\<close>,
  converted back to pixels, away from the centre the fitted profile is at half its
  amplitude.\<close>

theorem moffat_fwhm_half_max:
  assumes "iFWHM ''moffat'' (Moffat1D a centre gamma alpha) pixelscale = Inr fwhm"
    and "0 < alpha" and "gamma \<noteq> 0" and "pixelscale \<noteq> 0"
  shows "psf_value (Moffat1D a centre gamma alpha) (centre + fwhm / (2 * pixelscale)) = a / 2"
proof -
  have "fwhm / (2 * pixelscale) = gamma * sqrt (2 powr (1 / alpha) - 1)"
    using assms(1,4) by (auto simp: iFWHM_def)
  then show ?thesis using moffat_half_max [OF assms(2,3)] by simp
qed

section \<open>Examples\<close>

text \<open>A 20 by 20 image whose pixel values are their column numbers, and sources at
  three positions on its middle row.\<close>

abbreviation ramp_image :: image where
  "ramp_image \<equiv> replicate 20 (map real [0..<20])"

abbreviation source_at :: "real \<Rightarrow> psf_source" where
  "source_at x \<equiv> \<lparr>sharpness = 0, roundness1 = 0, peak = 2, xcentroid = x, ycentroid = 10\<rparr>"

lemma psf_sources_example:
  "psf_sources fst snd [[(3::real, True), (1, False), (2, True)], [(5, True)]] = Inr [(2, True), (5, True)]"
  by (simp add: model_eval)

theorem psf_sources_brightest_witness:
  "(2::real, True) \<in> set [(3, True), (1, False), (2, True)] \<and> snd (2::real, True)
    \<and> fst (2::real, True) \<le> 3"
  using psf_sources_brightest [OF psf_sources_example, of 0] by simp

theorem pixel_profile_inside_witness:
  "\<exists>fc pd. pixel_profile ramp_image 0 (source_at 10) = Inr (fc, pd) \<and> length fc = 400"
  using pixel_profile_inside [where img = ramp_image and w = 20 and s = "source_at 10"
      and x_cen = 10 and y_cen = 10 and median = 0]
  by (simp add: py_int_def) (metis length_map)

theorem pixel_profile_wraps_witness:
  "\<exists>fc pd. pixel_profile ramp_image 0 (source_at 5) = Inr (fc, pd) \<and> fc ! 0 = 15 / 2"
  using pixel_profile_wraps [where img = ramp_image and w = 20 and s = "source_at 5"
      and x_cen = 5 and y_cen = 10 and median = 0]
  by (simp add: py_int_def)

theorem pixel_profile_right_edge_witness:
  "pixel_profile ramp_image 0 (source_at 15) = Inl IndexError"
  using pixel_profile_right_edge [where img = ramp_image and w = 20 and s = "source_at 15"
      and x_cen = 15 and y_cen = 10 and median = 0]
  by (simp add: py_int_def)

theorem moffat_fwhm_half_max_witness:
  "psf_value (Moffat1D 1 0 2 (7 / 2)) (0 + 2 * 2 * sqrt (2 powr (1 / (7 / 2)) - 1) * 1 / (2 * 1)) = 1 / 2"
  using moffat_fwhm_half_max [where a = 1 and centre = 0 and gamma = 2 and alpha = "7 / 2"
      and pixelscale = 1 and fwhm = "2 * 2 * sqrt (2 powr (1 / (7 / 2)) - 1) * 1"]
  by (simp add: iFWHM_def)

end
