(* ===== verification/Photometry.thy ===== *)
theory Photometry
  imports Psf Stats
begin

text \<open>
  The aperture-photometry cells of the photometry notebook
  (src/notebooks/photutils.ipynb, lines 540--878): circular apertures of radius 5 and
  annuli of radii 10 and 15 around the detected sources, photometry on the image with a
  global median subtracted, photometry with a local background estimated in the annulus,
  the comparison of the two, a stamp around one source, the pixels of its annulus with
  their plain and sigma-clipped statistics, and the error estimate of its flux.

  photutils' exact overlap of a pixel with a circle is geometry the notebook only calls:
  it is the parameter \<open>ov\<close> (the fraction of pixel \<open>(x, y)\<close> covered by a shape centred
  at a position), and an aperture sum is the overlap-weighted sum of the pixels.
\<close>

section \<open>Apertures and aperture sums\<close>

datatype aperture_shape = CircularAperture real | CircularAnnulus real real

text \<open>\<open>apertures.area()\<close> and \<open>annulus_apertures.area()\<close>.\<close>

fun aperture_area :: "aperture_shape \<Rightarrow> real" where
  "aperture_area (CircularAperture r) = pi * r\<^sup>2"
| "aperture_area (CircularAnnulus r_in r_out) = pi * (r_out\<^sup>2 - r_in\<^sup>2)"

type_synonym overlap = "aperture_shape \<Rightarrow> real \<times> real \<Rightarrow> int \<times> int \<Rightarrow> real"

text \<open>The pixels of an image, row by row.\<close>

definition pixel_indices :: "image \<Rightarrow> (int \<times> int) list" where
  "pixel_indices img =
     concat (map (\<lambda>y. map (\<lambda>x. (int x, int y)) [0..<length (img ! y)]) [0..<length img])"

definition aperture_sum :: "overlap \<Rightarrow> image \<Rightarrow> aperture_shape \<Rightarrow> real \<times> real \<Rightarrow> real" where
  "aperture_sum ov img shape pos =
     sum_list (map (\<lambda>(x, y). ov shape pos (x, y) * img ! nat y ! nat x) (pixel_indices img))"

text \<open>A row of the table \<open>aperture_photometry\<close> returns: \<open>id\<close> (from 1), \<open>xcenter\<close>,
  \<open>ycenter\<close> and one \<open>aperture_sum_i\<close> per aperture of the list.\<close>

record phot_row =
  phot_id :: nat
  xcenter :: real
  ycenter :: real
  aperture_sums :: "real list"

definition aperture_photometry ::
  "overlap \<Rightarrow> image \<Rightarrow> aperture_shape list \<Rightarrow> (real \<times> real) list \<Rightarrow> phot_row list" where
  "aperture_photometry ov img apers positions =
     map (\<lambda>(i, pos). \<lparr>phot_id = Suc i, xcenter = fst pos, ycenter = snd pos,
                      aperture_sums = map (\<lambda>ap. aperture_sum ov img ap pos) apers\<rparr>)
       (enumerate 0 positions)"

section \<open>The photometry cells\<close>

definition aperture_radius :: real where
  "aperture_radius = 5.0"

definition r_in :: real where
  "r_in = 10"

definition r_out :: real where
  "r_out = 15"

definition apertures :: aperture_shape where
  "apertures = CircularAperture aperture_radius"

definition annulus_apertures :: aperture_shape where
  "annulus_apertures = CircularAnnulus r_in r_out"

text \<open>\<open>positions = (sources['xcentroid'], sources['ycentroid'])\<close>.\<close>

definition source_positions :: "'a psf_source_scheme list \<Rightarrow> (real \<times> real) list" where
  "source_positions sources = map (\<lambda>s. (xcentroid s, ycentroid s)) sources"

text \<open>Global background: \<open>aperture_photometry(data - median, apertures)\<close>.\<close>

definition phot_table_global_bkg :: "overlap \<Rightarrow> image \<Rightarrow> real \<Rightarrow> (real \<times> real) list \<Rightarrow> phot_row list" where
  "phot_table_global_bkg ov data median positions =
     aperture_photometry ov (bkg_subtract data median) [apertures] positions"

text \<open>Local background: \<open>aperture_photometry(data, [apertures, annulus_apertures])\<close>.\<close>

definition phot_table_local_bkg :: "overlap \<Rightarrow> image \<Rightarrow> (real \<times> real) list \<Rightarrow> phot_row list" where
  "phot_table_local_bkg ov data positions =
     aperture_photometry ov data [apertures, annulus_apertures] positions"

text \<open>\<open>bkg_mean\<close>, \<open>bkg_sum\<close> and \<open>final_sum\<close>, the column \<open>residual_aperture_sum\<close>.\<close>

definition bkg_mean :: "phot_row \<Rightarrow> real" where
  "bkg_mean row = aperture_sums row ! 1 / aperture_area annulus_apertures"

definition residual_aperture_sum :: "phot_row \<Rightarrow> real" where
  "residual_aperture_sum row =
     (let bkg_sum = bkg_mean row * aperture_area apertures
      in aperture_sums row ! 0 - bkg_sum)"

text \<open>The comparison of two columns of a table elementwise; arrays of different lengths
  cannot be broadcast together.\<close>

definition np_compare :: "(real \<Rightarrow> real \<Rightarrow> bool) \<Rightarrow> real list \<Rightarrow> real list \<Rightarrow> bool list result" where
  "np_compare cmp xs ys = (if length xs = length ys then Inr (map2 cmp xs ys) else Inl ValueError)"

definition select_rows :: "'a list \<Rightarrow> bool list result \<Rightarrow> 'a list result" where
  "select_rows rows selection =
     (case selection of
        Inl e \<Rightarrow> Inl e
      | Inr flags \<Rightarrow> if length flags = length rows then Inr (map fst (filter snd (zip rows flags)))
                    else Inl IndexError)"

text \<open>\<open>very_different\<close> and \<open>quite_similar\<close>.\<close>

definition very_different :: "phot_row list \<Rightarrow> phot_row list \<Rightarrow> phot_row list result" where
  "very_different local_rows global_rows =
     select_rows local_rows (np_compare (\<lambda>res glob. res * 1.5 < glob)
       (map residual_aperture_sum local_rows) (map (\<lambda>row. aperture_sums row ! 0) global_rows))"

definition quite_similar :: "phot_row list \<Rightarrow> phot_row list \<Rightarrow> phot_row list result" where
  "quite_similar local_rows global_rows =
     select_rows local_rows (np_compare (\<lambda>res glob. glob < res * 1.5)
       (map residual_aperture_sum local_rows) (map (\<lambda>row. aperture_sums row ! 0) global_rows))"

section \<open>The stamp, the annulus pixels and the error estimate\<close>

definition source_num :: int where
  "source_num = 12"

definition stamp_radius :: real where
  "stamp_radius = 20"

text \<open>\<open>data[int(y - stamp_radius):int(y + stamp_radius),
  int(x - stamp_radius):int(x + stamp_radius)]\<close> around the row \<open>source_num\<close> of the
  local-background table.\<close>

definition stamp :: "image \<Rightarrow> phot_row list \<Rightarrow> image result" where
  "stamp data rows =
     (case py_index rows source_num of
        Inl e \<Rightarrow> Inl e
      | Inr row \<Rightarrow>
          (let x = xcenter row; y = ycenter row
           in Inr (map (\<lambda>r. np_slice r (py_int (x - stamp_radius)) (py_int (x + stamp_radius)))
                     (np_slice data (py_int (y - stamp_radius)) (py_int (y + stamp_radius))))))"

text \<open>An \<open>ApertureMask\<close> of \<open>to_mask(method='center')\<close>: the weights over its bounding
  box and the box's corner.  \<open>m0.apply(data)\<close> multiplies the weights with the cutout
  of the data, pixels outside the data counting as 0.\<close>

record aperture_mask =
  bbox_ixmin :: int
  bbox_iymin :: int
  mask_data :: "real list list"

definition pixel_or_zero :: "image \<Rightarrow> int \<Rightarrow> int \<Rightarrow> real" where
  "pixel_or_zero data y x =
     (if 0 \<le> y \<and> y < int (length data) \<and> 0 \<le> x \<and> x < int (length (data ! nat y))
      then data ! nat y ! nat x else 0)"

definition mask_apply :: "aperture_mask \<Rightarrow> image \<Rightarrow> image" where
  "mask_apply m data =
     map (\<lambda>(j, wrow). map (\<lambda>(i, w). w * pixel_or_zero data (bbox_iymin m + int j) (bbox_ixmin m + int i))
                          (enumerate 0 wrow))
       (enumerate 0 (mask_data m))"

text \<open>\<open>annulus_array = cutout_data[cutout_data != 0]\<close>, row by row.\<close>

definition annulus_array :: "image \<Rightarrow> real list" where
  "annulus_array cutout_data = filter (\<lambda>v. v \<noteq> 0) (concat cutout_data)"

text \<open>\<open>mean\<close>, \<open>median\<close> and \<open>std\<close> of the annulus pixels, and the same after
  \<open>sigma_clip(annulus_array, sigma=3, iters=2)\<close>.\<close>

definition annulus_stats :: "real list \<Rightarrow> real option \<times> real option \<times> real option" where
  "annulus_stats a = (np_mean a, np_median a, np_std a)"

definition clipped_annulus_stats :: "real list \<Rightarrow> real option \<times> real option \<times> real option" where
  "clipped_annulus_stats a =
     (let clip_annulus_array = sigma_clip a 3 2
      in (np_mean clip_annulus_array, np_median clip_annulus_array, np_std clip_annulus_array))"

text \<open>\<open>np.sqrt\<close> of a negative number is NaN.\<close>

definition np_sqrt :: "real \<Rightarrow> real option" where
  "np_sqrt v = (if v < 0 then None else Some (sqrt v))"

text \<open>The error cell: \<open>F = aperture_sum_1[source_num] - median_clipped * aperture_area\<close>
  and \<open>sigma_F = np.sqrt(F / g + aperture_area * std_clipped ** 2)\<close>, with \<open>g\<close> the
  exposure time.\<close>

definition flux_error :: "real \<Rightarrow> phot_row list \<Rightarrow> real \<Rightarrow> real \<Rightarrow> (real \<times> real option) result" where
  "flux_error g rows median_clipped std_clipped =
     (case py_index rows source_num of
        Inl e \<Rightarrow> Inl e
      | Inr row \<Rightarrow>
          (let aperture_area = aperture_area apertures;
               F = aperture_sums row ! 1 - median_clipped * aperture_area
           in Inr (F, np_sqrt (F / g + aperture_area * std_clipped\<^sup>2))))"

declare aperture_area.simps [model_eval] pixel_indices_def [model_eval] aperture_sum_def [model_eval]
  aperture_photometry_def [model_eval] aperture_radius_def [model_eval] r_in_def [model_eval]
  r_out_def [model_eval] apertures_def [model_eval] annulus_apertures_def [model_eval]
  phot_table_global_bkg_def [model_eval] phot_table_local_bkg_def [model_eval] bkg_mean_def [model_eval]
  residual_aperture_sum_def [model_eval] np_compare_def [model_eval] select_rows_def [model_eval]
  very_different_def [model_eval] quite_similar_def [model_eval] source_num_def [model_eval] stamp_radius_def [model_eval] stamp_def [model_eval]
  pixel_or_zero_def [model_eval] mask_apply_def [model_eval] annulus_array_def [model_eval]
  annulus_stats_def [model_eval] clipped_annulus_stats_def [model_eval] np_sqrt_def [model_eval]
  flux_error_def [model_eval]

section \<open>Aperture sums are linear\<close>

text \<open>The total overlap of a shape with the pixels of an image: its area when the shape
  lies inside the image.\<close>

definition weight_total :: "overlap \<Rightarrow> image \<Rightarrow> aperture_shape \<Rightarrow> real \<times> real \<Rightarrow> real" where
  "weight_total ov img shape pos = sum_list (map (ov shape pos) (pixel_indices img))"

lemma pixel_indices_map [simp]: "pixel_indices (map (map f) img) = pixel_indices img"
  unfolding pixel_indices_def by (auto intro!: arg_cong [where f = concat] map_cong)

lemma pixel_indices_in_range:
  "(x, y) \<in> set (pixel_indices img) \<Longrightarrow> nat y < length img \<and> nat x < length (img ! nat y)"
  by (auto simp: pixel_indices_def)

lemma aperture_sum_add_const:
  "aperture_sum ov (map (map (\<lambda>v. v + b)) img) shape pos =
     aperture_sum ov img shape pos + b * weight_total ov img shape pos"
proof -
  have eq: "map (\<lambda>(x, y). ov shape pos (x, y) * map (map (\<lambda>v. v + b)) img ! nat y ! nat x) (pixel_indices img)
      = map (\<lambda>p. (case p of (x, y) \<Rightarrow> ov shape pos (x, y) * img ! nat y ! nat x) + b * ov shape pos p)
          (pixel_indices img)"
    by (rule map_cong) (auto dest: pixel_indices_in_range simp: algebra_simps)
  show ?thesis
    unfolding aperture_sum_def weight_total_def pixel_indices_map eq
    by (simp add: sum_list_addf sum_list_const_mult)
qed

lemma bkg_subtract_add_const:
  "bkg_subtract (map (map (\<lambda>v. v + b)) img) c = map (map (\<lambda>v. v + (b - c))) img"
  by (simp add: bkg_subtract_def comp_def algebra_simps)

lemma nth_aperture_photometry:
  "i < length positions \<Longrightarrow>
     aperture_photometry ov img apers positions ! i =
       \<lparr>phot_id = Suc i, xcenter = fst (positions ! i), ycenter = snd (positions ! i),
        aperture_sums = map (\<lambda>ap. aperture_sum ov img ap (positions ! i)) apers\<rparr>"
  by (simp add: aperture_photometry_def nth_enumerate_eq)

lemma length_aperture_photometry [simp]:
  "length (aperture_photometry ov img apers positions) = length positions"
  by (simp add: aperture_photometry_def)

lemma annulus_area_pos: "0 < aperture_area annulus_apertures"
  by (simp add: annulus_apertures_def r_in_def r_out_def)

text \<open>The local-background row of a source on an image that is its light plus a
  uniform background \<open>b\<close>, when the shapes lie inside the image and no light of the
  source falls in the annulus.\<close>

lemma local_row_sums:
  assumes "data = map (map (\<lambda>v. v + b)) star"
    and "weight_total ov star apertures pos = aperture_area apertures"
    and "weight_total ov star annulus_apertures pos = aperture_area annulus_apertures"
    and "aperture_sum ov star annulus_apertures pos = 0"
    and "i < length positions" and "positions ! i = pos"
  shows "aperture_sums (phot_table_local_bkg ov data positions ! i) =
    [aperture_sum ov star apertures pos + b * aperture_area apertures, b * aperture_area annulus_apertures]"
  using assms by (simp add: phot_table_local_bkg_def nth_aperture_photometry aperture_sum_add_const)

section \<open>Selections and slices\<close>

lemma length_filter_snd_zip_map2:
  assumes "length ls = length gs"
  shows "length (filter snd (zip ls (map2 f (map a ls) (map c gs))))
    = length (filter (\<lambda>p. f (a (fst p)) (c (snd p))) (zip ls gs))"
  using assms by (induction ls gs rule: list_induct2) auto

lemma length_filter_trichotomy:
  fixes u v :: "'a \<Rightarrow> real"
  shows "length (filter (\<lambda>p. u p < v p) xs) + length (filter (\<lambda>p. v p < u p) xs)
    + length (filter (\<lambda>p. u p = v p) xs) = length xs"
  by (induction xs) auto

lemma select_rows_compare:
  assumes "length ls = length gs"
  shows "select_rows ls (np_compare cmp (map a ls) (map c gs)) =
    Inr (map fst (filter snd (zip ls (map2 cmp (map a ls) (map c gs)))))"
  using assms by (simp add: select_rows_def np_compare_def)

lemma py_int_neg: "v < 0 \<Longrightarrow> py_int v = \<lceil>v\<rceil>"
  by (simp add: py_int_def)

lemma py_int_nonneg: "0 \<le> v \<Longrightarrow> py_int v = \<lfloor>v\<rfloor>"
  by (simp add: py_int_def)

section \<open>Properties\<close>

text \<open>C20: on an image that is the light of the sources plus a uniform background
  \<open>b\<close>, with the aperture and the annulus inside the image and no light of the source
  in its annulus, the local-background residual of a source is exactly its light in the
  aperture, while the global-median photometry is off by \<open>(b - median)\<close> times the
  aperture area.\<close>

theorem local_background_exact:
  assumes "data = map (map (\<lambda>v. v + b)) star"
    and "weight_total ov star apertures pos = aperture_area apertures"
    and "weight_total ov star annulus_apertures pos = aperture_area annulus_apertures"
    and "aperture_sum ov star annulus_apertures pos = 0"
    and "i < length positions" and "positions ! i = pos"
  shows "residual_aperture_sum (phot_table_local_bkg ov data positions ! i) = aperture_sum ov star apertures pos
    \<and> aperture_sums (phot_table_global_bkg ov data median positions ! i) ! 0
        = aperture_sum ov star apertures pos + (b - median) * aperture_area apertures"
proof
  have "aperture_area annulus_apertures \<noteq> 0" using annulus_area_pos by simp
  then show "residual_aperture_sum (phot_table_local_bkg ov data positions ! i) = aperture_sum ov star apertures pos"
    using local_row_sums [OF assms] by (simp add: residual_aperture_sum_def bkg_mean_def)
next
  show "aperture_sums (phot_table_global_bkg ov data median positions ! i) ! 0
      = aperture_sum ov star apertures pos + (b - median) * aperture_area apertures"
    using assms(1,2,5,6)
    by (simp add: phot_table_global_bkg_def nth_aperture_photometry bkg_subtract_add_const
      aperture_sum_add_const)
qed

text \<open>\<open>very_different\<close> and \<open>quite_similar\<close> never both hold of a source, and
  the sources they leave out are exactly those with \<open>1.5 * residual = global\<close>: the
  counts add up to the table only with those equal rows.\<close>

theorem selections_partition:
  assumes "length local_rows = length global_rows"
  shows "\<exists>V Q. very_different local_rows global_rows = Inr V \<and> quite_similar local_rows global_rows = Inr Q
    \<and> length V + length Q
        + length (filter (\<lambda>(l, g). residual_aperture_sum l * 1.5 = aperture_sums g ! 0) (zip local_rows global_rows))
      = length local_rows"
proof (intro exI conjI)
  let ?a = residual_aperture_sum and ?c = "\<lambda>row. aperture_sums row ! 0"
  let ?zs = "zip local_rows global_rows"
  show "very_different local_rows global_rows =
      Inr (map fst (filter snd (zip local_rows (map2 (\<lambda>res glob. res * 1.5 < glob) (map ?a local_rows) (map ?c global_rows)))))"
    by (simp only: very_different_def select_rows_compare [OF assms])
  show "quite_similar local_rows global_rows =
      Inr (map fst (filter snd (zip local_rows (map2 (\<lambda>res glob. glob < res * 1.5) (map ?a local_rows) (map ?c global_rows)))))"
    by (simp only: quite_similar_def select_rows_compare [OF assms])
  have "length (filter (\<lambda>p. ?a (fst p) * 1.5 < ?c (snd p)) ?zs)
      + length (filter (\<lambda>p. ?c (snd p) < ?a (fst p) * 1.5) ?zs)
      + length (filter (\<lambda>p. ?a (fst p) * 1.5 = ?c (snd p)) ?zs) = length ?zs"
    by (rule length_filter_trichotomy)
  then show "length (map fst (filter snd (zip local_rows (map2 (\<lambda>res glob. res * 1.5 < glob) (map ?a local_rows) (map ?c global_rows)))))
      + length (map fst (filter snd (zip local_rows (map2 (\<lambda>res glob. glob < res * 1.5) (map ?a local_rows) (map ?c global_rows)))))
      + length (filter (\<lambda>(l, g). ?a l * 1.5 = ?c g) ?zs) = length local_rows"
    unfolding length_map
    unfolding length_filter_snd_zip_map2 [OF assms]
    using assms by (simp add: case_prod_unfold)
qed

text \<open>C21: the flux whose error the last cell estimates does not depend on the source:
  \<open>F\<close> is taken from \<open>aperture_sum_1\<close>, the annulus, so on an image that is the source
  plus a uniform background \<open>b\<close> it is \<open>b\<close> times the annulus area minus the clipped
  median times the aperture area, whatever the source's light.\<close>

theorem flux_error_ignores_source:
  assumes "data = map (map (\<lambda>v. v + b)) star"
    and "weight_total ov star apertures pos = aperture_area apertures"
    and "weight_total ov star annulus_apertures pos = aperture_area annulus_apertures"
    and "aperture_sum ov star annulus_apertures pos = 0"
    and "12 < length positions" and "positions ! 12 = pos"
  shows "\<exists>sigma_F. flux_error g (phot_table_local_bkg ov data positions) median_clipped std_clipped
    = Inr (b * aperture_area annulus_apertures - median_clipped * aperture_area apertures, sigma_F)"
proof -
  have "py_index (phot_table_local_bkg ov data positions) source_num
      = Inr (phot_table_local_bkg ov data positions ! 12)"
    using assms(5) by (simp add: py_index_def source_num_def phot_table_local_bkg_def)
  then show ?thesis
    using local_row_sums [OF assms] by (simp add: flux_error_def Let_def)
qed

text \<open>The stamp of a source less than 19 pixels from the bottom of an image at least
  60 pixels high is empty: the negative start of the slice counts from the top.\<close>

theorem stamp_empty_near_edge:
  assumes "12 < length rows" and "ycenter (rows ! 12) = y"
    and "0 \<le> y" and "y \<le> 19" and "60 \<le> length data"
  shows "stamp data rows = Inr []"
proof -
  have lo: "py_int (y - stamp_radius) = \<lceil>y - 20\<rceil>"
    using assms(4) by (simp add: stamp_radius_def py_int_neg)
  have hi: "py_int (y + stamp_radius) = \<lfloor>y + 20\<rfloor>"
    using assms(3) by (simp add: stamp_radius_def py_int_nonneg)
  have c: "\<lceil>y - 20\<rceil> < 0" "-20 \<le> \<lceil>y - 20\<rceil>" using assms(3,4) by linarith+
  have f: "0 \<le> \<lfloor>y + 20\<rfloor>" "\<lfloor>y + 20\<rfloor> \<le> 39" using assms(3,4) by linarith+
  have "nat \<lfloor>y + 20\<rfloor> \<le> 39" using f by (simp only: nat_le_iff)
  then have "slice_bound (length data) (py_int (y + stamp_radius)) \<le> 39"
    using f(1) unfolding hi slice_bound_def by (simp only: not_less [symmetric]) simp
  moreover have "40 \<le> \<lceil>y - 20\<rceil> + int (length data)" using c(2) assms(5) by linarith
  then have "40 \<le> slice_bound (length data) (py_int (y - stamp_radius))"
    using c(1) unfolding lo slice_bound_def by (simp only: if_True le_nat_iff)
  ultimately have "slice_bound (length data) (py_int (y + stamp_radius))
      \<le> slice_bound (length data) (py_int (y - stamp_radius))"
    by simp
  then have "np_slice data (py_int (y - stamp_radius)) (py_int (y + stamp_radius)) = []"
    by (rule np_slice_empty)
  moreover have "py_index rows source_num = Inr (rows ! 12)"
    using assms(1) by (simp add: py_index_def source_num_def)
  ultimately show ?thesis using assms(2) by (simp add: stamp_def Let_def)
qed

section \<open>Examples\<close>

text \<open>A two-pixel image: the aperture covers the first pixel, the annulus the second.\<close>

abbreviation toy_overlap :: overlap where
  "toy_overlap \<equiv> \<lambda>shape pos p. (case shape of
      CircularAperture r \<Rightarrow> if p = (0, 0) then pi * r\<^sup>2 else 0
    | CircularAnnulus a c \<Rightarrow> if p = (1, 0) then pi * (c\<^sup>2 - a\<^sup>2) else 0)"

abbreviation toy_row :: "real list \<Rightarrow> phot_row" where
  "toy_row vals \<equiv> \<lparr>phot_id = 1, xcenter = 0, ycenter = 5, aperture_sums = vals\<rparr>"

theorem local_background_exact_witness:
  "residual_aperture_sum (phot_table_local_bkg toy_overlap (map (map (\<lambda>v. v + 3)) [[4, 0]]) [(0, 0)] ! 0)
     = 100 * pi
   \<and> aperture_sums (phot_table_global_bkg toy_overlap (map (map (\<lambda>v. v + 3)) [[4, 0]]) 1 [(0, 0)] ! 0) ! 0
     = 150 * pi"
  using local_background_exact [where data = "map (map (\<lambda>v. v + 3)) [[4, 0]]" and b = 3
      and star = "[[4, 0]]" and ov = toy_overlap and pos = "(0, 0)" and i = 0
      and positions = "[(0, 0)]" and median = 1]
  by (simp add: model_eval weight_total_def)

theorem selections_partition_witness:
  "\<exists>V Q. very_different [toy_row [2, 0], toy_row [3, 0]] [toy_row [3], toy_row [9]] = Inr V
     \<and> quite_similar [toy_row [2, 0], toy_row [3, 0]] [toy_row [3], toy_row [9]] = Inr Q
     \<and> length V + length Q + 1 = 2"
proof -
  have eq: "length (filter (\<lambda>(l, g). residual_aperture_sum l * 1.5 = aperture_sums g ! 0)
      (zip [toy_row [2, 0], toy_row [3, 0]] [toy_row [3], toy_row [9]])) = 1"
    by (simp add: model_eval)
  show ?thesis
    using selections_partition [of "[toy_row [2, 0], toy_row [3, 0]]" "[toy_row [3], toy_row [9]]"]
    unfolding eq by simp
qed

theorem flux_error_ignores_source_witness:
  "\<exists>sigma_F. flux_error 1 (phot_table_local_bkg toy_overlap (map (map (\<lambda>v. v + 3)) [[4, 0]])
      (replicate 13 (0, 0))) 3 0 = Inr (3 * aperture_area annulus_apertures - 3 * aperture_area apertures, sigma_F)"
  using flux_error_ignores_source [where data = "map (map (\<lambda>v. v + 3)) [[4, 0]]" and b = 3
      and star = "[[4, 0]]" and ov = toy_overlap and pos = "(0, 0)"
      and positions = "replicate 13 (0, 0)" and g = 1 and median_clipped = 3 and std_clipped = 0]
  by (simp add: model_eval weight_total_def)

theorem stamp_empty_near_edge_witness:
  "stamp (replicate 60 [0]) (replicate 13 (toy_row [])) = Inr []"
  using stamp_empty_near_edge [where rows = "replicate 13 (toy_row [])" and y = 5 and data = "replicate 60 [0]"]
  by simp

end
