(* ===== verification/Cleaning.thy ===== *)
theory Cleaning
  imports Psf
begin

text \<open>
  The image-cleaning notebook (src/unnamed/part_001): a master bias as the pixelwise
  median of the bias frames, trimmed to the valid area; every flat trimmed and
  bias-subtracted and written as \<open>b_<name>\<close>; per filter a master flat as the pixelwise
  median of the bias-subtracted flats, each scaled by the inverse of its mean; every
  science frame trimmed, bias-subtracted and flat-corrected by \<open>ccdproc.ccd_process\<close>
  and written as \<open>bf_<name>\<close>.  File names are strings, a directory listing is a list
  of names in the order \<open>glob\<close> returns them, and \<open>read\<close> stands for
  \<open>CCDData.read\<close>.  Pixel values are reals (the \<open>float32\<close> rounding of \<open>combine\<close> is
  not modelled); a flat pixel of value 0 makes numpy divide by zero (inf or nan), where
  the model's division gives 0, so the theorems assume flats without zero pixels.
\<close>

section \<open>Paths and directory listings\<close>

text \<open>\<open>os.path.join\<close> of relative parts and \<open>os.path.basename\<close>.\<close>

definition path_join :: "string \<Rightarrow> string \<Rightarrow> string" where
  "path_join a b = a @ ''/'' @ b"

definition basename :: "string \<Rightarrow> string" where
  "basename p = rev (takeWhile (\<lambda>c. c \<noteq> CHR ''/'') (rev p))"

definition raw_data_dir :: string where
  "raw_data_dir = path_join (path_join ''..'' ''resources'') ''raw_data''"

definition red_data_dir :: string where
  "red_data_dir = path_join (path_join ''..'' ''resources'') ''red_data''"

text \<open>\<open>glob(os.path.join(dir, prefix + '*'))\<close> over the names of a directory.\<close>

definition starts_with :: "string \<Rightarrow> string \<Rightarrow> bool" where
  "starts_with pre s \<longleftrightarrow> take (length pre) s = pre"

definition glob_prefix :: "string \<Rightarrow> string \<Rightarrow> string list \<Rightarrow> string list" where
  "glob_prefix dir pre names = map (path_join dir) (filter (starts_with pre) names)"

section \<open>Images and ccdproc operations\<close>

definition same_shape :: "image \<Rightarrow> image \<Rightarrow> bool" where
  "same_shape a b \<longleftrightarrow> length a = length b \<and> list_all2 (\<lambda>r s. length r = length s) a b"

text \<open>A pixelwise operation of two arrays; arrays of different shapes cannot be
  broadcast together.\<close>

definition pixelwise :: "(real \<Rightarrow> real \<Rightarrow> real) \<Rightarrow> image \<Rightarrow> image \<Rightarrow> image result" where
  "pixelwise f a b = (if same_shape a b then Inr (map2 (map2 f) a b) else Inl ValueError)"

text \<open>\<open>valid_area = slice(0, 4096), slice(53, 2101)\<close> and \<open>trim_image(ccd[valid_area])\<close>.\<close>

definition trim_valid :: "image \<Rightarrow> image" where
  "trim_valid img = map (\<lambda>row. np_slice row 53 2101) (np_slice img 0 4096)"

text \<open>\<open>data.mean()\<close> over all pixels.\<close>

definition image_mean :: "image \<Rightarrow> real option" where
  "image_mean img = np_mean (concat img)"

text \<open>The median of a non-empty stack of pixel values.\<close>

definition median_of :: "real list \<Rightarrow> real" where
  "median_of vals = (case np_median vals of None \<Rightarrow> 0 | Some m \<Rightarrow> m)"

text \<open>\<open>ccdproc.combine(frames, method='median', scale=...)\<close>: every frame multiplied
  by its scale, then the pixelwise median.  No frame, frames of different shapes, or a
  scale list of another length raise \<open>ValueError\<close>.\<close>

definition combine_median :: "image list \<Rightarrow> real list option \<Rightarrow> image result" where
  "combine_median frames scale =
     (case frames of
        [] \<Rightarrow> Inl ValueError
      | f0 # _ \<Rightarrow>
          (let scales = (case scale of None \<Rightarrow> replicate (length frames) 1 | Some s \<Rightarrow> s)
           in if \<not> list_all (same_shape f0) frames \<or> length scales \<noteq> length frames then Inl ValueError
              else Inr (map (\<lambda>y. map (\<lambda>x. median_of (map2 (\<lambda>sc f. sc * f ! y ! x) scales frames))
                                   [0..<length (f0 ! y)]) [0..<length f0])))"

text \<open>\<open>ccdproc.subtract_bias\<close>.\<close>

definition subtract_bias :: "image \<Rightarrow> image \<Rightarrow> image result" where
  "subtract_bias ccd master = pixelwise (-) ccd master"

text \<open>\<open>ccdproc.flat_correct\<close> as \<open>ccd_process\<close> calls it: the data divided by the flat
  normalised to its mean.\<close>

definition flat_correct :: "image \<Rightarrow> image \<Rightarrow> image result" where
  "flat_correct ccd flat =
     (case image_mean flat of
        None \<Rightarrow> Inl ValueError
      | Some flat_mean \<Rightarrow> pixelwise (\<lambda>v f. v / (f / flat_mean)) ccd flat)"

definition ccd_process :: "image \<Rightarrow> image \<Rightarrow> image \<Rightarrow> image result" where
  "ccd_process raw master_bias master_flat =
     bind_result (subtract_bias raw master_bias) (\<lambda>sub. flat_correct sub master_flat)"

section \<open>The cells\<close>

text \<open>Master bias: the combined frame written as \<open>zero.fit\<close>, and its trimmed copy kept
  as \<open>master_bias\<close>.\<close>

definition master_bias_cell :: "(string \<Rightarrow> image) \<Rightarrow> string list \<Rightarrow> (image \<times> image) result" where
  "master_bias_cell read raw_names =
     (let bias_list = glob_prefix raw_data_dir ''bias'' raw_names
      in bind_result (combine_median (map read bias_list) None)
           (\<lambda>full_bias. Inr (full_bias, trim_valid full_bias)))"

text \<open>Bias subtraction of the flats: the files written, in order.\<close>

definition flat_subtract_cell ::
  "(string \<Rightarrow> image) \<Rightarrow> string list \<Rightarrow> image \<Rightarrow> (string \<times> image) list result" where
  "flat_subtract_cell read raw_names master_bias =
     map_result (\<lambda>flat. bind_result (subtract_bias (trim_valid (read flat)) master_bias)
                          (\<lambda>sub_data. Inr (path_join red_data_dir (''b_'' @ basename flat), sub_data)))
       (glob_prefix raw_data_dir ''flat'' raw_names)"

text \<open>A master flat of one filter: the flats scaled by \<open>1/mean\<close> and median-combined.\<close>

definition master_flat_cell :: "(string \<Rightarrow> image) \<Rightarrow> string \<Rightarrow> string list \<Rightarrow> image result" where
  "master_flat_cell read pre red_names =
     (let clean_flats = map read (glob_prefix red_data_dir pre red_names);
          mean_values = map (\<lambda>f. case image_mean f of None \<Rightarrow> 0 | Some mean \<Rightarrow> 1 / mean) clean_flats
      in combine_median clean_flats (Some mean_values))"

text \<open>The science frames of one filter: the files written, in order.\<close>

definition science_cell ::
  "(string \<Rightarrow> image) \<Rightarrow> string \<Rightarrow> string list \<Rightarrow> image \<Rightarrow> image \<Rightarrow> (string \<times> image) list result" where
  "science_cell read pre raw_names master_bias master_flat =
     map_result (\<lambda>image. bind_result (ccd_process (trim_valid (read image)) master_bias master_flat)
                           (\<lambda>clean_data. Inr (path_join red_data_dir (''bf_'' @ basename image), clean_data)))
       (glob_prefix raw_data_dir pre raw_names)"

text \<open>The cells of the two filters.\<close>

definition master_flat_b :: "(string \<Rightarrow> image) \<Rightarrow> string list \<Rightarrow> image result" where
  "master_flat_b read red_names = master_flat_cell read ''b_flat_b'' red_names"

definition master_flat_y :: "(string \<Rightarrow> image) \<Rightarrow> string list \<Rightarrow> image result" where
  "master_flat_y read red_names = master_flat_cell read ''b_flat_y'' red_names"

definition science_b :: "(string \<Rightarrow> image) \<Rightarrow> string list \<Rightarrow> image \<Rightarrow> image \<Rightarrow> (string \<times> image) list result" where
  "science_b read raw_names master_bias master_flat = science_cell read ''m67_b'' raw_names master_bias master_flat"

definition science_y :: "(string \<Rightarrow> image) \<Rightarrow> string list \<Rightarrow> image \<Rightarrow> image \<Rightarrow> (string \<times> image) list result" where
  "science_y read raw_names master_bias master_flat = science_cell read ''m67_y'' raw_names master_bias master_flat"

text \<open>The cells in sequence on the frames they read, for one filter: the master bias,
  the bias-subtracted flats, the scaled median flat, and one science frame through
  \<open>ccd_process\<close> (the intermediate files written and read back are elided).\<close>

definition reduce_science :: "image list \<Rightarrow> image list \<Rightarrow> image \<Rightarrow> image result" where
  "reduce_science bias_frames flat_frames science =
     bind_result (combine_median bias_frames None) (\<lambda>full_bias.
       let master_bias = trim_valid full_bias
       in bind_result (map_result (\<lambda>flat. subtract_bias (trim_valid flat) master_bias) flat_frames)
            (\<lambda>clean_flats.
               let mean_values = map (\<lambda>f. case image_mean f of None \<Rightarrow> 0 | Some mean \<Rightarrow> 1 / mean) clean_flats
               in bind_result (combine_median clean_flats (Some mean_values))
                    (\<lambda>master_flat. ccd_process (trim_valid science) master_bias master_flat)))"

declare reduce_science_def [model_eval]

declare path_join_def [model_eval] basename_def [model_eval] raw_data_dir_def [model_eval]
  red_data_dir_def [model_eval] starts_with_def [model_eval] glob_prefix_def [model_eval]
  same_shape_def [model_eval] pixelwise_def [model_eval] trim_valid_def [model_eval]
  image_mean_def [model_eval] median_of_def [model_eval] combine_median_def [model_eval]
  subtract_bias_def [model_eval] flat_correct_def [model_eval] ccd_process_def [model_eval]
  master_bias_cell_def [model_eval] flat_subtract_cell_def [model_eval]
  master_flat_cell_def [model_eval] science_cell_def [model_eval]

section \<open>Images of a given shape\<close>

definition rect :: "nat \<Rightarrow> nat \<Rightarrow> image \<Rightarrow> bool" where
  "rect h w img \<longleftrightarrow> length img = h \<and> (\<forall>r\<in>set img. length r = w)"

definition scale_img :: "real \<Rightarrow> image \<Rightarrow> image" where
  "scale_img l img = map (map (\<lambda>g. l * g)) img"

definition img_affine :: "image \<Rightarrow> real \<Rightarrow> image \<Rightarrow> image" where
  "img_affine z l g = map2 (map2 (\<lambda>a b. a + l * b)) z g"

lemma rect_same_shape: "rect h w a \<Longrightarrow> rect h w b \<Longrightarrow> same_shape a b"
  by (auto simp: rect_def same_shape_def list_all2_conv_all_nth)

lemma np_slice_map2:
  "length xs = length ys \<Longrightarrow> np_slice (map2 f xs ys) a b = map2 f (np_slice xs a b) (np_slice ys a b)"
  by (simp add: np_slice_def Let_def drop_map take_map drop_zip take_zip)

lemma np_slice_map: "np_slice (map f xs) a b = map f (np_slice xs a b)"
  by (simp add: np_slice_def Let_def drop_map take_map)

lemma set_np_slice: "set (np_slice xs a b) \<subseteq> set xs"
  by (auto simp: np_slice_def Let_def dest: in_set_takeD in_set_dropD)

lemma length_np_slice: "length (np_slice xs a b) = slice_bound (length xs) b - slice_bound (length xs) a"
  by (simp add: np_slice_def Let_def slice_bound_def)

definition trim_h :: "nat \<Rightarrow> nat" where
  "trim_h h = slice_bound h 4096 - slice_bound h 0"

definition trim_w :: "nat \<Rightarrow> nat" where
  "trim_w w = slice_bound w 2101 - slice_bound w 53"

lemma rect_trim: "rect h w img \<Longrightarrow> rect (trim_h h) (trim_w w) (trim_valid img)"
  by (auto simp: rect_def trim_valid_def trim_h_def trim_w_def length_np_slice dest: set_np_slice [THEN subsetD])

lemma trim_map2:
  assumes "rect h w a" and "rect h w b"
  shows "trim_valid (map2 (map2 f) a b) = map2 (map2 f) (trim_valid a) (trim_valid b)"
proof -
  have "np_slice (map2 (map2 f) a b) 0 4096 = map2 (map2 f) (np_slice a 0 4096) (np_slice b 0 4096)"
    using assms by (simp add: rect_def np_slice_map2)
  moreover have "length (np_slice a 0 4096) = length (np_slice b 0 4096)"
    using assms by (simp add: rect_def length_np_slice)
  moreover have "\<forall>(r, q)\<in>set (zip (np_slice a 0 4096) (np_slice b 0 4096)). length r = length q"
    using assms by (auto simp: rect_def np_slice_def Let_def set_zip)
  ultimately show ?thesis
    by (auto simp: trim_valid_def map_zip_map map_zip_map2 np_slice_map2 intro!: map_cong)
qed

lemma rect_nth_eqI:
  assumes "rect h w a" and "rect h w b" and "\<And>y x. y < h \<Longrightarrow> x < w \<Longrightarrow> a ! y ! x = b ! y ! x"
  shows "a = b"
proof (rule nth_equalityI)
  show "length a = length b" using assms by (simp add: rect_def)
next
  fix y assume "y < length a"
  then have y: "y < h" and "a ! y \<in> set a" "b ! y \<in> set b" using assms(1,2) by (auto simp: rect_def)
  then have "length (a ! y) = w" "length (b ! y) = w" using assms(1,2) by (auto simp: rect_def)
  then show "a ! y = b ! y" using assms(3) [OF y] by (intro nth_equalityI) simp_all
qed

lemma rect_row: "rect h w a \<Longrightarrow> y < h \<Longrightarrow> length (a ! y) = w"
  by (auto simp: rect_def)

lemma rect_map2: "rect h w a \<Longrightarrow> rect h w b \<Longrightarrow> rect h w (map2 (map2 f) a b)"
  by (auto simp: rect_def set_zip)

lemma nth_map2_rect:
  "rect h w a \<Longrightarrow> rect h w b \<Longrightarrow> y < h \<Longrightarrow> x < w \<Longrightarrow> map2 (map2 f) a b ! y ! x = f (a ! y ! x) (b ! y ! x)"
  by (simp add: rect_def rect_row)

lemma rect_scale: "rect h w a \<Longrightarrow> rect h w (scale_img l a)"
  by (auto simp: rect_def scale_img_def)

lemma nth_scale_rect: "rect h w a \<Longrightarrow> y < h \<Longrightarrow> x < w \<Longrightarrow> scale_img l a ! y ! x = l * a ! y ! x"
  by (simp add: scale_img_def rect_def rect_row)

lemma rect_table: "rect h w (map (\<lambda>y. map (c y) [0..<w]) [0..<h])"
  by (auto simp: rect_def)

lemma median_of_replicate: "0 < n \<Longrightarrow> median_of (replicate n v) = v"
proof -
  assume n: "0 < n"
  have "sort (replicate n v) = replicate n v" by (simp add: sorted_sort_id)
  with n show ?thesis by (simp add: median_of_def np_median_def Let_def)
qed

lemma median_of_Cons_replicate: "median_of (v # replicate n v) = v"
  using median_of_replicate [of "Suc n" v] by simp

text \<open>A combination whose scaled stack is constant at every pixel.\<close>

lemma combine_median_uniform:
  assumes "frames = g # gs" and "\<forall>f\<in>set frames. rect h w f" and "length scales = length frames"
    and "\<And>y x. y < h \<Longrightarrow> x < w \<Longrightarrow> map2 (\<lambda>sc f. sc * f ! y ! x) scales frames = replicate (length frames) (c y x)"
  shows "combine_median frames (Some scales) = Inr (map (\<lambda>y. map (c y) [0..<w]) [0..<h])"
proof -
  have g: "rect h w g" using assms(1,2) by simp
  have "list_all (same_shape g) frames" using assms(1,2) g by (auto simp: list_all_iff intro: rect_same_shape)
  moreover have "map (\<lambda>y. map (\<lambda>x. median_of (map2 (\<lambda>sc f. sc * f ! y ! x) scales frames)) [0..<length (g ! y)])
      [0..<length g] = map (\<lambda>y. map (c y) [0..<w]) [0..<h]"
    using g assms(1,4) by (auto simp: rect_def median_of_Cons_replicate intro!: map_cong)
  ultimately show ?thesis using assms(1,3) by (simp add: combine_median_def)
qed

lemma combine_median_None: "combine_median frames None = combine_median frames (Some (replicate (length frames) 1))"
  by (cases frames) (simp_all add: combine_median_def)

lemma combine_replicate:
  assumes "rect h w z" and "0 < n"
  shows "combine_median (replicate n z) None = Inr z"
proof -
  obtain m where n: "n = Suc m" using assms(2) by (cases n) auto
  have "combine_median (replicate n z) (Some (replicate n 1)) = Inr (map (\<lambda>y. map (\<lambda>x. z ! y ! x) [0..<w]) [0..<h])"
    using assms(1) by (intro combine_median_uniform [where g = z and gs = "replicate m z"]) (simp_all add: n zip_replicate)
  moreover have "map (\<lambda>y. map (\<lambda>x. z ! y ! x) [0..<w]) [0..<h] = z"
    using assms(1) by (intro rect_nth_eqI [OF rect_table assms(1)]) simp
  ultimately show ?thesis by (simp add: combine_median_None)
qed

lemma rect_affine: "rect h w a \<Longrightarrow> rect h w b \<Longrightarrow> rect h w (img_affine a l b)"
  by (simp add: img_affine_def rect_map2)

lemma trim_affine:
  "rect h w a \<Longrightarrow> rect h w b \<Longrightarrow> trim_valid (img_affine a l b) = img_affine (trim_valid a) l (trim_valid b)"
  by (simp add: img_affine_def trim_map2)

lemma subtract_affine:
  assumes "rect h w a" and "rect h w b"
  shows "subtract_bias (img_affine a l b) a = Inr (scale_img l b)"
proof -
  have ra: "rect h w (img_affine a l b)" by (rule rect_affine [OF assms])
  have "map2 (map2 (-)) (img_affine a l b) a = scale_img l b"
  proof (rule rect_nth_eqI [OF rect_map2 [OF ra assms(1)] rect_scale [OF assms(2)]])
    fix y x assume yx: "y < h" "x < w"
    have "img_affine a l b ! y ! x = a ! y ! x + l * b ! y ! x"
      unfolding img_affine_def by (rule nth_map2_rect [OF assms yx])
    then show "map2 (map2 (-)) (img_affine a l b) a ! y ! x = scale_img l b ! y ! x"
      by (simp add: nth_map2_rect [OF ra assms(1) yx] nth_scale_rect [OF assms(2) yx])
  qed
  then show ?thesis using rect_same_shape [OF ra assms(1)] by (simp add: subtract_bias_def pixelwise_def)
qed

lemma image_mean_scale: "image_mean t = Some m \<Longrightarrow> image_mean (scale_img l t) = Some (l * m)"
  by (auto simp: image_mean_def np_mean_def scale_img_def sum_list_const_mult
    map_concat [symmetric] split: if_splits)

lemma sum_list_pos: "xs \<noteq> [] \<Longrightarrow> \<forall>x\<in>set xs. (0::real) < x \<Longrightarrow> 0 < sum_list xs"
proof (induction xs)
  case Nil
  then show ?case by simp
next
  case (Cons a xs)
  then show ?case by (cases "xs = []") (auto intro: add_pos_pos)
qed

lemma image_mean_pos:
  assumes "rect h w t" and "0 < h" and "0 < w" and "\<forall>r\<in>set t. \<forall>g\<in>set r. 0 < g"
  shows "\<exists>m. image_mean t = Some m \<and> 0 < m"
proof -
  have "t ! 0 \<in> set t" "length (t ! 0) = w" using assms(1,2) by (auto simp: rect_def)
  then have ne: "concat t \<noteq> []" using assms(3) by (auto simp: concat_eq_Nil_conv)
  moreover have "0 < sum_list (concat t)" using ne assms(4) by (intro sum_list_pos) auto
  ultimately show ?thesis by (simp add: image_mean_def np_mean_def)
qed

lemma map2_map_same: "map2 f (map g xs) (map k xs) = map (\<lambda>x. f (g x) (k x)) xs"
  by (induction xs) auto

lemma map_result_map: "(\<forall>l\<in>set xs. f (k l) = Inr (g l)) \<Longrightarrow> map_result f (map k xs) = Inr (map g xs)"
  by (induction xs) auto

lemma combine_scaled_flats:
  assumes "rect h w t" and "image_mean t = Some m" and "0 < m"
    and "levels \<noteq> []" and "\<forall>l\<in>set levels. 0 < l"
  shows "combine_median (map (\<lambda>l. scale_img l t) levels) (Some (map (\<lambda>l. 1 / (l * m)) levels))
    = Inr (scale_img (1 / m) t)"
proof -
  obtain l0 ls where lv: "levels = l0 # ls" using assms(4) by (cases levels) auto
  have "combine_median (map (\<lambda>l. scale_img l t) levels) (Some (map (\<lambda>l. 1 / (l * m)) levels))
      = Inr (map (\<lambda>y. map (\<lambda>x. t ! y ! x / m) [0..<w]) [0..<h])"
  proof (rule combine_median_uniform [where g = "scale_img l0 t" and gs = "map (\<lambda>l. scale_img l t) ls"])
    fix y x assume yx: "y < h" "x < w"
    have "map (\<lambda>l. 1 / (l * m) * (scale_img l t ! y ! x)) levels = map (\<lambda>l. t ! y ! x / m) levels"
      using assms(3,5) by (intro map_cong) (auto simp: nth_scale_rect [OF assms(1) yx])
    then show "map2 (\<lambda>sc f. sc * f ! y ! x) (map (\<lambda>l. 1 / (l * m)) levels) (map (\<lambda>l. scale_img l t) levels)
        = replicate (length (map (\<lambda>l. scale_img l t) levels)) (t ! y ! x / m)"
      by (simp add: map2_map_same map_replicate_const)
  qed (use lv assms(1) rect_scale in auto)
  moreover have "map (\<lambda>y. map (\<lambda>x. t ! y ! x / m) [0..<w]) [0..<h] = scale_img (1 / m) t"
    by (rule rect_nth_eqI [OF rect_table rect_scale [OF assms(1)]]) (simp add: nth_scale_rect [OF assms(1)])
  ultimately show ?thesis by simp
qed

lemma rect_replicate: "rect h w (replicate h (replicate w v))"
  by (simp add: rect_def)

lemma flat_correct_uniform:
  assumes "rect h w t" and "image_mean t = Some m" and "0 < m" and "\<forall>r\<in>set t. \<forall>g\<in>set r. 0 < g"
  shows "flat_correct (scale_img s t) (scale_img (1 / m) t) = Inr (replicate h (replicate w (s * m)))"
proof -
  have mean: "image_mean (scale_img (1 / m) t) = Some 1"
    using image_mean_scale [OF assms(2), of "1 / m"] assms(3) by simp
  have rs: "rect h w (scale_img s t)" "rect h w (scale_img (1 / m) t)" using assms(1) by (simp_all add: rect_scale)
  have "map2 (map2 (\<lambda>v f. v / (f / 1))) (scale_img s t) (scale_img (1 / m) t) = replicate h (replicate w (s * m))"
  proof (rule rect_nth_eqI [OF rect_map2 [OF rs] rect_replicate])
    fix y x assume yx: "y < h" "x < w"
    have "t ! y \<in> set t" "x < length (t ! y)" using assms(1) yx by (auto simp: rect_def)
    then have "0 < t ! y ! x" using assms(4) by auto
    then show "map2 (map2 (\<lambda>v f. v / (f / 1))) (scale_img s t) (scale_img (1 / m) t) ! y ! x
        = replicate h (replicate w (s * m)) ! y ! x"
      using assms(3) yx by (simp add: nth_map2_rect [OF rs yx] nth_scale_rect [OF assms(1) yx])
  qed
  then show ?thesis using mean rect_same_shape [OF rs] by (simp add: flat_correct_def pixelwise_def)
qed

lemma trim_dims_pos: "0 < h \<Longrightarrow> 53 < w \<Longrightarrow> 0 < trim_h h \<and> 0 < trim_w w"
  by (simp add: trim_h_def trim_w_def slice_bound_def)

lemma trim_positive:
  "\<forall>r\<in>set g. \<forall>v\<in>set r. (0::real) < v \<Longrightarrow> \<forall>r\<in>set (trim_valid g). \<forall>v\<in>set r. 0 < v"
  by (auto simp: trim_valid_def dest!: set_np_slice [THEN subsetD])

section \<open>Properties\<close>

text \<open>C22: the reduction removes the pixel-to-pixel response of the detector.  If every
  bias frame is the bias pattern \<open>z\<close>, every flat is \<open>z\<close> plus a positive lamp level
  times a positive response pattern \<open>g\<close>, and the science frame is \<open>z\<close> plus a uniform
  sky \<open>s\<close> times \<open>g\<close>, then the cleaned science frame is uniform: every pixel of the
  valid area is \<open>s\<close> times the mean response.\<close>

theorem flat_field_uniform:
  assumes "rect h w z" and "rect h w g" and "0 < h" and "53 < w"
    and "\<forall>r\<in>set g. \<forall>v\<in>set r. 0 < v"
    and "0 < nb" and "levels \<noteq> []" and "\<forall>l\<in>set levels. 0 < l"
  shows "\<exists>m. image_mean (trim_valid g) = Some m \<and>
    reduce_science (replicate nb z) (map (\<lambda>l. img_affine z l g) levels) (img_affine z s g)
      = Inr (replicate (trim_h h) (replicate (trim_w w) (s * m)))"
proof -
  let ?tz = "trim_valid z" and ?tg = "trim_valid g"
  have rz: "rect (trim_h h) (trim_w w) ?tz" and rg: "rect (trim_h h) (trim_w w) ?tg"
    using assms(1,2) by (simp_all add: rect_trim)
  have dims: "0 < trim_h h" "0 < trim_w w" using trim_dims_pos [OF assms(3,4)] by simp_all
  obtain m where m: "image_mean ?tg = Some m" "0 < m"
    using image_mean_pos [OF rg dims trim_positive [OF assms(5)]] by blast
  have bias: "combine_median (replicate nb z) None = Inr z" by (rule combine_replicate [OF assms(1,6)])
  have sub: "subtract_bias (trim_valid (img_affine z l g)) ?tz = Inr (scale_img l ?tg)" for l
    using trim_affine [OF assms(1,2)] subtract_affine [OF rz rg] by simp
  have flats: "map_result (\<lambda>flat. subtract_bias (trim_valid flat) ?tz) (map (\<lambda>l. img_affine z l g) levels)
      = Inr (map (\<lambda>l. scale_img l ?tg) levels)"
    by (rule map_result_map) (simp add: sub)
  have means: "map (\<lambda>f. case image_mean f of None \<Rightarrow> 0 | Some mean \<Rightarrow> 1 / mean) (map (\<lambda>l. scale_img l ?tg) levels)
      = map (\<lambda>l. 1 / (l * m)) levels"
    using image_mean_scale [OF m(1)] by simp
  have master_flat: "combine_median (map (\<lambda>l. scale_img l ?tg) levels) (Some (map (\<lambda>l. 1 / (l * m)) levels))
      = Inr (scale_img (1 / m) ?tg)"
    by (rule combine_scaled_flats [OF rg m assms(7,8)])
  have sci: "ccd_process (trim_valid (img_affine z s g)) ?tz (scale_img (1 / m) ?tg)
      = Inr (replicate (trim_h h) (replicate (trim_w w) (s * m)))"
    using sub [of s] flat_correct_uniform [OF rg m trim_positive [OF assms(5)]] by (simp add: ccd_process_def)
  have "reduce_science (replicate nb z) (map (\<lambda>l. img_affine z l g) levels) (img_affine z s g)
      = Inr (replicate (trim_h h) (replicate (trim_w w) (s * m)))"
    by (simp only: reduce_science_def Let_def bias bind_result_simps flats means master_flat sci)
  with m(1) show ?thesis by blast
qed

theorem flat_field_uniform_witness:
  "\<exists>m. image_mean (trim_valid [replicate 54 2]) = Some m \<and>
    reduce_science [[replicate 54 1]] [img_affine [replicate 54 1] 1 [replicate 54 2]]
      (img_affine [replicate 54 1] 3 [replicate 54 2]) = Inr [[3 * m]]"
  using flat_field_uniform [where h = 1 and w = 54 and z = "[replicate 54 1]" and g = "[replicate 54 2]"
      and nb = 1 and levels = "[1]" and s = 3]
  by (simp add: rect_def trim_h_def trim_w_def slice_bound_def)

end
