(* ===== verification/Standard.thy ===== *)
theory Standard
  imports Prelude "HOL-Library.Sublist"
begin

text \<open>
  The per-table steps of the standardisation notebook (src/unnamed/part_000): the
  selection of the valid sources read back from the instrumental catalog (lines 31--34),
  of the sources of one image (lines 54--58), the column names \<open>table.hstack\<close> gives
  the joined catalog and their tidy-up with \<open>str.replace\<close> (lines 104 and 121--123), the
  colour column (line 126), the rejection of standards with a masked colour (line 145),
  and the linear regression between instrumental and standard colours with its fitted
  column (lines 193--196).  Tables are lists of rows, read through accessor functions
  for the columns the cells use.
\<close>

section \<open>Row selections\<close>

text \<open>\<open>read_catalog[read_catalog['valid'] == 'True']\<close>: the column comes back from the
  fixed-width text file as strings.\<close>

definition select_valid :: "('r \<Rightarrow> string) \<Rightarrow> 'r list \<Rightarrow> 'r list" where
  "select_valid valid read_catalog = filter (\<lambda>r. valid r = ''True'') read_catalog"

definition b_image :: string where
  "b_image = ''../resources/red_data/bfa_m67_b_1.fit''"

definition y_image :: string where
  "y_image = ''../resources/red_data/bfa_m67_y_1.fit''"

text \<open>\<open>catalog[catalog['Filename'] == name]\<close>.\<close>

definition select_file :: "('r \<Rightarrow> string) \<Rightarrow> string \<Rightarrow> 'r list \<Rightarrow> 'r list" where
  "select_file filename name catalog = filter (\<lambda>r. filename r = name) catalog"

text \<open>\<open>phot_std[~phot_std['b-y'].mask]\<close>: a masked entry is \<open>None\<close>.\<close>

definition select_unmasked :: "('r \<Rightarrow> real option) \<Rightarrow> 'r list \<Rightarrow> 'r list" where
  "select_unmasked by_col phot_std = filter (\<lambda>r. by_col r \<noteq> None) phot_std"

section \<open>Column names\<close>

text \<open>Python's \<open>str.replace(old, new)\<close>: every non-overlapping occurrence, scanning
  from the left; an empty \<open>old\<close> inserts \<open>new\<close> around every character.\<close>

function py_replace :: "string \<Rightarrow> string \<Rightarrow> string \<Rightarrow> string" where
  "py_replace s old new =
     (if old = [] then new @ concat (map (\<lambda>c. [c] @ new) s)
      else if s = [] then []
      else if take (length old) s = old then new @ py_replace (drop (length old) s) old new
      else hd s # py_replace (tl s) old new)"
  by pat_completeness auto
termination
  by (relation "measure (\<lambda>(s, old, new). length s)") auto

declare py_replace.simps [simp del]

text \<open>\<open>table.hstack(tables)\<close> with the default \<open>table_names\<close> \<open>'1', '2', ...\<close> and
  \<open>uniq_col_name='{col_name}_{table_name}'\<close>: a name present in more than one table
  gets the suffix of its table.\<close>

definition hstack_names :: "string list \<Rightarrow> string list list \<Rightarrow> string list" where
  "hstack_names table_names tables =
     concat (map (\<lambda>(tname, names). map (\<lambda>n.
         if 1 < length (filter (\<lambda>t. n \<in> set t) tables) then n @ ''_'' @ tname else n)
         names)
       (zip table_names tables))"

text \<open>The columns of the instrumental catalog written by the photometry notebook
  (src/notebooks/photutils.ipynb): the columns of the \<open>DAOStarFinder\<close> table, then the
  \<open>Filename\<close> column (line 200), with \<open>valid\<close>, \<open>ra\<close> and \<open>dec\<close> inserted by
  \<open>add_column(..., index=k)\<close> (lines 263, 322 and 323).\<close>

definition daofind_colnames :: "string list" where
  "daofind_colnames = [''id'', ''xcentroid'', ''ycentroid'', ''sharpness'', ''roundness1'',
     ''roundness2'', ''npix'', ''sky'', ''peak'', ''flux'', ''mag'']"

definition insert_column :: "nat \<Rightarrow> string \<Rightarrow> string list \<Rightarrow> string list" where
  "insert_column index name colnames = take index colnames @ [name] @ drop index colnames"

definition instrumental_colnames :: "string list" where
  "instrumental_colnames =
     insert_column 3 ''dec'' (insert_column 2 ''ra''
       (insert_column 1 ''valid'' (daofind_colnames @ [''Filename''])))"

text \<open>The columns of \<open>result\<close> in \<open>join_catalogs\<close>: the hstack of the index table and
  the two catalogs, then \<open>del result['index', 'distance']\<close>.\<close>

definition joined_colnames :: "string list \<Rightarrow> string list \<Rightarrow> string list" where
  "joined_colnames left_cols right_cols =
     filter (\<lambda>n. n \<noteq> ''index'' \<and> n \<noteq> ''distance'')
       (hstack_names [''1'', ''2'', ''3''] [[''index'', ''distance''], left_cols, right_cols])"

text \<open>The tidy-up of one name, \<open>col.replace('_2', '_b').replace('_3','_y')\<close>.\<close>

definition tidy_name :: "string \<Rightarrow> string" where
  "tidy_name col = py_replace (py_replace col ''_2'' ''_b'') ''_3'' ''_y''"

text \<open>The renaming loop over a snapshot of \<open>colnames\<close>, one \<open>rename_column\<close>
  (\<open>rename_colnames\<close> of the Prelude) per column.\<close>

fun rename_loop :: "string list \<Rightarrow> string list \<Rightarrow> string list result" where
  "rename_loop names [] = Inr names"
| "rename_loop names (col # cols) =
     (let new_name = tidy_name col
      in bind_result (rename_colnames names col new_name) (\<lambda>names. rename_loop names cols))"

definition tidy_columns :: "string list \<Rightarrow> string list result" where
  "tidy_columns colnames = rename_loop colnames colnames"

section \<open>Colour and regression\<close>

text \<open>\<open>phot_ins['mag_b-y'] = phot_ins['mag_b'] - phot_ins['mag_y']\<close>.\<close>

definition colour :: "('r \<Rightarrow> real) \<Rightarrow> ('r \<Rightarrow> real) \<Rightarrow> 'r list \<Rightarrow> real list" where
  "colour mag_b mag_y phot_ins = map (\<lambda>r. mag_b r - mag_y r) phot_ins"

text \<open>\<open>scipy.stats.linregress(x, y)\<close>: the least-squares slope and intercept; with no
  spread in \<open>x\<close> (or no points) the slope is NaN, here \<open>None\<close> (recent scipy raises
  \<open>ValueError\<close> instead when all of several x values are equal).\<close>

definition mean_list :: "real list \<Rightarrow> real" where
  "mean_list xs = sum_list xs / real (length xs)"

definition linregress :: "real list \<Rightarrow> real list \<Rightarrow> (real \<times> real) option" where
  "linregress x y =
     (let xmean = mean_list x; ymean = mean_list y;
          ssxm = sum_list (map (\<lambda>a. (a - xmean)\<^sup>2) x);
          ssxym = sum_list (map2 (\<lambda>a b. (a - xmean) * (b - ymean)) x y)
      in if length x \<noteq> length y \<or> ssxm = 0 then None
         else let slope = ssxym / ssxm in Some (slope, ymean - slope * xmean))"

text \<open>\<open>fit = regression.intercept + regression.slope * phot_std_ins['mag_b-y']\<close>.\<close>

definition final_fit :: "real list \<Rightarrow> real list \<Rightarrow> real list option" where
  "final_fit x y =
     (case linregress x y of
        None \<Rightarrow> None
      | Some (slope, intercept) \<Rightarrow> Some (map (\<lambda>a. intercept + slope * a) x))"

text \<open>The \<open>valid\<close> column through the text file: \<open>catalogs.write(...,
  format='ascii.fixed_width')\<close> writes a boolean as \<open>str\<close> does, and
  \<open>Table.read\<close> gives the column back as strings, hence the comparison with
  \<open>'True'\<close> at line 34.\<close>

definition py_str_bool :: "bool \<Rightarrow> string" where
  "py_str_bool b = (if b then ''True'' else ''False'')"

text \<open>Lines 34 and 57: the valid sources of one image, on rows
  \<open>(Filename, source, valid)\<close>.\<close>

definition read_image_catalog :: "string \<Rightarrow> (string \<times> 'a \<times> string) list \<Rightarrow> (string \<times> 'a \<times> string) list" where
  "read_image_catalog name read_catalog =
     select_file fst name (select_valid (\<lambda>r. snd (snd r)) read_catalog)"

text \<open>The quantity \<open>linregress\<close> minimises: the sum of squared residuals of a line.\<close>

definition sq_error :: "real list \<Rightarrow> real list \<Rightarrow> real \<Rightarrow> real \<Rightarrow> real" where
  "sq_error x y slope intercept = sum_list (map2 (\<lambda>a b. (b - (intercept + slope * a))\<^sup>2) x y)"

declare select_valid_def [model_eval] b_image_def [model_eval] y_image_def [model_eval]
  select_file_def [model_eval] select_unmasked_def [model_eval] py_replace.simps [model_eval]
  hstack_names_def [model_eval] daofind_colnames_def [model_eval]
  insert_column_def [model_eval] instrumental_colnames_def [model_eval] joined_colnames_def [model_eval] tidy_name_def [model_eval] tidy_columns_def [model_eval]
  colour_def [model_eval] mean_list_def [model_eval] linregress_def [model_eval] final_fit_def [model_eval]
  sq_error_def [model_eval] py_str_bool_def [model_eval] read_image_catalog_def [model_eval]

section \<open>Python's str.replace on two-character patterns\<close>

lemma py_replace_Cons:
  "old \<noteq> [] \<Longrightarrow> py_replace (c # cs) old new =
     (if take (length old) (c # cs) = old then new @ py_replace (drop (length old) (c # cs)) old new
      else c # py_replace cs old new)"
  by (subst py_replace.simps) simp

lemma py_replace_Nil: "old \<noteq> [] \<Longrightarrow> py_replace [] old new = []"
  by (subst py_replace.simps) simp

lemma sublist_pair_Cons:
  "sublist [a, b] (c # cs) \<longleftrightarrow> (c = a \<and> cs \<noteq> [] \<and> hd cs = b) \<or> sublist [a, b] cs"
  by (cases cs) (auto simp: sublist_code)

lemma py_replace_pair_Cons:
  "py_replace (c # cs) [a, b] new =
     (if c = a \<and> cs \<noteq> [] \<and> hd cs = b then new @ py_replace (tl cs) [a, b] new
      else c # py_replace cs [a, b] new)"
  by (cases cs) (simp_all add: py_replace_Cons)

lemma py_replace_pair_absent:
  "\<not> sublist [a, b] s \<Longrightarrow> py_replace s [a, b] new = s"
  by (induction s) (auto simp: py_replace_Nil py_replace_pair_Cons sublist_pair_Cons)

lemma py_replace_pair_suffix:
  "a \<noteq> b \<Longrightarrow> \<not> sublist [a, b] s \<Longrightarrow> py_replace (s @ [a, b]) [a, b] new = s @ new"
  by (induction s) (auto simp: py_replace_Nil py_replace_pair_Cons sublist_pair_Cons hd_append)

lemma sublist_pair_snoc_pair:
  "\<not> sublist [a, b] s \<Longrightarrow> b \<noteq> c \<Longrightarrow> [a, b] \<noteq> [c, d]
   \<Longrightarrow> \<not> sublist [a, b] (s @ [c, d])"
  by (induction s) (auto simp: sublist_pair_Cons hd_append)

section \<open>The renaming loop\<close>

lemma rename_loop_renames:
  assumes "distinct P" "set P \<subseteq> set L" "inj_on tidy_name (set L)"
    and "\<forall>n\<in>set L. tidy_name n = n \<or> tidy_name n \<notin> set L"
  shows "rename_loop (map (\<lambda>n. if n \<in> set P then n else tidy_name n) L) P = Inr (map tidy_name L)"
  using assms(1,2)
proof (induction P)
  case Nil
  then show ?case by simp
next
  case (Cons col P)
  let ?g = "\<lambda>n. if n \<in> set (col # P) then n else tidy_name n"
  let ?h = "\<lambda>n. if n \<in> set P then n else tidy_name n"
  have col: "col \<in> set L" "col \<notin> set P" using Cons.prems by auto
  have fresh: "\<not> (tidy_name col \<noteq> col \<and> tidy_name col \<in> set (map ?g L))"
  proof
    assume "tidy_name col \<noteq> col \<and> tidy_name col \<in> set (map ?g L)"
    then obtain n where n: "n \<in> set L" "?g n = tidy_name col" "tidy_name col \<noteq> col" by auto
    show False
    proof (cases "n \<in> set (col # P)")
      case True
      then show ?thesis using n col assms(4) by auto
    next
      case False
      then have "n = col" using n col assms(3) by (auto dest: inj_onD)
      then show ?thesis using False by simp
    qed
  qed
  have step: "map (\<lambda>m. if m = col then tidy_name col else m) (map ?g L) = map ?h L"
    unfolding map_map
  proof (rule list.map_cong0)
    fix n assume n: "n \<in> set L"
    show "((\<lambda>m. if m = col then tidy_name col else m) \<circ> ?g) n = ?h n"
    proof (cases "n \<in> set (col # P)")
      case True
      then show ?thesis using col by auto
    next
      case False
      have "tidy_name n \<noteq> col"
      proof
        assume eq: "tidy_name n = col"
        then have "tidy_name n = n" using assms(4) n col(1) by auto
        then show False using False eq by auto
      qed
      then show ?thesis using False by auto
    qed
  qed
  have "rename_loop (map ?g L) (col # P)
      = rename_loop (map (\<lambda>m. if m = col then tidy_name col else m) (map ?g L)) P"
  proof -
    have "col \<in> set (map ?g L)" using col by force
    then have "rename_colnames (map ?g L) col (tidy_name col)
        = Inr (map (\<lambda>m. if m = col then tidy_name col else m) (map ?g L))"
      by (rule rename_colnames_fresh [OF _ fresh])
    then show ?thesis by (simp only: rename_loop.simps Let_def bind_result_simps)
  qed
  also have "\<dots> = Inr (map tidy_name L)"
    using Cons.IH Cons.prems by (simp only: step) simp
  finally show ?case .
qed

lemma tidy_columns_renames:
  "distinct L \<Longrightarrow> inj_on tidy_name (set L) \<Longrightarrow> \<forall>n\<in>set L. tidy_name n = n \<or> tidy_name n \<notin> set L
   \<Longrightarrow> tidy_columns L = Inr (map tidy_name L)"
  using rename_loop_renames [of L L] by (simp add: tidy_columns_def map_idI)
lemma hstack_names_join:
  assumes "''index'' \<notin> set cols" "''distance'' \<notin> set cols"
  shows "hstack_names [''1'', ''2'', ''3''] [[''index'', ''distance''], cols, cols]
    = [''index'', ''distance''] @ map (\<lambda>c. c @ ''_2'') cols @ map (\<lambda>c. c @ ''_3'') cols"
  using assms by (auto simp: hstack_names_def cong: map_cong)

lemma joined_colnames_same:
  assumes "''index'' \<notin> set cols" "''distance'' \<notin> set cols"
  shows "joined_colnames cols cols = map (\<lambda>c. c @ ''_2'') cols @ map (\<lambda>c. c @ ''_3'') cols"
  using assms by (simp add: joined_colnames_def hstack_names_join filter_id_conv)

lemma tidy_name_suffixes:
  assumes "\<not> sublist ''_2'' c" "\<not> sublist ''_3'' c"
  shows "tidy_name (c @ ''_2'') = c @ ''_b''" and "tidy_name (c @ ''_3'') = c @ ''_y''"
proof -
  have "\<not> sublist ''_3'' (c @ ''_b'')" "\<not> sublist ''_2'' (c @ ''_3'')"
    using sublist_pair_snoc_pair [OF assms(2)] sublist_pair_snoc_pair [OF assms(1)] by simp_all
  then show "tidy_name (c @ ''_2'') = c @ ''_b''" and "tidy_name (c @ ''_3'') = c @ ''_y''"
    using assms by (simp_all add: tidy_name_def py_replace_pair_suffix py_replace_pair_absent)
qed

text \<open>The renaming loop on suffixed names: \<open>c_2\<close> and \<open>c_3\<close> become \<open>c_b\<close> and
  \<open>c_y\<close> without a clash, for distinct columns free of \<open>_2\<close> and \<open>_3\<close>.\<close>

lemma tidy_suffixed_columns:
  assumes "distinct cols" "\<forall>c\<in>set cols. \<not> sublist ''_2'' c \<and> \<not> sublist ''_3'' c"
  shows "tidy_columns (map (\<lambda>c. c @ ''_2'') cols @ map (\<lambda>c. c @ ''_3'') cols)
    = Inr (map (\<lambda>c. c @ ''_b'') cols @ map (\<lambda>c. c @ ''_y'') cols)"
proof -
  let ?L = "map (\<lambda>c. c @ ''_2'') cols @ map (\<lambda>c. c @ ''_3'') cols"
  have t: "\<And>c. c \<in> set cols \<Longrightarrow> tidy_name (c @ ''_2'') = c @ ''_b'' \<and> tidy_name (c @ ''_3'') = c @ ''_y''"
    using assms(2) tidy_name_suffixes by blast
  have "distinct ?L" using assms(1) by (auto simp: distinct_map inj_on_def)
  moreover have "inj_on tidy_name (set ?L)" using t by (auto simp: inj_on_def)
  moreover have "\<forall>n\<in>set ?L. tidy_name n = n \<or> tidy_name n \<notin> set ?L" using t by auto
  moreover have "map tidy_name ?L = map (\<lambda>c. c @ ''_b'') cols @ map (\<lambda>c. c @ ''_y'') cols"
    using t by simp
  ultimately show ?thesis by (simp add: tidy_columns_renames)
qed

text \<open>C24: for catalogs with the same columns, none named \<open>index\<close> or \<open>distance\<close>
  and none containing \<open>_2\<close> or \<open>_3\<close>, the joined table's columns are \<open>c_2\<close> then
  \<open>c_3\<close> for every column \<open>c\<close>, and the tidy-up loop renames them to \<open>c_b\<close> and
  \<open>c_y\<close> without raising \<open>KeyError\<close>.\<close>

theorem tidy_joined_colnames:
  assumes "distinct cols" "''index'' \<notin> set cols" "''distance'' \<notin> set cols"
    and "\<forall>c\<in>set cols. \<not> sublist ''_2'' c \<and> \<not> sublist ''_3'' c"
  shows "tidy_columns (joined_colnames cols cols)
    = Inr (map (\<lambda>c. c @ ''_b'') cols @ map (\<lambda>c. c @ ''_y'') cols)"
  using assms by (simp add: joined_colnames_same tidy_suffixed_columns)

lemma read_written_group:
  "filter (\<lambda>r. fst r = name) (filter (\<lambda>r. snd (snd r) = ''True'')
      (map (\<lambda>s. (f, s, py_str_bool (P s))) xs))
   = (if f = name then map (\<lambda>s. (f, s, ''True'')) (filter P xs) else [])"
  by (induction xs) (auto simp: py_str_bool_def)

section \<open>Least squares\<close>

lemma sum_list_map2_sum:
  "length x = length y \<Longrightarrow> sum_list (map2 f x y) = (\<Sum>i<length x. f (x ! i) (y ! i))"
  by (simp add: sum_list_sum_nth atLeast0LessThan)

lemma sum_list_map_sum: "sum_list (map f x) = (\<Sum>i<length x. f (x ! i))"
  by (simp add: sum_list_sum_nth atLeast0LessThan)

lemma least_squares_normal:
  fixes e d :: "nat \<Rightarrow> real"
  assumes "(\<Sum>i<n. e i) = 0" "(\<Sum>i<n. e i * x i) = 0"
  shows "(\<Sum>i<n. (e i)\<^sup>2) \<le> (\<Sum>i<n. (e i - (p + q * x i))\<^sup>2)"
proof -
  have "(\<Sum>i<n. (e i - (p + q * x i))\<^sup>2)
      = (\<Sum>i<n. (e i)\<^sup>2) - 2 * p * (\<Sum>i<n. e i) - 2 * q * (\<Sum>i<n. e i * x i)
        + (\<Sum>i<n. (p + q * x i)\<^sup>2)"
    by (simp add: power2_diff sum.distrib sum_subtractf sum_distrib_left algebra_simps)
  moreover have "0 \<le> (\<Sum>i<n. (p + q * x i)\<^sup>2)" by (simp add: sum_nonneg)
  ultimately show ?thesis using assms by simp
qed

lemma linregress_normal_equations:
  assumes "linregress x y = Some (slope, intercept)"
  shows "length x = length y"
    and "(\<Sum>i<length x. y ! i - (intercept + slope * x ! i)) = 0"
    and "(\<Sum>i<length x. (y ! i - (intercept + slope * x ! i)) * x ! i) = 0"
proof -
  define n where "n = length x"
  define xm where "xm = mean_list x"
  define ym where "ym = mean_list y"
  define ssxm where "ssxm = (\<Sum>i<n. (x ! i - xm)\<^sup>2)"
  define ssxym where "ssxym = (\<Sum>i<n. (x ! i - xm) * (y ! i - ym))"
  have len: "length x = length y" and nz: "ssxm \<noteq> 0"
     and sl: "slope = ssxym / ssxm" and ic: "intercept = ym - slope * xm"
    using assms by (auto simp: linregress_def Let_def n_def xm_def ym_def ssxm_def ssxym_def
        sum_list_map2_sum sum_list_map_sum split: if_splits)
  show "length x = length y" by (rule len)
  have "n \<noteq> 0"
  proof
    assume "n = 0"
    then show False using nz by (simp add: ssxm_def)
  qed
  then have sx: "(\<Sum>i<n. x ! i) = real n * xm" and sy: "(\<Sum>i<n. y ! i) = real n * ym"
    using len by (simp_all add: xm_def ym_def mean_list_def n_def sum_list_sum_nth atLeast0LessThan)
  have dev: "(\<Sum>i<n. x ! i - xm) = 0" using sx by (simp add: sum_subtractf)
  have e0: "(\<Sum>i<n. y ! i - (intercept + slope * x ! i)) = 0"
    using sx sy by (simp add: ic sum_subtractf sum.distrib sum_distrib_left[symmetric] algebra_simps)
  then show "(\<Sum>i<length x. y ! i - (intercept + slope * x ! i)) = 0" by (simp add: n_def)
  have "(\<Sum>i<n. (y ! i - (intercept + slope * x ! i)) * (x ! i - xm)) = ssxym - slope * ssxm"
  proof -
    have "\<And>i. (y ! i - (intercept + slope * x ! i)) * (x ! i - xm)
        = (x ! i - xm) * (y ! i - ym) - slope * (x ! i - xm)\<^sup>2"
      by (simp add: ic power2_eq_square algebra_simps)
    then show ?thesis by (simp add: ssxym_def ssxm_def sum_subtractf sum_distrib_left)
  qed
  also have "\<dots> = 0" using nz by (simp add: sl)
  finally have "(\<Sum>i<n. (y ! i - (intercept + slope * x ! i)) * x ! i) = 0"
    using e0 by (simp add: right_diff_distrib sum_subtractf sum_distrib_right[symmetric])
  then show "(\<Sum>i<length x. (y ! i - (intercept + slope * x ! i)) * x ! i) = 0" by (simp add: n_def)
qed

text \<open>C23: when \<open>linregress\<close> returns a slope and an intercept, no other line has a
  smaller sum of squared residuals on the same points.\<close>

theorem linregress_least_squares:
  assumes "linregress x y = Some (slope, intercept)"
  shows "sq_error x y slope intercept \<le> sq_error x y m b"
proof -
  note ne = linregress_normal_equations [OF assms]
  have eq: "\<And>a c. (c - (b + m * a))\<^sup>2
      = ((c - (intercept + slope * a)) - ((b - intercept) + (m - slope) * a))\<^sup>2"
    by (simp add: algebra_simps)
  show ?thesis
    using least_squares_normal [OF ne(2,3), of "b - intercept" "m - slope"]
    by (simp only: sq_error_def sum_list_map2_sum [OF ne(1)] eq)
qed
theorem linregress_least_squares_witness:
  "linregress [0, 1, 2] [1, 2, 4] = Some (3 / 2, 5 / 6)
   \<and> sq_error [0, 1, 2] [1, 2, 4] (3 / 2) (5 / 6) \<le> sq_error [0, 1, 2] [1, 2, 4] 1 1"
  using linregress_least_squares [of "[0, 1, 2]" "[1, 2, 4]" "3 / 2" "5 / 6" 1 1]
  by (simp add: linregress_def mean_list_def)

theorem tidy_joined_colnames_witness:
  "distinct instrumental_colnames \<and> ''index'' \<notin> set instrumental_colnames
   \<and> ''distance'' \<notin> set instrumental_colnames
   \<and> list_all (\<lambda>c. \<not> sublist ''_2'' c \<and> \<not> sublist ''_3'' c) instrumental_colnames
   \<and> tidy_columns (joined_colnames instrumental_colnames instrumental_colnames)
     = Inr (map (\<lambda>c. c @ ''_b'') instrumental_colnames @ map (\<lambda>c. c @ ''_y'') instrumental_colnames)"
proof -
  have h: "distinct instrumental_colnames" "''index'' \<notin> set instrumental_colnames"
    "''distance'' \<notin> set instrumental_colnames"
    "\<forall>c\<in>set instrumental_colnames. \<not> sublist ''_2'' c \<and> \<not> sublist ''_3'' c"
    by (simp_all add: instrumental_colnames_def daofind_colnames_def insert_column_def sublist_code)
  show ?thesis using h tidy_joined_colnames [OF h] by (simp add: list_all_iff)
qed

end
