(* ===== verification/Detection.thy ===== *)
theory Detection
  imports Cleaning Standard Sky "HOL-Library.List_Lexorder" "HOL-Library.Char_ord"
begin

text \<open>
  The cells of the photometry notebook (src/notebooks/photutils.ipynb) between the
  reduced frames and the instrumental catalog: the astrometric calibration of the frames
  (lines 95--106), the pixel scale (lines 126--132), the image statistics table (lines
  161--171), source detection with its grouped catalog (lines 190--204), and the sky
  coordinates of the sources with the written catalog (lines 306--329).  The files on
  disk are a store from names to FITS units; the library calls the cells only pass data
  to (the WCS projection, DAOStarFinder) are parameters.
\<close>

section \<open>FITS files and headers\<close>

text \<open>A header is its list of cards, keyword and value.  The files the cells open hold
  one HDU, read as \<open>fits.open(name)[0]\<close>.\<close>

type_synonym header = "(string \<times> string) list"

record hdu =
  hdu_header :: header
  hdu_data :: image

type_synonym fits_store = "string \<Rightarrow> hdu option"

definition fits_open :: "fits_store \<Rightarrow> string \<Rightarrow> hdu result" where
  "fits_open fs name = (case fs name of None \<Rightarrow> Inl FileNotFoundError | Some h \<Rightarrow> Inr h)"

text \<open>\<open>header.extend(cards, update=True)\<close>: a card whose keyword is already in the
  header updates its first occurrence; any other card, and every commentary card
  (\<open>COMMENT\<close>, \<open>HISTORY\<close>, blank keyword), is appended.\<close>

definition commentary :: "string \<Rightarrow> bool" where
  "commentary k \<longleftrightarrow> k = ''COMMENT'' \<or> k = ''HISTORY'' \<or> k = ''''"

fun update_first :: "string \<Rightarrow> string \<Rightarrow> header \<Rightarrow> header" where
  "update_first k v [] = []"
| "update_first k v ((k', v') # h) =
     (if k' = k then (k, v) # h else (k', v') # update_first k v h)"

definition extend_card :: "header \<Rightarrow> string \<times> string \<Rightarrow> header" where
  "extend_card h kv =
     (let (k, v) = kv
      in if commentary k \<or> k \<notin> set (map fst h) then h @ [(k, v)] else update_first k v h)"

definition header_extend :: "header \<Rightarrow> header \<Rightarrow> header" where
  "header_extend h kvs = foldl extend_card h kvs"

text \<open>\<open>header[keyword]\<close>: the first card with the keyword.\<close>

definition header_get :: "header \<Rightarrow> string \<Rightarrow> string option" where
  "header_get h k = map_of h k"

section \<open>Astrometric calibration (lines 95--106)\<close>

text \<open>\<open>glob(os.path.join(dir, prefix + '*' + suffix))\<close> over a directory listing.\<close>

definition ends_with :: "string \<Rightarrow> string \<Rightarrow> bool" where
  "ends_with suf s \<longleftrightarrow> drop (length s - length suf) s = suf \<and> length suf \<le> length s"

definition glob_pattern :: "string \<Rightarrow> string \<Rightarrow> string \<Rightarrow> string list \<Rightarrow> string list" where
  "glob_pattern dir pre suf names =
     map (path_join dir)
       (filter (\<lambda>n. starts_with pre n \<and> ends_with suf n \<and> length pre + length suf \<le> length n) names)"

definition astrometry_dir :: string where
  "astrometry_dir = path_join (path_join ''..'' ''resources'') ''astrometry''"

text \<open>The names of one iteration: \<open>basename\<close>, \<open>clean_name\<close> and \<open>calibrated_name\<close>.\<close>

definition clean_name_of :: "string \<Rightarrow> string" where
  "clean_name_of wcs_calib = path_join red_data_dir (py_replace (basename wcs_calib) ''wcs'' ''fit'')"

definition calibrated_name_of :: "string \<Rightarrow> string" where
  "calibrated_name_of wcs_calib = py_replace (clean_name_of wcs_calib) ''bf_'' ''bfa_''"

text \<open>One iteration: open the solution and the clean frame, extend the frame's header,
  write it under the calibrated name.  The loop state is the store and the last
  \<open>calibrated_name\<close> and \<open>clean_image\<close>, unbound before the first iteration.\<close>

record calib_state =
  files :: fits_store
  calibrated_name :: "string option"
  clean_image :: "hdu option"

definition calib_step :: "string \<Rightarrow> calib_state \<Rightarrow> calib_state result" where
  "calib_step wcs_calib st =
     bind_result (fits_open (files st) wcs_calib) (\<lambda>wcs_hdu.
     bind_result (fits_open (files st) (clean_name_of wcs_calib)) (\<lambda>clean.
       (let extended = clean\<lparr>hdu_header := header_extend (hdu_header clean) (hdu_header wcs_hdu)\<rparr>
        in Inr \<lparr>files = (files st)(calibrated_name_of wcs_calib \<mapsto> extended),
                calibrated_name = Some (calibrated_name_of wcs_calib),
                clean_image = Some extended\<rparr>)))"

text \<open>The cell: the loop over the solutions, then \<open>plot(calibrated_name)\<close>, a
  \<open>NameError\<close> when there was no solution.\<close>

definition calibration_cell :: "fits_store \<Rightarrow> string list \<Rightarrow> (calib_state \<times> cell_output list) result" where
  "calibration_cell fs listing =
     bind_result (fold_result calib_step (glob_pattern astrometry_dir '''' ''.wcs'' listing)
                    \<lparr>files = fs, calibrated_name = None, clean_image = None\<rparr>) (\<lambda>st.
       case calibrated_name st of
         None \<Rightarrow> Inl NameError
       | Some name \<Rightarrow> Inr (st, [Call ''plot'' [VStr name] []]))"

section \<open>Pixel scale (lines 126--132)\<close>

text \<open>\<open>np.mean(proj_plane_pixel_scales(wcs_info) * u.degree).to(u.arcsec)\<close>; the
  scales of the projection plane are a parameter of the header.  The cell prints the
  scale and shows the corners of the footprint.\<close>

definition pixel_scale_of :: "real list \<Rightarrow> real option" where
  "pixel_scale_of pixel_scaling = map_option (\<lambda>m. m * 3600) (np_mean pixel_scaling)"

definition pixel_scale_cell ::
  "(header \<Rightarrow> real list) \<Rightarrow> (header \<Rightarrow> (real \<times> real) list) \<Rightarrow> calib_state \<Rightarrow> (real option \<times> cell_output list) result" where
  "pixel_scale_cell proj_plane_pixel_scales calc_footprint st =
     (case clean_image st of
        None \<Rightarrow> Inl NameError
      | Some img \<Rightarrow>
          (let pixel_scale = pixel_scale_of (proj_plane_pixel_scales (hdu_header img));
               corners = calc_footprint (hdu_header img)
           in Inr (pixel_scale, [Print [VStr ''Pixel scale is:'', v_opt pixel_scale],
                                 Display ''corners'' (length corners)])))"

section \<open>Image statistics (lines 161--171)\<close>

text \<open>A row of \<open>statistics\<close>: the file, the sigma-clipped mean, median and standard
  deviation of all its pixels (\<open>sigma=3.0, maxiters=5\<close>), and the transposed data.\<close>

record stat_row =
  st_filename :: string
  st_mean :: "real option"
  st_median :: "real option"
  st_deviation :: "real option"
  st_image :: image

definition np_transpose :: "image \<Rightarrow> image" where
  "np_transpose data = transpose data"

definition stat_of :: "string \<Rightarrow> hdu \<Rightarrow> stat_row" where
  "stat_of filename extension =
     (let (mean, median, std) = sigma_clipped_stats (concat (hdu_data extension)) 3 5
      in \<lparr>st_filename = filename, st_mean = mean, st_median = median, st_deviation = std,
          st_image = np_transpose (hdu_data extension)\<rparr>)"

definition statistics_cell :: "fits_store \<Rightarrow> string list \<Rightarrow> (stat_row list \<times> cell_output list) result" where
  "statistics_cell fs listing =
     (let names = glob_pattern red_data_dir ''bfa_'' ''.fit'' listing
      in bind_result (map_result (\<lambda>filename. fits_open fs filename) names) (\<lambda>extensions.
           (let rows = map2 stat_of names extensions;
                statistics = sort_key st_filename rows
            in Inr (statistics, map (\<lambda>filename. Print [VStr ''Reading'', VStr filename]) names
                                @ [Display ''statistics'' (length statistics)]))))"

section \<open>Source detection (lines 190--204)\<close>

definition sigma_detection :: real where
  "sigma_detection = 5"

text \<open>\<open>fwhm = 1.5 * u.arcsec / pixel_scale\<close>, in pixels.\<close>

definition fwhm_pixels :: "real option \<Rightarrow> real option" where
  "fwhm_pixels pixel_scale = map_option (\<lambda>p. 3 / 2 / p) pixel_scale"

text \<open>\<open>DAOStarFinder(fwhm=fwhm.value, threshold=sigma_detection*std)(image['Image'] -
  median)\<close>; the finder is a parameter, returning the table of the sources it finds or
  \<open>None\<close> when it finds none (photutils' \<open>find_stars\<close> returns \<open>None\<close> then).  With a
  NaN parameter (the statistics of an empty frame) no pixel passes the threshold and no
  source is found.\<close>

definition detect :: "(real \<Rightarrow> real \<Rightarrow> image \<Rightarrow> 'a list option) \<Rightarrow> real option \<Rightarrow> stat_row \<Rightarrow> 'a list option" where
  "detect daofind fwhm frame =
     (case (fwhm, st_deviation frame, st_median frame) of
        (Some f, Some std, Some median) \<Rightarrow>
          daofind f (sigma_detection * std) (bkg_subtract (st_image frame) median)
      | _ \<Rightarrow> None)"

text \<open>\<open>photometry['Filename'] = [filename] * len(photometry)\<close>: every row tagged with
  its file; on \<open>None\<close> (no source found) \<open>len(None)\<close> raises \<open>TypeError\<close>.\<close>

definition tag_rows :: "string \<Rightarrow> 'a list \<Rightarrow> (string \<times> 'a) list" where
  "tag_rows filename photometry = map (Pair filename) photometry"

definition tag_photometry :: "string \<Rightarrow> 'a list option \<Rightarrow> (string \<times> 'a) list result" where
  "tag_photometry filename photometry =
     (case photometry of None \<Rightarrow> Inl TypeError | Some ps \<Rightarrow> Inr (tag_rows filename ps))"

text \<open>\<open>Table.group_by(key)\<close>: a stable sort on the key, then the runs of equal keys as
  groups, none empty.\<close>

fun runs :: "('a \<Rightarrow> 'k) \<Rightarrow> 'a list \<Rightarrow> 'a list list" where
  "runs key [] = []"
| "runs key (x # xs) =
     (case runs key xs of
        [] \<Rightarrow> [[x]]
      | g # gs \<Rightarrow> if key (hd g) = key x then (x # g) # gs else [x] # g # gs)"

definition group_by :: "('a \<Rightarrow> 'k::linorder) \<Rightarrow> 'a list \<Rightarrow> 'a list list" where
  "group_by key rows = runs key (sort_key key rows)"

definition detection_cell ::
  "(real \<Rightarrow> real \<Rightarrow> image \<Rightarrow> 'a list option) \<Rightarrow> real option \<Rightarrow> stat_row list
   \<Rightarrow> ((string \<times> 'a) list list \<times> cell_output list) result" where
  "detection_cell daofind pixel_scale statistics =
     (let fwhm = fwhm_pixels pixel_scale
      in bind_result (map_result (\<lambda>frame. tag_photometry (st_filename frame) (detect daofind fwhm frame)) statistics)
           (\<lambda>sources. let catalogs = group_by fst (concat sources)
                      in Inr (catalogs, [Display ''catalogs'' (min 10 (length (concat catalogs)))])))"

section \<open>Sky coordinates and the written catalog (lines 306--329)\<close>

text \<open>The rows of \<open>catalogs\<close> once the validity cell has added its column: the file,
  the DAOStarFinder row and the flag.\<close>

type_synonym 'b catalog_row = "(string \<times> 'b psf_source_scheme) \<times> bool"

text \<open>One iteration over \<open>zip(catalogs.groups.keys, catalogs.groups)\<close>: the WCS of the
  group's file, \<open>SkyCoord.from_pixel(sources['ycentroid'], sources['xcentroid'],
  wcs_transform)\<close> (the detection ran on the transposed data, so the finder's
  \<open>y\<close> is the frame's \<open>x\<close>), and \<open>coords.insert(len(coords), new_pos)\<close> unless
  \<open>coords\<close> is \<open>None\<close> or empty (a SkyCoord array is false when empty).\<close>

definition coords_step ::
  "fits_store \<Rightarrow> (header \<Rightarrow> real \<Rightarrow> real \<Rightarrow> sky_coord) \<Rightarrow> 'b catalog_row list
   \<Rightarrow> sky_coord list option \<Rightarrow> sky_coord list option result" where
  "coords_step fs from_pixel sources coords =
     bind_result (fits_open fs (fst (fst (hd sources)))) (\<lambda>h.
       (let new_pos = map (\<lambda>r. from_pixel (hdu_header h) (ycentroid (snd (fst r))) (xcentroid (snd (fst r))))
                        sources
        in Inr (case coords of
                  Some c \<Rightarrow> if c \<noteq> [] then Some (c @ new_pos) else Some new_pos
                | None \<Rightarrow> Some new_pos)))"

text \<open>\<open>del catalogs['ra']\<close> when present, then \<open>add_column(coords.ra, index=2)\<close>:
  \<open>AttributeError\<close> when \<open>coords\<close> is still \<open>None\<close>, \<open>ValueError\<close> for a column of
  another length.\<close>

definition del_column :: "string \<Rightarrow> string list \<Rightarrow> string list" where
  "del_column name colnames = (if name \<in> set colnames then removeAll name colnames else colnames)"

definition instrumental_catalog_name :: string where
  "instrumental_catalog_name = path_join red_data_dir ''instrumental_photometry.txt''"

definition coords_cell ::
  "fits_store \<Rightarrow> (header \<Rightarrow> real \<Rightarrow> real \<Rightarrow> sky_coord) \<Rightarrow> string list \<Rightarrow> 'b catalog_row list list
   \<Rightarrow> (string \<times> string list \<times> ('b catalog_row \<times> real \<times> real) list \<times> cell_output list) result" where
  "coords_cell fs from_pixel colnames groups =
     bind_result (fold_result (coords_step fs from_pixel) groups None) (\<lambda>coords.
       (let colnames = del_column ''dec'' (del_column ''ra'' colnames);
            rows = concat groups
        in case coords of
             None \<Rightarrow> Inl AttributeError
           | Some c \<Rightarrow>
               if length c \<noteq> length rows then Inl ValueError
               else Inr (instrumental_catalog_name,
                         insert_column 3 ''dec'' (insert_column 2 ''ra'' colnames),
                         map2 (\<lambda>r p. (r, ra p, dec p)) rows c,
                         [Display ''catalogs'' (min 10 (length rows))])))"

section \<open>Helpers of the coordinate claims\<close>

text \<open>Groups as \<open>group_by\<close> makes them: non-empty, one file per group, and that file
  on disk; and the position of a row read with its own file's WCS.\<close>

definition uniform_groups :: "fits_store \<Rightarrow> 'b catalog_row list list \<Rightarrow> bool" where
  "uniform_groups fs groups \<longleftrightarrow>
     (\<forall>g\<in>set groups. g \<noteq> [] \<and> (\<forall>r\<in>set g. fst (fst r) = fst (fst (hd g))) \<and> fs (fst (fst (hd g))) \<noteq> None)"

definition own_position :: "fits_store \<Rightarrow> (header \<Rightarrow> real \<Rightarrow> real \<Rightarrow> sky_coord) \<Rightarrow> 'b catalog_row \<Rightarrow> sky_coord" where
  "own_position fs from_pixel r =
     from_pixel (hdu_header (the (fs (fst (fst r))))) (ycentroid (snd (fst r))) (xcentroid (snd (fst r)))"

declare fits_open_def [model_eval] commentary_def [model_eval] extend_card_def [model_eval]
  header_extend_def [model_eval] header_get_def [model_eval] ends_with_def [model_eval]
  glob_pattern_def [model_eval] astrometry_dir_def [model_eval] clean_name_of_def [model_eval]
  calibrated_name_of_def [model_eval] calib_step_def [model_eval] calibration_cell_def [model_eval]
  pixel_scale_of_def [model_eval] pixel_scale_cell_def [model_eval] np_transpose_def [model_eval]
  stat_of_def [model_eval] statistics_cell_def [model_eval] sigma_detection_def [model_eval]
  fwhm_pixels_def [model_eval] detect_def [model_eval] tag_rows_def [model_eval] tag_photometry_def [model_eval] group_by_def [model_eval]
  detection_cell_def [model_eval] coords_step_def [model_eval] del_column_def [model_eval]
  instrumental_catalog_name_def [model_eval] coords_cell_def [model_eval]

section \<open>Headers\<close>

lemma update_first_get:
  "map_of (update_first k' v h) k = (if k = k' \<and> k' \<in> set (map fst h) then Some v else map_of h k)"
proof (induction h)
  case Nil
  then show ?case by simp
next
  case (Cons c h)
  then show ?case by (cases c) (force simp: map_of_eq_None_iff)
qed

lemma extend_card_get:
  assumes "\<not> commentary k"
  shows "header_get (extend_card h (k', v)) k = (if k' = k then Some v else header_get h k)"
proof (cases "commentary k' \<or> k' \<notin> set (map fst h)")
  case True
  note app = True
  show ?thesis
  proof (cases "k' = k")
    case True
    then have "map_of h k = None" using app assms by (auto simp: map_of_eq_None_iff)
    then show ?thesis using app True by (simp add: extend_card_def header_get_def map_add_def)
  next
    case False
    then show ?thesis using app
      by (simp add: extend_card_def header_get_def map_add_def split: option.split)
  qed
next
  case False
  then have "extend_card h (k', v) = update_first k' v h" by (simp add: extend_card_def)
  then show ?thesis using False by (simp add: header_get_def update_first_get)
qed

text \<open>After \<open>header.extend(wcs_header, update=True)\<close> a keyword other than a commentary
  keyword reads the value of its last card in the solution, or its old value when the
  solution does not have it.\<close>

lemma header_extend_get:
  "\<not> commentary k \<Longrightarrow>
   header_get (header_extend h kvs) k = (case map_of (rev kvs) k of Some v \<Rightarrow> Some v | None \<Rightarrow> header_get h k)"
proof (induction kvs arbitrary: h)
  case Nil
  then show ?case by (simp add: header_extend_def)
next
  case (Cons kv kvs)
  obtain k' v where kv: "kv = (k', v)" by force
  have "header_get (header_extend h (kv # kvs)) k = header_get (header_extend (extend_card h kv) kvs) k"
    by (simp add: header_extend_def)
  also have "\<dots> = (case map_of (rev kvs) k of Some v \<Rightarrow> Some v | None \<Rightarrow> header_get (extend_card h kv) k)"
    by (rule Cons.IH [OF Cons.prems])
  finally show ?case using extend_card_get [OF Cons.prems] kv
    by (auto simp: map_of_append split: option.splits)
qed

section \<open>Grouping the detections\<close>









lemma st_filename_stat_of [simp]: "st_filename (stat_of f e) = f"
  by (simp add: stat_of_def split_def Let_def)





section \<open>The coordinates of the catalog rows\<close>

lemma coords_step_uniform:
  assumes "g \<noteq> []" "\<forall>r\<in>set g. fst (fst r) = fst (fst (hd g))" "fs (fst (fst (hd g))) \<noteq> None"
  shows "coords_step fs from_pixel g coords
    = Inr (Some (case_option [] id coords @ map (own_position fs from_pixel) g))"
proof -
  obtain h where h: "fs (fst (fst (hd g))) = Some h" using assms(3) by blast
  have "map (\<lambda>r. from_pixel (hdu_header h) (ycentroid (snd (fst r))) (xcentroid (snd (fst r)))) g
      = map (own_position fs from_pixel) g"
    using assms(2) h by (auto simp: own_position_def)
  then show ?thesis using h by (auto simp: coords_step_def fits_open_def Let_def split: option.splits)
qed

lemma fold_coords_step:
  "uniform_groups fs gs \<Longrightarrow> fold_result (coords_step fs from_pixel) gs coords
     = Inr (if gs = [] then coords else Some (case_option [] id coords @ map (own_position fs from_pixel) (concat gs)))"
proof (induction gs arbitrary: coords)
  case Nil
  then show ?case by simp
next
  case (Cons g gs)
  have g: "g \<noteq> []" "\<forall>r\<in>set g. fst (fst r) = fst (fst (hd g))" "fs (fst (fst (hd g))) \<noteq> None"
    and gs: "uniform_groups fs gs"
    using Cons.prems unfolding uniform_groups_def by (simp_all (no_asm_use)) blast+
  let ?c = "Some (case_option [] id coords @ map (own_position fs from_pixel) g)"
  have "fold_result (coords_step fs from_pixel) (g # gs) coords
      = fold_result (coords_step fs from_pixel) gs ?c"
    by (simp only: fold_result.simps coords_step_uniform [of g fs from_pixel coords, OF g] bind_result_simps)
  also have "\<dots> = Inr (if gs = [] then ?c else Some (case_option [] id ?c @ map (own_position fs from_pixel) (concat gs)))"
    by (rule Cons.IH [OF gs])
  also have "\<dots> = Inr (Some (case_option [] id coords @ map (own_position fs from_pixel) (concat (g # gs))))"
    by simp
  finally show ?case by simp
qed
lemma map2_map_right: "map2 h xs (map f xs) = map (\<lambda>x. h x (f x)) xs"
  by (induction xs) auto

text \<open>C11: the coordinates cell gives every catalog row the sky position of its own
  centroid, read with the WCS of its own file (as \<open>from_pixel(ycentroid, xcentroid)\<close>),
  inserts \<open>ra\<close> and \<open>dec\<close> as the third and fourth columns, and writes the
  catalog under \<open>instrumental_photometry.txt\<close>, when the groups are those of
  \<open>group_by\<close> and their files exist.\<close>

theorem coords_own_wcs:
  assumes "groups \<noteq> []" "uniform_groups fs groups"
  shows "coords_cell fs from_pixel colnames groups
    = Inr (instrumental_catalog_name,
           insert_column 3 ''dec'' (insert_column 2 ''ra'' (del_column ''dec'' (del_column ''ra'' colnames))),
           map (\<lambda>r. (r, ra (own_position fs from_pixel r), dec (own_position fs from_pixel r))) (concat groups),
           [Display ''catalogs'' (min 10 (length (concat groups)))])"
  using assms by (simp add: coords_cell_def fold_coords_step Let_def map2_map_right)

theorem coords_own_wcs_witness:
  "coords_cell [''f'' \<mapsto> \<lparr>hdu_header = [], hdu_data = []\<rparr>] (\<lambda>h x y. \<lparr>ra = x, dec = y\<rparr>) [''id'', ''valid'']
     [[((''f'', \<lparr>sharpness = 0, roundness1 = 0, peak = 0, xcentroid = 1, ycentroid = 2\<rparr>), True)]]
   = Inr (instrumental_catalog_name, [''id'', ''valid'', ''ra'', ''dec''],
          [(((''f'', \<lparr>sharpness = 0, roundness1 = 0, peak = 0, xcentroid = 1, ycentroid = 2\<rparr>), True), 2, 1)],
          [Display ''catalogs'' 1])"
  using coords_own_wcs [of "[[((''f'', \<lparr>sharpness = 0, roundness1 = 0, peak = 0, xcentroid = 1, ycentroid = 2\<rparr>), True)]]"
      "[''f'' \<mapsto> \<lparr>hdu_header = [], hdu_data = []\<rparr>]" "\<lambda>h x y. \<lparr>ra = x, dec = y\<rparr>" "[''id'', ''valid'']"]
  by (simp add: uniform_groups_def own_position_def insert_column_def del_column_def)

end
