(* ===== verification/Display.thy ===== *)
theory Display
  imports Detection Photometry
begin

text \<open>
  The display side of the notebooks: the plotting helper \<open>plot\<close> of
  src/notebooks/plotfits.ipynb (lines 37--66), which photutils.ipynb loads with
  \<open>%run\<close>, and the cells of photutils.ipynb that print, plot or show what the
  computing cells bound: the first detections (lines 220--228), the validity cell with
  its report and plot (lines 244--268), the rejected sources (lines 284--288), the PSF
  star table (lines 354--360), the profile plot (lines 464--485), the 2D
  background (lines 508--516), the apertures (lines 546--554, 604--613), the comparison
  of the backgrounds (lines 682--686, 712--722), the stamp, the annulus mask and its
  cutout (lines 747--802).  Each cell is a function of the variables it reads that
  returns what it binds and the list of what it shows.  The cells from line 511 on read
  \<open>sdss_g_hdu_list[0].data\<close> and call \<open>my_python_ds9\<close>, which the notebook never
  defines; the data is a parameter \<open>data\<close> and the viewer a call.
\<close>

section \<open>The plotting helper of plotfits.ipynb\<close>

text \<open>\<open>numpy.percentile\<close> with linear interpolation between the sorted values; an
  empty array raises \<open>IndexError\<close>.\<close>

definition np_percentile :: "real list \<Rightarrow> real \<Rightarrow> real result" where
  "np_percentile xs q =
     (if xs = [] then Inl IndexError
      else (let s = sort xs; r = q / 100 * real (length xs - 1); i = nat (floor r); f = r - of_int (floor r)
            in Inr (if i + 1 < length s then s ! i + f * (s ! (i + 1) - s ! i) else s ! i)))"

text \<open>\<open>simple_norm(image, percent=99)\<close>: a linear stretch between the 0.5 and 99.5
  percentiles of all the pixels.\<close>

definition simple_norm :: "image \<Rightarrow> (real \<times> real) result" where
  "simple_norm img =
     bind_result (np_percentile (concat img) (1 / 2)) (\<lambda>vmin.
     bind_result (np_percentile (concat img) (199 / 2)) (\<lambda>vmax. Inr (vmin, vmax)))"

text \<open>\<open>plot(filename, ext=0)\<close>: the transposed data with the transposed WCS as
  projection when the header is celestial; the axes are labelled and ticked only then.
  Whether the header's WCS is celestial is a parameter.\<close>

definition plot_fits :: "fits_store \<Rightarrow> (header \<Rightarrow> bool) \<Rightarrow> string \<Rightarrow> nat \<Rightarrow> cell_output list result" where
  "plot_fits fs is_celestial filename ext =
     bind_result (fits_open fs filename) (\<lambda>hdu.
       if ext \<noteq> 0 then Inl IndexError
       else
         (let image = np_transpose (hdu_data hdu);
              celestial = is_celestial (hdu_header hdu);
              projection = (if celestial then [(''subplot_kw'', VStr ''projection=wcsheader'')] else [])
          in bind_result (simple_norm image) (\<lambda>(vmin, vmax).
               Inr ([Call ''subplots'' [] (projection @ [(''figsize'', VList [VInt 9, VInt 4])]),
                     Call ''imshow'' [v_image image]
                       [(''norm'', VList [VReal vmin, VReal vmax]), (''origin'', VStr ''lower''),
                        (''cmap'', VStr ''Greys_r'')],
                     Call ''invert_yaxis'' [] [], Call ''colorbar'' [] []]
                    @ (if celestial then
                         [Call ''grid'' [] [(''color'', VStr ''yellow''), (''ls'', VStr ''solid'')],
                          Call ''lon.set_axislabel'' [VStr ''Right Ascension''] [],
                          Call ''lon.set_ticks_position'' [VStr ''l''] [],
                          Call ''lon.set_ticklabel_position'' [VStr ''l''] [],
                          Call ''lat.set_axislabel'' [VStr ''Declination''] [],
                          Call ''lat.set_ticks_position'' [VStr ''b''] [],
                          Call ''lat.set_ticklabel_position'' [VStr ''b''] []]
                       else [])
                    @ [Call ''show'' [VStr ''fig''] []]))))"

section \<open>Detections and their validity\<close>

definition centroid_scatter :: "'b psf_source_scheme list \<Rightarrow> (string \<times> py_value) list \<Rightarrow> cell_output" where
  "centroid_scatter sources kwargs =
     Call ''scatter'' [v_reals (map xcentroid sources), v_reals (map ycentroid sources)] kwargs"

text \<open>Lines 220--228: the first group's file plotted with its detections;
  \<open>IndexError\<close> when there is no group.\<close>

definition first_image_cell ::
  "fits_store \<Rightarrow> (header \<Rightarrow> bool) \<Rightarrow> (string \<times> 'b psf_source_scheme) list list
   \<Rightarrow> (string \<times> cell_output list) result" where
  "first_image_cell fs is_celestial groups =
     (case groups of
        [] \<Rightarrow> Inl IndexError
      | sources # _ \<Rightarrow>
          (let filename = fst (hd sources)
           in bind_result (plot_fits fs is_celestial filename 0) (\<lambda>shown.
                Inr (filename, shown @ [centroid_scatter (map snd sources)
                                         [(''alpha'', VReal (1 / 2)), (''color'', VStr ''limegreen'')]]))))"

text \<open>What the validity loop leaves bound after its last iteration: \<open>filename\<close>,
  \<open>sources\<close>, \<open>sharpness\<close>, \<open>roundness\<close> and \<open>mask\<close> of the last group.\<close>

record 'b validity_vars =
  last_filename :: string
  last_sources :: "'b list"
  last_mask :: "bool list"

text \<open>Lines 244--268: the loop prints its count for every group, the column is added,
  and the sharpness and roundness of the last group are plotted with its valid stars in
  red; with no group the names of the plot are unbound.\<close>

definition validity_report :: "string \<Rightarrow> 'a star_row_scheme list \<Rightarrow> cell_output" where
  "validity_report filename sources =
     Print [VFormat ''Found {} of {} valid stars in {}''
              [VInt (int (length (filter id (star_mask sources)))), VInt (int (length sources)), VStr filename]]"

definition validity_cell ::
  "string list \<Rightarrow> (string \<times> 'b psf_source_scheme) list list
   \<Rightarrow> (((string \<times> 'b psf_source_scheme) \<times> bool) list \<times> 'b psf_source_scheme validity_vars \<times> cell_output list) result" where
  "validity_cell keys groups =
     (let srcs = map (map snd) groups;
          reports = map2 validity_report keys srcs
      in bind_result (add_column (concat groups) (valid_loop [] srcs)) (\<lambda>catalogs.
           if groups = [] then Inl NameError
           else
             (let sources = last srcs; mask = star_mask sources;
                  sharp = map sharpness sources; round = map roundness1 sources;
                  selected = map fst (filter snd (zip sources mask))
              in Inr (catalogs,
                      \<lparr>last_filename = last keys, last_sources = sources, last_mask = mask\<rparr>,
                      reports @
                      [Call ''figure'' [] [], Call ''scatter'' [v_reals sharp, v_reals round] [],
                       Call ''scatter'' [v_reals (map sharpness selected), v_reals (map roundness1 selected)]
                         [(''color'', VStr ''red'')],
                       Call ''show'' [VStr ''fig''] []]))))"

text \<open>Lines 284--288: the last group's file, all its sources in green and the rejected
  ones (\<open>~mask\<close>) in red, then the first rows of the catalog.\<close>

definition rejected_cell ::
  "fits_store \<Rightarrow> (header \<Rightarrow> bool) \<Rightarrow> 'b psf_source_scheme validity_vars \<Rightarrow> nat \<Rightarrow> cell_output list result" where
  "rejected_cell fs is_celestial vars catalog_length =
     bind_result (plot_fits fs is_celestial (last_filename vars) 0) (\<lambda>shown.
       Inr (shown @
            [centroid_scatter (last_sources vars) [(''alpha'', VReal (1 / 2)), (''color'', VStr ''limegreen'')],
             centroid_scatter (map fst (filter (Not \<circ> snd) (zip (last_sources vars) (last_mask vars))))
               [(''alpha'', VReal (1 / 2)), (''color'', VStr ''red'')],
             Display ''catalogs'' (min 10 catalog_length)]))"

text \<open>Lines 354--360: the PSF star table and its display.\<close>

definition psf_cell :: "('a \<Rightarrow> real) \<Rightarrow> ('a \<Rightarrow> bool) \<Rightarrow> 'a list list \<Rightarrow> ('a list \<times> cell_output list) result" where
  "psf_cell mag valid groups =
     bind_result (psf_sources mag valid groups) (\<lambda>psf_stars.
       Inr (psf_stars, [Display ''psf_sources'' (length psf_stars)]))"

section \<open>The profile fit\<close>

text \<open>The model choice and FWHM cells (lines 406--448) read names no earlier cell binds;
  they are modelled on the notebook's namespace in \<open>PsfCells\<close>.\<close>

text \<open>\<open>np.linspace(start, stop, num)\<close>, both ends included; a negative \<open>num\<close> raises
  \<open>ValueError\<close>.\<close>

definition np_linspace :: "real \<Rightarrow> real \<Rightarrow> int \<Rightarrow> real list result" where
  "np_linspace start stop num =
     (if num < 0 then Inl ValueError
      else if num = 1 then Inr [start]
      else Inr (map (\<lambda>i. start + real i * (stop - start) / (of_int num - 1)) [0..<nat num]))"

text \<open>Lines 464--485: the colour from the fit value, the profile points, the model on
  \<open>rx\<close> with its label, the axes and the legend; \<open>max\<close> of an empty profile raises
  \<open>ValueError\<close>.\<close>

definition fit_plot_cell ::
  "string \<Rightarrow> psf_model \<Rightarrow> real \<Rightarrow> real \<Rightarrow> real \<Rightarrow> real list \<times> real list \<Rightarrow> cell_output list result" where
  "fit_plot_cell model fitted_model final_func_val fwhm source_flux profile =
     (let (flux_counts, pixel_distance) = profile;
          color = (if final_func_val < 5 then ''green'' else ''red'')
      in if pixel_distance = [] then Inl ValueError
         else
           (let top = py_int (Max (set pixel_distance))
            in bind_result (np_linspace 0 (of_int top) (top * 10)) (\<lambda>rx.
                 Inr [Call ''figure'' [] [],
                      Call ''plot'' [v_reals pixel_distance, v_reals flux_counts, VStr ''ko''] [],
                      Call ''plot'' [v_reals rx, v_reals (map (psf_value fitted_model) rx)]
                        [(''color'', VStr color), (''lw'', VReal 3),
                         (''label'', VFormat ''SN: %.2f, Fit: %.2f, FWHM: %.2f\"''
                                       [VReal (source_flux * sigma_detection), VReal final_func_val, VReal fwhm])],
                      Call ''xlabel'' [VStr ''Distance (pixels)''] [],
                      Call ''ylabel'' [VStr ''Normalized flux (ADU)''] [],
                      Call ''title'' [VFormat ''%s profile fit'' [VStr model]] [],
                      Call ''legend'' [] [], Call ''show'' [] []])))"

section \<open>Background and apertures\<close>

text \<open>Lines 508--516: \<open>Background2D\<close> with its box, filter, clipping and estimator is a
  parameter; the background is shown.\<close>

definition background_cell :: "(image \<Rightarrow> image) \<Rightarrow> image \<Rightarrow> (image \<times> cell_output list)" where
  "background_cell background2d data =
     (let bkg = background2d data in (bkg, [Call ''my_python_ds9'' [v_image bkg] []]))"

text \<open>\<open>data[0:400, 0:400]\<close>.\<close>

definition corner_400 :: "image \<Rightarrow> image" where
  "corner_400 data = map (\<lambda>row. np_slice row 0 400) (np_slice data 0 400)"

definition positions_value :: "(real \<times> real) list \<Rightarrow> py_value" where
  "positions_value positions = VList [v_reals (map fst positions), v_reals (map snd positions)]"

text \<open>Lines 546--554: the apertures of radius 5 on the sources, drawn over the corner
  of the image.\<close>

definition aperture_display_cell ::
  "image \<Rightarrow> 'b psf_source_scheme list \<Rightarrow> ((real \<times> real) list \<times> aperture_shape \<times> cell_output list)" where
  "aperture_display_cell data sources =
     (let positions = source_positions sources
      in (positions, apertures,
          [Call ''my_python_ds9'' [v_image (corner_400 data)] [],
           Call ''apertures.plot'' [positions_value positions, VReal aperture_radius]
             [(''color'', VStr ''limegreen''), (''lw'', VInt 2)]]))"

text \<open>Lines 604--613: the annuli of radii 10 and 15, drawn with the apertures.\<close>

definition annulus_display_cell ::
  "image \<Rightarrow> (real \<times> real) list \<Rightarrow> (aperture_shape \<times> cell_output list)" where
  "annulus_display_cell data positions =
     (annulus_apertures,
      [Call ''my_python_ds9'' [v_image (corner_400 data)] [],
       Call ''apertures.plot'' [positions_value positions, VReal aperture_radius]
         [(''color'', VStr ''limegreen''), (''lw'', VInt 2)],
       Call ''annulus_apertures.plot'' [positions_value positions, VReal r_in, VReal r_out]
         [(''color'', VStr ''purple''), (''lw'', VInt 2), (''alpha'', VInt 1)]])"

section \<open>Comparison of the backgrounds\<close>

text \<open>Lines 682--686: local against global background.\<close>

definition compare_plot_cell :: "phot_row list \<Rightarrow> phot_row list \<Rightarrow> cell_output list" where
  "compare_plot_cell local_rows global_rows =
     [Call ''scatter'' [v_reals (map residual_aperture_sum local_rows),
                        v_reals (map (\<lambda>row. aperture_sums row ! 0) global_rows)] [],
      Call ''xlim'' [VInt 0, VInt 100] [], Call ''ylim'' [VInt 0, VInt 100] [],
      Call ''xlabel'' [VStr ''Local background''] [], Call ''ylabel'' [VStr ''Global background''] []]"

text \<open>Lines 712--722: the two selections and their centres over the image.\<close>

definition selection_display_cell ::
  "image \<Rightarrow> phot_row list \<Rightarrow> phot_row list \<Rightarrow> ((phot_row list \<times> phot_row list) \<times> cell_output list) result" where
  "selection_display_cell data local_rows global_rows =
     bind_result (very_different local_rows global_rows) (\<lambda>vd.
     bind_result (quite_similar local_rows global_rows) (\<lambda>qs.
       Inr ((vd, qs),
            [Call ''my_python_ds9'' [v_image data] [],
             Call ''scatter'' [v_reals (map xcenter vd), v_reals (map ycenter vd)]
               [(''c'', VStr ''red''), (''alpha'', VReal (1 / 2))],
             Call ''scatter'' [v_reals (map xcenter qs), v_reals (map ycenter qs)]
               [(''c'', VStr ''limegreen''), (''alpha'', VReal (1 / 2))]])))"

section \<open>The stamp, the annulus mask and its cutout\<close>

text \<open>Lines 747--760: the stamp of source 12 shown.\<close>

definition stamp_display_cell :: "image \<Rightarrow> phot_row list \<Rightarrow> (image \<times> cell_output list) result" where
  "stamp_display_cell data local_rows =
     bind_result (stamp data local_rows) (\<lambda>s.
       Inr (s, [Call ''my_python_ds9'' [v_image s] [], Call ''grid'' [VStr ''off''] []]))"

text \<open>Lines 776--782: the mask of the annulus around the source (\<open>to_mask\<close> is
  geometry the notebook only calls, a parameter) shown.\<close>

definition mask_display_cell ::
  "(aperture_shape \<Rightarrow> real \<times> real \<Rightarrow> aperture_mask) \<Rightarrow> real \<times> real \<Rightarrow> (aperture_mask \<times> cell_output list)" where
  "mask_display_cell to_mask position =
     (let m0 = to_mask annulus_apertures position
      in (m0, [Call ''imshow'' [v_image (mask_data m0)] [], Call ''grid'' [VStr ''off''] []]))"

text \<open>Lines 798--802: the cutout of the data under the mask shown.\<close>

definition cutout_display_cell :: "aperture_mask \<Rightarrow> image \<Rightarrow> (image \<times> cell_output list)" where
  "cutout_display_cell m0 data =
     (let cutout_data = mask_apply m0 data
      in (cutout_data, [Call ''imshow'' [v_image cutout_data] [], Call ''grid'' [VStr ''off''] []]))"

declare np_percentile_def [model_eval] simple_norm_def [model_eval] plot_fits_def [model_eval]
  centroid_scatter_def [model_eval] first_image_cell_def [model_eval] validity_report_def [model_eval]
  validity_cell_def [model_eval] rejected_cell_def [model_eval] psf_cell_def [model_eval]
  np_linspace_def [model_eval]
  fit_plot_cell_def [model_eval] background_cell_def [model_eval] corner_400_def [model_eval]
  positions_value_def [model_eval] aperture_display_cell_def [model_eval]
  annulus_display_cell_def [model_eval] compare_plot_cell_def [model_eval]
  selection_display_cell_def [model_eval] stamp_display_cell_def [model_eval]
  mask_display_cell_def [model_eval] cutout_display_cell_def [model_eval]

section \<open>Properties of the display helpers\<close>

text \<open>\<open>np.linspace\<close> with at least two points starts at \<open>start\<close>, ends at \<open>stop\<close>
  and has \<open>num\<close> points.\<close>

lemma np_linspace_ends:
  assumes "2 \<le> num"
  shows "\<exists>rx. np_linspace start stop num = Inr rx \<and> length rx = nat num \<and> hd rx = start \<and> last rx = stop"
proof -
  have n: "[0..<nat num] \<noteq> []" "last [0..<nat num] = nat num - 1" using assms by auto
  have "real (nat num - 1) = of_int num - 1" using assms by simp
  moreover have "of_int num - 1 \<noteq> (0::real)" using assms by simp
  ultimately have "start + real (nat num - 1) * (stop - start) / (of_int num - 1) = stop" by simp
  then show ?thesis using assms n by (simp add: np_linspace_def hd_map last_map)
qed

text \<open>The column the validity cell adds is, row by row, the masks of the groups whose
  counts it prints.\<close>

lemma validity_cell_counts:
  assumes "validity_cell keys groups = Inr (catalogs, vars, out)"
  shows "map snd catalogs = concat (map (star_mask \<circ> map snd) groups)"
  using assms by (auto simp: validity_cell_def Let_def add_column_def valid_loop_concat
      split: if_splits)
end
