(* ===== verification/Pipeline.thy ===== *)
theory Pipeline
  imports Standard Join Sky Detection
begin

text \<open>
  The cells of the standardisation notebook (src/unnamed/part_000) as a pipeline over
  tables that carry their column names: reading the instrumental catalog (lines
  23--36), the two images (52--61), the index table (77--86), the join with the column
  tidy-up and the colour (102--128), the reference catalog (144--146), its cross-match
  (155--167), the regression (187--205) and the written result (221--225).  A column
  read by name raises \<open>KeyError\<close> when the table does not have it.  The Vizier query
  is a parameter.
\<close>

section \<open>Tables with column names\<close>

record 'r table =
  colnames :: "string list"
  rows :: "'r list"

definition need_cols :: "'r table \<Rightarrow> string list \<Rightarrow> unit result" where
  "need_cols t names = (if set names \<subseteq> set (colnames t) then Inr () else Inl KeyError)"

text \<open>A row of the instrumental catalog, the columns the notebook reads; \<open>valid\<close>
  comes back from the text file as a string.\<close>

record cat_row =
  cat_filename :: string
  cat_valid :: string
  cat_ra :: degrees
  cat_dec :: degrees
  cat_mag :: real

text \<open>A row of the reference catalog J/A+A/470/585: right ascension in hours,
  declination in degrees, and the masked \<open>b-y\<close> colour.\<close>

record std_row =
  raj2000 :: real
  dej2000 :: degrees
  std_by :: real
  std_by_mask :: bool

section \<open>Reading the instrumental catalog (lines 23--61)\<close>

definition vizier_row_limit :: int where
  "vizier_row_limit = -1"

definition read_catalog_name :: string where
  "read_catalog_name = path_join red_data_dir ''instrumental_photometry.txt''"

definition read_cell ::
  "(string \<Rightarrow> cat_row table option) \<Rightarrow> (cat_row table \<times> cell_output list) result" where
  "read_cell text_files =
     (case text_files read_catalog_name of
        None \<Rightarrow> Inl FileNotFoundError
      | Some read_catalog \<Rightarrow>
          bind_result (need_cols read_catalog [''valid'']) (\<lambda>_.
            (let catalog = read_catalog\<lparr>rows := select_valid cat_valid (rows read_catalog)\<rparr>
             in Inr (catalog, [Print [VInt (int (length (rows read_catalog))), VInt (int (length (rows catalog)))],
                               Display ''catalog'' (min 5 (length (rows catalog)))]))))"

definition select_cell :: "cat_row table \<Rightarrow> ((cat_row table \<times> cat_row table) \<times> cell_output list) result" where
  "select_cell catalog =
     bind_result (need_cols catalog [''Filename'']) (\<lambda>_.
       (let b_catalog = catalog\<lparr>rows := select_file cat_filename b_image (rows catalog)\<rparr>;
            y_catalog = catalog\<lparr>rows := select_file cat_filename y_image (rows catalog)\<rparr>
        in Inr ((b_catalog, y_catalog),
                [Print [VInt (int (length (rows catalog))), VInt (int (length (rows b_catalog))),
                        VInt (int (length (rows y_catalog)))],
                 Display ''b_catalog'' (min 5 (length (rows b_catalog)))])))"

section \<open>The first cross-match, tidy-up and colour (lines 77--128)\<close>

definition cat_position :: "cat_row \<Rightarrow> sky_coord" where
  "cat_position r = \<lparr>ra = cat_ra r, dec = cat_dec r\<rparr>"

definition index_cell :: "cat_row table \<Rightarrow> cat_row table \<Rightarrow> (match_row list \<times> cell_output list) result" where
  "index_cell b_catalog y_catalog =
     bind_result (need_cols b_catalog [''ra'', ''dec'']) (\<lambda>_.
     bind_result (need_cols y_catalog [''ra'', ''dec'']) (\<lambda>_.
     bind_result (match_to_catalog_sky separation (map cat_position (rows b_catalog))
                    (map cat_position (rows y_catalog))) (\<lambda>pos_by.
       Inr (pos_by, [Display ''pos_by'' (min 5 (length pos_by))]))))"

definition join_cell ::
  "match_row list \<Rightarrow> cat_row table \<Rightarrow> cat_row table
   \<Rightarrow> (((cat_row \<times> cat_row) \<times> real) table \<times> cell_output list) result" where
  "join_cell pos_by b_catalog y_catalog =
     bind_result (join_catalogs pos_by (rows b_catalog) (rows y_catalog)) (\<lambda>matched.
     bind_result (tidy_columns (joined_colnames (colnames b_catalog) (colnames y_catalog))) (\<lambda>names.
       (let phot_ins = \<lparr>colnames = names, rows = matched\<rparr>
        in bind_result (need_cols phot_ins [''mag_b'', ''mag_y'']) (\<lambda>_.
             (let by_col = colour (cat_mag \<circ> fst) (cat_mag \<circ> snd) matched;
                  phot_ins = \<lparr>colnames = names @ [''mag_b-y''], rows = zip matched by_col\<rparr>
              in Inr (phot_ins, [Display ''phot_ins'' (min 5 (length (rows phot_ins)))]))))))"

section \<open>The reference catalog and the second cross-match (lines 144--167)\<close>

definition vizier_cell :: "(int \<Rightarrow> std_row table) \<Rightarrow> (std_row table \<times> cell_output list) result" where
  "vizier_cell get_catalogs =
     (let phot_std = get_catalogs vizier_row_limit
      in bind_result (need_cols phot_std [''b-y'']) (\<lambda>_.
           (let phot_std = phot_std\<lparr>rows := select_unmasked
                             (\<lambda>r. if std_by_mask r then None else Some (std_by r)) (rows phot_std)\<rparr>
            in Inr (phot_std, [Display ''phot_std'' (min 5 (length (rows phot_std)))]))))"

text \<open>\<open>unit=('hourangle', 'degree')\<close>: fifteen degrees to the hour.\<close>

definition std_position :: "std_row \<Rightarrow> sky_coord" where
  "std_position r = \<lparr>ra = 15 * raj2000 r, dec = dej2000 r\<rparr>"

definition ins_position :: "(cat_row \<times> cat_row) \<times> real \<Rightarrow> sky_coord" where
  "ins_position r = cat_position (fst (fst r))"

definition std_match_cell ::
  "std_row table \<Rightarrow> ((cat_row \<times> cat_row) \<times> real) table
   \<Rightarrow> ((std_row \<times> (cat_row \<times> cat_row) \<times> real) table \<times> cell_output list) result" where
  "std_match_cell phot_std phot_ins =
     bind_result (need_cols phot_std [''RAJ2000'', ''DEJ2000'']) (\<lambda>_.
     bind_result (need_cols phot_ins [''ra_b'', ''dec_b'']) (\<lambda>_.
     bind_result (match_to_catalog_sky separation (map std_position (rows phot_std))
                    (map ins_position (rows phot_ins))) (\<lambda>pos_std_ins.
     bind_result (join_catalogs pos_std_ins (rows phot_std) (rows phot_ins)) (\<lambda>matched.
       (let phot_std_ins = \<lparr>colnames = joined_colnames (colnames phot_std) (colnames phot_ins),
                            rows = matched\<rparr>
        in Inr (phot_std_ins,
                [Print [VStr ''Number of matched stars:'', VInt (int (length matched)), VStr ''of'',
                        VInt (int (length (rows phot_ins)))],
                 Display ''phot_std_ins'' (min 5 (length matched))]))))))"

section \<open>The regression and the result (lines 187--225)\<close>

text \<open>\<open>regression.stderr\<close>, the standard error of the slope:
  \<open>sqrt((1 - r**2) * ssym / ssxm / (n - 2))\<close>, with \<open>r = 0\<close> when \<open>y\<close> has no spread
  (as scipy sets it); not finite with fewer than three points or no spread in \<open>x\<close>.\<close>

definition linregress_stderr :: "real list \<Rightarrow> real list \<Rightarrow> real option" where
  "linregress_stderr x y =
     (let xmean = mean_list x; ymean = mean_list y;
          ssxm = sum_list (map (\<lambda>a. (a - xmean)\<^sup>2) x);
          ssym = sum_list (map (\<lambda>b. (b - ymean)\<^sup>2) y);
          ssxym = sum_list (map2 (\<lambda>a b. (a - xmean) * (b - ymean)) x y);
          r2 = (if ssym = 0 then 0 else ssxym\<^sup>2 / (ssxm * ssym))
      in if length x \<noteq> length y \<or> length x \<le> 2 \<or> ssxm = 0 then None
         else Some (sqrt ((1 - r2) * ssym / ssxm / real (length x - 2))))"

definition regression_cell ::
  "(std_row \<times> (cat_row \<times> cat_row) \<times> real) table
   \<Rightarrow> (((std_row \<times> (cat_row \<times> cat_row) \<times> real) \<times> real option) table \<times> cell_output list) result" where
  "regression_cell phot_std_ins =
     bind_result (need_cols phot_std_ins [''mag_b-y'', ''b-y'']) (\<lambda>_.
       (let x = map (\<lambda>r. snd (snd r)) (rows phot_std_ins);
            y = map (\<lambda>r. std_by (fst r)) (rows phot_std_ins);
            regression = linregress x y;
            fit = (case regression of
                     None \<Rightarrow> map (\<lambda>_. None) x
                   | Some (slope, intercept) \<Rightarrow> map (\<lambda>a. Some (intercept + slope * a)) x);
            table = \<lparr>colnames = colnames phot_std_ins @ [''final_b-y''], rows = zip (rows phot_std_ins) fit\<rparr>
        in Inr (table,
                [Print [VStr ''Slope:'', v_opt (map_option fst regression)],
                 Print [VStr ''Zeropoint:'', v_opt (map_option snd regression)],
                 Print [VStr ''Residuals:'', v_opt (linregress_stderr x y)],
                 Call ''plot'' [v_reals x, v_reals y, VStr ''o''] [],
                 Call ''plot'' [v_reals x, VList (map v_opt fit), VStr ''r''] [],
                 Call ''xlabel'' [VStr ''$(b-y)_{ins}$''] [],
                 Call ''ylabel'' [VStr ''$(b-y)_{std}$''] []])))"

definition standard_catalog_name :: string where
  "standard_catalog_name = path_join red_data_dir ''standard_photometry.txt''"

text \<open>The file is written (line 223) before line 225 reads the three columns; a
  missing column makes the cell's result the \<open>KeyError\<close>.\<close>

definition write_cell :: "'r table \<Rightarrow> ((string \<times> 'r table) \<times> cell_output list) result" where
  "write_cell phot_std_ins =
     bind_result (need_cols phot_std_ins [''ra_b'', ''dec_b'', ''final_b-y'']) (\<lambda>_.
       Inr ((standard_catalog_name, phot_std_ins), [Display ''phot_std_ins'' (min 5 (length (rows phot_std_ins)))]))"

section \<open>The notebook\<close>

text \<open>All cells in order, each reading what the earlier ones bound, with the outputs of
  all of them.\<close>

definition standardisation ::
  "(string \<Rightarrow> cat_row table option) \<Rightarrow> (int \<Rightarrow> std_row table)
   \<Rightarrow> ((string \<times> ((std_row \<times> (cat_row \<times> cat_row) \<times> real) \<times> real option) table) \<times> cell_output list) result" where
  "standardisation text_files get_catalogs =
     bind_result (read_cell text_files) (\<lambda>(catalog, o1).
     bind_result (select_cell catalog) (\<lambda>((b_catalog, y_catalog), o2).
     bind_result (index_cell b_catalog y_catalog) (\<lambda>(pos_by, o3).
     bind_result (join_cell pos_by b_catalog y_catalog) (\<lambda>(phot_ins, o4).
     bind_result (vizier_cell get_catalogs) (\<lambda>(phot_std, o5).
     bind_result (std_match_cell phot_std phot_ins) (\<lambda>(phot_std_ins, o6).
     bind_result (regression_cell phot_std_ins) (\<lambda>(result, o7).
     bind_result (write_cell result) (\<lambda>(written, o8).
       Inr (written, o1 @ o2 @ o3 @ o4 @ o5 @ o6 @ o7 @ o8)))))))))"

section \<open>Column names through the notebook\<close>

text \<open>The instrumental columns after the tidy-up of line 122.\<close>

definition ins_tidied :: "string list" where
  "ins_tidied = map (\<lambda>c. c @ ''_b'') instrumental_colnames @ map (\<lambda>c. c @ ''_y'') instrumental_colnames"

section \<open>No missing column\<close>

lemma bind_result_not:
  "r \<noteq> Inl e \<Longrightarrow> (\<And>v. r = Inr v \<Longrightarrow> f v \<noteq> Inl e) \<Longrightarrow> bind_result r f \<noteq> Inl e"
  by (cases r) auto

lemma join_catalogs_at_not_KeyError: "join_catalogs_at tol it l r \<noteq> Inl KeyError"
proof
  assume j: "join_catalogs_at tol it l r = Inl KeyError"
  have f: "fancy_index rt idxs \<noteq> Inl KeyError" for rt :: "'r list" and idxs
    by (simp add: fancy_index_def)
  have h: "hstack it' lt rt' \<noteq> Inl KeyError" for it' and lt :: "'l list" and rt' :: "'r list"
    by (simp add: hstack_def)
  have b: "broadcast_and a c \<noteq> Inl KeyError" for a c by (simp add: broadcast_and_def)
  have m: "mask_rows rs fl \<noteq> Inl KeyError" for rs :: "('l, 'r) matched_row list" and fl
    by (simp add: mask_rows_def)
  show False using j
    unfolding join_catalogs_at_def Let_def by (simp add: f h b m split: sum.splits)
qed

lemma match_to_catalog_sky_not_KeyError: "match_to_catalog_sky sep qs cat \<noteq> Inl KeyError"
  by (simp add: match_to_catalog_sky_def split: list.splits)

lemma instrumental_colnames_facts:
  "distinct instrumental_colnames" "''index'' \<notin> set instrumental_colnames"
  "''distance'' \<notin> set instrumental_colnames"
  "\<forall>c\<in>set instrumental_colnames. \<not> sublist ''_2'' c \<and> \<not> sublist ''_3'' c"
  "set [''valid'', ''Filename'', ''ra'', ''dec''] \<subseteq> set instrumental_colnames"
  by (simp_all add: instrumental_colnames_def daofind_colnames_def insert_column_def sublist_code)

lemma tidy_instrumental: "tidy_columns (joined_colnames instrumental_colnames instrumental_colnames) = Inr ins_tidied"
  using instrumental_colnames_facts
  by (simp add: joined_colnames_same tidy_suffixed_columns ins_tidied_def)

lemma ins_tidied_facts:
  "set [''mag_b'', ''mag_y'', ''ra_b'', ''dec_b''] \<subseteq> set ins_tidied"
  "''index'' \<notin> set ins_tidied" "''distance'' \<notin> set ins_tidied" "''mag_b-y'' \<notin> set ins_tidied"
  by (simp_all add: ins_tidied_def instrumental_colnames_def daofind_colnames_def insert_column_def)

lemma hstack_names_disjoint3:
  assumes "set t1 \<inter> set t2 = {}" "set t1 \<inter> set t3 = {}" "set t2 \<inter> set t3 = {}"
  shows "hstack_names [a, b, c] [t1, t2, t3] = t1 @ t2 @ t3"
proof -
  let ?P = "\<lambda>n. 1 < length (filter (\<lambda>t. n \<in> set t) [t1, t2, t3])"
  have np: "\<not> ?P n" if "n \<in> set t1 \<or> n \<in> set t2 \<or> n \<in> set t3" for n
    using that assms by auto
  have keep: "map (\<lambda>n. if ?P n then n @ ''_'' @ s else n) t = t"
    if t: "t = t1 \<or> t = t2 \<or> t = t3" for t s
  proof (rule map_idI)
    fix n assume "n \<in> set t"
    then have "\<not> ?P n" using t np by blast
    then show "(if ?P n then n @ ''_'' @ s else n) = n" by (rule if_not_P)
  qed
  show ?thesis unfolding hstack_names_def
    using keep [of t1 a] keep [of t2 b] keep [of t3 c] by simp
qed

lemma read_cell_cols:
  assumes "text_files read_catalog_name = Some t" "colnames t = instrumental_colnames"
  shows "\<exists>catalog o1. read_cell text_files = Inr (catalog, o1) \<and> colnames catalog = instrumental_colnames"
  using assms instrumental_colnames_facts(5) by (simp add: read_cell_def need_cols_def)

lemma select_cell_cols:
  assumes "colnames catalog = instrumental_colnames"
  shows "\<exists>b y o2. select_cell catalog = Inr ((b, y), o2)
           \<and> colnames b = instrumental_colnames \<and> colnames y = instrumental_colnames"
  using assms instrumental_colnames_facts(5) by (simp add: select_cell_def need_cols_def)

lemma index_cell_not_KeyError:
  assumes "colnames b = instrumental_colnames" "colnames y = instrumental_colnames"
  shows "index_cell b y \<noteq> Inl KeyError"
  using assms instrumental_colnames_facts(5)
  by (simp add: index_cell_def need_cols_def bind_result_def split: sum.splits)
    (metis match_to_catalog_sky_not_KeyError)

lemma join_cell_cols:
  assumes "colnames b = instrumental_colnames" "colnames y = instrumental_colnames"
  shows "join_cell pos_by b y \<noteq> Inl KeyError
    \<and> (\<forall>p o4. join_cell pos_by b y = Inr (p, o4) \<longrightarrow> colnames p = ins_tidied @ [''mag_b-y''])"
  using assms tidy_instrumental ins_tidied_facts(1)
  by (auto simp: join_cell_def join_catalogs_def need_cols_def Let_def bind_result_def
      join_catalogs_at_not_KeyError split: sum.splits)

lemma vizier_cell_cols:
  assumes "colnames (get_catalogs vizier_row_limit) = std_cols" "''b-y'' \<in> set std_cols"
  shows "\<exists>phot_std o5. vizier_cell get_catalogs = Inr (phot_std, o5) \<and> colnames phot_std = std_cols"
  using assms by (simp add: vizier_cell_def need_cols_def Let_def)

lemma std_match_cell_cols:
  assumes "colnames phot_std = std_cols" "colnames phot_ins = ins_tidied @ [''mag_b-y'']"
    and "set [''RAJ2000'', ''DEJ2000''] \<subseteq> set std_cols"
    and "''index'' \<notin> set std_cols" "''distance'' \<notin> set std_cols"
    and "set std_cols \<inter> set (ins_tidied @ [''mag_b-y'']) = {}"
  shows "std_match_cell phot_std phot_ins \<noteq> Inl KeyError
    \<and> (\<forall>p o6. std_match_cell phot_std phot_ins = Inr (p, o6)
          \<longrightarrow> colnames p = std_cols @ ins_tidied @ [''mag_b-y''])"
proof -
  have "joined_colnames std_cols (ins_tidied @ [''mag_b-y'']) = std_cols @ ins_tidied @ [''mag_b-y'']"
  proof -
    have "hstack_names [''1'', ''2'', ''3''] [[''index'', ''distance''], std_cols, ins_tidied @ [''mag_b-y'']]
        = [''index'', ''distance''] @ std_cols @ ins_tidied @ [''mag_b-y'']"
      using assms(4,5,6) ins_tidied_facts(2,3) by (intro hstack_names_disjoint3) auto
    moreover have "filter (\<lambda>n. n \<noteq> ''index'' \<and> n \<noteq> ''distance'') std_cols = std_cols"
      using assms(4,5) by (auto intro: filter_True)
    moreover have "filter (\<lambda>n. n \<noteq> ''index'' \<and> n \<noteq> ''distance'') ins_tidied = ins_tidied"
      using ins_tidied_facts(2,3) by (auto intro: filter_True)
    ultimately show ?thesis by (simp add: joined_colnames_def)
  qed
  then show ?thesis
    using assms(1,2,3) ins_tidied_facts(1)
    by (auto simp: std_match_cell_def join_catalogs_def need_cols_def Let_def bind_result_def
        match_to_catalog_sky_not_KeyError join_catalogs_at_not_KeyError split: sum.splits)
qed

lemma regression_write_cells:
  assumes "colnames p = std_cols @ ins_tidied @ [''mag_b-y'']" "''b-y'' \<in> set std_cols"
  shows "\<exists>r. bind_result (regression_cell p) (\<lambda>(result, o7). bind_result (write_cell result)
            (\<lambda>(written, o8). Inr (written, o1 @ o2 @ o3 @ o4 @ o5 @ o6 @ o7 @ o8))) = Inr r"
  using assms ins_tidied_facts(1) by (auto simp: regression_cell_def write_cell_def need_cols_def Let_def)

lemma join_to_write_no_KeyError:
  assumes cb: "colnames b = instrumental_colnames" "colnames y = instrumental_colnames"
    and c5: "vizier_cell get_catalogs = Inr (phot_std, o5)" and cs: "colnames phot_std = std_cols"
    and std: "set [''RAJ2000'', ''DEJ2000'', ''b-y''] \<subseteq> set std_cols"
    and "''index'' \<notin> set std_cols" "''distance'' \<notin> set std_cols"
    and "set std_cols \<inter> set (ins_tidied @ [''mag_b-y'']) = {}"
  shows "bind_result (join_cell pos_by b y) (\<lambda>(phot_ins, o4).
            bind_result (vizier_cell get_catalogs) (\<lambda>(phot_std, o5).
            bind_result (std_match_cell phot_std phot_ins) (\<lambda>(phot_std_ins, o6).
            bind_result (regression_cell phot_std_ins) (\<lambda>(result, o7).
            bind_result (write_cell result) (\<lambda>(written, o8).
              Inr (written, o1 @ o2 @ o3 @ o4 @ o5 @ o6 @ o7 @ o8))))))
          \<noteq> Inl KeyError"
proof (rule bind_result_not)
  show "join_cell pos_by b y \<noteq> Inl KeyError" using join_cell_cols [OF cb] by blast
next
  fix w assume w: "join_cell pos_by b y = Inr w"
  obtain phot_ins o4 where wv: "w = (phot_ins, o4)" by force
  have ci: "colnames phot_ins = ins_tidied @ [''mag_b-y'']" using join_cell_cols [OF cb] w wv by blast
  have sub: "set [''RAJ2000'', ''DEJ2000''] \<subseteq> set std_cols" using std by simp
  note sm = std_match_cell_cols [OF cs ci sub assms(6,7,8)]
  have by_std: "''b-y'' \<in> set std_cols" using std by simp
  show "(case w of (phot_ins, o4) \<Rightarrow>
        bind_result (vizier_cell get_catalogs) (\<lambda>(phot_std, o5).
        bind_result (std_match_cell phot_std phot_ins) (\<lambda>(phot_std_ins, o6).
        bind_result (regression_cell phot_std_ins) (\<lambda>(result, o7).
        bind_result (write_cell result) (\<lambda>(written, o8).
          Inr (written, o1 @ o2 @ o3 @ o4 @ o5 @ o6 @ o7 @ o8))))))
      \<noteq> Inl KeyError"
    unfolding wv split c5 bind_result_simps
  proof (rule bind_result_not)
    show "std_match_cell phot_std phot_ins \<noteq> Inl KeyError" using sm by (rule conjunct1)
  next
    fix u assume u: "std_match_cell phot_std phot_ins = Inr u"
    obtain p o6 where uv: "u = (p, o6)" by force
    have cp: "colnames p = std_cols @ ins_tidied @ [''mag_b-y'']" using sm u uv by blast
    show "(case u of (phot_std_ins, o6) \<Rightarrow>
        bind_result (regression_cell phot_std_ins) (\<lambda>(result, o7).
        bind_result (write_cell result) (\<lambda>(written, o8).
          Inr (written, o1 @ o2 @ o3 @ o4 @ o5 @ o6 @ o7 @ o8)))) \<noteq> Inl KeyError"
      unfolding uv prod.case using regression_write_cells [OF cp by_std, of o1 o2 o3 o4 o5 o6] by auto
  qed
qed

text \<open>C8: every column the notebook reads by name is there: when the instrumental
  catalog on disk has the columns the photometry notebook writes, and the reference
  catalog has \<open>RAJ2000\<close>, \<open>DEJ2000\<close> and \<open>b-y\<close>, none of them named \<open>index\<close>
  or \<open>distance\<close> or like a tidied instrumental column, no cell of the notebook raises
  \<open>KeyError\<close>: the tidy-up of line 122 produces exactly the names \<open>mag_b\<close>,
  \<open>mag_y\<close>, \<open>ra_b\<close> and \<open>dec_b\<close> that lines 126 and 157 read, and the second join
  keeps \<open>b-y\<close> and \<open>mag_b-y\<close> for the regression.\<close>

theorem standardisation_no_KeyError:
  assumes "text_files read_catalog_name = Some t" "colnames t = instrumental_colnames"
    and "colnames (get_catalogs vizier_row_limit) = std_cols"
    and "set [''RAJ2000'', ''DEJ2000'', ''b-y''] \<subseteq> set std_cols"
    and "''index'' \<notin> set std_cols" "''distance'' \<notin> set std_cols"
    and "set std_cols \<inter> set (ins_tidied @ [''mag_b-y'']) = {}"
  shows "standardisation text_files get_catalogs \<noteq> Inl KeyError"
proof -
  obtain catalog o1 where c1: "read_cell text_files = Inr (catalog, o1)"
    and cc: "colnames catalog = instrumental_colnames" using read_cell_cols [of text_files t, OF assms(1,2)] by blast
  obtain b y o2 where c2: "select_cell catalog = Inr ((b, y), o2)"
    and cb: "colnames b = instrumental_colnames" "colnames y = instrumental_colnames"
    using select_cell_cols [of catalog, OF cc] by blast
  obtain phot_std o5 where c5: "vizier_cell get_catalogs = Inr (phot_std, o5)"
    and cs: "colnames phot_std = std_cols" using vizier_cell_cols [of get_catalogs std_cols, OF assms(3)] assms(4) by auto
  show ?thesis
    unfolding standardisation_def c1 c2 bind_result_simps split
  proof (rule bind_result_not)
    show "index_cell b y \<noteq> Inl KeyError" by (rule index_cell_not_KeyError [OF cb])
  next
    fix v assume "index_cell b y = Inr v"
    obtain pos_by o3 where v: "v = (pos_by, o3)" by force
    show "(case v of (pos_by, o3) \<Rightarrow> bind_result (join_cell pos_by b y) (\<lambda>(phot_ins, o4).
            bind_result (vizier_cell get_catalogs) (\<lambda>(phot_std, o5).
            bind_result (std_match_cell phot_std phot_ins) (\<lambda>(phot_std_ins, o6).
            bind_result (regression_cell phot_std_ins) (\<lambda>(result, o7).
            bind_result (write_cell result) (\<lambda>(written, o8).
              Inr (written, o1 @ o2 @ o3 @ o4 @ o5 @ o6 @ o7 @ o8)))))))
          \<noteq> Inl KeyError"
      unfolding v split by (rule join_to_write_no_KeyError [OF cb c5 cs assms(4-7)])
  qed
qed

theorem standardisation_no_KeyError_witness:
  "standardisation
     (\<lambda>n. if n = read_catalog_name then Some \<lparr>colnames = instrumental_colnames, rows = []\<rparr> else None)
     (\<lambda>_. \<lparr>colnames = [''RAJ2000'', ''DEJ2000'', ''b-y''], rows = []\<rparr>) \<noteq> Inl KeyError"
  using standardisation_no_KeyError
    [of "\<lambda>n. if n = read_catalog_name then Some \<lparr>colnames = instrumental_colnames, rows = []\<rparr> else None"
        "\<lparr>colnames = instrumental_colnames, rows = []\<rparr>"
        "\<lambda>_. \<lparr>colnames = [''RAJ2000'', ''DEJ2000'', ''b-y''], rows = []\<rparr>"
        "[''RAJ2000'', ''DEJ2000'', ''b-y'']"]
  by (simp add: ins_tidied_def instrumental_colnames_def daofind_colnames_def insert_column_def)

end
