(* ===== verification/Numerals.thy ===== *)
theory Numerals
  imports Prelude
begin

text \<open>
  Decimal numerals as the Python and astropy code writes and reads them: \<open>str\<close> of a
  natural number (the column name \<open>f'col{n}'\<close> of astropy's \<open>Table.add_column\<close>,
  the zero-padded fields of \<open>Angle.to_string\<close>), and the unsigned integers and
  floats of astropy's angle lexer (\<open>UINT = \d+\<close>,
  \<open>UFLOAT = (\d+\.\d* | \.\d+)\<close>; exponents are not modelled).  The round trip
  \<open>parse_nat (nat_str n) = Some n\<close>, also through zero padding, is proved here.
\<close>

section \<open>Digits\<close>

definition digit_chars :: string where
  "digit_chars = ''0123456789''"

definition digit_chr :: "nat \<Rightarrow> char" where
  "digit_chr d = digit_chars ! d"

definition digit_val :: "char \<Rightarrow> nat option" where
  "digit_val c = (case filter (\<lambda>d. digit_chars ! d = c) [0..<10] of [] \<Rightarrow> None | d # _ \<Rightarrow> Some d)"

definition is_digit :: "char \<Rightarrow> bool" where
  "is_digit c = (c \<in> set digit_chars)"

section \<open>Printing and reading natural numbers\<close>

text \<open>\<open>str(n)\<close>: the most significant digit first, no leading zeros.\<close>

fun nat_str :: "nat \<Rightarrow> string" where
  "nat_str n = (if n < 10 then [digit_chr n] else nat_str (n div 10) @ [digit_chr (n mod 10)])"

declare nat_str.simps [simp del]

text \<open>Zero padding to a width, as \<open>'{:02d}'\<close> does.\<close>

definition zero_pad :: "nat \<Rightarrow> string \<Rightarrow> string" where
  "zero_pad k s = replicate (k - length s) (CHR ''0'') @ s"

definition digits_value :: "nat list \<Rightarrow> nat" where
  "digits_value ds = foldl (\<lambda>a d. 10 * a + d) 0 ds"

definition parse_nat :: "string \<Rightarrow> nat option" where
  "parse_nat s = (if s \<noteq> [] \<and> list_all is_digit s
                  then Some (digits_value (map (\<lambda>c. the (digit_val c)) s)) else None)"

text \<open>An unsigned float of the lexer: digits, optionally a point and more digits, at
  least one digit in all.\<close>

definition parse_ufloat :: "string \<Rightarrow> real option" where
  "parse_ufloat s =
     (let ip = takeWhile (\<lambda>c. c \<noteq> CHR ''.'') s; rest = dropWhile (\<lambda>c. c \<noteq> CHR ''.'') s
      in if rest = [] then map_option real (parse_nat ip)
         else let fp = tl rest
              in if ip @ fp = [] \<or> \<not> list_all is_digit (ip @ fp) then None
                 else Some (real (digits_value (map (\<lambda>c. the (digit_val c)) ip))
                            + real (digits_value (map (\<lambda>c. the (digit_val c)) fp)) / 10 ^ length fp))"

text \<open>Python's rounding of a float to an integer, ties to even.\<close>

definition round_half_even :: "real \<Rightarrow> int" where
  "round_half_even x =
     (let f = \<lfloor>x\<rfloor>; d = x - of_int f
      in if d < 1 / 2 then f else if 1 / 2 < d then f + 1 else if even f then f else f + 1)"

text \<open>\<open>s.split(c)\<close> on one separator character (empty pieces kept).\<close>

fun split_on :: "char \<Rightarrow> string \<Rightarrow> string list" where
  "split_on c [] = [[]]"
| "split_on c (x # xs) = (if x = c then [] # split_on c xs else (let ps = split_on c xs in (x # hd ps) # tl ps))"

declare digit_chars_def [model_eval] digit_chr_def [model_eval]
  is_digit_def [model_eval] zero_pad_def [model_eval] digits_value_def [model_eval]
  parse_nat_def [model_eval] parse_ufloat_def [model_eval]

section \<open>Round trips\<close>

lemma digit_cases: "(d::nat) < 10 \<Longrightarrow> d = 0 \<or> d = 1 \<or> d = 2 \<or> d = 3 \<or> d = 4 \<or> d = 5 \<or> d = 6 \<or> d = 7 \<or> d = 8 \<or> d = 9"
  by arith

lemma digit_val_chr [simp]: "d < 10 \<Longrightarrow> digit_val (digit_chr d) = Some d"
  by (drule digit_cases)
    (elim disjE, simp_all add: digit_val_def digit_chr_def digit_chars_def upt_rec)

lemma is_digit_chr [simp]: "d < 10 \<Longrightarrow> is_digit (digit_chr d)"
  by (drule digit_cases) (elim disjE, simp_all add: is_digit_def digit_chr_def digit_chars_def)

lemma digit_val_simps [model_eval]:
  "digit_val (CHR ''0'') = Some 0" "digit_val (CHR ''1'') = Some 1" "digit_val (CHR ''2'') = Some 2"
  "digit_val (CHR ''3'') = Some 3" "digit_val (CHR ''4'') = Some 4" "digit_val (CHR ''5'') = Some 5"
  "digit_val (CHR ''6'') = Some 6" "digit_val (CHR ''7'') = Some 7" "digit_val (CHR ''8'') = Some 8"
  "digit_val (CHR ''9'') = Some 9"
  by (simp_all add: digit_val_def digit_chars_def upt_rec)

lemma is_digit_zero [simp]: "is_digit (CHR ''0'')" and digit_val_zero [simp]: "digit_val (CHR ''0'') = Some 0"
  by (simp_all add: is_digit_def digit_chars_def digit_val_simps)

lemma nat_str_small: "n < 10 \<Longrightarrow> nat_str n = [digit_chr n]"
  by (subst nat_str.simps) simp

lemma nat_str_big: "\<not> n < 10 \<Longrightarrow> nat_str n = nat_str (n div 10) @ [digit_chr (n mod 10)]"
  by (subst nat_str.simps) simp

lemma replicate_numeral: "replicate (numeral k) x = x # replicate (pred_numeral k) x"
  by (simp add: numeral_eq_Suc)

lemmas nat_str_eval = nat_str_small nat_str_big digit_chr_def digit_chars_def zero_pad_def replicate_numeral

lemma digits_value_snoc [simp]: "digits_value (ds @ [d]) = 10 * digits_value ds + d"
  by (simp add: digits_value_def)

lemma digits_value_zeros [simp]: "digits_value (replicate k 0 @ ds) = digits_value ds"
proof -
  have "foldl (\<lambda>a d. 10 * a + d) 0 (replicate k 0) = (0::nat)" by (induction k) simp_all
  then show ?thesis by (simp add: digits_value_def)
qed

lemma nat_str_not_Nil [simp]: "nat_str n \<noteq> []"
  by (subst nat_str.simps) simp

lemma nat_str_digits: "list_all is_digit (nat_str n)"
  by (induction n rule: nat_str.induct) (subst nat_str.simps, simp)

lemma nat_str_value: "digits_value (map (\<lambda>c. the (digit_val c)) (nat_str n)) = n"
proof (induction n rule: nat_str.induct)
  case (1 n)
  show ?case
  proof (cases "n < 10")
    case True
    then show ?thesis by (subst nat_str.simps) (simp add: digits_value_def)
  next
    case False
    then have "digits_value (map (\<lambda>c. the (digit_val c)) (nat_str (n div 10))) = n div 10"
      using "1" by simp
    then show ?thesis using False by (subst nat_str.simps) simp
  qed
qed

lemma parse_nat_str: "parse_nat (nat_str n) = Some n"
  by (simp add: parse_nat_def nat_str_digits nat_str_value)

lemma parse_nat_zero_pad: "parse_nat (zero_pad k (nat_str n)) = Some n"
proof -
  have "map (\<lambda>c. the (digit_val c)) (zero_pad k (nat_str n))
      = replicate (k - length (nat_str n)) 0 @ map (\<lambda>c. the (digit_val c)) (nat_str n)"
    by (simp add: zero_pad_def)
  moreover have "list_all is_digit (zero_pad k (nat_str n))"
    using nat_str_digits [of n] by (auto simp: zero_pad_def list_all_iff)
  ultimately show ?thesis by (simp add: parse_nat_def zero_pad_def nat_str_value)
qed

lemma length_nat_str_lt100:
  assumes "n < 100" shows "length (nat_str n) \<le> 2"
proof -
  have "n div 10 < 10" using assms by presburger
  then show ?thesis by (subst nat_str.simps, simp, subst nat_str.simps, simp)
qed

lemma round_half_even_nat [simp]: "round_half_even (real n) = int n"
  by (simp add: round_half_even_def)

lemma parse_ufloat_no_point:
  assumes "CHR ''.'' \<notin> set s"
  shows "parse_ufloat s = map_option real (parse_nat s)"
proof -
  have "\<forall>x\<in>set s. x \<noteq> CHR ''.''" using assms by auto
  then show ?thesis by (simp add: parse_ufloat_def Let_def takeWhile_eq_all_conv [THEN iffD2])
qed

end
