(* ===== verification/Arrays.thy ===== *)
theory Arrays
  imports Numerals Psf Join
begin

text \<open>
  The numpy and astropy-table cells of the introduction notebook
  (src/notebooks/plotfits.ipynb): \<open>np.arange\<close>, \<open>reshape\<close>, two-dimensional slicing
  with slices and \<open>slice\<close> objects, element-wise \<open>&\<close> and \<open>|\<close> under broadcasting
  (lines 128--147), and a table built from columns, extended with \<open>add_column\<close> under
  its default name and renamed with \<open>rename_column\<close> (lines 584--589).  Slices reuse
  \<open>np_slice\<close> of the PSF theory; broadcasting generalises \<open>broadcast_and\<close> of the
  join.
\<close>

section \<open>numpy arrays (lines 128--147)\<close>

definition np_arange :: "nat \<Rightarrow> int list" where
  "np_arange n = map int [0..<n]"

text \<open>\<open>v.reshape(r, c)\<close>: row-major; a size other than \<open>r * c\<close> raises
  \<open>ValueError\<close> (cannot reshape array).\<close>

definition np_reshape :: "nat \<Rightarrow> nat \<Rightarrow> 'a list \<Rightarrow> 'a list list result" where
  "np_reshape r c v =
     (if r * c = length v then Inr (map (\<lambda>i. take c (drop (i * c) v)) [0..<r]) else Inl ValueError)"

text \<open>A \<open>slice(start, stop)\<close> object; \<open>m[a:b, c:d]\<close> is \<open>m[(slice(a, b), slice(c, d))]\<close>.\<close>

datatype py_slice = Slice int int

definition slice_of :: "'a list \<Rightarrow> py_slice \<Rightarrow> 'a list" where
  "slice_of xs s = (case s of Slice a b \<Rightarrow> np_slice xs a b)"

definition np_index2 :: "'a list list \<Rightarrow> py_slice \<times> py_slice \<Rightarrow> 'a list list" where
  "np_index2 m region = map (\<lambda>row. slice_of row (snd region)) (slice_of m (fst region))"

text \<open>An element-wise operator of two one-dimensional arrays under broadcasting:
  equal lengths, or one operand of length one; other shapes raise \<open>ValueError\<close>.\<close>

definition broadcast2 :: "('a \<Rightarrow> 'a \<Rightarrow> 'b) \<Rightarrow> 'a list \<Rightarrow> 'a list \<Rightarrow> 'b list result" where
  "broadcast2 f a b =
     (if length a = length b then Inr (map2 f a b)
      else if length a = 1 then Inr (map (f (hd a)) b)
      else if length b = 1 then Inr (map (\<lambda>x. f x (hd b)) a)
      else Inl ValueError)"

definition v_matrix :: "int list list \<Rightarrow> py_value" where
  "v_matrix m = VList (map (\<lambda>row. VList (map VInt row)) m)"

definition v_bools :: "bool list \<Rightarrow> py_value" where
  "v_bools bs = VList (map VBool bs)"

definition nl :: string where
  "nl = [CHR ''\<newline>'']"

definition numpy_cell :: "cell_output list result" where
  "numpy_cell =
     (let vector = np_arange 24
      in bind_result (np_reshape 8 3 vector) (\<lambda>matrix.
         (let region = (Slice 4 7, Slice 1 2);
              the_facts = [False, False, True];
              the_lies = [True, False, False]
          in bind_result (broadcast2 (\<and>) the_facts the_lies) (\<lambda>facts_and_lies.
             bind_result (broadcast2 (\<or>) the_facts the_lies) (\<lambda>facts_or_lies.
               Inr [Print [VStr (''This is the matrix we created:'' @ nl), v_matrix matrix, VStr nl],
                    Print [VStr (''These are some of the elements of the matrix:'' @ nl),
                           v_matrix (np_index2 matrix (Slice 4 7, Slice 1 2)), VStr nl],
                    Print [VStr (''The same elements than before:'' @ nl), v_matrix (np_index2 matrix region), VStr nl],
                    Print [VStr ''Combining facts and lies results in:'', v_bools facts_and_lies],
                    Print [VStr ''Combining facts or lies results in:'', v_bools facts_or_lies]])))))"

section \<open>astropy tables of columns (lines 584--589)\<close>

text \<open>A table as its named columns in order.\<close>

type_synonym col_table = "(string \<times> py_value list) list"

definition table_len :: "col_table \<Rightarrow> nat" where
  "table_len t = (case t of [] \<Rightarrow> 0 | (_, c) # _ \<Rightarrow> length c)"

text \<open>\<open>Table(cols, names=names)\<close>: as many names as columns, columns of one length,
  names distinct; \<open>ValueError\<close> otherwise.\<close>

definition table_of_columns :: "py_value list list \<Rightarrow> string list \<Rightarrow> col_table result" where
  "table_of_columns cols names =
     (if length names \<noteq> length cols then Inl ValueError
      else if \<not> list_all (\<lambda>c. length c = length (hd cols)) cols then Inl ValueError
      else if \<not> distinct names then Inl ValueError
      else Inr (zip names cols))"

text \<open>\<open>t.add_column(col)\<close>: a column with no name of its own (a \<open>Time\<close> has none) is
  named \<open>col<n>\<close> after the number of columns; a column of another length than a
  non-empty table, or a name already taken, raises \<open>ValueError\<close>.\<close>

definition table_add_column :: "col_table \<Rightarrow> py_value list \<Rightarrow> string option \<Rightarrow> col_table result" where
  "table_add_column t col name =
     (let name = (case name of None \<Rightarrow> ''col'' @ nat_str (length t) | Some n \<Rightarrow> n)
      in if t \<noteq> [] \<and> length col \<noteq> table_len t then Inl ValueError
         else if name \<in> set (map fst t) then Inl ValueError
         else Inr (t @ [(name, col)]))"

definition table_rename_column :: "col_table \<Rightarrow> string \<Rightarrow> string \<Rightarrow> col_table result" where
  "table_rename_column t name new_name =
     bind_result (rename_colnames (map fst t) name new_name) (\<lambda>names. Inr (zip names (map snd t)))"

text \<open>The cell, with the \<open>Time\<close> column \<open>t2\<close> of the time cells as its argument.\<close>

definition table_cell :: "py_value list \<Rightarrow> (col_table \<times> cell_output list) result" where
  "table_cell t2 =
     bind_result (table_of_columns [[VInt 1, VInt 2], [VInt 3, VInt 4]] [''A'', ''B'']) (\<lambda>a_table.
     bind_result (table_add_column a_table t2 None) (\<lambda>a_table.
     bind_result (table_rename_column a_table ''col2'' ''funtimes'') (\<lambda>a_table.
       Inr (a_table, [Display ''a_table'' (table_len a_table)]))))"

declare np_arange_def [model_eval] np_reshape_def [model_eval] slice_of_def [model_eval]
  np_index2_def [model_eval] broadcast2_def [model_eval] v_matrix_def [model_eval] v_bools_def [model_eval]
  nl_def [model_eval] numpy_cell_def [model_eval] table_len_def [model_eval]
  table_of_columns_def [model_eval] table_add_column_def [model_eval]
  table_rename_column_def [model_eval] table_cell_def [model_eval]

section \<open>Reshaping and slicing\<close>

lemma broadcast_and_broadcast2: "broadcast_and = broadcast2 (\<and>)"
  by (intro ext) (simp add: broadcast_and_def broadcast2_def)

lemma np_reshape_shape:
  assumes "np_reshape r c v = Inr m"
  shows "length m = r" "list_all (\<lambda>row. length row = c) m" "r * c = length v"
proof -
  have rc: "r * c = length v" using assms by (simp add: np_reshape_def split: if_splits)
  have m: "m = map (\<lambda>i. take c (drop (i * c) v)) [0..<r]"
    using assms by (simp add: np_reshape_def split: if_splits)
  have "length (take c (drop (i * c) v)) = c" if "i < r" for i
  proof -
    have "Suc i * c \<le> r * c" using that by (intro mult_le_mono1) simp
    then show ?thesis using rc by simp
  qed
  then show "list_all (\<lambda>row. length row = c) m" by (simp add: m list_all_iff)
  show "length m = r" "r * c = length v" by (simp_all add: m rc)
qed

lemma concat_chunks:
  "length v = r * c \<Longrightarrow> concat (map (\<lambda>i. take c (drop (i * c) v)) [0..<r]) = v"
proof (induction r arbitrary: v)
  case 0
  then show ?case by simp
next
  case (Suc r)
  let ?f = "\<lambda>i. take c (drop (i * c) v)"
  have "[0..<Suc r] = 0 # map Suc [0..<r]" by (simp add: map_Suc_upt upt_conv_Cons)
  then have "map ?f [0..<Suc r] = take c v # map (\<lambda>i. take c (drop (i * c) (drop c v))) [0..<r]"
    by (simp add: drop_drop add.commute)
  moreover have "length (drop c v) = r * c" using Suc.prems by simp
  ultimately show ?case using Suc.IH [of "drop c v"] by simp
qed

lemma np_reshape_nth:
  assumes "np_reshape r c v = Inr m" "i < r" "j < c"
  shows "m ! i ! j = v ! (i * c + j)"
proof -
  have rc: "r * c = length v" and m: "m = map (\<lambda>i. take c (drop (i * c) v)) [0..<r]"
    using assms(1) by (simp_all add: np_reshape_def split: if_splits)
  have "Suc i * c \<le> r * c" using assms(2) by (intro mult_le_mono1) simp
  then have "i * c + j < length v" using assms(3) rc by simp
  then show ?thesis using assms(2,3) by (simp add: m)
qed

lemma slice_bound_nat: "0 \<le> a \<Longrightarrow> slice_bound n a = min (nat a) n"
  by (simp add: slice_bound_def)

lemma np_slice_nth:
  assumes "0 \<le> a" "a \<le> b" "k < min (nat b) (length xs) - nat a"
  shows "length (np_slice xs a b) = min (nat b) (length xs) - nat a \<and> np_slice xs a b ! k = xs ! (nat a + k)"
proof -
  have "nat a \<le> length xs" using assms(3) by linarith
  then have "np_slice xs a b = take (min (nat b) (length xs) - nat a) (drop (nat a) xs)"
    using assms(1,2) by (simp add: np_slice_def slice_bound_nat Let_def min_absorb1)
  moreover have "min (nat b) (length xs) - nat a \<le> length xs - nat a" by simp
  ultimately show ?thesis using assms(3) \<open>nat a \<le> length xs\<close> by (simp add: min_absorb1)
qed

lemma np_reshape_Inr: "r * c = length v \<Longrightarrow> np_reshape r c v = Inr (map (\<lambda>i. take c (drop (i * c) v)) [0..<r])"
  by (simp add: np_reshape_def)

lemma numpy_cell_prints:
  "\<exists>out. numpy_cell = Inr out
     \<and> out ! 1 = Print [VStr (''These are some of the elements of the matrix:'' @ nl), v_matrix [[13], [16], [19]], VStr nl]
     \<and> out ! 2 = Print [VStr (''The same elements than before:'' @ nl), v_matrix [[13], [16], [19]], VStr nl]
     \<and> out ! 3 = Print [VStr ''Combining facts and lies results in:'', v_bools [False, False, False]]
     \<and> out ! 4 = Print [VStr ''Combining facts or lies results in:'', v_bools [True, False, True]]"
  by (simp add: numpy_cell_def np_reshape_def np_arange_def broadcast2_def np_index2_def slice_of_def
      np_slice_def slice_bound_def upt_rec)

section \<open>Properties of the cells\<close>

text \<open>\<open>reshape(r, c)\<close> of a vector of length \<open>r * c\<close> succeeds, and flattening its
  \<open>r\<close> rows of \<open>c\<close> values gives the vector back.\<close>

theorem np_reshape_roundtrip:
  assumes "r * c = length v"
  shows "\<exists>m. np_reshape r c v = Inr m \<and> concat m = v \<and> length m = r \<and> list_all (\<lambda>row. length row = c) m"
proof -
  let ?m = "map (\<lambda>i. take c (drop (i * c) v)) [0..<r]"
  have m: "np_reshape r c v = Inr ?m" using assms by (rule np_reshape_Inr)
  moreover have "concat ?m = v" using assms by (simp add: concat_chunks)
  ultimately show ?thesis using np_reshape_shape [OF m] by blast
qed

theorem np_reshape_roundtrip_witness:
  "\<exists>m. np_reshape 8 3 (np_arange 24) = Inr m \<and> concat m = np_arange 24 \<and> length m = 8
      \<and> list_all (\<lambda>row. length row = 3) m"
  using np_reshape_roundtrip [of 8 3 "np_arange 24"] by (simp add: np_arange_def)

theorem np_index2_reshape:
  assumes "np_reshape r c v = Inr m" "0 \<le> a" "a \<le> b" "0 \<le> a'" "a' \<le> b'"
    and "i < min (nat b) r - nat a" "j < min (nat b') c - nat a'"
  shows "np_index2 m (Slice a b, Slice a' b') ! i ! j = v ! ((nat a + i) * c + (nat a' + j))"
proof -
  have len: "length m = r" using np_reshape_shape(1) [OF assms(1)] .
  have row: "np_slice m a b ! i = m ! (nat a + i)" and rlen: "i < length (np_slice m a b)"
    using np_slice_nth [of a b i m] assms(2,3,6) len by auto
  have ai: "nat a + i < r" using assms(6) by linarith
  have "length (m ! (nat a + i)) = c"
    using np_reshape_shape(2) [OF assms(1)] ai len by (simp add: list_all_length)
  then have "np_slice (m ! (nat a + i)) a' b' ! j = m ! (nat a + i) ! (nat a' + j)"
    using np_slice_nth [of a' b' j "m ! (nat a + i)"] assms(4,5,7) by auto
  moreover have "nat a' + j < c" using assms(7) by linarith
  ultimately show ?thesis
    using row rlen np_reshape_nth [OF assms(1) ai] by (simp add: np_index2_def slice_of_def)
qed

theorem np_index2_reshape_witness:
  "np_index2 (map (\<lambda>i. take 3 (drop (i * 3) (np_arange 24))) [0..<8]) (Slice 4 7, Slice 1 2) ! 2 ! 0 = 19"
proof -
  have "np_reshape 8 3 (np_arange 24) = Inr (map (\<lambda>i. take 3 (drop (i * 3) (np_arange 24))) [0..<8])"
    by (simp add: np_reshape_def np_arange_def)
  from np_index2_reshape [OF this, of 4 7 1 2 2 0] show ?thesis by (simp add: np_arange_def)
qed

theorem table_add_rename:
  assumes "t \<noteq> []" "length col = table_len t" "''col'' @ nat_str (length t) \<notin> set (map fst t)"
    and "new_name \<notin> set (map fst t)"
  shows "\<exists>t'. table_add_column t col None = Inr t'
           \<and> table_rename_column t' (''col'' @ nat_str (length t)) new_name = Inr (t @ [(new_name, col)])"
proof -
  let ?n = "''col'' @ nat_str (length t)"
  have add: "table_add_column t col None = Inr (t @ [(?n, col)])"
    using assms(1-3) by (simp add: table_add_column_def)
  have keep: "map (\<lambda>m. if m = ?n then new_name else m) (map fst t) = map fst t"
  proof (rule map_idI)
    fix x assume "x \<in> set (map fst t)"
    then have "x \<noteq> ?n" using assms(3) by blast
    then show "(if x = ?n then new_name else x) = x" by (rule if_not_P)
  qed
  have "rename_colnames (map fst t @ [?n]) ?n new_name = Inr (map fst t @ [new_name])"
    using assms(3,4) keep by (auto simp: rename_colnames_def)
  then have "table_rename_column (t @ [(?n, col)]) ?n new_name = Inr (t @ [(new_name, col)])"
    by (simp add: table_rename_column_def zip_map_fst_snd)
  then show ?thesis using add by blast
qed

theorem table_add_rename_witness:
  "table_cell [VReal 58009, VReal 58011.47239726]
     = Inr ([(''A'', [VInt 1, VInt 2]), (''B'', [VInt 3, VInt 4]), (''funtimes'', [VReal 58009, VReal 58011.47239726])],
            [Display ''a_table'' 2])"
proof -
  have "\<exists>t'. table_add_column [(''A'', [VInt 1, VInt 2]), (''B'', [VInt 3, VInt 4])] [VReal 58009, VReal 58011.47239726] None = Inr t'
     \<and> table_rename_column t' (''col'' @ nat_str 2) ''funtimes''
         = Inr ([(''A'', [VInt 1, VInt 2]), (''B'', [VInt 3, VInt 4])] @ [(''funtimes'', [VReal 58009, VReal 58011.47239726])])"
    using table_add_rename [of "[(''A'', [VInt 1, VInt 2]), (''B'', [VInt 3, VInt 4])]" "[VReal 58009, VReal 58011.47239726]" "''funtimes''"]
    by (simp add: table_len_def nat_str.simps digit_chr_def digit_chars_def)
  then show ?thesis
    by (auto simp: table_cell_def table_of_columns_def table_len_def nat_str.simps digit_chr_def digit_chars_def)
qed

end
