(* ===== verification/Angles.thy ===== *)
theory Angles
  imports Numerals Sky
begin

text \<open>
  The celestial-coordinate cells of the introduction notebook
  (src/notebooks/plotfits.ipynb, lines 328--461).  A position is built from numbers
  in degrees, from two angle strings, or from one string holding both
  (\<open>SkyCoord(...)\<close>, lines 329 and 346--350); the strings are read by astropy's angle
  parser, modelled here for the forms the notebook uses and their neighbours: an
  optional sign, then one to three fields separated by the markers \<open>h m s\<close> or
  \<open>d m s\<close> (the unit given by the marker), by colons or by single spaces (the unit
  given by the caller), all fields but the last unsigned integers, minutes and seconds
  at most 60, hours at most 24.  Longitudes wrap into [0, 360) and latitudes beyond
  90 degrees raise \<open>ValueError\<close>.  \<open>to_string('hmsdms')\<close> (lines 369 and 402) prints
  the fields zero-padded, the seconds with eight decimals and the trailing zeros
  stripped.  Positions with a distance have Cartesian components (line 420) and a
  three-dimensional separation (line 440).  Name resolution (\<open>from_name\<close>), the
  constellation lookup and the Galactic frame transformation are library services
  and parameters of the cells.  The single-token \<open>J\<close>-name form of astropy's
  string splitting is not modelled.
\<close>

section \<open>Angle strings\<close>

datatype ang_unit = Hourangle | Degree

definition unit_degrees :: "ang_unit \<Rightarrow> real" where
  "unit_degrees u = (case u of Hourangle \<Rightarrow> 15 | Degree \<Rightarrow> 1)"

definition is_num_char :: "char \<Rightarrow> bool" where
  "is_num_char c = (is_digit c \<or> c = CHR ''.'')"

definition is_ws :: "char \<Rightarrow> bool" where
  "is_ws c = (c = CHR '' '' \<or> c = CHR ''\<newline>'')"

definition py_strip :: "string \<Rightarrow> string" where
  "py_strip s = rev (dropWhile is_ws (rev (dropWhile is_ws s)))"

definition angle_seps :: string where
  "angle_seps = ''hdms: ''"

text \<open>The fields of an angle: each number with the separator that follows it.\<close>

function lex_fields :: "string \<Rightarrow> (string \<times> char option) list option" where
  "lex_fields s =
     (let n = takeWhile is_num_char s; rest = dropWhile is_num_char s
      in if n = [] then None
         else (case rest of
                 [] \<Rightarrow> Some [(n, None)]
               | c # rest' \<Rightarrow>
                   if c \<notin> set angle_seps then None
                   else if rest' = [] then Some [(n, Some c)]
                   else map_option (\<lambda>fs. (n, Some c) # fs) (lex_fields rest')))"
  by pat_completeness auto
termination
proof (relation "measure length")
  fix s n rest c rest'
  assume "n = takeWhile is_num_char s" "rest = dropWhile is_num_char s" "\<not> n = []" "rest = c # rest'"
  then have "length s = length n + Suc (length rest')"
    by (metis length_Cons length_append takeWhile_dropWhile_id)
  then show "(rest', s) \<in> measure length" using \<open>\<not> n = []\<close> by simp
qed simp

declare lex_fields.simps [simp del]

text \<open>Marker forms: the separators are the markers in order, the last one optional.\<close>

fun seps_markers :: "char list \<Rightarrow> char option list \<Rightarrow> bool" where
  "seps_markers (m # ms) [s] = (s = None \<or> s = Some m)"
| "seps_markers (m # ms) (s # s' # ss) = (s = Some m \<and> seps_markers ms (s' # ss))"
| "seps_markers _ _ = False"

definition seps_uniform :: "char \<Rightarrow> char option list \<Rightarrow> bool" where
  "seps_uniform c seps =
     (seps \<noteq> [] \<and> butlast seps = replicate (length seps - 1) (Some c) \<and> last seps = None)"

text \<open>The unit a form fixes: \<open>Some (Some u)\<close> for the marker forms, \<open>Some None\<close> for
  the forms that take the caller's unit, \<open>None\<close> for no form of the grammar.\<close>

definition field_style :: "char option list \<Rightarrow> ang_unit option option" where
  "field_style seps =
     (if seps \<noteq> [None] \<and> seps_markers ''hms'' seps then Some (Some Hourangle)
      else if seps \<noteq> [None] \<and> seps_markers ''dms'' seps then Some (Some Degree)
      else if seps_uniform (CHR '':'') seps \<or> seps_uniform (CHR '' '') seps then Some None
      else None)"

definition sexagesimal :: "real list \<Rightarrow> real" where
  "sexagesimal fs =
     (case fs of [a] \<Rightarrow> a | [a, b] \<Rightarrow> a + b / 60 | [a, b, c] \<Rightarrow> a + b / 60 + c / 3600 | _ \<Rightarrow> 0)"

text \<open>astropy's range checks of a sexagesimal value (\<open>IllegalHourError\<close>,
  \<open>IllegalMinuteError\<close>, \<open>IllegalSecondError\<close>, all \<open>ValueError\<close>s); exactly 60
  minutes or seconds only warns.\<close>

definition fields_in_range :: "ang_unit \<Rightarrow> real list \<Rightarrow> bool" where
  "fields_in_range u fs =
     (length fs \<le> 3
      \<and> (if 2 \<le> length fs then fs ! 1 \<le> 60 \<and> (if u = Hourangle then fs ! 0 \<le> 24 else True) else True)
      \<and> (if length fs = 3 then fs ! 2 \<le> 60 else True))"

definition take_sign :: "string \<Rightarrow> real \<times> string" where
  "take_sign s =
     (case s of c # r \<Rightarrow> if c = CHR ''+'' then (1, py_strip r) else if c = CHR ''-'' then (-1, py_strip r) else (1, s)
      | [] \<Rightarrow> (1, s))"

fun all_some :: "'a option list \<Rightarrow> 'a list option" where
  "all_some [] = Some []"
| "all_some (x # xs) = (case x of None \<Rightarrow> None | Some v \<Rightarrow> map_option ((#) v) (all_some xs))"

text \<open>\<open>Angle(s, unit)\<close> in degrees; a form without a unit of its own and no unit given
  raises \<open>UnitsError\<close> (an \<open>Exception\<close>).\<close>

definition parse_angle :: "ang_unit option \<Rightarrow> string \<Rightarrow> degrees result" where
  "parse_angle unit s =
     (case take_sign (py_strip s) of (sg, body) \<Rightarrow>
       (case lex_fields body of
          None \<Rightarrow> Inl ValueError
        | Some fs \<Rightarrow>
            (case field_style (map snd fs) of
               None \<Rightarrow> Inl ValueError
             | Some style \<Rightarrow>
                 (case (case style of Some u \<Rightarrow> Some u | None \<Rightarrow> unit) of
                    None \<Rightarrow> Inl GenericException
                  | Some u \<Rightarrow>
                      if \<not> list_all (\<lambda>n. CHR ''.'' \<notin> set n) (butlast (map fst fs)) then Inl ValueError
                      else (case all_some (map (parse_ufloat \<circ> fst) fs) of
                              None \<Rightarrow> Inl ValueError
                            | Some vals \<Rightarrow>
                                if fields_in_range u vals then Inr (sg * sexagesimal vals * unit_degrees u)
                                else Inl ValueError)))))"

section \<open>Positions\<close>

text \<open>\<open>Longitude\<close> wraps at 360 degrees; \<open>Latitude\<close> must lie in [-90, 90].\<close>

definition wrap_at_360 :: "degrees \<Rightarrow> degrees" where
  "wrap_at_360 x = x - 360 * of_int \<lfloor>x / 360\<rfloor>"

definition sky_coord_of :: "degrees \<Rightarrow> degrees \<Rightarrow> sky_coord result" where
  "sky_coord_of lon lat =
     (if lat < -90 \<or> 90 < lat then Inl ValueError else Inr \<lparr>ra = wrap_at_360 lon, dec = lat\<rparr>)"

definition skycoord_of_strings :: "(ang_unit \<times> ang_unit) option \<Rightarrow> string \<Rightarrow> string \<Rightarrow> sky_coord result" where
  "skycoord_of_strings units a b =
     bind_result (parse_angle (map_option fst units) a) (\<lambda>lon.
     bind_result (parse_angle (map_option snd units) b) (\<lambda>lat. sky_coord_of lon lat))"

text \<open>\<open>str.split()\<close>, and \<open>re.split(r'(\+|\-)', s)\<close> (signs kept as pieces).\<close>

fun py_split_acc :: "string \<Rightarrow> string \<Rightarrow> string list" where
  "py_split_acc w [] = (if w = [] then [] else [rev w])"
| "py_split_acc w (c # cs) =
     (if is_ws c then (if w = [] then py_split_acc [] cs else rev w # py_split_acc [] cs)
      else py_split_acc (c # w) cs)"

definition py_split :: "string \<Rightarrow> string list" where
  "py_split s = py_split_acc [] s"

fun pm_split :: "string \<Rightarrow> string list" where
  "pm_split [] = [[]]"
| "pm_split (c # cs) =
     (if c = CHR ''+'' \<or> c = CHR ''-'' then [] # [c] # pm_split cs
      else (let ps = pm_split cs in (c # hd ps) # tl ps))"

definition join_space :: "string list \<Rightarrow> string" where
  "join_space ws = foldr (\<lambda>w acc. if acc = [] then w else w @ '' '' @ acc) ws []"

text \<open>astropy's \<open>_parse_ra_dec\<close>: six words are three and three, two words are the two
  angles, otherwise the string is cut at its first sign.\<close>

definition ra_dec_strings :: "string \<Rightarrow> string \<times> string" where
  "ra_dec_strings s =
     (let ws = py_split s
      in if length ws = 6 then (join_space (take 3 ws), join_space (drop 3 ws))
         else if length ws = 2 then (ws ! 0, ws ! 1)
         else (let ps = pm_split s in (hd ps, join_space (tl ps))))"

definition skycoord_of_string :: "(ang_unit \<times> ang_unit) option \<Rightarrow> string \<Rightarrow> sky_coord result" where
  "skycoord_of_string units s = (case ra_dec_strings s of (a, b) \<Rightarrow> skycoord_of_strings units a b)"

section \<open>Printing positions\<close>

text \<open>\<open>hours_to_hms\<close> / \<open>degrees_to_dms\<close> of a non-negative value: whole units, whole
  minutes, seconds.\<close>

definition to_sexagesimal :: "real \<Rightarrow> nat \<times> nat \<times> real" where
  "to_sexagesimal x =
     (let i = \<lfloor>x\<rfloor>; f = x - of_int i; mm = \<lfloor>f * 60\<rfloor> in (nat i, nat mm, (f * 60 - of_int mm) * 60))"

text \<open>The carry of \<open>sexagesimal_to_string\<close>: seconds within \<open>10^-8\<close> of 60 become 0
  and one more minute, 60 minutes one more unit.\<close>

definition carry_fields :: "nat \<times> nat \<times> real \<Rightarrow> nat \<times> nat \<times> real" where
  "carry_fields v =
     (case v of (d, m, s) \<Rightarrow>
       (let (m, s) = (if 60 - 1 / 10 ^ 8 \<le> s then (m + 1, 0) else (m, s))
        in if 60 \<le> m then (d + 1, 0, s) else (d, m, s)))"

definition rstrip :: "char \<Rightarrow> string \<Rightarrow> string" where
  "rstrip c s = rev (dropWhile (\<lambda>x. x = c) (rev s))"

text \<open>The seconds field: \<open>f'{s:.8f}'\<close>, trailing zeros and point stripped, padded
  to two digits before the point.\<close>

definition fmt_seconds :: "real \<Rightarrow> string" where
  "fmt_seconds s =
     (let n = nat (round_half_even (s * 10 ^ 8));
          t = rstrip (CHR ''.'') (rstrip (CHR ''0'')
                (nat_str (n div 10 ^ 8) @ ''.'' @ zero_pad 8 (nat_str (n mod 10 ^ 8))))
      in if length t = 1 \<or> t ! 1 = CHR ''.'' then CHR ''0'' # t else t)"

definition sexagesimal_str :: "string \<Rightarrow> real \<Rightarrow> string" where
  "sexagesimal_str ms x =
     (case carry_fields (to_sexagesimal x) of (d, m, s) \<Rightarrow>
        zero_pad 2 (nat_str d) @ [ms ! 0] @ zero_pad 2 (nat_str m) @ [ms ! 1] @ fmt_seconds s @ [ms ! 2])"

definition to_string_hmsdms :: "sky_coord \<Rightarrow> string" where
  "to_string_hmsdms c =
     sexagesimal_str ''hms'' (ra c / 15) @ '' ''
       @ (if dec c < 0 then ''-'' else ''+'') @ sexagesimal_str ''dms'' \<bar>dec c\<bar>"

section \<open>Distances\<close>

record sky_coord3 = sky_coord +
  coord_distance :: real

definition sky_coord3_of :: "degrees \<Rightarrow> degrees \<Rightarrow> real \<Rightarrow> sky_coord3 result" where
  "sky_coord3_of lon lat d =
     bind_result (sky_coord_of lon lat) (\<lambda>c. Inr \<lparr>ra = ra c, dec = dec c, coord_distance = d\<rparr>)"

definition cartesian :: "sky_coord3 \<Rightarrow> real \<times> real \<times> real" where
  "cartesian c =
     (let lon = radians_of (ra c); lat = radians_of (dec c); d = coord_distance c
      in (d * cos lat * cos lon, d * cos lat * sin lon, d * sin lat))"

definition separation_3d :: "sky_coord3 \<Rightarrow> sky_coord3 \<Rightarrow> real" where
  "separation_3d p q =
     (case cartesian p of (x1, y1, z1) \<Rightarrow> case cartesian q of (x2, y2, z2) \<Rightarrow>
        sqrt ((x1 - x2)\<^sup>2 + (y1 - y2)\<^sup>2 + (z1 - z2)\<^sup>2))"

section \<open>The cells (lines 328--461)\<close>

definition first_coord_cell :: "sky_coord result" where
  "first_coord_cell = sky_coord_of 10.625 41.2"

text \<open>Lines 346--351: five spellings of one position, the last one shown.\<close>

definition spellings_cell :: "(sky_coord \<times> cell_output list) result" where
  "spellings_cell =
     bind_result (sky_coord_of 10.625 41.2) (\<lambda>c.
     bind_result (skycoord_of_strings None ''00h42m30s'' ''+41d12m00s'') (\<lambda>c.
     bind_result (skycoord_of_strings None ''00h42.5m'' ''+41d12m'') (\<lambda>c.
     bind_result (skycoord_of_string (Some (Hourangle, Degree)) ''00 42 30 +41 12 00'') (\<lambda>c.
     bind_result (skycoord_of_string (Some (Hourangle, Degree)) ''00:42.5 +41:12'') (\<lambda>c.
       Inr (c, [Display ''c'' 1]))))))"

text \<open>Lines 367--369: \<open>SkyCoord.from_name\<close> asks a name resolver (a parameter); a
  position without distance reports the dimensionless distance 1.\<close>

definition rigel_cell :: "(string \<Rightarrow> sky_coord result) \<Rightarrow> (sky_coord \<times> cell_output list) result" where
  "rigel_cell from_name =
     bind_result (from_name ''rigel'') (\<lambda>a_big_blue_star.
       Inr (a_big_blue_star,
            [Print [VReal (ra a_big_blue_star), VReal (dec a_big_blue_star), VReal 1],
             Print [VStr (to_string_hmsdms a_big_blue_star)]]))"

definition galactic_cell :: "(sky_coord \<Rightarrow> real \<times> real) \<Rightarrow> sky_coord \<Rightarrow> (real \<times> real) \<times> cell_output list" where
  "galactic_cell to_galactic c = (to_galactic c, [Display ''c.galactic'' 1])"

definition constellation_cell :: "(sky_coord \<Rightarrow> string) \<Rightarrow> sky_coord \<Rightarrow> sky_coord \<Rightarrow> cell_output list" where
  "constellation_cell get_constellation c a_big_blue_star =
     [Print [VStr (to_string_hmsdms c), VStr ''is in'', VStr (get_constellation c), VStr ''and Rigel is in'',
             VStr (get_constellation a_big_blue_star)]]"

definition cartesian_cell :: "(sky_coord3 \<times> cell_output list) result" where
  "cartesian_cell =
     bind_result (sky_coord3_of 10.68458 41.26917 770) (\<lambda>c.
       (case cartesian c of (x, y, z) \<Rightarrow> Inr (c, [Print [VReal x, VReal y, VReal z]])))"

definition separation_cell :: "cell_output list result" where
  "separation_cell =
     bind_result (sky_coord3_of 10 9 10) (\<lambda>c1.
     bind_result (sky_coord3_of 11 10 11.5) (\<lambda>c2.
       Inr [Print [VFormat ''Angular Separation: %s''
                     [VReal (separation (sky_coord.truncate c1) (sky_coord.truncate c2))]],
            Print [VFormat ''Distance between objects: %s'' [VReal (separation_3d c1 c2)]]]))"

definition catalogue_cell :: "(sky_coord \<Rightarrow> real \<times> real) \<Rightarrow> (sky_coord list \<times> cell_output list) result" where
  "catalogue_cell to_galactic =
     (let ras = [0 - 0.7, 21.5, 120.9]; decs = [4.5, -5.2, 6.3]
      in bind_result (map_result (\<lambda>(r, d). sky_coord_of r d) (zip ras decs)) (\<lambda>catalogue.
           Inr (catalogue, [Display ''catalogue.galactic'' (length (map to_galactic catalogue))])))"

lemmas angle_eval = skycoord_of_strings_def parse_angle_def py_strip_def is_ws_def take_sign_def
  lex_fields.simps is_num_char_def field_style_def seps_uniform_def sexagesimal_def fields_in_range_def
  sky_coord_of_def wrap_at_360_def unit_degrees_def angle_seps_def skycoord_of_string_def
  ra_dec_strings_def py_split_def join_space_def

section \<open>Printing and parsing whole seconds\<close>

lemma real_div_frac:
  assumes "0 < n"
  shows "real T / real n - real (T div n) = real (T mod n) / real n"
proof -
  have "real T = real (T div n * n + T mod n)" by simp
  then have "real T = real n * real (T div n) + real (T mod n)" by (simp only: of_nat_add of_nat_mult mult.commute)
  then show ?thesis using assms by (simp add: field_simps)
qed

lemma to_sexagesimal_whole:
  "to_sexagesimal (real T / 3600) = (T div 3600, T mod 3600 div 60, real (T mod 60))"
proof -
  have i: "\<lfloor>real T / 3600\<rfloor> = int (T div 3600)"
    using floor_divide_of_nat_eq [of T 3600] by simp
  have f: "real T / 3600 - real (T div 3600) = real (T mod 3600) / 3600"
    using real_div_frac [of 3600 T] by simp
  have f60: "real (T mod 3600) / 3600 * 60 = real (T mod 3600) / 60" by simp
  have m: "\<lfloor>real (T mod 3600) / 60\<rfloor> = int (T mod 3600 div 60)"
    using floor_divide_of_nat_eq [of "T mod 3600" 60] by simp
  have s: "(real (T mod 3600) / 60 - real (T mod 3600 div 60)) * 60 = real (T mod 60)"
  proof -
    have "real (T mod 3600) / 60 - real (T mod 3600 div 60) = real (T mod 3600 mod 60) / 60"
      using real_div_frac [of 60 "T mod 3600"] by simp
    moreover have "T mod 3600 mod 60 = T mod 60" by (simp add: mod_mod_cancel)
    ultimately show ?thesis by simp
  qed
  show ?thesis unfolding to_sexagesimal_def Let_def i
    by (simp only: of_int_of_nat_eq f f60 m s nat_int)
qed

lemma carry_fields_small:
  "m < 60 \<Longrightarrow> s < 60 \<Longrightarrow> carry_fields (d, m, real s) = (d, m, real s)"
proof -
  assume "m < 60" "s < 60"
  then have "real s + 1 / 10 ^ 8 < 60" by simp
  then show ?thesis using \<open>m < 60\<close> by (simp add: carry_fields_def)
qed

lemma dropWhile_replicate_append: "P c \<Longrightarrow> dropWhile P (replicate k c @ ys) = dropWhile P ys"
  by (induction k) simp_all

lemma is_digit_not_point: "is_digit c \<Longrightarrow> c \<noteq> CHR ''.''"
  by (auto simp: is_digit_def digit_chars_def)

lemma rstrip_zeros_point:
  assumes "list_all is_digit s"
  shows "rstrip (CHR ''.'') (rstrip (CHR ''0'') (s @ ''.'' @ replicate k (CHR ''0''))) = s"
proof -
  have "dropWhile (\<lambda>x. x = CHR ''.'') (rev s) = rev s"
  proof (cases "rev s")
    case (Cons c r)
    then have "c \<in> set s" by (metis list.set_intros(1) set_rev)
    then have "c \<noteq> CHR ''.''" using assms by (auto simp: list_all_iff dest: is_digit_not_point)
    then show ?thesis using Cons by simp
  qed simp
  then show ?thesis by (simp add: rstrip_def dropWhile_replicate_append)
qed

lemma zero_pad_8_zero: "zero_pad 8 (nat_str 0) = replicate 8 (CHR ''0'')"
  by (simp add: nat_str_small zero_pad_def digit_chr_def digit_chars_def numeral_eq_Suc)

lemma fmt_seconds_nat:
  assumes "k < 100"
  shows "fmt_seconds (real k) = zero_pad 2 (nat_str k)"
proof -
  have n: "nat (round_half_even (real k * 10 ^ 8)) = k * 10 ^ 8"
    using round_half_even_nat [of "k * 10 ^ 8"] by simp
  have t: "rstrip (CHR ''.'') (rstrip (CHR ''0'') (nat_str k @ ''.'' @ zero_pad 8 (nat_str 0))) = nat_str k"
    unfolding zero_pad_8_zero by (rule rstrip_zeros_point [OF nat_str_digits])
  have dm: "k * 10 ^ 8 div 10 ^ 8 = k" "k * 10 ^ 8 mod 10 ^ 8 = 0" by simp_all
  have fs: "fmt_seconds (real k) =
      (if length (nat_str k) = 1 \<or> nat_str k ! 1 = CHR ''.'' then CHR ''0'' # nat_str k else nat_str k)"
    unfolding fmt_seconds_def Let_def n dm t ..
  have len: "length (nat_str k) \<le> 2" using assms by (rule length_nat_str_lt100)
  have ne: "length (nat_str k) \<noteq> 0" by simp
  consider "length (nat_str k) = 1" | "length (nat_str k) = 2" using len ne by linarith
  then show ?thesis
  proof cases
    case 1
    then show ?thesis by (simp add: fs zero_pad_def)
  next
    case 2
    then have "is_digit (nat_str k ! 1)" using nat_str_digits [of k] by (simp add: list_all_length)
    then have "nat_str k ! 1 \<noteq> CHR ''.''" by (rule is_digit_not_point)
    then show ?thesis using 2 by (simp add: fs zero_pad_def)
  qed
qed


lemma sexagesimal_str_whole:
  assumes "T div 3600 < 100"
  shows "sexagesimal_str ms (real T / 3600) =
    zero_pad 2 (nat_str (T div 3600)) @ [ms ! 0] @ zero_pad 2 (nat_str (T mod 3600 div 60)) @ [ms ! 1]
      @ zero_pad 2 (nat_str (T mod 60)) @ [ms ! 2]"
proof -
  have "T mod 3600 div 60 < 60" "T mod 60 < 60" by simp_all
  then have "carry_fields (to_sexagesimal (real T / 3600)) = (T div 3600, T mod 3600 div 60, real (T mod 60))"
    by (simp add: to_sexagesimal_whole carry_fields_small)
  then show ?thesis by (simp add: sexagesimal_str_def fmt_seconds_nat)
qed

lemma digit_char_facts:
  "is_digit c \<Longrightarrow> \<not> is_ws c \<and> c \<noteq> CHR ''+'' \<and> c \<noteq> CHR ''-'' \<and> is_num_char c \<and> c \<noteq> CHR ''.''"
  by (auto simp: is_digit_def digit_chars_def is_ws_def is_num_char_def)

lemma zero_pad_nat_str_digits: "list_all is_digit (zero_pad k (nat_str n))"
  using nat_str_digits [of n] by (auto simp: zero_pad_def list_all_iff)

lemma zero_pad_nat_str_ne: "zero_pad k (nat_str n) \<noteq> []"
  by (simp add: zero_pad_def)

lemma py_strip_id:
  assumes "list_all (\<lambda>c. \<not> is_ws c) x"
  shows "py_strip x = x"
proof -
  have d: "dropWhile is_ws y = y" if "list_all (\<lambda>c. \<not> is_ws c) y" for y
    using that by (cases y) simp_all
  show ?thesis using d [OF assms] d [of "rev x"] assms by (simp add: py_strip_def)
qed

lemma lex_fields_field:
  assumes "n \<noteq> []" "list_all is_digit n" "c \<in> set angle_seps" "\<not> is_num_char c"
  shows "lex_fields (n @ c # rest) =
    (if rest = [] then Some [(n, Some c)] else map_option (\<lambda>fs. (n, Some c) # fs) (lex_fields rest))"
proof -
  have n: "\<And>x. x \<in> set n \<Longrightarrow> is_num_char x" using assms(2) digit_char_facts by (auto simp: list_all_iff)
  have "takeWhile is_num_char (n @ c # rest) = n" "dropWhile is_num_char (n @ c # rest) = c # rest"
    using n assms(4) by (simp_all add: takeWhile_append2 dropWhile_append2)
  then show ?thesis using assms(1,3) by (subst lex_fields.simps) (simp add: Let_def)
qed

lemma markers_facts:
  "CHR ''h'' \<in> set angle_seps" "CHR ''d'' \<in> set angle_seps" "CHR ''m'' \<in> set angle_seps" "CHR ''s'' \<in> set angle_seps"
  "\<not> is_num_char (CHR ''h'')" "\<not> is_num_char (CHR ''d'')" "\<not> is_num_char (CHR ''m'')" "\<not> is_num_char (CHR ''s'')"
  "\<not> is_ws (CHR ''h'')" "\<not> is_ws (CHR ''d'')" "\<not> is_ws (CHR ''m'')" "\<not> is_ws (CHR ''s'')"
  by (simp_all add: angle_seps_def is_num_char_def is_digit_def digit_chars_def is_ws_def)

lemma parse_field: "parse_ufloat (zero_pad k (nat_str n)) = Some (real n)"
proof -
  have "CHR ''.'' \<notin> set (zero_pad k (nat_str n))"
    using zero_pad_nat_str_digits [of k n] digit_char_facts by (auto simp: list_all_iff)
  then show ?thesis by (simp add: parse_ufloat_no_point parse_nat_zero_pad)
qed


lemma take_sign_digit:
  "list_all is_digit a \<Longrightarrow> a \<noteq> [] \<Longrightarrow> take_sign (a @ r) = (1, a @ r)"
  by (cases a) (auto simp: take_sign_def dest: digit_char_facts)

lemma lex_three:
  assumes "list_all is_digit a" "a \<noteq> []" "list_all is_digit b" "b \<noteq> []" "list_all is_digit c" "c \<noteq> []"
    and "m1 \<in> set angle_seps" "\<not> is_num_char m1" "m2 \<in> set angle_seps" "\<not> is_num_char m2"
    and "m3 \<in> set angle_seps" "\<not> is_num_char m3"
  shows "lex_fields (a @ m1 # b @ m2 # c @ [m3]) = Some [(a, Some m1), (b, Some m2), (c, Some m3)]"
  using assms by (simp add: lex_fields_field)

lemma no_ws_field: "list_all (\<lambda>c. \<not> is_ws c) (zero_pad k (nat_str n))"
  using zero_pad_nat_str_digits [of k n] digit_char_facts by (auto simp: list_all_iff)

lemma parse_three_fields:
  assumes "take_sign (py_strip str) = (sg, zero_pad 2 (nat_str x) @ m1 # zero_pad 2 (nat_str y) @ m2 # zero_pad 2 (nat_str z) @ [m3])"
    and "field_style [Some m1, Some m2, Some m3] = Some (Some u)"
    and "m1 \<in> set angle_seps" "\<not> is_num_char m1" "m2 \<in> set angle_seps" "\<not> is_num_char m2"
    and "m3 \<in> set angle_seps" "\<not> is_num_char m3"
    and "fields_in_range u [real x, real y, real z]"
  shows "parse_angle unit str = Inr (sg * (real x + real y / 60 + real z / 3600) * unit_degrees u)"
proof -
  have pt: "CHR ''.'' \<notin> set (zero_pad 2 (nat_str n))" for n
    using zero_pad_nat_str_digits [of 2 n] digit_char_facts by (auto simp: list_all_iff)
  show ?thesis unfolding parse_angle_def
    using assms pt [of x] pt [of y]
    by (simp add: lex_three zero_pad_nat_str_digits zero_pad_nat_str_ne parse_field sexagesimal_def)
qed

lemma no_ws_fields3:
  "\<not> is_ws m1 \<Longrightarrow> \<not> is_ws m2 \<Longrightarrow> \<not> is_ws m3 \<Longrightarrow>
   list_all (\<lambda>c. \<not> is_ws c) (zero_pad 2 (nat_str x) @ m1 # zero_pad 2 (nat_str y) @ m2 # zero_pad 2 (nat_str z) @ [m3])"
  using no_ws_field [of 2 x] no_ws_field [of 2 y] no_ws_field [of 2 z] by simp

lemma parse_hms:
  assumes "x \<le> 24" "y < 60" "z < 60"
  shows "parse_angle unit (zero_pad 2 (nat_str x) @ CHR ''h'' # zero_pad 2 (nat_str y) @ CHR ''m''
           # zero_pad 2 (nat_str z) @ [CHR ''s'']) = Inr ((real x + real y / 60 + real z / 3600) * 15)"
proof -
  let ?s = "zero_pad 2 (nat_str x) @ CHR ''h'' # zero_pad 2 (nat_str y) @ CHR ''m'' # zero_pad 2 (nat_str z) @ [CHR ''s'']"
  have "take_sign (py_strip ?s) = (1, ?s)"
    using no_ws_fields3 [OF markers_facts(9,11,12)] zero_pad_nat_str_digits zero_pad_nat_str_ne
    by (simp add: py_strip_id take_sign_digit)
  moreover have "field_style [Some (CHR ''h''), Some (CHR ''m''), Some (CHR ''s'')] = Some (Some Hourangle)"
    by (simp add: field_style_def)
  moreover have "fields_in_range Hourangle [real x, real y, real z]"
    using assms by (simp add: fields_in_range_def)
  ultimately show ?thesis
    using parse_three_fields markers_facts by (simp add: unit_degrees_def)
qed

lemma parse_dms_signed:
  assumes "y < 60" "z < 60"
  shows "parse_angle unit ((if neg then CHR ''-'' else CHR ''+'') # zero_pad 2 (nat_str x) @ CHR ''d''
           # zero_pad 2 (nat_str y) @ CHR ''m'' # zero_pad 2 (nat_str z) @ [CHR ''s''])
         = Inr ((if neg then -1 else 1) * (real x + real y / 60 + real z / 3600))"
proof -
  let ?b = "zero_pad 2 (nat_str x) @ CHR ''d'' # zero_pad 2 (nat_str y) @ CHR ''m'' # zero_pad 2 (nat_str z) @ [CHR ''s'']"
  have nw: "list_all (\<lambda>c. \<not> is_ws c) ?b" using no_ws_fields3 [OF markers_facts(10,11,12)] .
  then have "take_sign (py_strip ((if neg then CHR ''-'' else CHR ''+'') # ?b)) = (if neg then -1 else 1, ?b)"
    by (simp add: py_strip_id take_sign_def is_ws_def)
  moreover have "field_style [Some (CHR ''d''), Some (CHR ''m''), Some (CHR ''s'')] = Some (Some Degree)"
    by (simp add: field_style_def)
  moreover have "fields_in_range Degree [real x, real y, real z]"
    using assms by (simp add: fields_in_range_def)
  ultimately show ?thesis
    using parse_three_fields markers_facts by (simp add: unit_degrees_def)
qed

lemma py_split_acc_word:
  "list_all (\<lambda>c. \<not> is_ws c) x \<Longrightarrow> py_split_acc w (x @ ys) = py_split_acc (rev x @ w) ys"
  by (induction x arbitrary: w) auto

lemma py_split_two:
  assumes "list_all (\<lambda>c. \<not> is_ws c) a" "list_all (\<lambda>c. \<not> is_ws c) b" "a \<noteq> []" "b \<noteq> []"
  shows "py_split (a @ CHR '' '' # b) = [a, b]"
proof -
  have "py_split_acc [] (a @ CHR '' '' # b) = a # py_split_acc [] b"
    using assms(1,3) by (simp add: py_split_acc_word is_ws_def)
  moreover have "py_split_acc [] b = [b]"
    using py_split_acc_word [OF assms(2), of "[]" "[]"] assms(4) by simp
  ultimately show ?thesis by (simp add: py_split_def)
qed


lemma sexa_split: "T = 3600 * (T div 3600) + 60 * (T mod 3600 div 60) + (T mod 60 :: nat)"
proof -
  have a: "T = T div 3600 * 3600 + T mod 3600" by simp
  have b: "T mod 3600 = T mod 3600 div 60 * 60 + T mod 3600 mod 60" by simp
  have c: "T mod 3600 mod 60 = T mod 60" by (simp add: mod_mod_cancel)
  show ?thesis using a b c by linarith
qed

section \<open>The Vincenty formula and Cartesian distances\<close>

lemma cos_arctan2_unit:
  assumes "0 \<le> y" "x\<^sup>2 + y\<^sup>2 = 1"
  shows "cos (arctan2 y x) = x"
proof -
  consider "0 < x" | "x < 0" | "x = 0" by linarith
  then show ?thesis
  proof cases
    case 1
    have "1 + (y / x)\<^sup>2 = 1 / x\<^sup>2" using 1 assms(2) by (simp add: field_simps)
    then have "sqrt (1 + (y / x)\<^sup>2) = 1 / x" using 1 by (simp add: real_sqrt_divide)
    then show ?thesis using 1 by (simp add: arctan2_def cos_arctan)
  next
    case 2
    have "1 + (y / x)\<^sup>2 = 1 / x\<^sup>2" using 2 assms(2) by (simp add: field_simps)
    then have "sqrt (1 + (y / x)\<^sup>2) = - (1 / x)" using 2 by (simp add: real_sqrt_divide)
    then show ?thesis using 2 assms(1) by (simp add: arctan2_def cos_arctan)
  next
    case 3
    then have "y = 1" using assms by (simp add: power2_eq_1_iff)
    then show ?thesis using 3 by (simp add: arctan2_def)
  qed
qed

lemma vincenty_poly:
  fixes c1 s1 c2 s2 cd sd :: real
  shows "(c2 * sd)\<^sup>2 + (c1 * s2 - s1 * c2 * cd)\<^sup>2 + (s1 * s2 + c1 * c2 * cd)\<^sup>2
    = s2\<^sup>2 * (s1\<^sup>2 + c1\<^sup>2) + c2\<^sup>2 * (sd\<^sup>2 + cd\<^sup>2 * (s1\<^sup>2 + c1\<^sup>2))"
  by algebra

lemma vincenty_unit:
  fixes b1 b2 d :: real
  shows "(cos b2 * sin d)\<^sup>2 + (cos b1 * sin b2 - sin b1 * cos b2 * cos d)\<^sup>2
     + (sin b1 * sin b2 + cos b1 * cos b2 * cos d)\<^sup>2 = 1"
proof -
  have "(cos b2 * sin d)\<^sup>2 + (cos b1 * sin b2 - sin b1 * cos b2 * cos d)\<^sup>2
     + (sin b1 * sin b2 + cos b1 * cos b2 * cos d)\<^sup>2
     = (sin b2)\<^sup>2 * ((sin b1)\<^sup>2 + (cos b1)\<^sup>2) + (cos b2)\<^sup>2 * ((sin d)\<^sup>2 + (cos d)\<^sup>2 * ((sin b1)\<^sup>2 + (cos b1)\<^sup>2))"
    by (rule vincenty_poly)
  also have "\<dots> = (sin b2)\<^sup>2 + (cos b2)\<^sup>2" by simp
  finally show ?thesis by simp
qed

lemma cos_angular_separation:
  "cos (angular_separation l1 b1 l2 b2) = sin b1 * sin b2 + cos b1 * cos b2 * cos (l2 - l1)"
proof -
  let ?h = "sqrt ((cos b2 * sin (l2 - l1))\<^sup>2 + (cos b1 * sin b2 - sin b1 * cos b2 * cos (l2 - l1))\<^sup>2)"
  let ?x = "sin b1 * sin b2 + cos b1 * cos b2 * cos (l2 - l1)"
  have "?x\<^sup>2 + ?h\<^sup>2 = 1" using vincenty_unit [of b2 "l2 - l1" b1] by simp
  then have "cos (arctan2 ?h ?x) = ?x" by (intro cos_arctan2_unit) simp_all
  then show ?thesis by (simp add: angular_separation_def Let_def)
qed


lemma wrap_at_360_bounds: "0 \<le> wrap_at_360 x \<and> wrap_at_360 x < 360"
proof -
  have "of_int \<lfloor>x / 360\<rfloor> \<le> x / 360" "x / 360 < of_int \<lfloor>x / 360\<rfloor> + 1" by linarith+
  then show ?thesis by (simp add: wrap_at_360_def field_simps)
qed

section \<open>Properties of the cells\<close>

text \<open>The five spellings of the cell at lines 329\<open>-\<close>350 (degrees, \<open>h m s\<close> and
  \<open>d m s\<close> strings, fractional minutes, space and colon separated single strings) all
  give the same position, right ascension 10.625 and declination 41.2 degrees.\<close>

theorem skycoord_spellings:
  "sky_coord_of 10.625 41.2 = Inr \<lparr>ra = 10.625, dec = 41.2\<rparr>
   \<and> skycoord_of_strings None ''00h42m30s'' ''+41d12m00s'' = Inr \<lparr>ra = 10.625, dec = 41.2\<rparr>
   \<and> skycoord_of_strings None ''00h42.5m'' ''+41d12m'' = Inr \<lparr>ra = 10.625, dec = 41.2\<rparr>
   \<and> skycoord_of_string (Some (Hourangle, Degree)) ''00 42 30 +41 12 00'' = Inr \<lparr>ra = 10.625, dec = 41.2\<rparr>
   \<and> skycoord_of_string (Some (Hourangle, Degree)) ''00:42.5 +41:12'' = Inr \<lparr>ra = 10.625, dec = 41.2\<rparr>"
  by (simp add: angle_eval model_eval)

theorem sky_coord_of_bounds:
  "sky_coord_of lon lat = Inr c \<Longrightarrow> 0 \<le> ra c \<and> ra c < 360 \<and> dec c = lat \<and> \<bar>lat\<bar> \<le> 90
     \<and> (\<exists>k::int. ra c = lon - 360 * of_int k)"
  using wrap_at_360_bounds [of lon]
  by (auto simp: sky_coord_of_def wrap_at_360_def split: if_splits)

theorem sky_coord_of_bounds_witness:
  "\<exists>c. sky_coord_of (0 - 0.7) 4.5 = Inr c \<and> ra c = 359.3 \<and> dec c = 4.5"
proof -
  have "\<lfloor>(0 - 0.7 :: real) / 360\<rfloor> = -1" by (simp add: floor_eq_iff)
  then have s: "sky_coord_of (0 - 0.7) 4.5 = Inr \<lparr>ra = 359.3, dec = 4.5\<rparr>"
    by (simp add: sky_coord_of_def wrap_at_360_def)
  from sky_coord_of_bounds [OF s] s show ?thesis by auto
qed

lemma hms_field_roundtrip:
  fixes T :: nat
  assumes "T < 86400"
  defines "r \<equiv> sexagesimal_str ''hms'' (real T / 3600)"
  shows "list_all (\<lambda>c. \<not> is_ws c) r \<and> r \<noteq> [] \<and> parse_angle None r = Inr (real T / 240)"
proof -
  let ?zp = "\<lambda>n. zero_pad 2 (nat_str n)"
  have "T div 3600 < 100" using assms(1) by simp
  from sexagesimal_str_whole [OF this, of "''hms''"]
  have r: "r = ?zp (T div 3600) @ CHR ''h'' # ?zp (T mod 3600 div 60) @ CHR ''m'' # ?zp (T mod 60) @ [CHR ''s'']"
    by (simp add: r_def)
  have tsum: "real T = 3600 * real (T div 3600) + 60 * real (T mod 3600 div 60) + real (T mod 60)"
    using arg_cong [of _ _ real, OF sexa_split [of T]] by simp
  have "T div 3600 \<le> 24" using assms(1) by simp
  from parse_hms [OF this] have "parse_angle None r
      = Inr ((real (T div 3600) + real (T mod 3600 div 60) / 60 + real (T mod 60) / 3600) * 15)" by (simp add: r)
  also have "\<dots> = Inr (real T / 240)" using tsum by simp
  finally show ?thesis unfolding r using no_ws_fields3 [OF markers_facts(9,11,12)] zero_pad_nat_str_ne by simp
qed

lemma dms_field_roundtrip:
  fixes A :: int
  assumes "\<bar>A\<bar> \<le> 324000"
  defines "d \<equiv> (if A < 0 then ''-'' else ''+'') @ sexagesimal_str ''dms'' (real (nat \<bar>A\<bar>) / 3600)"
  shows "list_all (\<lambda>c. \<not> is_ws c) d \<and> d \<noteq> [] \<and> parse_angle None d = Inr (real_of_int A / 3600)"
proof -
  define D where "D = nat \<bar>A\<bar>"
  let ?zp = "\<lambda>n. zero_pad 2 (nat_str n)"
  have D: "D \<le> 324000" "real D = \<bar>real_of_int A\<bar>" using assms(1) by (simp_all add: D_def)
  have "D div 3600 < 100" using D(1) by simp
  from sexagesimal_str_whole [OF this, of "''dms''"]
  have d: "d = (if A < 0 then CHR ''-'' else CHR ''+'') # ?zp (D div 3600) @ CHR ''d'' # ?zp (D mod 3600 div 60)
      @ CHR ''m'' # ?zp (D mod 60) @ [CHR ''s'']"
    by (simp add: d_def D_def)
  have dsum: "real D = 3600 * real (D div 3600) + 60 * real (D mod 3600 div 60) + real (D mod 60)"
    using arg_cong [of _ _ real, OF sexa_split [of D]] by simp
  have "parse_angle None d = Inr ((if A < 0 then -1 else 1)
      * (real (D div 3600) + real (D mod 3600 div 60) / 60 + real (D mod 60) / 3600))"
    unfolding d by (rule parse_dms_signed) simp_all
  also have "\<dots> = Inr ((if A < 0 then -1 else 1) * (real D / 3600))" using dsum by simp
  also have "\<dots> = Inr (real_of_int A / 3600)" using D(2) by auto
  finally show ?thesis unfolding d
    using no_ws_fields3 [OF markers_facts(10,11,12), of "D div 3600" "D mod 3600 div 60" "D mod 60"]
    by (simp add: is_ws_def)
qed

text \<open>C27: \<open>to_string('hmsdms')\<close> and \<open>SkyCoord(string)\<close> are inverse on whole seconds:
  a position whose right ascension is a whole number \<open>T < 86400\<close> of seconds of time and
  whose declination a whole number \<open>A\<close> of arcseconds (at most 90 degrees) is printed and read
  back unchanged.\<close>

theorem hmsdms_roundtrip:
  fixes T :: nat and A :: int
  assumes "T < 86400" "\<bar>A\<bar> \<le> 324000"
  shows "skycoord_of_string None (to_string_hmsdms \<lparr>ra = real T / 240, dec = real_of_int A / 3600\<rparr>)
    = Inr \<lparr>ra = real T / 240, dec = real_of_int A / 3600\<rparr>"
proof -
  define c where "c = \<lparr>ra = real T / 240, dec = real_of_int A / 3600\<rparr>"
  let ?r = "sexagesimal_str ''hms'' (real T / 3600)"
  let ?d = "(if A < 0 then ''-'' else ''+'') @ sexagesimal_str ''dms'' (real (nat \<bar>A\<bar>) / 3600)"
  have r: "list_all (\<lambda>c. \<not> is_ws c) ?r \<and> ?r \<noteq> [] \<and> parse_angle None ?r = Inr (real T / 240)"
    using hms_field_roundtrip [OF assms(1)] by simp
  have d: "list_all (\<lambda>c. \<not> is_ws c) ?d \<and> ?d \<noteq> [] \<and> parse_angle None ?d = Inr (real_of_int A / 3600)"
    using dms_field_roundtrip [OF assms(2)] by simp
  have "\<bar>real_of_int A\<bar> = real (nat \<bar>A\<bar>)" by simp
  then have str: "to_string_hmsdms c = ?r @ CHR '' '' # ?d"
    by (simp add: to_string_hmsdms_def c_def)
  have sp: "ra_dec_strings (to_string_hmsdms c) = (?r, ?d)"
    using py_split_two [of ?r ?d] r d by (simp add: str ra_dec_strings_def Let_def)
  have wrap: "wrap_at_360 (real T / 240) = real T / 240"
  proof -
    have "\<lfloor>real T / 240 / 360\<rfloor> = int (T div 86400)"
      using floor_divide_of_nat_eq [of T 86400] by simp
    then show ?thesis using assms(1) by (simp add: wrap_at_360_def)
  qed
  have "\<bar>real_of_int A / 3600\<bar> \<le> 90" using assms(2) by simp
  then have "sky_coord_of (real T / 240) (real_of_int A / 3600) = Inr c"
    by (auto simp: sky_coord_of_def wrap c_def abs_le_iff)
  then have "skycoord_of_string None (to_string_hmsdms c) = Inr c"
    using r d by (simp add: skycoord_of_string_def sp skycoord_of_strings_def)
  then show ?thesis by (simp only: c_def)
qed


theorem hmsdms_roundtrip_witness:
  "skycoord_of_string None (to_string_hmsdms \<lparr>ra = real (2550::nat) / 240, dec = real_of_int 148320 / 3600\<rparr>)
     = Inr \<lparr>ra = real (2550::nat) / 240, dec = real_of_int 148320 / 3600\<rparr>"
  using hmsdms_roundtrip [of 2550 148320] by simp

theorem separation_3d_cosines:
  "(separation_3d p q)\<^sup>2 = (coord_distance p)\<^sup>2 + (coord_distance q)\<^sup>2
     - 2 * coord_distance p * coord_distance q * cos (radians_of (separation (sky_coord.truncate p) (sky_coord.truncate q)))"
proof -
  let ?l1 = "radians_of (ra p)" and ?b1 = "radians_of (dec p)"
  let ?l2 = "radians_of (ra q)" and ?b2 = "radians_of (dec q)"
  have sep: "cos (radians_of (separation (sky_coord.truncate p) (sky_coord.truncate q)))
      = sin ?b1 * sin ?b2 + cos ?b1 * cos ?b2 * cos (?l2 - ?l1)"
    by (simp add: separation_def radians_of_def degrees_of_def sky_coord.defs cos_angular_separation)
  have "(separation_3d p q)\<^sup>2 =
      (coord_distance p * cos ?b1 * cos ?l1 - coord_distance q * cos ?b2 * cos ?l2)\<^sup>2
      + (coord_distance p * cos ?b1 * sin ?l1 - coord_distance q * cos ?b2 * sin ?l2)\<^sup>2
      + (coord_distance p * sin ?b1 - coord_distance q * sin ?b2)\<^sup>2"
    by (simp add: separation_3d_def cartesian_def Let_def)
  also have "\<dots> = (coord_distance p)\<^sup>2 * ((cos ?b1)\<^sup>2 * ((cos ?l1)\<^sup>2 + (sin ?l1)\<^sup>2) + (sin ?b1)\<^sup>2)
      + (coord_distance q)\<^sup>2 * ((cos ?b2)\<^sup>2 * ((cos ?l2)\<^sup>2 + (sin ?l2)\<^sup>2) + (sin ?b2)\<^sup>2)
      - 2 * coord_distance p * coord_distance q * (sin ?b1 * sin ?b2 + cos ?b1 * cos ?b2 * (cos ?l2 * cos ?l1 + sin ?l2 * sin ?l1))"
    by algebra
  also have "\<dots> = (coord_distance p)\<^sup>2 * ((cos ?b1)\<^sup>2 + (sin ?b1)\<^sup>2) + (coord_distance q)\<^sup>2 * ((cos ?b2)\<^sup>2 + (sin ?b2)\<^sup>2)
      - 2 * coord_distance p * coord_distance q * (sin ?b1 * sin ?b2 + cos ?b1 * cos ?b2 * cos (?l2 - ?l1))"
    by (simp only: sin_cos_squared_add2 mult_1_right cos_diff)
  also have "\<dots> = (coord_distance p)\<^sup>2 + (coord_distance q)\<^sup>2
      - 2 * coord_distance p * coord_distance q * (sin ?b1 * sin ?b2 + cos ?b1 * cos ?b2 * cos (?l2 - ?l1))"
    by (simp only: sin_cos_squared_add2 mult_1_right)
  finally show ?thesis by (simp only: sep)
qed

text \<open>C13: the separation of two sky positions, computed with Vincenty's formula as astropy's
  \<open>angular_separation\<close> does, is the angle of the spherical law of cosines:
  \<open>cos sep = sin b1 sin b2 + cos b1 cos b2 cos (l2 - l1)\<close>, read in degrees in [0, 180].\<close>

theorem separation_spherical_cosines:
  "separation p q = degrees_of (arccos (sin (radians_of (dec p)) * sin (radians_of (dec q))
     + cos (radians_of (dec p)) * cos (radians_of (dec q)) * cos (radians_of (ra q) - radians_of (ra p))))"
proof -
  let ?a = "angular_separation (radians_of (ra p)) (radians_of (dec p)) (radians_of (ra q)) (radians_of (dec q))"
  have "arccos (cos ?a) = ?a"
    using angular_separation_range by (intro arccos_cos) auto
  then show ?thesis by (simp add: separation_def cos_angular_separation)
qed

end
