(* ===== verification/Units.thy ===== *)
theory Units
  imports Numerals
begin

text \<open>
  The units-and-constants cells of the introduction notebook
  (src/notebooks/plotfits.ipynb, lines 197--305).  An astropy \<open>Quantity\<close> is a value
  with a unit; a unit is an expression over named units (\<open>u.km\<close>, \<open>u.s\<close>, ...), each
  with its scale to SI and its dimension, a vector of rational exponents of length,
  mass and time (rational because \<open>np.sqrt\<close> and \<open>**1.5\<close> take fractional powers).
  Products, quotients and powers of quantities combine values and units;
  \<open>q.to(unit)\<close> rescales the value when the dimensions agree and raises
  \<open>UnitConversionError\<close> (a \<open>ValueError\<close>) otherwise; adding quantities converts the
  right operand to the left one's unit.  Unit strings (\<open>'km/s'\<close>, \<open>'pc/yr'\<close>) are
  names separated by \<open>/\<close>.  The constants carry astropy's CODATA 2018 and IAU 2015
  values; the printed text of a quantity is kept as its value and unit.
\<close>

section \<open>Dimensions and units\<close>

record dimension =
  dim_length :: rat
  dim_mass :: rat
  dim_time :: rat

definition dim_add :: "dimension \<Rightarrow> dimension \<Rightarrow> dimension" where
  "dim_add a b = \<lparr>dim_length = dim_length a + dim_length b, dim_mass = dim_mass a + dim_mass b,
                  dim_time = dim_time a + dim_time b\<rparr>"

definition dim_scale :: "rat \<Rightarrow> dimension \<Rightarrow> dimension" where
  "dim_scale r a = \<lparr>dim_length = r * dim_length a, dim_mass = r * dim_mass a, dim_time = r * dim_time a\<rparr>"

record named_unit =
  uname :: string
  uscale :: real
  udim :: dimension

datatype unit_expr = UNamed named_unit | UMul unit_expr unit_expr | UDiv unit_expr unit_expr | UPow unit_expr rat

fun unit_scale :: "unit_expr \<Rightarrow> real" where
  "unit_scale (UNamed n) = uscale n"
| "unit_scale (UMul a b) = unit_scale a * unit_scale b"
| "unit_scale (UDiv a b) = unit_scale a / unit_scale b"
| "unit_scale (UPow a r) = unit_scale a powr real_of_rat r"

fun unit_dim :: "unit_expr \<Rightarrow> dimension" where
  "unit_dim (UNamed n) = udim n"
| "unit_dim (UMul a b) = dim_add (unit_dim a) (unit_dim b)"
| "unit_dim (UDiv a b) = dim_add (unit_dim a) (dim_scale (-1) (unit_dim b))"
| "unit_dim (UPow a r) = dim_scale r (unit_dim a)"

definition d_length :: dimension where "d_length = \<lparr>dim_length = 1, dim_mass = 0, dim_time = 0\<rparr>"
definition d_mass :: dimension where "d_mass = \<lparr>dim_length = 0, dim_mass = 1, dim_time = 0\<rparr>"
definition d_time :: dimension where "d_time = \<lparr>dim_length = 0, dim_mass = 0, dim_time = 1\<rparr>"

text \<open>The named units of \<open>astropy.units\<close> the cells use.\<close>

definition u_m :: named_unit where "u_m = \<lparr>uname = ''m'', uscale = 1, udim = d_length\<rparr>"
definition u_km :: named_unit where "u_km = \<lparr>uname = ''km'', uscale = 1000, udim = d_length\<rparr>"
definition u_cm :: named_unit where "u_cm = \<lparr>uname = ''cm'', uscale = 1 / 100, udim = d_length\<rparr>"
definition u_pc :: named_unit where "u_pc = \<lparr>uname = ''pc'', uscale = 30856775814913673, udim = d_length\<rparr>"
definition u_s :: named_unit where "u_s = \<lparr>uname = ''s'', uscale = 1, udim = d_time\<rparr>"
definition u_yr :: named_unit where "u_yr = \<lparr>uname = ''yr'', uscale = 31557600, udim = d_time\<rparr>"
definition u_day :: named_unit where "u_day = \<lparr>uname = ''d'', uscale = 86400, udim = d_time\<rparr>"
definition u_kg :: named_unit where "u_kg = \<lparr>uname = ''kg'', uscale = 1, udim = d_mass\<rparr>"
definition u_erg :: named_unit where
  "u_erg = \<lparr>uname = ''erg'', uscale = 1 / 10 ^ 7,
            udim = \<lparr>dim_length = 2, dim_mass = 1, dim_time = -2\<rparr>\<rparr>"

definition unit_table :: "named_unit list" where
  "unit_table = [u_m, u_km, u_cm, u_pc, u_s, u_yr, u_day, u_kg, u_erg]"

text \<open>\<open>Unit('a/b/c')\<close>: a name not in the table raises \<open>ValueError\<close>.\<close>

definition lookup_unit :: "string \<Rightarrow> unit_expr result" where
  "lookup_unit n = (case filter (\<lambda>u. uname u = n) unit_table of [] \<Rightarrow> Inl ValueError | u # _ \<Rightarrow> Inr (UNamed u))"

definition parse_unit :: "string \<Rightarrow> unit_expr result" where
  "parse_unit s =
     (case split_on (CHR ''/'') s of
        [] \<Rightarrow> Inl ValueError
      | n # ds \<Rightarrow> bind_result (lookup_unit n) (\<lambda>u.
                    fold_result (\<lambda>d acc. bind_result (lookup_unit d) (\<lambda>v. Inr (UDiv acc v))) ds u))"

section \<open>Quantities\<close>

record quantity =
  qval :: real
  qunit :: unit_expr

definition q_mul :: "quantity \<Rightarrow> quantity \<Rightarrow> quantity" where
  "q_mul a b = \<lparr>qval = qval a * qval b, qunit = UMul (qunit a) (qunit b)\<rparr>"

definition q_div :: "quantity \<Rightarrow> quantity \<Rightarrow> quantity" where
  "q_div a b = \<lparr>qval = qval a / qval b, qunit = UDiv (qunit a) (qunit b)\<rparr>"

definition q_scale :: "real \<Rightarrow> quantity \<Rightarrow> quantity" where
  "q_scale x a = a\<lparr>qval := x * qval a\<rparr>"

definition q_of_unit :: "real \<Rightarrow> unit_expr \<Rightarrow> quantity" where
  "q_of_unit x u = \<lparr>qval = x, qunit = u\<rparr>"

text \<open>\<open>q ** r\<close> and \<open>np.sqrt(q)\<close> (the power one half).\<close>

definition q_pow :: "quantity \<Rightarrow> rat \<Rightarrow> quantity" where
  "q_pow a r = \<lparr>qval = qval a powr real_of_rat r, qunit = UPow (qunit a) r\<rparr>"

definition q_to :: "quantity \<Rightarrow> unit_expr \<Rightarrow> quantity result" where
  "q_to q u =
     (if unit_dim (qunit q) = unit_dim u then Inr \<lparr>qval = qval q * unit_scale (qunit q) / unit_scale u, qunit = u\<rparr>
      else Inl ValueError)"

definition q_add :: "quantity \<Rightarrow> quantity \<Rightarrow> quantity result" where
  "q_add a b = bind_result (q_to b (qunit a)) (\<lambda>b'. Inr (a\<lparr>qval := qval a + qval b'\<rparr>))"

section \<open>Constants\<close>

definition const_c :: quantity where
  "const_c = \<lparr>qval = 299792458, qunit = UDiv (UNamed u_m) (UNamed u_s)\<rparr>"

definition const_G :: quantity where
  "const_G = \<lparr>qval = 66743 / 10 ^ 15, qunit = UDiv (UPow (UNamed u_m) 3) (UMul (UNamed u_kg) (UPow (UNamed u_s) 2))\<rparr>"

definition const_M_sun :: quantity where
  "const_M_sun = \<lparr>qval = 1988409870698051 * 10 ^ 15, qunit = UNamed u_kg\<rparr>"

definition const_M_earth :: quantity where
  "const_M_earth = \<lparr>qval = 5972167867791379 * 10 ^ 9, qunit = UNamed u_kg\<rparr>"

definition const_au :: quantity where
  "const_au = \<lparr>qval = 149597870700, qunit = UNamed u_m\<rparr>"

definition const_R_earth :: quantity where
  "const_R_earth = \<lparr>qval = 6378100, qunit = UNamed u_m\<rparr>"

section \<open>The cells\<close>

definition v_quantity :: "quantity \<Rightarrow> py_value" where
  "v_quantity q = VList [VReal (qval q), VStr (case qunit q of UNamed n \<Rightarrow> uname n | _ \<Rightarrow> ''composite'')]"

definition print_c_cell :: "cell_output list" where
  "print_c_cell = [Print [v_quantity const_c]]"

definition c_to_cell :: "string \<Rightarrow> quantity result" where
  "c_to_cell target = bind_result (parse_unit target) (q_to const_c)"

definition flux_cell :: quantity where
  "flux_cell = q_div (q_div (q_of_unit 12.32 (UNamed u_erg)) (q_of_unit 1 (UPow (UNamed u_cm) 2))) (q_of_unit 1 (UNamed u_s))"

definition speed_of_earth :: quantity where
  "speed_of_earth = q_div (q_scale pi (q_scale 2 const_au)) (q_of_unit 1 (UNamed u_yr))"

definition speed_of_earth_2 :: quantity where
  "speed_of_earth_2 = q_pow (q_div (q_mul const_G const_M_sun) const_au) (1 / 2)"

definition speed_cell :: "quantity \<Rightarrow> quantity result" where
  "speed_cell v = bind_result (parse_unit ''km/s'') (q_to v)"

definition c_km_s_cell :: "quantity result" where
  "c_km_s_cell = c_to_cell ''km/s''"

definition c_pc_yr_cell :: "quantity result" where
  "c_pc_yr_cell = c_to_cell ''pc/yr''"

definition speed_of_earth_cell :: "quantity result" where
  "speed_of_earth_cell = speed_cell speed_of_earth"

definition speed_of_earth_2_cell :: "quantity result" where
  "speed_of_earth_2_cell = speed_cell speed_of_earth_2"

definition period_cell :: "(quantity \<times> cell_output list) result" where
  "period_cell =
     bind_result (q_add (q_of_unit 36000 (UNamed u_km)) const_R_earth) (\<lambda>a.
       (let period = q_div (q_scale (2 * pi) (q_pow a (3 / 2))) (q_pow (q_mul const_G const_M_earth) (1 / 2))
        in bind_result (q_to period (UNamed u_day)) (\<lambda>p. Inr (period, [Print [v_quantity p]]))))"

text \<open>The named units an expression is built from, and the physical content of a
  quantity: its value in SI units and its dimension.\<close>

fun named_of :: "unit_expr \<Rightarrow> named_unit list" where
  "named_of (UNamed n) = [n]"
| "named_of (UMul a b) = named_of a @ named_of b"
| "named_of (UDiv a b) = named_of a @ named_of b"
| "named_of (UPow a r) = named_of a"

definition si :: "quantity \<Rightarrow> real \<times> dimension" where
  "si q = (qval q * unit_scale (qunit q), unit_dim (qunit q))"

lemmas unit_eval = parse_unit_def lookup_unit_def unit_table_def u_m_def u_km_def u_cm_def u_pc_def
  u_s_def u_yr_def u_day_def u_kg_def u_erg_def d_length_def d_mass_def d_time_def dim_add_def dim_scale_def
  q_to_def q_add_def q_of_unit_def q_pow_def q_div_def q_mul_def q_scale_def
  const_c_def const_G_def const_M_sun_def const_M_earth_def const_au_def const_R_earth_def

section \<open>Units are positive\<close>

lemma unit_scale_pos: "list_all (\<lambda>n. 0 < uscale n) (named_of u) \<Longrightarrow> 0 < unit_scale u"
  by (induction u) auto

lemma unit_table_pos: "list_all (\<lambda>n. 0 < uscale n) unit_table"
  by (simp add: unit_table_def u_m_def u_km_def u_cm_def u_pc_def u_s_def u_yr_def u_day_def u_kg_def u_erg_def)

lemma lookup_unit_pos:
  assumes "lookup_unit n = Inr u"
  shows "list_all (\<lambda>n. 0 < uscale n) (named_of u)"
proof (cases "filter (\<lambda>u. uname u = n) unit_table")
  case Nil
  then show ?thesis using assms by (simp add: lookup_unit_def)
next
  case (Cons x xs)
  then have "x \<in> set unit_table" by (metis filter_is_subset list.set_intros(1) subsetD)
  moreover have "u = UNamed x" using assms Cons by (simp add: lookup_unit_def)
  ultimately show ?thesis using unit_table_pos by (simp add: list_all_iff)
qed

lemma parse_unit_pos:
  assumes "parse_unit s = Inr u"
  shows "list_all (\<lambda>n. 0 < uscale n) (named_of u)"
proof -
  have step: "fold_result (\<lambda>d acc. bind_result (lookup_unit d) (\<lambda>v. Inr (UDiv acc v))) ds a = Inr u
      \<Longrightarrow> list_all (\<lambda>n. 0 < uscale n) (named_of a) \<Longrightarrow> list_all (\<lambda>n. 0 < uscale n) (named_of u)" for ds a
  proof (induction ds arbitrary: a)
    case (Cons d ds)
    then show ?case by (auto simp: bind_result_def dest: lookup_unit_pos split: sum.splits)
  qed simp
  show ?thesis
  proof (cases "split_on (CHR ''/'') s")
    case Nil
    then show ?thesis using assms by (simp add: parse_unit_def)
  next
    case (Cons n ds)
    show ?thesis
    proof (cases "lookup_unit n")
      case (Inl e)
      then show ?thesis using assms Cons by (simp add: parse_unit_def)
    next
      case (Inr a)
      then have "fold_result (\<lambda>d acc. bind_result (lookup_unit d) (\<lambda>v. Inr (UDiv acc v))) ds a = Inr u"
        using assms Cons by (simp add: parse_unit_def)
      then show ?thesis using step lookup_unit_pos [OF Inr] by blast
    qed
  qed
qed

section \<open>Conversion\<close>

lemma q_to_Inr_iff: "(\<exists>q'. q_to q u = Inr q') \<longleftrightarrow> unit_dim (qunit q) = unit_dim u"
  by (simp add: q_to_def)

lemma q_to_Inl: "q_to q u = Inl e \<Longrightarrow> e = ValueError \<and> unit_dim (qunit q) \<noteq> unit_dim u"
  by (simp add: q_to_def split: if_splits)

section \<open>Properties of the cells\<close>

theorem q_to_roundtrip:
  assumes "0 < unit_scale (qunit q)" "0 < unit_scale u" "unit_dim (qunit q) = unit_dim u"
  shows "\<exists>q'. q_to q u = Inr q' \<and> q_to q' (qunit q) = Inr q"
proof -
  let ?q' = "\<lparr>qval = qval q * unit_scale (qunit q) / unit_scale u, qunit = u\<rparr>"
  have "q_to q u = Inr ?q'" using assms(3) by (simp add: q_to_def)
  moreover have "q_to ?q' (qunit q) = Inr q" using assms by (simp add: q_to_def)
  ultimately show ?thesis by blast
qed

theorem q_to_roundtrip_witness:
  "\<exists>q'. q_to const_c (UDiv (UNamed u_km) (UNamed u_s)) = Inr q' \<and> q_to q' (qunit const_c) = Inr const_c"
  by (rule q_to_roundtrip) (simp_all add: const_c_def u_m_def u_s_def u_km_def d_length_def d_time_def)

text \<open>C28: \<open>q.to(u)\<close> raises \<open>ValueError\<close> exactly when the dimensions differ, and
  otherwise gives a quantity in \<open>u\<close> with the same value in SI units; \<open>a + b\<close> raises
  \<open>ValueError\<close> exactly when \<open>b\<close> cannot be converted to \<open>a\<close>'s unit, and otherwise gives a
  quantity in \<open>a\<close>'s unit whose SI value is the sum of the two SI values.\<close>

theorem q_to_q_add_si:
  assumes "unit_scale u \<noteq> 0" and "unit_scale (qunit a) \<noteq> 0"
  shows "(case q_to q u of
        Inl e \<Rightarrow> e = ValueError \<and> unit_dim (qunit q) \<noteq> unit_dim u
      | Inr c \<Rightarrow> unit_dim (qunit q) = unit_dim u \<and> qunit c = u \<and> si c = si q)
    \<and> (case q_add a b of
        Inl e \<Rightarrow> e = ValueError \<and> unit_dim (qunit b) \<noteq> unit_dim (qunit a)
      | Inr d \<Rightarrow> qunit d = qunit a \<and> si d = (fst (si a) + fst (si b), snd (si a)))"
proof
  show "case q_to q u of
        Inl e \<Rightarrow> e = ValueError \<and> unit_dim (qunit q) \<noteq> unit_dim u
      | Inr c \<Rightarrow> unit_dim (qunit q) = unit_dim u \<and> qunit c = u \<and> si c = si q"
    using assms(1) by (simp add: q_to_def si_def)
  show "case q_add a b of
        Inl e \<Rightarrow> e = ValueError \<and> unit_dim (qunit b) \<noteq> unit_dim (qunit a)
      | Inr d \<Rightarrow> qunit d = qunit a \<and> si d = (fst (si a) + fst (si b), snd (si a))"
    using assms(2) by (simp add: q_add_def q_to_def si_def distrib_right)
qed

theorem q_to_q_add_si_witness:
  "(case q_to const_c (UDiv (UNamed u_km) (UNamed u_s)) of
        Inl e \<Rightarrow> e = ValueError \<and> unit_dim (qunit const_c) \<noteq> unit_dim (UDiv (UNamed u_km) (UNamed u_s))
      | Inr c \<Rightarrow> unit_dim (qunit const_c) = unit_dim (UDiv (UNamed u_km) (UNamed u_s))
          \<and> qunit c = UDiv (UNamed u_km) (UNamed u_s) \<and> si c = si const_c)
    \<and> (case q_add (q_of_unit 36000 (UNamed u_km)) const_R_earth of
        Inl e \<Rightarrow> e = ValueError \<and> unit_dim (qunit const_R_earth) \<noteq> unit_dim (qunit (q_of_unit 36000 (UNamed u_km)))
      | Inr d \<Rightarrow> qunit d = qunit (q_of_unit 36000 (UNamed u_km))
          \<and> si d = (fst (si (q_of_unit 36000 (UNamed u_km))) + fst (si const_R_earth),
                    snd (si (q_of_unit 36000 (UNamed u_km)))))"
  by (rule q_to_q_add_si) (simp_all add: q_of_unit_def u_km_def u_s_def)

theorem units_cells_typecheck:
  "(\<exists>q. c_km_s_cell = Inr q) \<and> (\<exists>q. c_pc_yr_cell = Inr q)
   \<and> (\<exists>q. speed_of_earth_cell = Inr q) \<and> (\<exists>q. speed_of_earth_2_cell = Inr q)
   \<and> (\<exists>p out. period_cell = Inr (p, out))
   \<and> unit_dim (qunit flux_cell) = \<lparr>dim_length = 0, dim_mass = 1, dim_time = -3\<rparr>
   \<and> c_to_cell ''km'' = Inl ValueError"
  by (simp add: c_km_s_cell_def c_pc_yr_cell_def speed_of_earth_cell_def speed_of_earth_2_cell_def
      c_to_cell_def speed_cell_def speed_of_earth_def speed_of_earth_2_def period_cell_def
      flux_cell_def unit_eval Let_def)

end
