(* ===== verification/Times.thy ===== *)
theory Times
  imports Numerals
begin

text \<open>
  The \<open>astropy.time\<close> cells of the introduction notebook (\<open>plotfits.ipynb\<close>, section Time).
  A \<open>Time\<close> is a day number and a fraction of a day in a time scale (astropy's two doubles
  \<open>jd1 + jd2\<close>, kept here as the modified Julian day of the civil day and the exact fraction of
  that day).  The calendar conversions are ERFA's: \<open>eraCal2jd\<close> and \<open>eraDtf2d\<close> (the
  Gregorian date and time of an ISO string to a day number, with their range checks as
  \<open>ValueError\<close>), \<open>eraJd2cal\<close> and \<open>eraD2dtf\<close> (back), written with C's truncating integer
  division.  TAI\<open>-\<close>UTC, ERFA's leap second table \<open>eraDat\<close>, is a parameter \<open>dat\<close>
  (seconds at the start of a modified Julian day; constant within each day, as it is since
  1972).  Python's \<open>datetime\<close> (ordinals, \<open>timedelta\<close> arithmetic, \<open>str\<close>) is modelled
  from CPython's algorithms for the time-zone cell.
\<close>

section \<open>Calendar arithmetic of ERFA\<close>

text \<open>C's integer division truncates towards zero.\<close>

definition c_div :: "int \<Rightarrow> int \<Rightarrow> int" where
  "c_div a b = (if (a < 0) = (b < 0) then \<bar>a\<bar> div \<bar>b\<bar> else - (\<bar>a\<bar> div \<bar>b\<bar>))"

definition month_days :: "int list" where
  "month_days = [31, 28, 31, 30, 31, 30, 31, 31, 30, 31, 30, 31]"

definition is_leap :: "int \<Rightarrow> bool" where
  "is_leap y = (y mod 4 = 0 \<and> (y mod 100 \<noteq> 0 \<or> y mod 400 = 0))"

definition month_length :: "int \<Rightarrow> int \<Rightarrow> int" where
  "month_length y m = month_days ! nat (m - 1) + (if m = 2 \<and> is_leap y then 1 else 0)"

text \<open>\<open>eraCal2jd\<close>: the modified Julian date of a Gregorian date; status \<open>-1\<close> (year before
  \<open>-4799\<close>), \<open>-2\<close> (month) and \<open>-3\<close> (day), which \<open>eraDtf2d\<close> returns at once, are
  \<open>ValueError\<close>.\<close>

definition cal2jd :: "int \<Rightarrow> int \<Rightarrow> int \<Rightarrow> int result" where
  "cal2jd iy im iday =
     (if iy < -4799 then Inl ValueError
      else if im < 1 \<or> 12 < im then Inl ValueError
      else if iday < 1 \<or> month_length iy im < iday then Inl ValueError
      else let my = c_div (im - 14) 12; iypmy = iy + my
           in Inr (c_div (1461 * (iypmy + 4800)) 4 + c_div (367 * (im - 2 - 12 * my)) 12
                   - c_div (3 * c_div (iypmy + 4900) 100) 4 + iday - 2432076))"

text \<open>\<open>eraJd2cal\<close> on the civil day with modified Julian date \<open>d\<close> (Julian day number
  \<open>d + 2400001\<close> at its noon); ERFA refuses Julian dates before \<open>-68569.5\<close>.\<close>

definition jd2cal :: "int \<Rightarrow> (int \<times> int \<times> int) result" where
  "jd2cal d =
     (if d + 2400001 < -68569 then Inl ValueError
      else let l0 = d + 2400001 + 68569; n = c_div (4 * l0) 146097;
               l1 = l0 - c_div (146097 * n + 3) 4; i = c_div (4000 * (l1 + 1)) 1461001;
               l2 = l1 - c_div (1461 * i) 4 + 31; k = c_div (80 * l2) 2447;
               iday = l2 - c_div (2447 * k) 80; l3 = c_div k 11
           in Inr (100 * (n - 49) + i + l3, k + 2 - 12 * l3, iday))"

text \<open>The day after a date of the Gregorian calendar (the reference day counter).\<close>

definition next_date :: "int \<times> int \<times> int \<Rightarrow> int \<times> int \<times> int" where
  "next_date ymd = (case ymd of (y, m, d) \<Rightarrow>
     if d < month_length y m then (y, m, d + 1) else if m < 12 then (y, m + 1, 1) else (y + 1, 1, 1))"

definition valid_date :: "int \<times> int \<times> int \<Rightarrow> bool" where
  "valid_date ymd = (case ymd of (y, m, d) \<Rightarrow> -4799 \<le> y \<and> 1 \<le> m \<and> m \<le> 12 \<and> 1 \<le> d \<and> d \<le> month_length y m)"

text \<open>The year part of \<open>eraCal2jd\<close>'s formula, for the proofs.\<close>

definition cal_year :: "int \<Rightarrow> int" where
  "cal_year Y = 1461 * (Y + 4800) div 4 - 3 * ((Y + 4900) div 100) div 4"

section \<open>Times\<close>

datatype time_scale = UTC | TAI | TT

record py_time =
  t_day :: int
  t_frac :: real
  t_scale :: time_scale

type_synonym leap_table = "int \<Rightarrow> real"

text \<open>A fixed-width field of digits (\<open>%Y\<close> four, \<open>%m %d %H %M\<close> two), and the seconds of
  \<open>date_hms\<close>: two digits, optionally a point and a fraction.\<close>

definition digits_field :: "nat \<Rightarrow> string \<Rightarrow> int option" where
  "digits_field k s = (if length s = k then map_option int (parse_nat s) else None)"

definition seconds_field :: "string \<Rightarrow> real option" where
  "seconds_field s = (if length (takeWhile (\<lambda>c. c \<noteq> CHR ''.'') s) = 2 then parse_ufloat s else None)"

text \<open>\<open>TimeISOT\<close>: the sub-formats \<open>date_hms\<close>, \<open>date_hm\<close> and \<open>date\<close>; any other string
  is a \<open>ValueError\<close>.\<close>

definition parse_isot :: "string \<Rightarrow> (int \<times> int \<times> int \<times> int \<times> int \<times> real) result" where
  "parse_isot s =
     (let ds = takeWhile (\<lambda>c. c \<noteq> CHR ''T'') s; ts = dropWhile (\<lambda>c. c \<noteq> CHR ''T'') s in
      case split_on (CHR ''-'') ds of
        [ys, ms, dds] \<Rightarrow>
          (case (digits_field 4 ys, digits_field 2 ms, digits_field 2 dds) of
             (Some y, Some m, Some d) \<Rightarrow>
               (case ts of
                  [] \<Rightarrow> Inr (y, m, d, 0, 0, 0)
                | _ # tr \<Rightarrow>
                    (case split_on (CHR '':'') tr of
                       [hs, mis] \<Rightarrow>
                         (case (digits_field 2 hs, digits_field 2 mis) of
                            (Some h, Some mi) \<Rightarrow> Inr (y, m, d, h, mi, 0)
                          | _ \<Rightarrow> Inl ValueError)
                     | [hs, mis, ss] \<Rightarrow>
                         (case (digits_field 2 hs, digits_field 2 mis, seconds_field ss) of
                            (Some h, Some mi, Some sec) \<Rightarrow> Inr (y, m, d, h, mi, sec)
                          | _ \<Rightarrow> Inl ValueError)
                     | _ \<Rightarrow> Inl ValueError))
           | _ \<Rightarrow> Inl ValueError)
      | _ \<Rightarrow> Inl ValueError)"

text \<open>\<open>eraDtf2d\<close>: the day number from \<open>eraCal2jd\<close> and the time as a fraction of the
  day, which in UTC is \<open>86400 + dleap\<close> seconds long.  A bad hour, minute or negative second
  is an error status (\<open>ValueError\<close>); seconds past the end of the day are only a
  warning status, so their value is kept.\<close>

definition dtf2d :: "leap_table \<Rightarrow> time_scale \<Rightarrow> int \<Rightarrow> int \<Rightarrow> int \<Rightarrow> int \<Rightarrow> int \<Rightarrow> real \<Rightarrow> py_time result" where
  "dtf2d dat scale iy im iday ihr imn sec =
     bind_result (cal2jd iy im iday) (\<lambda>dj.
       let dleap = (if scale = UTC then dat (dj + 1) - dat dj else 0)
       in if ihr < 0 \<or> 23 < ihr \<or> imn < 0 \<or> 59 < imn \<or> sec < 0 then Inl ValueError
          else Inr \<lparr>t_day = dj, t_frac = (60 * real_of_int (60 * ihr + imn) + sec) / (86400 + dleap),
                    t_scale = scale\<rparr>)"

definition time_of_isot :: "leap_table \<Rightarrow> string \<Rightarrow> py_time result" where
  "time_of_isot dat s =
     bind_result (parse_isot s) (\<lambda>(y, m, d, h, mi, sec). dtf2d dat UTC y m d h mi sec)"

text \<open>\<open>TimeMJD.set_jds\<close>: the value split into day and fraction.\<close>

definition time_of_mjd :: "time_scale \<Rightarrow> real \<Rightarrow> py_time" where
  "time_of_mjd scale x = \<lparr>t_day = \<lfloor>x\<rfloor>, t_frac = x - of_int \<lfloor>x\<rfloor>, t_scale = scale\<rparr>"

definition jd :: "py_time \<Rightarrow> real" where
  "jd t = 2400000.5 + real_of_int (t_day t) + t_frac t"

definition mjd :: "py_time \<Rightarrow> real" where
  "mjd t = real_of_int (t_day t) + t_frac t"

text \<open>Scale changes: \<open>eraUtctai\<close> (the UTC fraction stretched over a leap second day,
  plus TAI\<open>-\<close>UTC at the start of the day), \<open>eraTaitt\<close> and \<open>eraTttai\<close> (32.184 s).\<close>

definition utc_tai :: "leap_table \<Rightarrow> py_time \<Rightarrow> py_time" where
  "utc_tai dat t =
     (let d = t_day t; dleap = dat (d + 1) - dat d
      in \<lparr>t_day = d, t_frac = t_frac t * (86400 + dleap) / 86400 + dat d / 86400, t_scale = TAI\<rparr>)"

definition tai_tt :: "py_time \<Rightarrow> py_time" where
  "tai_tt t = t\<lparr>t_frac := t_frac t + 32.184 / 86400, t_scale := TT\<rparr>"

definition tt_tai :: "py_time \<Rightarrow> py_time" where
  "tt_tai t = t\<lparr>t_frac := t_frac t - 32.184 / 86400, t_scale := TAI\<rparr>"

definition to_tai :: "leap_table \<Rightarrow> py_time \<Rightarrow> py_time" where
  "to_tai dat t = (case t_scale t of UTC \<Rightarrow> utc_tai dat t | TAI \<Rightarrow> t | TT \<Rightarrow> tt_tai t)"

definition to_tt :: "leap_table \<Rightarrow> py_time \<Rightarrow> py_time" where
  "to_tt dat t = (case t_scale t of TT \<Rightarrow> t | _ \<Rightarrow> tai_tt (to_tai dat t))"

text \<open>\<open>TimeGPS\<close>: seconds since 1980-01-06 00:00:19 TAI; \<open>eraEpb\<close> and \<open>eraEpj\<close> on TT.\<close>

definition gps :: "leap_table \<Rightarrow> py_time \<Rightarrow> real" where
  "gps dat t = (jd (to_tai dat t) - (2444244.5 + 19 / 86400)) * 86400"

definition epb :: "real \<Rightarrow> real" where
  "epb dj = 1900 + ((dj - 2451545) + 36524.68648) / 365.242198781"

definition epj :: "real \<Rightarrow> real" where
  "epj dj = 2000 + (dj - 2451545) / 365.25"

text \<open>\<open>'%.kf'\<close>: the value rounded to \<open>k\<close> decimals (ties to even), sign first.\<close>

definition fmt_fixed :: "nat \<Rightarrow> real \<Rightarrow> string" where
  "fmt_fixed k x =
     (let a = nat (round_half_even (\<bar>x\<bar> * 10 ^ k))
      in (if x < 0 then ''-'' else []) @ nat_str (a div 10 ^ k)
         @ (if k = 0 then [] else ''.'' @ zero_pad k (nat_str (a mod 10 ^ k))))"

definition byear_str :: "leap_table \<Rightarrow> py_time \<Rightarrow> string" where
  "byear_str dat t = ''B'' @ fmt_fixed 3 (epb (jd (to_tt dat t)))"

definition jyear_str :: "leap_table \<Rightarrow> py_time \<Rightarrow> string" where
  "jyear_str dat t = ''J'' @ fmt_fixed 3 (epj (jd (to_tt dat t)))"

section \<open>Day number back to date and time\<close>

text \<open>ERFA's \<open>dnint\<close>: to the nearest integer, ties away from zero.\<close>

definition dnint :: "real \<Rightarrow> int" where
  "dnint x = (if x < 0 then \<lceil>x - 1 / 2\<rceil> else \<lfloor>x + 1 / 2\<rfloor>)"

text \<open>\<open>eraD2tf\<close>: a fraction of a day as hours, minutes, seconds and \<open>ndp\<close> decimals
  of a second, rounded; the hours reach 24 when the fraction rounds up to a whole day.\<close>

definition d2tf :: "nat \<Rightarrow> real \<Rightarrow> int \<times> int \<times> int \<times> int" where
  "d2tf ndp days =
     (let rs = (10::int) ^ ndp; a = dnint (real_of_int rs * 86400 * \<bar>days\<bar>)
      in (a div (3600 * rs), a mod (3600 * rs) div (60 * rs), a mod (60 * rs) div rs, a mod rs))"

text \<open>\<open>eraD2dtf\<close>: the date of the day and the rounded time; a time rounded up to 24 h
  moves to 0 h of the next day, except in the leap second of a UTC day with one, which is
  23:59:60.\<close>

definition d2dtf :: "leap_table \<Rightarrow> time_scale \<Rightarrow> nat \<Rightarrow> py_time \<Rightarrow> (int \<times> int \<times> int \<times> int \<times> int \<times> int \<times> int) result" where
  "d2dtf dat scale ndp t =
     (let d = t_day t; fd = t_frac t;
          dleap = (if scale = UTC then dat (d + 1) - dat d else 0);
          leap = (1 / 2 < \<bar>dleap\<bar>);
          fd' = (if leap then fd + fd * dleap / 86400 else fd)
      in case d2tf ndp fd' of (h, mi, s, f) \<Rightarrow>
           if 23 < h \<and> (\<not> leap \<or> 0 < s)
           then bind_result (jd2cal (d + 1)) (\<lambda>(y, m, dd). Inr (y, m, dd, 0, 0, 0, f))
           else if 23 < h
           then bind_result (jd2cal d) (\<lambda>(y, m, dd). Inr (y, m, dd, 23, 59, 60, f))
           else bind_result (jd2cal d) (\<lambda>(y, m, dd). Inr (y, m, dd, h, mi, s, f)))"

definition pad2 :: "int \<Rightarrow> string" where
  "pad2 n = zero_pad 2 (nat_str (nat n))"

text \<open>\<open>TimeFITS\<close> and \<open>TimeISOT\<close> output, \<open>precision\<close> decimals of a second.\<close>

definition isot_str :: "nat \<Rightarrow> int \<times> int \<times> int \<times> int \<times> int \<times> int \<times> int \<Rightarrow> string" where
  "isot_str ndp v = (case v of (y, m, d, h, mi, s, f) \<Rightarrow>
     zero_pad 4 (nat_str (nat y)) @ ''-'' @ pad2 m @ ''-'' @ pad2 d @ ''T'' @ pad2 h @ '':'' @ pad2 mi
     @ '':'' @ pad2 s @ ''.'' @ zero_pad ndp (nat_str (nat f)))"

definition fits_str :: "leap_table \<Rightarrow> py_time \<Rightarrow> string result" where
  "fits_str dat t = bind_result (d2dtf dat (t_scale t) 3 t) (\<lambda>v. Inr (isot_str 3 v))"

section \<open>Python datetimes\<close>

text \<open>A \<open>datetime\<close>; \<open>dt_tz\<close> is the UTC offset of its \<open>tzinfo\<close> in minutes.\<close>

record py_datetime =
  dt_year :: int
  dt_month :: int
  dt_day :: int
  dt_hour :: int
  dt_minute :: int
  dt_second :: int
  dt_usec :: int
  dt_tz :: "int option"

definition datetime_new :: "int \<Rightarrow> int \<Rightarrow> int \<Rightarrow> int \<Rightarrow> int \<Rightarrow> int \<Rightarrow> int \<Rightarrow> int option \<Rightarrow> py_datetime result" where
  "datetime_new y m d h mi s us tz =
     (if y < 1 \<or> 9999 < y \<or> m < 1 \<or> 12 < m \<or> d < 1 \<or> month_length y m < d \<or> h < 0 \<or> 23 < h
         \<or> mi < 0 \<or> 59 < mi \<or> s < 0 \<or> 59 < s \<or> us < 0 \<or> 999999 < us then Inl ValueError
      else Inr \<lparr>dt_year = y, dt_month = m, dt_day = d, dt_hour = h, dt_minute = mi, dt_second = s,
                dt_usec = us, dt_tz = tz\<rparr>)"

text \<open>CPython's \<open>_ymd2ord\<close> and \<open>_ord2ymd\<close> (day 1 is 0001-01-01).\<close>

definition days_before_month :: "int list" where
  "days_before_month = [0, 31, 59, 90, 120, 151, 181, 212, 243, 273, 304, 334]"

definition ymd2ord :: "int \<Rightarrow> int \<Rightarrow> int \<Rightarrow> int" where
  "ymd2ord y m d =
     (let y1 = y - 1
      in y1 * 365 + y1 div 4 - y1 div 100 + y1 div 400
         + days_before_month ! nat (m - 1) + (if 2 < m \<and> is_leap y then 1 else 0) + d)"

definition ord2ymd :: "int \<Rightarrow> int \<times> int \<times> int" where
  "ord2ymd n0 =
     (let n = n0 - 1; n400 = n div 146097; n = n mod 146097;
          n100 = n div 36524; n = n mod 36524; n4 = n div 1461; n = n mod 1461;
          n1 = n div 365; n = n mod 365;
          year = n400 * 400 + 1 + n100 * 100 + n4 * 4 + n1
      in if n1 = 4 \<or> n100 = 4 then (year - 1, 12, 31)
         else let leapyear = (n1 = 3 \<and> (n4 \<noteq> 24 \<or> n100 = 3)); month = (n + 50) div 32;
                  preceding = days_before_month ! nat (month - 1) + (if 2 < month \<and> leapyear then 1 else 0)
              in if n < preceding
                 then let month = month - 1;
                          preceding = preceding - (month_days ! nat (month - 1) + (if month = 2 \<and> leapyear then 1 else 0))
                      in (year, month, n - preceding + 1)
                 else (year, month, n - preceding + 1))"

text \<open>\<open>dt + timedelta(minutes=k)\<close>: the ordinal and seconds of the day carried;
  \<open>OverflowError\<close> outside the ordinals 1 .. 3652059.\<close>

definition datetime_add_minutes :: "py_datetime \<Rightarrow> int \<Rightarrow> py_datetime result" where
  "datetime_add_minutes dt k =
     (let total = ymd2ord (dt_year dt) (dt_month dt) (dt_day dt) * 86400 + dt_hour dt * 3600
                  + dt_minute dt * 60 + dt_second dt + k * 60;
          days = total div 86400; secs = total mod 86400
      in if 0 < days \<and> days \<le> 3652059
         then (case ord2ymd days of (y, m, d) \<Rightarrow>
                 Inr (dt\<lparr>dt_year := y, dt_month := m, dt_day := d, dt_hour := secs div 3600,
                         dt_minute := secs mod 3600 div 60, dt_second := secs mod 60\<rparr>))
         else Inl OverflowError)"

text \<open>\<open>str\<close> of a datetime: \<open>isoformat(' ')\<close>.\<close>

definition datetime_str :: "py_datetime \<Rightarrow> string" where
  "datetime_str dt =
     zero_pad 4 (nat_str (nat (dt_year dt))) @ ''-'' @ pad2 (dt_month dt) @ ''-'' @ pad2 (dt_day dt)
     @ '' '' @ pad2 (dt_hour dt) @ '':'' @ pad2 (dt_minute dt) @ '':'' @ pad2 (dt_second dt)
     @ (if dt_usec dt = 0 then [] else ''.'' @ zero_pad 6 (nat_str (nat (dt_usec dt))))
     @ (case dt_tz dt of None \<Rightarrow> []
        | Some off \<Rightarrow> (if off < 0 then ''-'' else ''+'') @ pad2 (\<bar>off\<bar> div 60) @ '':'' @ pad2 (\<bar>off\<bar> mod 60))"

text \<open>\<open>TimeDatetime.set_jds\<close>: an aware datetime is moved to UTC and its zone dropped,
  then \<open>eraDtf2d\<close> reads its fields.\<close>

definition time_of_datetime :: "leap_table \<Rightarrow> py_datetime \<Rightarrow> py_time result" where
  "time_of_datetime dat dt =
     bind_result (case dt_tz dt of None \<Rightarrow> Inr dt
                  | Some off \<Rightarrow> bind_result (datetime_add_minutes dt (- off)) (\<lambda>u. Inr (u\<lparr>dt_tz := None\<rparr>)))
       (\<lambda>u. dtf2d dat UTC (dt_year u) (dt_month u) (dt_day u) (dt_hour u) (dt_minute u)
              (real_of_int (dt_second u) + real_of_int (dt_usec u) / 1000000))"

text \<open>\<open>TimeDatetime.to_value\<close> (\<open>Time.to_datetime\<close>): a zone only for UTC times
  (\<open>ScaleValueError\<close>), a leap second is a \<open>ValueError\<close>; the UTC datetime is moved to the
  zone by \<open>astimezone\<close>.\<close>

definition to_datetime :: "leap_table \<Rightarrow> int option \<Rightarrow> py_time \<Rightarrow> py_datetime result" where
  "to_datetime dat tz t =
     (if tz \<noteq> None \<and> t_scale t \<noteq> UTC then Inl ValueError
      else bind_result (d2dtf dat (t_scale t) 6 t) (\<lambda>(y, m, d, h, mi, s, f).
        if 60 \<le> s then Inl ValueError
        else bind_result (datetime_new y m d h mi s f (map_option (\<lambda>_. 0) tz)) (\<lambda>dt.
          case tz of None \<Rightarrow> Inr dt
          | Some off \<Rightarrow> bind_result (datetime_add_minutes dt off) (\<lambda>u. Inr (u\<lparr>dt_tz := Some off\<rparr>)))))"

section \<open>The Time cells of the introduction notebook\<close>

text \<open>Lines 479\<open>-\<close>482: two ISO strings (UTC, the default scale).\<close>

definition isot_cell :: "leap_table \<Rightarrow> (py_time list \<times> cell_output list) result" where
  "isot_cell dat =
     (let times = [''2017-09-13T00:00:00'', ''2017-09-15T11:20:15.123456789'']
      in bind_result (map_result (time_of_isot dat) times) (\<lambda>t1. Inr (t1, [Display ''t1'' (length t1)])))"

text \<open>Lines 498\<open>-\<close>500: modified Julian dates in TAI.\<close>

definition mjd_cell :: "py_time list \<times> cell_output list" where
  "mjd_cell =
     (let times = [58009, 58011.47239726]; t2 = map (time_of_mjd TAI) times
      in (t2, [Display ''t2'' (length t2)]))"

definition first_time :: "py_time list \<Rightarrow> py_time result" where
  "first_time ts = (case ts of [] \<Rightarrow> Inl IndexError | t # _ \<Rightarrow> Inr t)"

text \<open>Lines 518\<open>-\<close>523: the format conversions of \<open>t1[0]\<close>.\<close>

definition conversion_cell :: "leap_table \<Rightarrow> py_time list \<Rightarrow> cell_output list result" where
  "conversion_cell dat t1 =
     bind_result (first_time t1) (\<lambda>t. bind_result (fits_str dat t) (\<lambda>fits.
       Inr [Print [VFormat ''To julian date: %s'' [VReal (jd t)]],
            Print [VFormat ''To modified julian date: %s'' [VReal (mjd t)]],
            Print [VFormat ''To FITS: %s'' [VStr fits]],
            Print [VFormat ''To GPS: %s'' [VReal (gps dat t)]],
            Print [VFormat ''To Bessel Epoch Year: %s'' [VStr (byear_str dat t)]],
            Print [VFormat ''To Julian Epoch Year: %s'' [VStr (jyear_str dat t)]]]))"

text \<open>Lines 546\<open>-\<close>552: an aware datetime at UTC+1 made a \<open>Time\<close> and printed (\<open>str\<close> of
  its naive UTC datetime value); line 561: back to an aware datetime at UTC+1.\<close>

definition timezone_cell :: "leap_table \<Rightarrow> (py_time \<times> cell_output list) result" where
  "timezone_cell dat =
     (let utc_plus_one_hour = 60
      in bind_result (datetime_new 2000 1 1 0 0 0 0 (Some utc_plus_one_hour)) (\<lambda>dt_aware.
         bind_result (time_of_datetime dat dt_aware) (\<lambda>t.
         bind_result (to_datetime dat None t) (\<lambda>v. Inr (t, [Print [VStr (datetime_str v)]])))))"

definition aware_cell :: "leap_table \<Rightarrow> py_time \<Rightarrow> cell_output list result" where
  "aware_cell dat t =
     bind_result (to_datetime dat (Some 60) t) (\<lambda>w. Inr [Print [VStr (datetime_str w)]])"

section \<open>The calendar: day counting\<close>

lemma div_pred_step:
  fixes x k :: int
  assumes "0 < k"
  shows "x div k - (x - 1) div k = (if x mod k = 0 then 1 else 0)"
proof -
  have x: "x = x mod k + x div k * k" by simp
  have r: "0 \<le> x mod k" "x mod k < k" using assms by simp_all
  show ?thesis
  proof (cases "x mod k = 0")
    case True
    then have e: "x - 1 = (k - 1) + (x div k - 1) * k" using x by (simp add: algebra_simps)
    have "(x - 1) div k = (x div k - 1) + (k - 1) div k"
      unfolding e using assms by (rule div_mult_self1 [OF less_imp_neq [THEN not_sym]])
    moreover have "(k - 1) div k = 0" using assms by (simp add: div_pos_pos_trivial)
    ultimately show ?thesis using True by simp
  next
    case False
    then have e: "x - 1 = (x mod k - 1) + x div k * k" using x by (simp add: algebra_simps)
    have "(x - 1) div k = x div k + (x mod k - 1) div k"
      unfolding e using assms by (rule div_mult_self1 [OF less_imp_neq [THEN not_sym]])
    moreover have "(x mod k - 1) div k = 0" using r False by (simp add: div_pos_pos_trivial)
    ultimately show ?thesis using False by simp
  qed
qed

lemma c3_step: "3 * (c::int) div 4 - 3 * (c - 1) div 4 = (if c mod 4 = 1 then 0 else 1)"
  by presburger

lemma l1461: "1461 * (x::int) div 4 = 365 * x + x div 4"
proof -
  have e: "1461 * x = x + 365 * x * 4" by simp
  have "(x + 365 * x * 4) div 4 = 365 * x + x div 4" by (rule div_mult_self1) simp
  then show ?thesis by (simp only: e)
qed


lemma c_div_nonneg: "0 \<le> a \<Longrightarrow> 0 < b \<Longrightarrow> c_div a b = a div b"
  by (simp add: c_div_def)

lemma cal2jd_valid:
  assumes "valid_date (y, m, d)"
  shows "cal2jd y m d = Inr (if m \<le> 2 then cal_year (y - 1) + 367 * (m + 10) div 12 + d - 2432076
                             else cal_year y + 367 * (m - 2) div 12 + d - 2432076)"
proof (cases "m \<le> 2")
  case True
  have "m = 1 \<or> m = 2" using assms True by (simp add: valid_date_def, presburger)
  then have my: "c_div (m - 14) 12 = -1" by (auto simp: c_div_def)
  have "0 \<le> 3 * c_div (y + -1 + 4900) 100" using assms by (simp add: c_div_nonneg valid_date_def pos_imp_zdiv_nonneg_iff)
  then show ?thesis using assms True
    by (simp add: cal2jd_def valid_date_def my c_div_nonneg cal_year_def Let_def algebra_simps)
next
  case False
  have my: "c_div (m - 14) 12 = 0" using assms False by (simp add: c_div_def valid_date_def)
  have "0 \<le> 3 * c_div (y + 4900) 100" using assms by (simp add: c_div_nonneg valid_date_def pos_imp_zdiv_nonneg_iff)
  then show ?thesis using assms False
    by (simp add: cal2jd_def valid_date_def my c_div_nonneg cal_year_def Let_def)
qed

lemma mod_shift: "(y + b * (k::int)) mod k = y mod k"
  by (rule mod_mult_self1)

lemma cal_year_step: "cal_year y - cal_year (y - 1) = 365 + (if is_leap y then 1 else 0)"
proof -
  let ?C = "(y + 4900) div 100"
  have a: "1461 * (y + 4800) div 4 - 1461 * (y - 1 + 4800) div 4 = 365 + (if y mod 4 = 0 then 1 else 0)"
  proof -
    have m: "(y + 4800) mod 4 = y mod 4" using mod_shift [of y 1200 4] by simp
    have "1461 * (y + 4800) div 4 = 365 * (y + 4800) + (y + 4800) div 4" by (rule l1461)
    moreover have "1461 * (y - 1 + 4800) div 4 = 365 * (y - 1 + 4800) + (y + 4800 - 1) div 4"
      using l1461 [of "y - 1 + 4800"] by (simp add: algebra_simps)
    ultimately show ?thesis using div_pred_step [of 4 "y + 4800"] m by simp
  qed
  have c: "(y - 1 + 4900) div 100 = ?C - (if y mod 100 = 0 then 1 else 0)"
  proof -
    have "(y + 4900) mod 100 = y mod 100" using mod_shift [of y 49 100] by simp
    then show ?thesis using div_pred_step [of 100 "y + 4900"] by (simp add: algebra_simps)
  qed
  have e: "cal_year y - cal_year (y - 1) = (1461 * (y + 4800) div 4 - 1461 * (y - 1 + 4800) div 4)
      - (3 * ?C div 4 - 3 * ((y - 1 + 4900) div 100) div 4)"
    unfolding cal_year_def by linarith
  show ?thesis
  proof (cases "y mod 100 = 0")
    case False
    then have "(y - 1 + 4900) div 100 = ?C" using c by simp
    then have "cal_year y - cal_year (y - 1) = 365 + (if y mod 4 = 0 then 1 else 0)"
      by (simp only: e a diff_self diff_zero)
    then show ?thesis using False by (simp add: is_leap_def)
  next
    case True
    then obtain t where t: "y = t * 100" by auto
    have C: "?C = t + 49" unfolding t using div_mult_self2 [of 100 4900 t] by simp
    have "y mod 400 = 100 * (t mod 4)" unfolding t using mod_mult_mult1 [of 100 t 4] by (simp add: mult.commute)
    then have l: "(y mod 400 = 0) = (t mod 4 = 0)" by simp
    have "((t + 49) mod 4 = 1) = (t mod 4 = 0)" by presburger
    then have d: "3 * ?C div 4 - 3 * (?C - 1) div 4 = (if y mod 400 = 0 then 0 else 1)"
      using c3_step [of ?C] C l by simp
    have y4: "y mod 4 = 0" unfolding t by presburger
    moreover have "(y - 1 + 4900) div 100 = ?C - 1" using c True by simp
    ultimately have "cal_year y - cal_year (y - 1) = 366 - (if y mod 400 = 0 then 0 else 1)"
      by (simp only: e a d if_True) simp
    then show ?thesis using True y4 by (simp add: is_leap_def)
  qed
qed


lemma month_length_simps:
  "month_length y 1 = 31" "month_length y 2 = (if is_leap y then 29 else 28)" "month_length y 3 = 31"
  "month_length y 4 = 30" "month_length y 5 = 31" "month_length y 6 = 30" "month_length y 7 = 31"
  "month_length y 8 = 31" "month_length y 9 = 30" "month_length y 10 = 31" "month_length y 11 = 30"
  "month_length y 12 = 31"
  by (simp_all add: month_length_def month_days_def)

lemma month_cases: "1 \<le> m \<Longrightarrow> m \<le> 12 \<Longrightarrow>
    m = 1 \<or> m = 2 \<or> m = 3 \<or> m = 4 \<or> m = 5 \<or> m = 6 \<or> m = 7 \<or> m = 8 \<or> m = 9 \<or> m = 10 \<or> m = 11 \<or> (m::int) = 12"
  by arith

lemma next_date_valid: "valid_date ymd \<Longrightarrow> valid_date (next_date ymd)"
proof (cases ymd)
  case (fields y m d)
  assume v: "valid_date ymd"
  then have "1 \<le> m" "m \<le> 12" using fields by (simp_all add: valid_date_def)
  then show ?thesis using v fields
    by (auto simp: valid_date_def next_date_def month_length_simps split: if_split_asm dest!: month_cases)
qed

lemma cal2jd_successor:
  assumes v: "valid_date (y, m, d)" and n: "next_date (y, m, d) = (y', m', d')"
  shows "cal2jd y' m' d' = bind_result (cal2jd y m d) (\<lambda>j. Inr (j + 1))"
proof -
  have v': "valid_date (y', m', d')" using next_date_valid [OF v] n by simp
  have m: "1 \<le> m" "m \<le> 12" using v by (simp_all add: valid_date_def)
  have step: "cal_year y = cal_year (y - 1) + 365 + (if is_leap y then 1 else 0)"
    using cal_year_step [of y] by simp
  show ?thesis
  proof (cases "d < month_length y m")
    case True
    then have "(y', m', d') = (y, m, d + 1)" using n by (simp add: next_date_def)
    then show ?thesis using cal2jd_valid [OF v] cal2jd_valid [OF v'] by simp
  next
    case False
    then have d: "d = month_length y m" using v by (simp add: valid_date_def)
    show ?thesis
    proof (cases "m < 12")
      case True
      then have e: "(y', m', d') = (y, m + 1, 1)" using n False by (simp add: next_date_def)
      show ?thesis using m True d step cal2jd_valid [OF v] cal2jd_valid [OF v'] e
        by (auto simp: month_length_simps dest!: month_cases)
    next
      case False
      then have "m = 12" using m by simp
      moreover have "(y', m', d') = (y + 1, 1, 1)" using n False \<open>\<not> d < month_length y m\<close>
        by (simp add: next_date_def)
      ultimately show ?thesis using d cal2jd_valid [OF v] cal2jd_valid [OF v'] by (simp add: month_length_simps)
    qed
  qed
qed


text \<open>C25: \<open>eraCal2jd\<close> counts days: stepping a valid Gregorian date \<open>n\<close> times to the next
  day of the calendar (month lengths, leap years by the 4/100/400 rule) keeps it valid and
  adds exactly \<open>n\<close> to its modified Julian date.\<close>

theorem cal2jd_counts_days:
  assumes "valid_date ymd" "case ymd of (y, m, d) \<Rightarrow> cal2jd y m d = Inr j"
  shows "valid_date ((next_date ^^ n) ymd) \<and>
         (case (next_date ^^ n) ymd of (y, m, d) \<Rightarrow> cal2jd y m d = Inr (j + int n))"
proof (induction n)
  case 0
  then show ?case using assms by simp
next
  case (Suc n)
  obtain y m d where c: "(next_date ^^ n) ymd = (y, m, d)" by (cases "(next_date ^^ n) ymd")
  obtain y' m' d' where c': "next_date (y, m, d) = (y', m', d')" by (cases "next_date (y, m, d)")
  have v: "valid_date (y, m, d)" and j: "cal2jd y m d = Inr (j + int n)" using Suc c by simp_all
  have "cal2jd y' m' d' = Inr (j + int (Suc n))" using cal2jd_successor [OF v c'] j by simp
  then show ?case using next_date_valid [OF v] c c' by simp
qed

theorem cal2jd_counts_days_witness:
  "valid_date (2016, 2, 28) \<and> cal2jd 2016 2 28 = Inr 57446 \<and> (next_date ^^ 2) (2016, 2, 28) = (2016, 3, 1)
   \<and> valid_date (2016, 3, 1) \<and> cal2jd 2016 3 1 = Inr 57448"
proof -
  have v: "valid_date (2016, 2, 28)" by (simp add: valid_date_def month_length_simps is_leap_def)
  have c: "cal2jd 2016 2 28 = Inr 57446" by (simp add: cal2jd_def c_div_def month_length_simps is_leap_def)
  have n: "(next_date ^^ 2) (2016, 2, 28) = (2016, 3, 1)"
    by (simp add: numeral_2_eq_2 next_date_def month_length_simps is_leap_def)
  show ?thesis using cal2jd_counts_days [of "(2016, 2, 28)" 57446 2] v c n by simp
qed

text \<open>Every later day is reached: from a valid date with modified Julian date \<open>j\<close>,
  stepping day by day eventually gives a date whose \<open>eraCal2jd\<close> is any \<open>k \<ge> j\<close>.\<close>

theorem cal2jd_reaches:
  assumes "valid_date (y, m, d)" "cal2jd y m d = Inr j" "j \<le> k"
  shows "\<exists>n. case (next_date ^^ n) (y, m, d) of (y', m', d') \<Rightarrow> cal2jd y' m' d' = Inr k"
  using assms
proof (induction "nat (k - j)" arbitrary: y m d j)
  case 0
  then have "j = k" by simp
  then show ?case using 0 by (intro exI [of _ 0]) simp
next
  case (Suc i)
  obtain y' m' d' where c': "next_date (y, m, d) = (y', m', d')" by (cases "next_date (y, m, d)")
  have v': "valid_date (y', m', d')" using next_date_valid [OF Suc.prems(1)] c' by simp
  have j': "cal2jd y' m' d' = Inr (j + 1)" using cal2jd_successor [OF Suc.prems(1) c'] Suc.prems(2) by simp
  have "i = nat (k - (j + 1))" "j + 1 \<le> k" using Suc.hyps(2) by auto
  then have "\<exists>n. case (next_date ^^ n) (y', m', d') of (y'', m'', d'') \<Rightarrow> cal2jd y'' m'' d'' = Inr k"
    by (rule Suc.hyps(1) [OF _ v' j'])
  then show ?case
  proof (elim exE)
    fix n
    assume "case (next_date ^^ n) (y', m', d') of (y'', m'', d'') \<Rightarrow> cal2jd y'' m'' d'' = Inr k"
    then show ?case using c' by (intro exI [of _ "Suc n"]) (simp add: funpow_Suc_right del: funpow.simps)
  qed
qed

theorem cal2jd_reaches_witness:
  "valid_date (2017, 9, 13) \<and> cal2jd 2017 9 13 = Inr 58009 \<and> (58009::int) \<le> 58011 \<and>
   (\<exists>n. case (next_date ^^ n) (2017, 9, 13) of (y', m', d') \<Rightarrow> cal2jd y' m' d' = Inr 58011)"
proof -
  have v: "valid_date (2017, 9, 13)" by (simp add: valid_date_def month_length_simps)
  have c: "cal2jd 2017 9 13 = Inr 58009" by (simp add: cal2jd_def c_div_def month_length_simps)
  show ?thesis using cal2jd_reaches [OF v c, of 58011] v c by simp
qed

section \<open>The cells, evaluated\<close>



lemma isot_cell_value:
  "isot_cell dat = Inr ([\<lparr>t_day = 58009, t_frac = 0, t_scale = UTC\<rparr>, \<lparr>t_day = 58011, t_frac = 40815.123456789 / (86400 + (dat 58012 - dat 58011)), t_scale = UTC\<rparr>],
                        [Display ''t1'' 2])"
  by (simp add: isot_cell_def time_of_isot_def parse_isot_def model_eval digits_field_def seconds_field_def
     dtf2d_def cal2jd_def c_div_def month_length_def month_days_def is_leap_def)

lemma fits_t1_0: "fits_str dat \<lparr>t_day = 58009, t_frac = 0, t_scale = UTC\<rparr> = Inr ''2017-09-13T00:00:00.000''"
  by (simp add: fits_str_def d2dtf_def d2tf_def dnint_def jd2cal_def c_div_def isot_str_def pad2_def nat_str_eval)

lemma gps_t1_0: "dat 58009 = 37 \<Longrightarrow> dat 58010 = 37 \<Longrightarrow> gps dat \<lparr>t_day = 58009, t_frac = 0, t_scale = UTC\<rparr> = 1189296018"
  by (simp add: gps_def jd_def to_tai_def utc_tai_def)

lemma byear_t1_0: "dat 58009 = 37 \<Longrightarrow> dat 58010 = 37 \<Longrightarrow> byear_str dat \<lparr>t_day = 58009, t_frac = 0, t_scale = UTC\<rparr> = ''B2017.700''"
  by (simp add: byear_str_def fmt_fixed_def round_half_even_def epb_def to_tt_def to_tai_def
     tai_tt_def utc_tai_def jd_def nat_str_eval)

lemma jyear_t1_0: "dat 58009 = 37 \<Longrightarrow> dat 58010 = 37 \<Longrightarrow> jyear_str dat \<lparr>t_day = 58009, t_frac = 0, t_scale = UTC\<rparr> = ''J2017.699''"
  by (simp add: jyear_str_def fmt_fixed_def round_half_even_def epj_def to_tt_def to_tai_def
     tai_tt_def utc_tai_def jd_def nat_str_eval)

text \<open>The format conversion cell: for a leap second table with TAI\<open>-\<close>UTC = 37 s on
  2017-09-13 (and the day after, so that the day has no leap second), the cell prints the
  Julian date 2458009.5, the modified Julian date 58009, the FITS string
  \<open>2017-09-13T00:00:00.000\<close>, 1189296018 GPS seconds and the epochs B2017.700 and
  J2017.699 of \<open>t1[0]\<close>.\<close>

theorem conversion_cell_outputs:
  assumes "dat 58009 = 37" "dat 58010 = 37"
  shows "bind_result (isot_cell dat) (\<lambda>(t1, _). conversion_cell dat t1) =
    Inr [Print [VFormat ''To julian date: %s'' [VReal 2458009.5]],
         Print [VFormat ''To modified julian date: %s'' [VReal 58009]],
         Print [VFormat ''To FITS: %s'' [VStr ''2017-09-13T00:00:00.000'']],
         Print [VFormat ''To GPS: %s'' [VReal 1189296018]],
         Print [VFormat ''To Bessel Epoch Year: %s'' [VStr ''B2017.700'']],
         Print [VFormat ''To Julian Epoch Year: %s'' [VStr ''J2017.699'']]]"
  using assms by (simp add: isot_cell_value conversion_cell_def first_time_def fits_t1_0 gps_t1_0 byear_t1_0
    jyear_t1_0 jd_def mjd_def)


theorem conversion_cell_outputs_witness:
  "(\<lambda>_. 37::real) 58009 = 37 \<and> (\<lambda>_. 37::real) 58010 = 37 \<and>
   bind_result (isot_cell (\<lambda>_. 37)) (\<lambda>(t1, _). conversion_cell (\<lambda>_. 37) t1) =
    Inr [Print [VFormat ''To julian date: %s'' [VReal 2458009.5]],
         Print [VFormat ''To modified julian date: %s'' [VReal 58009]],
         Print [VFormat ''To FITS: %s'' [VStr ''2017-09-13T00:00:00.000'']],
         Print [VFormat ''To GPS: %s'' [VReal 1189296018]],
         Print [VFormat ''To Bessel Epoch Year: %s'' [VStr ''B2017.700'']],
         Print [VFormat ''To Julian Epoch Year: %s'' [VStr ''J2017.699'']]]"
  using conversion_cell_outputs [of "\<lambda>_. 37"] by simp

lemma dt_aware_new:
  "datetime_new 2000 1 1 0 0 0 0 (Some 60) = Inr \<lparr>dt_year = 2000, dt_month = 1, dt_day = 1, dt_hour = 0,
     dt_minute = 0, dt_second = 0, dt_usec = 0, dt_tz = Some 60\<rparr>"
  by (simp add: datetime_new_def month_length_def month_days_def)

lemma dt_aware_time:
  "dat 51544 = dat 51543 \<Longrightarrow> time_of_datetime dat \<lparr>dt_year = 2000, dt_month = 1, dt_day = 1, dt_hour = 0,
     dt_minute = 0, dt_second = 0, dt_usec = 0, dt_tz = Some 60\<rparr> = Inr \<lparr>t_day = 51543, t_frac = 23 / 24, t_scale = UTC\<rparr>"
  by (simp add: time_of_datetime_def datetime_add_minutes_def ymd2ord_def ord2ymd_def
    days_before_month_def month_length_def month_days_def is_leap_def dtf2d_def cal2jd_def c_div_def)

lemma jd2cal_51543: "jd2cal 51543 = Inr (1999, 12, 31)"
  by (simp add: jd2cal_def c_div_def)

lemma d2tf_23: "d2tf 6 (23 / 24) = (23, 0, 0, 0)"
  by (simp add: d2tf_def dnint_def)

lemma d2dtf_tA: "dat 51544 = dat 51543 \<Longrightarrow>
    d2dtf dat UTC 6 \<lparr>t_day = 51543, t_frac = 23 / 24, t_scale = UTC\<rparr> = Inr (1999, 12, 31, 23, 0, 0, 0)"
  by (simp add: d2dtf_def d2tf_23 jd2cal_51543)

lemma naive_dt: "dat 51544 = dat 51543 \<Longrightarrow>
    to_datetime dat None \<lparr>t_day = 51543, t_frac = 23 / 24, t_scale = UTC\<rparr> = Inr \<lparr>dt_year = 1999, dt_month = 12, dt_day = 31, dt_hour = 23,
     dt_minute = 0, dt_second = 0, dt_usec = 0, dt_tz = None\<rparr>"
  by (simp add: to_datetime_def d2dtf_tA datetime_new_def
    month_length_def month_days_def)

lemma add60: "datetime_add_minutes \<lparr>dt_year = 1999, dt_month = 12, dt_day = 31, dt_hour = 23,
     dt_minute = 0, dt_second = 0, dt_usec = 0, dt_tz = Some 0\<rparr> 60 = Inr \<lparr>dt_year = 2000, dt_month = 1, dt_day = 1, dt_hour = 0,
     dt_minute = 0, dt_second = 0, dt_usec = 0, dt_tz = Some 0\<rparr>"
  by (simp add: datetime_add_minutes_def ymd2ord_def ord2ymd_def days_before_month_def is_leap_def Let_def)

lemma aware_dt: "dat 51544 = dat 51543 \<Longrightarrow>
    to_datetime dat (Some 60) \<lparr>t_day = 51543, t_frac = 23 / 24, t_scale = UTC\<rparr> = Inr \<lparr>dt_year = 2000, dt_month = 1, dt_day = 1, dt_hour = 0,
     dt_minute = 0, dt_second = 0, dt_usec = 0, dt_tz = Some 60\<rparr>"
  by (simp add: to_datetime_def d2dtf_tA datetime_new_def
    month_length_def month_days_def add60)

lemma str_naive: "datetime_str \<lparr>dt_year = 1999, dt_month = 12, dt_day = 31, dt_hour = 23,
     dt_minute = 0, dt_second = 0, dt_usec = 0, dt_tz = None\<rparr> = ''1999-12-31 23:00:00''"
  by (simp add: datetime_str_def pad2_def nat_str_eval)

lemma str_aware: "datetime_str \<lparr>dt_year = 2000, dt_month = 1, dt_day = 1, dt_hour = 0,
     dt_minute = 0, dt_second = 0, dt_usec = 0, dt_tz = Some 60\<rparr> = ''2000-01-01 00:00:00+01:00''"
  by (simp add: datetime_str_def pad2_def nat_str_eval)

text \<open>The time-zone cells: the datetime 2000-01-01 00:00 at UTC+1 becomes the time
  1999-12-31 23:00 UTC, printed without zone, and converted back with the same zone
  prints \<open>2000-01-01 00:00:00+01:00\<close> (on a table without a leap second that day).\<close>

theorem timezone_cells_outputs:
  assumes "dat 51544 = dat 51543"
  shows "bind_result (timezone_cell dat) (\<lambda>(t, out). bind_result (aware_cell dat t) (\<lambda>out2. Inr (out @ out2)))
    = Inr [Print [VStr ''1999-12-31 23:00:00''], Print [VStr ''2000-01-01 00:00:00+01:00'']]"
  using assms by (simp add: timezone_cell_def aware_cell_def dt_aware_new dt_aware_time naive_dt aware_dt
    str_naive str_aware)


theorem timezone_cells_outputs_witness:
  "(\<lambda>_. 32::real) 51544 = (\<lambda>_. 32::real) 51543 \<and>
   bind_result (timezone_cell (\<lambda>_. 32)) (\<lambda>(t, out). bind_result (aware_cell (\<lambda>_. 32) t) (\<lambda>out2. Inr (out @ out2)))
    = Inr [Print [VStr ''1999-12-31 23:00:00''], Print [VStr ''2000-01-01 00:00:00+01:00'']]"
  using timezone_cells_outputs [of "\<lambda>_. 32"] by simp

section \<open>Time of day round trip\<close>

lemma dnint_int [simp]: "dnint (real_of_int k) = k"
  by (auto simp: dnint_def floor_eq_iff ceiling_eq_iff)

lemma hms_split:
  fixes h mi s :: int
  assumes "0 \<le> mi" "mi \<le> 59" "0 \<le> s" "s \<le> 59"
  shows "(3600 * h + 60 * mi + s) div 3600 = h" "(3600 * h + 60 * mi + s) mod 3600 div 60 = mi"
    "(3600 * h + 60 * mi + s) mod 60 = s"
proof -
  have r: "0 \<le> 60 * mi + s" "60 * mi + s < 3600" using assms by simp_all
  have "(60 * mi + s + h * 3600) div 3600 = h + (60 * mi + s) div 3600" by simp
  moreover have "(60 * mi + s) div 3600 = 0" using r by (simp add: div_pos_pos_trivial)
  ultimately show "(3600 * h + 60 * mi + s) div 3600 = h" by (simp add: algebra_simps)
  have "(60 * mi + s + h * 3600) mod 3600 = 60 * mi + s" using r by simp
  then have "(3600 * h + 60 * mi + s) mod 3600 = 60 * mi + s" by (simp add: algebra_simps)
  moreover have "(s + mi * 60) div 60 = mi + s div 60" by simp
  ultimately show "(3600 * h + 60 * mi + s) mod 3600 div 60 = mi" using assms by (simp add: algebra_simps div_pos_pos_trivial)
  have "(s + (60 * h + mi) * 60) mod 60 = s mod 60" by (rule mod_mult_self1)
  then show "(3600 * h + 60 * mi + s) mod 60 = s" using assms by (simp add: algebra_simps)
qed

lemma d2tf_whole:
  fixes h mi s :: int
  assumes "0 \<le> h" "h \<le> 23" "0 \<le> mi" "mi \<le> 59" "0 \<le> s" "s \<le> 59"
  shows "d2tf ndp ((60 * real_of_int (60 * h + mi) + real_of_int s) / 86400) = (h, mi, s, 0)"
proof -
  define rs :: int where "rs = 10 ^ ndp"
  define X where "X = 3600 * h + 60 * mi + s"
  have rs: "0 < rs" by (simp add: rs_def)
  have X: "0 \<le> X" using assms by (simp add: X_def)
  have "real_of_int rs * 86400 * \<bar>(60 * real_of_int (60 * h + mi) + real_of_int s) / 86400\<bar> = real_of_int (rs * X)"
    using X by (simp add: X_def algebra_simps abs_of_nonneg)
  note e = this
  have a: "dnint (real_of_int rs * 86400 * \<bar>(60 * real_of_int (60 * h + mi) + real_of_int s) / 86400\<bar>) = rs * X"
    by (simp only: e dnint_int)
  have "(rs * X) div (3600 * rs) = h" using rs hms_split [OF assms(3-6)] by (simp add: X_def mult.commute [of rs])
  moreover have "(rs * X) mod (3600 * rs) div (60 * rs) = mi"
  proof -
    have "(rs * X) mod (rs * 3600) = rs * (X mod 3600)" by (rule mod_mult_mult1)
    moreover have "(rs * (X mod 3600)) div (rs * 60) = X mod 3600 div 60" using rs by (simp only: div_mult_mult1)
    ultimately show ?thesis using hms_split(2) [OF assms(3-6)] by (simp add: X_def mult.commute [of rs])
  qed
  moreover have "(rs * X) mod (60 * rs) div rs = s"
  proof -
    have "(rs * X) mod (rs * 60) = rs * (X mod 60)" by (rule mod_mult_mult1)
    moreover have "(rs * (X mod 60)) div rs = X mod 60" using rs by simp
    ultimately show ?thesis using hms_split(3) [OF assms(3-6)] by (simp add: X_def mult.commute [of rs])
  qed
  moreover have "(rs * X) mod rs = 0" by simp
  ultimately show ?thesis unfolding d2tf_def Let_def rs_def [symmetric] a by simp
qed


text \<open>C26: \<open>eraD2tf\<close> inverts the time of day of \<open>eraDtf2d\<close>: for a whole number of
  seconds, on a day without a leap second, the hours, minutes and seconds read back at any
  precision are the ones given, with zero decimals.\<close>

theorem dtf2d_d2tf_roundtrip:
  assumes t: "dtf2d dat scale y m d h mi (real_of_int s) = Inr t"
    and noleap: "scale \<noteq> UTC \<or> dat (t_day t + 1) = dat (t_day t)" and s: "0 \<le> s" "s < 60"
  shows "d2tf ndp (t_frac t) = (h, mi, s, 0)"
proof -
  obtain dj where dj: "cal2jd y m d = Inr dj" using t by (cases "cal2jd y m d") (simp_all add: dtf2d_def)
  let ?dleap = "if scale = UTC then dat (dj + 1) - dat dj else 0"
  have ok: "\<not> (h < 0 \<or> 23 < h \<or> mi < 0 \<or> 59 < mi \<or> real_of_int s < 0)"
    using t dj by (auto simp: dtf2d_def Let_def split: if_splits)
  have tt: "t = \<lparr>t_day = dj, t_frac = (60 * real_of_int (60 * h + mi) + real_of_int s) / (86400 + ?dleap),
                  t_scale = scale\<rparr>"
    using t dj ok by (simp add: dtf2d_def Let_def)
  have "?dleap = 0" using noleap tt by auto
  then have "t_frac t = (60 * real_of_int (60 * h + mi) + real_of_int s) / 86400" using tt by simp
  moreover have "0 \<le> h" "h \<le> 23" "0 \<le> mi" "mi \<le> 59" "0 \<le> s" "s \<le> 59" using ok s by simp_all
  ultimately show ?thesis by (simp only: d2tf_whole)
qed

theorem dtf2d_d2tf_roundtrip_witness:
  "dtf2d (\<lambda>_. 37) UTC 2017 9 15 11 20 (real_of_int 15) = Inr \<lparr>t_day = 58011, t_frac = 40815 / 86400, t_scale = UTC\<rparr>
   \<and> d2tf 3 (40815 / 86400) = (11, 20, 15, 0)"
proof -
  have t: "dtf2d (\<lambda>_. 37) UTC 2017 9 15 11 20 (real_of_int 15) = Inr \<lparr>t_day = 58011, t_frac = 40815 / 86400, t_scale = UTC\<rparr>"
    by (simp add: dtf2d_def cal2jd_def c_div_def month_length_def month_days_def)
  show ?thesis using dtf2d_d2tf_roundtrip [OF t, of 3] t by simp
qed

end
