(* ===== verification/Session.thy ===== *)
theory Session
  imports Display Cleaning
begin

text \<open>
  The kernel session the notebooks run in: the names bound at top level and the
  process-wide warning filters of Python's \<open>warnings\<close> module.  The setup cells import
  modules, install \<open>warnings.filterwarnings("ignore", category=FITSFixedWarning)\<close> and
  load the plotting helper with \<open>%run plotfits.ipynb\<close>, which runs the cells of
  plotfits.ipynb (lines 23--66: its imports and \<open>def plot\<close>) in the session.  A call of
  \<open>plot\<close> is \<open>NameError\<close> unless the session binds it.  The last cell of the reduction
  notebook plots \<open>image\<close> and \<open>output_file\<close>, the loop variables its two loops leave
  behind.
\<close>

section \<open>Warning categories and filters\<close>

text \<open>The categories the notebooks meet, with their method resolution order
  (\<open>FITSFixedWarning(AstropyWarning)\<close>, \<open>AstropyWarning(Warning)\<close>).\<close>

datatype warn_category = Warning | UserWarning | DeprecationWarning | PendingDeprecationWarning
  | ImportWarning | ResourceWarning | AstropyWarning | FITSFixedWarning

definition warn_mro :: "warn_category \<Rightarrow> warn_category list" where
  "warn_mro c = (case c of
      Warning \<Rightarrow> [Warning]
    | UserWarning \<Rightarrow> [UserWarning, Warning]
    | DeprecationWarning \<Rightarrow> [DeprecationWarning, Warning]
    | PendingDeprecationWarning \<Rightarrow> [PendingDeprecationWarning, Warning]
    | ImportWarning \<Rightarrow> [ImportWarning, Warning]
    | ResourceWarning \<Rightarrow> [ResourceWarning, Warning]
    | AstropyWarning \<Rightarrow> [AstropyWarning, Warning]
    | FITSFixedWarning \<Rightarrow> [FITSFixedWarning, AstropyWarning, Warning])"

text \<open>A filter is its action, category and module (the empty pattern matches every
  module); the message pattern and line number of the notebooks' filters are the
  defaults that match every warning.\<close>

type_synonym warn_filter = "string \<times> warn_category \<times> string"

record session =
  bound :: "string list"
  warn_filters :: "warn_filter list"

text \<open>CPython 3.7's default filters.\<close>

definition default_filters :: "warn_filter list" where
  "default_filters = [(''default'', DeprecationWarning, ''__main__''), (''ignore'', DeprecationWarning, []),
     (''ignore'', PendingDeprecationWarning, []), (''ignore'', ImportWarning, []), (''ignore'', ResourceWarning, [])]"

definition fresh_kernel :: session where
  "fresh_kernel = \<lparr>bound = [], warn_filters = default_filters\<rparr>"

text \<open>\<open>import\<close> statements bind names.\<close>

definition py_import :: "string list \<Rightarrow> session \<Rightarrow> session" where
  "py_import names s = s\<lparr>bound := names @ bound s\<rparr>"

text \<open>\<open>warnings.filterwarnings(action, category=c)\<close>: the filter is moved to the front
  (\<open>append=False\<close>), an equal filter already present removed.\<close>

definition filterwarnings :: "string \<Rightarrow> warn_category \<Rightarrow> session \<Rightarrow> session" where
  "filterwarnings action cat s =
     (let item = (action, cat, []) in s\<lparr>warn_filters := item # removeAll item (warn_filters s)\<rparr>)"

text \<open>\<open>warnings.warn\<close>: the action of the first filter whose category is a base class
  of the warning's and whose module matches; \<open>default\<close> when none does.\<close>

definition warn_action :: "session \<Rightarrow> warn_category \<Rightarrow> string \<Rightarrow> string" where
  "warn_action s cat modname =
     (case filter (\<lambda>(a, c, m). c \<in> set (warn_mro cat) \<and> (m = [] \<or> m = modname)) (warn_filters s) of
        [] \<Rightarrow> ''default''
      | (a, _) # _ \<Rightarrow> a)"

section \<open>The setup cells\<close>

text \<open>plotfits.ipynb, lines 23--28 (\<open>%matplotlib widget\<close> selects the backend and binds
  nothing) and the definition of \<open>plot\<close> at line 37.\<close>

definition plotfits_import_cell :: "session \<Rightarrow> session" where
  "plotfits_import_cell s = py_import [''sys'', ''plt'', ''fits'', ''wcs'', ''simple_norm''] s"

definition plotfits_def_cell :: "session \<Rightarrow> session" where
  "plotfits_def_cell s = s\<lparr>bound := ''plot'' # bound s\<rparr>"

text \<open>\<open>%run plotfits.ipynb\<close>: its code cells in order.\<close>

definition run_plotfits :: "session \<Rightarrow> session" where
  "run_plotfits s = plotfits_def_cell (plotfits_import_cell s)"

text \<open>photutils.ipynb, lines 42--52.\<close>

definition photutils_setup_cell :: "session \<Rightarrow> session" where
  "photutils_setup_cell s =
     run_plotfits (filterwarnings ''ignore'' FITSFixedWarning
       (py_import [''fits''] (py_import [''wcs''] (py_import [''glob''] (py_import [''os''] (py_import [''warnings''] s))))))"

text \<open>The imports at the head of later cells of photutils.ipynb: lines 122--124,
  157--159 and 189.\<close>

definition photutils_units_imports :: "session \<Rightarrow> session" where
  "photutils_units_imports s = py_import [''SkyCoord''] (py_import [''u''] (py_import [''np''] s))"

definition photutils_stats_imports :: "session \<Rightarrow> session" where
  "photutils_stats_imports s =
     py_import [''table''] (py_import [''fits''] (py_import [''sigma_clipped_stats'', ''median_absolute_deviation''] s))"

definition photutils_detection_import :: "session \<Rightarrow> session" where
  "photutils_detection_import s = py_import [''DAOStarFinder''] s"

text \<open>part_001, lines 25--35.\<close>

definition reduction_setup_cell :: "session \<Rightarrow> session" where
  "reduction_setup_cell s =
     run_plotfits (filterwarnings ''ignore'' FITSFixedWarning
       (py_import [''ccdproc''] (py_import [''FITSFixedWarning''] (py_import [''glob''] (py_import [''warnings''] (py_import [''os''] s))))))"

text \<open>part_000, lines 23--28 and 187--191.\<close>

definition standard_setup_cell :: "session \<Rightarrow> session" where
  "standard_setup_cell s = py_import [''Vizier''] (py_import [''coord''] (py_import [''table''] (py_import [''os''] s)))"

definition regression_imports :: "session \<Rightarrow> session" where
  "regression_imports s = py_import [''linregress''] (py_import [''plt''] s)"

text \<open>The import cell of the units part of the introduction notebook (plotfits.ipynb,
  lines 179--181).\<close>

definition units_imports :: "session \<Rightarrow> session" where
  "units_imports s = py_import [''u''] (py_import [''const''] (py_import [''np''] s))"

section \<open>Calls of the plotting helper\<close>

definition call_plot :: "session \<Rightarrow> fits_store \<Rightarrow> (header \<Rightarrow> bool) \<Rightarrow> string \<Rightarrow> cell_output list result" where
  "call_plot s fs is_celestial filename =
     (if ''plot'' \<in> set (bound s) then plot_fits fs is_celestial filename 0 else Inl NameError)"

text \<open>part_001, line 85: the master bias written as \<open>zero.fit\<close>.\<close>

definition bias_plot :: "session \<Rightarrow> fits_store \<Rightarrow> (header \<Rightarrow> bool) \<Rightarrow> cell_output list result" where
  "bias_plot s fs is_celestial = call_plot s fs is_celestial (path_join red_data_dir ''zero.fit'')"

text \<open>A \<open>for\<close> loop leaves its variable bound to the last element; over an empty list it
  leaves the earlier binding.\<close>

definition loop_leftover :: "'a list \<Rightarrow> 'a option \<Rightarrow> 'a option" where
  "loop_leftover xs prev = (if xs = [] then prev else Some (last xs))"

text \<open>part_001, lines 206--221: after the loops over the b and the y science frames,
  \<open>plot(image)\<close> and \<open>plot(output_file)\<close>; an unbound name is \<open>NameError\<close>.\<close>

definition science_plots ::
  "session \<Rightarrow> fits_store \<Rightarrow> (header \<Rightarrow> bool) \<Rightarrow> string list \<Rightarrow> cell_output list result" where
  "science_plots s fs is_celestial raw_names =
     (let b_images = glob_prefix raw_data_dir ''m67_b'' raw_names;
          y_images = glob_prefix raw_data_dir ''m67_y'' raw_names;
          image = loop_leftover y_images (loop_leftover b_images None);
          output_file = map_option (\<lambda>i. path_join red_data_dir (''bf_'' @ basename i)) image
      in case (image, output_file) of
           (Some i, Some outf) \<Rightarrow>
             bind_result (call_plot s fs is_celestial i) (\<lambda>out1.
             bind_result (call_plot s fs is_celestial outf) (\<lambda>out2. Inr (out1 @ out2)))
         | _ \<Rightarrow> Inl NameError)"

section \<open>Properties\<close>

lemma warn_action_filterwarnings:
  "warn_action (filterwarnings a c s) c' m = (if c \<in> set (warn_mro c') then a else warn_action s c' m)"
proof -
  let ?P = "\<lambda>(a'::string, c'', m'::string). c'' \<in> set (warn_mro c') \<and> (m' = [] \<or> m' = m)"
  have "filter ?P (removeAll (a, c, []) L) = filter ?P L" if "c \<notin> set (warn_mro c')" for L
    using that by (induction L) auto
  then show ?thesis by (auto simp: warn_action_def filterwarnings_def Let_def)
qed

lemma warn_filters_import [simp]: "warn_filters (py_import ns s) = warn_filters s"
  by (simp add: py_import_def)

lemma warn_filters_run_plotfits [simp]: "warn_filters (run_plotfits s) = warn_filters s"
  by (simp add: run_plotfits_def plotfits_def_cell_def plotfits_import_cell_def)

lemma warn_action_run_plotfits [simp]: "warn_action (run_plotfits s) = warn_action s"
  by (simp add: warn_action_def fun_eq_iff)

lemma plot_bound_run_plotfits [simp]: "''plot'' \<in> set (bound (run_plotfits s))"
  by (simp add: run_plotfits_def plotfits_def_cell_def)

lemma fits_in_mro: "FITSFixedWarning \<in> set (warn_mro FITSFixedWarning)"
  by (simp add: warn_mro_def)

theorem setup_cells_ignore_fits_warnings:
  "warn_action (photutils_setup_cell s) FITSFixedWarning m = ''ignore''
   \<and> ''plot'' \<in> set (bound (photutils_setup_cell s))
   \<and> warn_action (reduction_setup_cell s) FITSFixedWarning m = ''ignore''
   \<and> ''plot'' \<in> set (bound (reduction_setup_cell s))
   \<and> (c \<noteq> FITSFixedWarning \<longrightarrow> warn_action (reduction_setup_cell s) c m = warn_action s c m)"
proof -
  have "c \<noteq> FITSFixedWarning \<Longrightarrow> FITSFixedWarning \<notin> set (warn_mro c)"
    by (cases c) (simp_all add: warn_mro_def)
  moreover have "warn_action (py_import ns s) = warn_action s" for ns s
    by (simp add: warn_action_def fun_eq_iff)
  ultimately show ?thesis
    by (simp add: photutils_setup_cell_def reduction_setup_cell_def warn_action_filterwarnings fits_in_mro)
qed

lemma loop_leftover_simps [simp]:
  "loop_leftover [] prev = prev" "xs \<noteq> [] \<Longrightarrow> loop_leftover xs prev = Some (last xs)"
  by (simp_all add: loop_leftover_def)

lemma plot_fits_not_NameError: "plot_fits fs cel f ext \<noteq> Inl NameError"
  by (auto simp: plot_fits_def fits_open_def simple_norm_def np_percentile_def Let_def
      split: option.splits sum.splits if_splits prod.splits)

text \<open>C29: the plots of the reduction notebook's last cell show the loop variables the
  loops leave behind: with \<open>plot\<close> loaded, the cell raises \<open>NameError\<close> exactly when there
  is no science frame at all, and when there are b frames but no y frame it plots the
  last b frame and its reduced file, not a y frame.\<close>

theorem science_plots_leftover:
  assumes "''plot'' \<in> set (bound s)"
  shows "(science_plots s fs cel names = Inl NameError
            \<longleftrightarrow> glob_prefix raw_data_dir ''m67_b'' names = [] \<and> glob_prefix raw_data_dir ''m67_y'' names = [])
         \<and> (glob_prefix raw_data_dir ''m67_y'' names = [] \<longrightarrow> glob_prefix raw_data_dir ''m67_b'' names \<noteq> [] \<longrightarrow>
              science_plots s fs cel names =
                (let i = last (glob_prefix raw_data_dir ''m67_b'' names)
                 in bind_result (plot_fits fs cel i 0) (\<lambda>out1.
                    bind_result (plot_fits fs cel (path_join red_data_dir (''bf_'' @ basename i)) 0) (\<lambda>out2.
                      Inr (out1 @ out2)))))"
proof -
  have ne: "bind_result (plot_fits fs cel i 0) (\<lambda>out1. bind_result (plot_fits fs cel j 0) (\<lambda>out2. Inr (out1 @ out2)))
      \<noteq> Inl NameError" for i j
    using plot_fits_not_NameError [of fs cel i 0] plot_fits_not_NameError [of fs cel j 0]
    by (cases "plot_fits fs cel i 0"; cases "plot_fits fs cel j 0") simp_all
  show ?thesis using assms ne by (simp add: science_plots_def call_plot_def loop_leftover_def Let_def)
qed

theorem science_plots_leftover_witness:
  "''plot'' \<in> set (bound (reduction_setup_cell fresh_kernel))
   \<and> science_plots (reduction_setup_cell fresh_kernel) (\<lambda>_. None) (\<lambda>_. True) [] = Inl NameError
   \<and> science_plots (reduction_setup_cell fresh_kernel) (\<lambda>_. None) (\<lambda>_. True) [''m67_b1.fit''] =
       Inl FileNotFoundError"
proof -
  have p: "''plot'' \<in> set (bound (reduction_setup_cell fresh_kernel))"
    by (simp add: reduction_setup_cell_def)
  have g: "glob_prefix raw_data_dir ''m67_b'' [''m67_b1.fit''] = [path_join raw_data_dir ''m67_b1.fit'']"
    "glob_prefix raw_data_dir ''m67_y'' [''m67_b1.fit''] = []"
    "glob_prefix raw_data_dir ''m67_b'' [] = []" "glob_prefix raw_data_dir ''m67_y'' [] = []"
    by (simp_all add: glob_prefix_def starts_with_def)
  show ?thesis using science_plots_leftover [OF p, of "\<lambda>_. None" "\<lambda>_. True" "[]"]
      science_plots_leftover [OF p, of "\<lambda>_. None" "\<lambda>_. True" "[''m67_b1.fit'']"] p g
    by (simp add: plot_fits_def fits_open_def)
qed

end
