(* ===== verification/PsfCells.thy ===== *)
theory PsfCells
  imports Detection
begin

text \<open>
  The PSF cells of the photometry notebook (src/notebooks/photutils.ipynb, lines
  376--390, 406--424 and 440--448) run as written, on the names the kernel holds when
  they are reached.  The namespace maps a name to the object it is bound to; a name
  that no earlier cell binds is unbound and reading it raises \<open>NameError\<close>.  A cell is
  a function from the namespace to the error it stops with (\<open>None\<close> when it completes)
  and the namespace it leaves, with every assignment made before the error kept.  The
  cells' printed output is not modelled.
\<close>

section \<open>Objects and the namespace\<close>

text \<open>The objects the cells bind or read: a scalar, a pixel array, a row of the
  \<open>statistics\<close> table, a list of floats, a source row, a fitted model, a quantity
  (an object with \<open>.value\<close>) and the fitter object.\<close>

datatype py_obj = OVal py_value | OImage image | ORow stat_row | OReals "real list"
  | OSource psf_source | OModel psf_model | OQuantity real | OFitter

type_synonym namespace = "string \<Rightarrow> py_obj option"

definition ns_lookup :: "namespace \<Rightarrow> string \<Rightarrow> py_obj result" where
  "ns_lookup ns x = (case ns x of None \<Rightarrow> Inl NameError | Some v \<Rightarrow> Inr v)"

text \<open>\<open>array - scalar\<close>: numpy subtracts the scalar from every pixel.  An astropy
  \<open>Row\<close> defines no arithmetic, so \<open>row - scalar\<close> raises \<open>TypeError\<close>; so does an
  operand of any other type.  (An array minus NaN has no pixel values in the model and
  falls in the last branch.)\<close>

definition np_sub :: "py_obj \<Rightarrow> py_obj \<Rightarrow> image result" where
  "np_sub a b =
     (case (a, b) of
        (OImage img, OVal (VReal m)) \<Rightarrow> Inr (bkg_subtract img m)
      | (OImage img, OVal (VInt m)) \<Rightarrow> Inr (bkg_subtract img (of_int m))
      | _ \<Rightarrow> Inl TypeError)"

text \<open>\<open>isource['xcentroid']\<close>: a source row has the column; a row of another table
  raises \<open>KeyError\<close>, any other object \<open>TypeError\<close>.\<close>

definition source_of :: "py_obj \<Rightarrow> psf_source result" where
  "source_of v = (case v of OSource s \<Rightarrow> Inr s | ORow _ \<Rightarrow> Inl KeyError | _ \<Rightarrow> Inl TypeError)"

definition reals_of :: "py_obj \<Rightarrow> real list result" where
  "reals_of v = (case v of OReals xs \<Rightarrow> Inr xs | _ \<Rightarrow> Inl TypeError)"

text \<open>\<open>fitted_model.gamma\<close> (or \<open>.stddev\<close>): the attributes of the model kind that
  \<open>model\<close> names; another object has no such attribute.\<close>

definition model_attrs :: "string \<Rightarrow> py_obj \<Rightarrow> psf_model result" where
  "model_attrs name v =
     (case (v, model_init name) of
        (OModel fm, Inr init) \<Rightarrow> if same_kind fm init then Inr fm else Inl AttributeError
      | (OModel fm, Inl e) \<Rightarrow> Inl e
      | _ \<Rightarrow> Inl AttributeError)"

definition quantity_value :: "py_obj \<Rightarrow> real result" where
  "quantity_value v = (case v of OQuantity q \<Rightarrow> Inr q | _ \<Rightarrow> Inl AttributeError)"

section \<open>The names the detection loop leaves bound\<close>

text \<open>One pass of \<open>for image in statistics:\<close> (lines 194--197) binds the loop
  variable to the table row and reads three of its columns.\<close>

definition loop_bindings :: "stat_row \<Rightarrow> namespace \<Rightarrow> namespace" where
  "loop_bindings frame ns =
     ns(''image'' \<mapsto> ORow frame, ''filename'' \<mapsto> OVal (VStr (st_filename frame)),
        ''std'' \<mapsto> OVal (v_opt (st_deviation frame)), ''median'' \<mapsto> OVal (v_opt (st_median frame)))"

text \<open>The detection cell (lines 190--204) binds \<open>sigma_detection\<close> and runs the loop;
  the loop stops at the first frame on which the finder returns \<open>None\<close> (the
  \<open>TypeError\<close> of \<open>len(None)\<close>, see \<open>tag_photometry\<close>), and otherwise ends on the last
  frame.  Either way the loop variables name that frame.\<close>

definition detection_leftover ::
  "(real \<Rightarrow> real \<Rightarrow> image \<Rightarrow> 'a list option) \<Rightarrow> real option \<Rightarrow> stat_row list \<Rightarrow> namespace \<Rightarrow> namespace" where
  "detection_leftover daofind pixel_scale statistics ns =
     (let ns1 = ns(''sigma_detection'' \<mapsto> OVal (VReal sigma_detection))
      in case dropWhile (\<lambda>fr. detect daofind (fwhm_pixels pixel_scale) fr \<noteq> None) statistics of
           fr # _ \<Rightarrow> loop_bindings fr ns1
         | [] \<Rightarrow> (if statistics = [] then ns1 else loop_bindings (last statistics) ns1))"

section \<open>The profile cell (lines 376--390)\<close>

text \<open>The nested loop with the lists it has built so far: on an error the cell stops
  with the samples appended before it.\<close>

fun profile_loop ::
  "image \<Rightarrow> psf_source \<Rightarrow> (int \<times> int) list \<Rightarrow> real list \<Rightarrow> real list
     \<Rightarrow> py_error option \<times> real list \<times> real list" where
  "profile_loop bkg isource [] flux_counts pixel_distance = (None, flux_counts, pixel_distance)"
| "profile_loop bkg isource (p # ps) flux_counts pixel_distance =
     (case pixel_sample bkg isource p of
        Inl e \<Rightarrow> (Some e, flux_counts, pixel_distance)
      | Inr (f, d) \<Rightarrow> profile_loop bkg isource ps (flux_counts @ [f]) (pixel_distance @ [d]))"

definition profile_cell :: "namespace \<Rightarrow> py_error option \<times> namespace" where
  "profile_cell ns =
     (let ns1 = ns(''flux_counts'' \<mapsto> OReals [], ''pixel_distance'' \<mapsto> OReals [])
      in case bind_result (ns_lookup ns1 ''image'') (\<lambda>img.
                bind_result (ns_lookup ns1 ''median'') (\<lambda>median. np_sub img median)) of
           Inl e \<Rightarrow> (Some e, ns1)
         | Inr bkg \<Rightarrow>
             (let ns2 = ns1(''bkg_subtracted_image'' \<mapsto> OImage bkg)
              in case bind_result (ns_lookup ns2 ''isource'') source_of of
                   Inl e \<Rightarrow> (Some e, ns2)
                 | Inr isource \<Rightarrow>
                     (let x_cen = py_int (xcentroid isource); y_cen = py_int (ycentroid isource);
                          ns3 = ns2(''x_cen'' \<mapsto> OVal (VInt x_cen), ''y_cen'' \<mapsto> OVal (VInt y_cen),
                                    ''analysis_radius'' \<mapsto> OVal (VInt analysis_radius))
                      in case profile_loop bkg isource (window_pixels x_cen y_cen analysis_radius) [] [] of
                           (err, fc, pd) \<Rightarrow>
                             (err, ns3(''flux_counts'' \<mapsto> OReals fc, ''pixel_distance'' \<mapsto> OReals pd)))))"

section \<open>The model cell (lines 406--424)\<close>

text \<open>\<open>model = 'moffat'\<close>, the initial model, \<open>fitter = fitting.SimplexLSQFitter()\<close>
  and \<open>fitted_model = fitter(model_init, pixel_distance, flux_counts)\<close>; the fit is a
  parameter, which may raise.  The cell ends by printing \<open>isource['flux']\<close>.\<close>

definition model_cell ::
  "(psf_model \<Rightarrow> real list \<Rightarrow> real list \<Rightarrow> psf_model result) \<Rightarrow> namespace \<Rightarrow> py_error option \<times> namespace" where
  "model_cell fit ns =
     (let model = ''moffat''; ns1 = ns(''model'' \<mapsto> OVal (VStr model))
      in case model_init model of
           Inl e \<Rightarrow> (Some e, ns1)
         | Inr init \<Rightarrow>
             (let ns2 = ns1(''model_init'' \<mapsto> OModel init, ''fitter'' \<mapsto> OFitter)
              in case bind_result (bind_result (ns_lookup ns2 ''pixel_distance'') reals_of) (\<lambda>pd.
                        bind_result (bind_result (ns_lookup ns2 ''flux_counts'') reals_of) (\<lambda>fc.
                          fit init pd fc)) of
                   Inl e \<Rightarrow> (Some e, ns2)
                 | Inr fm \<Rightarrow>
                     (let ns3 = ns2(''fitted_model'' \<mapsto> OModel fm)
                      in case bind_result (ns_lookup ns3 ''isource'') source_of of
                           Inl e \<Rightarrow> (Some e, ns3)
                         | Inr _ \<Rightarrow> (None, ns3))))"

section \<open>The FWHM cell (lines 440--448)\<close>

text \<open>The comparisons of \<open>model\<close>, then the operands in Python's order of evaluation:
  \<open>fitted_model\<close>'s attributes, then \<open>sdss_pixelscale.value\<close>.\<close>

definition fwhm_cell :: "namespace \<Rightarrow> py_error option \<times> namespace" where
  "fwhm_cell ns =
     (case ns_lookup ns ''model'' of
        Inl e \<Rightarrow> (Some e, ns)
      | Inr mo \<Rightarrow>
          if mo \<noteq> OVal (VStr ''gaussian'') \<and> mo \<noteq> OVal (VStr ''moffat'') then (Some GenericException, ns)
          else
            (let name = (if mo = OVal (VStr ''gaussian'') then ''gaussian'' else ''moffat'')
             in case bind_result (ns_lookup ns ''fitted_model'') (model_attrs name) of
                  Inl e \<Rightarrow> (Some e, ns)
                | Inr fm \<Rightarrow>
                    (case bind_result (ns_lookup ns ''sdss_pixelscale'') quantity_value of
                       Inl e \<Rightarrow> (Some e, ns)
                     | Inr scale \<Rightarrow>
                         (case iFWHM name fm scale of
                            Inl e \<Rightarrow> (Some e, ns)
                          | Inr v \<Rightarrow> (None, ns(''iFWHM'' \<mapsto> OVal (VReal v)))))))"

section \<open>Properties\<close>

lemma profile_loop_sample_loop:
  "sample_loop bkg s ps fc pd =
     (case profile_loop bkg s ps fc pd of (None, f, d) \<Rightarrow> Inr (f, d) | (Some e, _) \<Rightarrow> Inl e)"
  by (induction ps arbitrary: fc pd) (auto split: sum.splits)

text \<open>On the intended bindings (an image array, a float median and a source row) the
  profile cell runs the loop of \<open>pixel_profile\<close>: it completes exactly when that
  returns, and then binds the two lists it computes.\<close>

lemma profile_cell_intended:
  assumes "ns ''image'' = Some (OImage img)" and "ns ''median'' = Some (OVal (VReal m))"
    and "ns ''isource'' = Some (OSource s)"
  shows "(fst (profile_cell ns) = None \<and> snd (profile_cell ns) ''flux_counts'' = Some (OReals fc)
            \<and> snd (profile_cell ns) ''pixel_distance'' = Some (OReals pd))
         \<longleftrightarrow> pixel_profile img m s = Inr (fc, pd)"
  using assms
  by (auto simp: profile_cell_def pixel_profile_def profile_loop_sample_loop ns_lookup_def np_sub_def
      source_of_def Let_def split: prod.splits option.splits)

lemma detection_leftover_row:
  "statistics \<noteq> [] \<Longrightarrow> \<exists>r. detection_leftover daofind pixel_scale statistics ns
     = loop_bindings r (ns(''sigma_detection'' \<mapsto> OVal (VReal sigma_detection)))"
  by (auto simp: detection_leftover_def Let_def split: list.splits)

text \<open>C17: the PSF cells as the notebook has them cannot run.  After the detection loop
  \<open>image\<close> is a row of the \<open>statistics\<close> table, so \<open>image - median\<close> (line 380) raises
  \<open>TypeError\<close>, with \<open>flux_counts\<close> and \<open>pixel_distance\<close> left empty; the model cell
  never completes (its last line reads \<open>isource\<close>, which no cell binds, unless the fit
  on the empty profile raises first); and the FWHM cell raises \<open>NameError\<close>: either
  \<open>fitted_model\<close> was never bound, or it is the fitted Moffat model and
  \<open>sdss_pixelscale\<close>, which no cell binds, is read next.\<close>

theorem psf_cells_as_written:
  assumes "statistics \<noteq> []"
    and "ns ''isource'' = None" and "ns ''fitted_model'' = None" and "ns ''sdss_pixelscale'' = None"
    and "\<And>m pd fc fm. fit m pd fc = Inr fm \<Longrightarrow> same_kind fm m"
  shows "fst (profile_cell (detection_leftover daofind pixel_scale statistics ns)) = Some TypeError
    \<and> fst (model_cell fit (snd (profile_cell (detection_leftover daofind pixel_scale statistics ns)))) \<noteq> None
    \<and> fst (fwhm_cell (snd (model_cell fit (snd (profile_cell (detection_leftover daofind pixel_scale statistics ns))))))
        = Some NameError"
proof -
  obtain r where L: "detection_leftover daofind pixel_scale statistics ns
      = loop_bindings r (ns(''sigma_detection'' \<mapsto> OVal (VReal sigma_detection)))"
    using detection_leftover_row [OF assms(1)] by blast
  let ?ns1 = "(loop_bindings r (ns(''sigma_detection'' \<mapsto> OVal (VReal sigma_detection))))
      (''flux_counts'' \<mapsto> OReals [], ''pixel_distance'' \<mapsto> OReals [])"
  have P: "profile_cell (loop_bindings r (ns(''sigma_detection'' \<mapsto> OVal (VReal sigma_detection))))
      = (Some TypeError, ?ns1)"
    by (simp add: profile_cell_def ns_lookup_def loop_bindings_def np_sub_def)
  show ?thesis
  proof (cases "fit (Moffat1D 1 0 2 3.5) [] []")
    case (Inl e)
    then show ?thesis using assms(3) unfolding L P
      by (simp add: model_cell_def fwhm_cell_def model_init_def ns_lookup_def loop_bindings_def reals_of_def)
  next
    case (Inr fm)
    then have "same_kind fm (Moffat1D 1 0 2 3.5)" by (rule assms(5))
    with Inr show ?thesis using assms(2,4) unfolding L P
      by (simp add: model_cell_def fwhm_cell_def model_init_def ns_lookup_def loop_bindings_def
          reals_of_def model_attrs_def)
  qed
qed

section \<open>Examples\<close>

text \<open>One frame whose statistics row has median 1, an empty namespace before the
  detection cell, and a fit that returns the model it starts from.\<close>

abbreviation example_frame :: stat_row where
  "example_frame \<equiv> \<lparr>st_filename = ''bfa_m67.fit'', st_mean = Some 1, st_median = Some 1,
     st_deviation = Some 1, st_image = [[1, 2], [3, 4]]\<rparr>"

theorem psf_cells_as_written_witness:
  "fst (profile_cell (detection_leftover (\<lambda>f t d. None :: nat list option) (Some 1) [example_frame] Map.empty))
      = Some TypeError
   \<and> fst (model_cell (\<lambda>m pd fc. Inr m)
       (snd (profile_cell (detection_leftover (\<lambda>f t d. None :: nat list option) (Some 1) [example_frame] Map.empty))))
      \<noteq> None
   \<and> fst (fwhm_cell (snd (model_cell (\<lambda>m pd fc. Inr m)
       (snd (profile_cell (detection_leftover (\<lambda>f t d. None :: nat list option) (Some 1) [example_frame] Map.empty))))))
      = Some NameError"
  using psf_cells_as_written [of "[example_frame]" Map.empty "\<lambda>m pd fc. Inr m"
      "\<lambda>f t d. None :: nat list option" "Some 1"]
  by simp

end
