(* ===== verification/Spec2Isabelle.thy ===== *)
theory Spec2Isabelle
  imports Join Sky Photometry Cleaning Standard Detection Display Pipeline Arrays Angles Units Times Session PsfCells
begin

text \<open>
  \<^bold>\<open>Verification library of the M67 photometry class notebooks.\<close>

  The repository is a sequence of teaching notebooks.  src/unnamed/part_001 reduces the
  raw CCD frames (master bias, master flats, science frames).  src/notebooks/photutils.ipynb
  measures the reduced frames: image statistics, source detection, a validity test of
  every detected source, the sky positions, PSF stars and profiles, and aperture
  photometry with global and local backgrounds; it writes the instrumental catalog.
  src/unnamed/part_000 reads that catalog back, cross-matches the b and y catalogs and
  the reference catalog with its routine \<open>join_catalogs\<close> (lines 102--116), tidies the
  column names, computes the colour and fits the instrumental to the standard colour
  with \<open>linregress\<close>.  Most steps call astropy, ccdproc, photutils, numpy or scipy;
  these library functions are modelled at their call sites as they are documented, and
  the notebooks' own code on top of them is translated statement by statement.

  \<^bold>\<open>Theories and what they model.\<close>
  \<^item> \<open>Prelude\<close>: Python's errors (\<open>py_error\<close>: IndexError, ValueError,
    TableLengthError, GenericException, AttributeError, KeyError, FileNotFoundError,
    NameError, OverflowError, TypeError) and results
    \<open>py_error + 'a\<close> sequenced by \<open>bind_result\<close> and \<open>map_result\<close>; angle types; the
    \<open>model_eval\<close> collection of evaluation equations; facts on sorted lists.
  \<^item> \<open>Nearest\<close>, \<open>Sky\<close>, \<open>Join\<close> (part_000, lines 77--118): the index table of
    \<open>SkyCoord.match_to_catalog_sky\<close> (a nearest entry, ValueError on an empty
    catalog; among equally near entries the model takes the lowest index, a choice
    astropy leaves open and no claim relies on), astropy's Vincenty separation, and
    \<open>join_catalogs\<close> line by line (fancy indexing, hstack, sort, \<open>good_match\<close>,
    \<open>nearby\<close>, broadcasting, masking, column deletion) with its abstract specification
    \<open>best_per_index\<close>.  \<open>hstack\<close> is modelled on tables of one length, as the notebook
    calls it; astropy would pad a shorter table with masked rows, which the model does
    not represent.
  \<^item> \<open>Stats\<close>: \<open>np.median\<close>, \<open>np.mean\<close>, \<open>np.std\<close>, astropy's \<open>sigma_clip\<close> (one
    \<open>clip_pass\<close> per iteration, at most \<open>maxiters\<close>, stopping early when a pass clips
    nothing) and \<open>sigma_clipped_stats\<close>, with NaN as \<open>None\<close>.
  \<^item> \<open>Validity\<close> (photutils.ipynb, lines 244--263): the median/MAD/saturation mask of
    every image, the loop over the groups and \<open>add_column\<close>.
  \<^item> \<open>Psf\<close> (lines 354--448): the PSF star of every image, Python's indexing and
    numpy slicing, the pixel-profile loop, the model choice and the FWHM conversions,
    as functions of the values the cells read.
  \<^item> \<open>PsfCells\<close> (lines 190--204 and 376--448): the three PSF cells run on the kernel
    namespace (a map from names to objects, \<open>NameError\<close> for an unbound name) that the
    detection loop leaves: \<open>image\<close> is a row of the statistics table there, and
    \<open>isource\<close> and \<open>sdss_pixelscale\<close> are never bound.
  \<^item> \<open>Photometry\<close> (lines 540--878): apertures and annuli, \<open>aperture_photometry\<close>
    with the pixel overlap \<open>ov\<close> as a parameter, global and local background tables,
    the residual comparison and its selections, the stamp, the annulus statistics and the
    flux error.
  \<^item> \<open>Cleaning\<close> (part_001): paths and glob, \<open>ccdproc.combine\<close> (median, scaled),
    \<open>trim_image\<close>, \<open>subtract_bias\<close>, \<open>ccd_process\<close> with its flat correction, and
    the cells for the master bias, the flats, the two master flats and the science frames.
  \<^item> \<open>Standard\<close> (part_000, lines 33--196): the catalog selections, the hstack column
    names and their tidy-up with Python's \<open>str.replace\<close> and \<open>rename_column\<close>
    (KeyError on a taken name), the colour, the masked-colour rejection, \<open>linregress\<close>
    and the fitted column; the instrumental catalog's column names and the text form of
    its \<open>valid\<close> column (photutils.ipynb, lines 198--327).
  \<^item> \<open>Detection\<close> (photutils.ipynb, lines 95--329): the files on disk as a store of
    FITS units; the astrometric calibration loop (solution and frame names with
    \<open>str.replace\<close>, \<open>Header.extend(update=True)\<close>, \<open>writeto\<close>), the pixel scale,
    the statistics table, detection with \<open>vstack\<close> and \<open>group_by\<close> (a stable sort and
    its runs; a finder result of \<open>None\<close> makes \<open>len(None)\<close> raise TypeError), and the
    sky coordinates added to the catalog before it is written.
    Cells are functions of the state they read, returning what they bind and what they
    show (\<open>cell_output\<close> of the Prelude).
  \<^item> \<open>Display\<close>: the plotting helper \<open>plot\<close> of plotfits.ipynb (lines 37--66) as
    the matplotlib calls it makes, and every display cell of photutils.ipynb (lines
    220--802): the validity report, the PSF table, the profile plot, the
    background, apertures, selections, stamp, mask and cutout views.
  \<^item> \<open>Pipeline\<close> (part_000, lines 29--225): every cell of the standardisation
    notebook over tables that carry their column names (\<open>table\<close>; reading a missing
    column is \<open>KeyError\<close>): reading and selecting the catalog, the two cross-matches,
    the join and tidy-up, the colour, the Vizier catalog (a parameter), the regression
    with its printed slope, zero point and standard error, the plots and the written
    result, composed in notebook order as \<open>standardisation\<close>.
  \<^item> \<open>Numerals\<close>: \<open>str\<close> of natural numbers, zero padding, Python's rounding
    (ties to even), and the digit strings of astropy's angle lexer, with the round trip
    \<open>parse_nat (nat_str n) = Some n\<close>.
  \<^item> \<open>Arrays\<close> (plotfits.ipynb, lines 128--147 and 584--589): \<open>np.arange\<close>,
    \<open>reshape\<close> (ValueError on a size mismatch), 2-D slicing and boolean broadcasting of the
    numpy cell; astropy \<open>Table\<close> columns, \<open>add_column\<close> (default name \<open>col<n>\<close>,
    ValueError on a length mismatch) and \<open>rename_column\<close>.
  \<^item> \<open>Angles\<close> (plotfits.ipynb, lines 329--420): the angle lexer and parser of
    \<open>SkyCoord\<close> strings in all five spellings of the notebook, the longitude wrap and
    latitude check, \<open>to_string('hmsdms')\<close>, positions with distances, Cartesian
    components and 3-D separations, and the Rigel, galactic, constellation and catalogue
    cells (name resolution, frames and constellations are parameters).
  \<^item> \<open>Units\<close> (plotfits.ipynb, lines 200--310): units as a scale and a dimension of
    rational exponents, quantities, \<open>.to\<close> (ValueError between dimensions), sums and
    products, the physical constants of the cells, with their reading in SI values.
  \<^item> \<open>Times\<close> (plotfits.ipynb, lines 479--561): \<open>Time\<close> as a day number and a day
    fraction in a scale; ISO parsing; ERFA's \<open>cal2jd\<close>, \<open>dtf2d\<close>, \<open>jd2cal\<close>,
    \<open>d2tf\<close>, \<open>d2dtf\<close> with C's truncating division; UTC, TAI and TT with TAI\<open>-\<close>UTC
    (ERFA's leap second table) as a parameter \<open>dat\<close>; JD, MJD, FITS, GPS and epoch
    strings; Python datetimes (CPython's ordinals, \<open>timedelta\<close> carry, \<open>str\<close>) for the
    time-zone cells.
  \<^item> \<open>Session\<close>: the kernel namespace and Python's warning filters; the setup and
    import cells of all notebooks (\<open>filterwarnings\<close>, \<open>%run plotfits.ipynb\<close>), calls
    of \<open>plot\<close> that need the name bound, and the last cell of the reduction notebook,
    which plots the loop variables its loops leave behind.
  \<^item> This theory: the cross-match pipeline \<open>cross_match_at\<close> (search, then join; lines
    77--84 and 118) and \<open>write_catalog\<close>, the catalog the photometry notebook writes for
    the standardisation notebook to read.

  \<^bold>\<open>What the claims show.\<close>  C1--C6, C9 (Join, Nearest): every row the join
  returns is a row of the stacked table; the join never reuses a right record, keeps the
  closer candidate, refines \<open>best_per_index\<close>, drops rather than reassigns losers, is
  monotone in the cutoff, and on the tables the notebook passes fails exactly with
  IndexError for an index past the right table; every row of the index table names a
  nearest catalog entry and its separation.  C7: the detection cell raises TypeError when
  the finder returns \<open>None\<close>, and otherwise its grouped catalog holds, per image in
  file-name order, exactly its detections.  C8 (Pipeline): with the column names the
  photometry notebook writes and the reference catalog provides, no cell of the
  standardisation notebook raises KeyError.  C10: end to end, returned pairs are nearest
  neighbours closer than the cutoff.  C11: every catalog row gets the sky position of its
  own centroid through its own file's WCS.  C12: the valid sources survive the
  write/read round trip between the notebooks.  C13 (Angles): Vincenty's separation is
  the angle of the spherical law of cosines.  C14--C15: the validity column is the
  per-image test, images with zero MAD are rejected.  C16: the PSF star is the brightest
  valid source.  C17 (PsfCells): as written, the profile cell raises TypeError, the model
  cell never completes and the FWHM cell raises NameError.  C18: the Moffat FWHM is exact.
  C19: with sigma at least sqrt 2 the sigma-clipped statistics of a non-empty frame are
  numbers, never NaN.  C20--C21: the
  local background is exact on a uniform sky; the flux of the error cell is the annulus
  sum.  C22: the reduction flattens a uniform sky.  C23: \<open>linregress\<close> is a
  least-squares fit.  C24: the column tidy-up renames c_2, c_3 to c_b, c_y without error.
  C25 (Times): \<open>eraCal2jd\<close> counts days of the Gregorian calendar.  C26: \<open>eraD2tf\<close>
  reads back the whole-second time of day that \<open>eraDtf2d\<close> stores.  C27 (Angles):
  \<open>to_string('hmsdms')\<close> and \<open>SkyCoord(string)\<close> are inverse on whole seconds.  C28
  (Units): \<open>.to\<close> and quantity addition raise ValueError exactly between dimensions and
  otherwise preserve, or add, the SI values.  C29 (Session): the last plots of the
  reduction notebook show leftover loop variables, NameError with no science frame.

  \<^bold>\<open>Modelling choices.\<close>  Loops are structural recursion over lists; the one loop
  with a bound, \<open>sigma_clip\<close>, takes \<open>maxiters\<close> as its fuel, as astropy does (the
  notebook passes 5, so clipping may stop before a pass would clip nothing).  \<open>str.replace\<close> is a \<open>function\<close> with a termination proof on
  the length of the string.  Python floats are reals; NaN results are \<open>None\<close>.  Images
  are lists of rows indexed \<open>[y][x]\<close>.  Catalog rows are records of the columns a cell
  reads, or type parameters where the code never reads them.  astropy's unstable
  \<open>Table.sort\<close> is the stable \<open>sort_key\<close>; no claim depends on the order of
  rows with equal keys (\<open>join_tie_order_dependent\<close> shows that the join's choice
  between equally near left records does).
  Library functions the cells call (ERFA, CPython's datetime, astropy's parsers) are
  modelled from their documented algorithms; values a cell reads from the network or the
  clock (Sesame, Vizier, the leap second table) are parameters, and the cell claims
  state the values of those parameters they assume.

  \<^bold>\<open>Not modelled.\<close>  The bytes of FITS and text files (a file is its header and
  data; the text catalog is its table), the Vizier and Sesame queries, the DAOStarFinder
  detection itself, WCS transforms (parameters), the photutils pixel-circle overlap
  geometry (a parameter), model fitting (the fitter is a parameter), Background2D and
  \<open>to_mask\<close> (parameters), the formatting of floats in printed text (kept as
  \<open>VFormat\<close> of its template), matplotlib's drawing (kept as the calls made), exponents
  in unit and number strings, the drift of TAI\<open>-\<close>UTC before 1972, and the warning
  status of ERFA for seconds past the end of a day (the value is kept).  The README is
  prose.
\<close>

definition cross_match_at ::
  "degrees \<Rightarrow> ('l \<Rightarrow> sky_coord) \<Rightarrow> ('r \<Rightarrow> sky_coord) \<Rightarrow> 'l list \<Rightarrow> 'r list \<Rightarrow> ('l \<times> 'r) list result" where
  "cross_match_at tol pos_l pos_r left right =
     (case match_to_catalog_sky separation (map pos_l left) (map pos_r right) of
        Inl e \<Rightarrow> Inl e
      | Inr index_table \<Rightarrow> join_catalogs_at tol index_table left right)"

definition cross_match ::
  "('l \<Rightarrow> sky_coord) \<Rightarrow> ('r \<Rightarrow> sky_coord) \<Rightarrow> 'l list \<Rightarrow> 'r list \<Rightarrow> ('l \<times> 'r) list result" where
  "cross_match = cross_match_at arcsec3"

text \<open>The instrumental catalog as the photometry notebook writes it: the \<open>valid\<close>
  column added to the groups (photutils.ipynb, lines 243--263), each row with the
  \<open>Filename\<close> of its group and the flag as text (line 327).\<close>

definition write_catalog :: "(string \<times> star_row list) list \<Rightarrow> (string \<times> star_row \<times> string) list result" where
  "write_catalog groups =
     bind_result (add_column (concat (map snd groups)) (valid_loop [] (map snd groups)))
       (\<lambda>rows. Inr (map2 (\<lambda>f (s, v). (f, s, py_str_bool v))
                       (concat (map (\<lambda>(f, g). replicate (length g) f) groups)) rows))"

lemma stacked_member:
  assumes "x \<in> set (zip it (zip lt (map (\<lambda>m. rt ! index m) it)))"
  shows "\<exists>n<length it. n < length lt \<and> x = (it ! n, lt ! n, rt ! index (it ! n))"
proof -
  from assms obtain n where "n < length (zip it (zip lt (map (\<lambda>m. rt ! index m) it)))"
    "x = zip it (zip lt (map (\<lambda>m. rt ! index m) it)) ! n"
    by (metis in_set_conv_nth)
  then show ?thesis by auto
qed

lemma cross_match_index_table:
  assumes "right = r # rs"
  shows "match_to_catalog_sky separation (map pos_l left) (map pos_r right)
     = Inr (map (\<lambda>l. nearest_in separation (pos_l l) (pos_r r) (map pos_r rs)) left)"
  using assms by (simp add: match_to_catalog_sky_Cons comp_def)

lemma cross_match_at_Inr:
  assumes "cross_match_at tol pos_l pos_r left right = Inr out"
  obtains r rs where "right = r # rs"
    and "out = del_index_distance (join_table tol
           (map (\<lambda>l. nearest_in separation (pos_l l) (pos_r r) (map pos_r rs)) left) left right)"
proof (cases right)
  case Nil
  with assms show ?thesis by (simp add: cross_match_at_def)
next
  case (Cons r rs)
  let ?it = "map (\<lambda>l. nearest_in separation (pos_l l) (pos_r r) (map pos_r rs)) left"
  have "match_to_catalog_sky separation (map pos_l left) (map pos_r right) = Inr ?it"
    by (rule cross_match_index_table [OF Cons])
  then have "join_catalogs_at tol ?it left right = Inr out"
    using assms by (simp only: cross_match_at_def sum.case)
  from join_catalogs_at_Inr [OF this] Cons that show ?thesis by simp
qed

text \<open>C10: end to end, every pair the cross-match returns is a left record with its
  nearest right record (by great-circle separation of the two positions), closer than the
  cutoff.\<close>

theorem cross_match_pairs:
  assumes "cross_match_at tol pos_l pos_r left right = Inr out" and "(l, r) \<in> set out"
  shows "l \<in> set left \<and> r \<in> set right \<and> separation (pos_l l) (pos_r r) < tol
    \<and> (\<forall>r'\<in>set right. separation (pos_l l) (pos_r r) \<le> separation (pos_l l) (pos_r r'))"
proof -
  from assms(1) obtain r0 rs where right: "right = r0 # rs"
    and out: "out = del_index_distance (join_table tol
           (map (\<lambda>l. nearest_in separation (pos_l l) (pos_r r0) (map pos_r rs)) left) left right)"
    by (rule cross_match_at_Inr)
  let ?it = "map (\<lambda>l. nearest_in separation (pos_l l) (pos_r r0) (map pos_r rs)) left"
  from assms(2) out obtain x where x: "x \<in> set (join_table tol ?it left right)" "snd x = (l, r)"
    by (auto simp: del_index_distance_def)
  then have "x \<in> set (zip ?it (zip left (map (\<lambda>m. right ! index m) ?it)))"
    using join_table_subset by blast
  from stacked_member [OF this] obtain n where
    n: "n < length left" "x = (?it ! n, left ! n, right ! index (?it ! n))"
    by auto
  let ?m = "nearest_in separation (pos_l (left ! n)) (pos_r r0) (map pos_r rs)"
  have m: "?it ! n = ?m" using n by simp
  note spec = nearest_in_spec [OF refl, where sep = separation and q = "pos_l (left ! n)"
    and r = "pos_r r0" and rs = "map pos_r rs"]
  have lr: "l = left ! n" "r = right ! index ?m" using x(2) n m by auto
  have idx: "index ?m < length right" using spec(1) right by simp
  have dist: "distance ?m = separation (pos_l l) (pos_r r)"
    using spec(2) lr idx right by (simp add: nth_Cons' split: if_splits)
  have "distance (fst x) < tol" using join_table_sound [OF x(1)] by blast
  then have close: "separation (pos_l l) (pos_r r) < tol" using n m dist by simp
  have best: "\<forall>r'\<in>set right. separation (pos_l l) (pos_r r) \<le> separation (pos_l l) (pos_r r')"
  proof
    fix r' assume "r' \<in> set right"
    then obtain j where "j < length right" "right ! j = r'" by (auto simp: in_set_conv_nth)
    with spec(3) right lr dist show "separation (pos_l l) (pos_r r) \<le> separation (pos_l l) (pos_r r')"
      by (auto simp: nth_Cons' split: if_splits)
  qed
  show ?thesis using lr n idx close best by simp
qed

text \<open>An empty right catalog makes the nearest-neighbour search raise
  \<open>ValueError\<close>, whatever the left catalog.\<close>

lemma cross_match_right_empty:
  "cross_match_at tol pos_l pos_r left [] = Inl ValueError"
  by (simp add: cross_match_at_def)

text \<open>An empty left catalog against a non-empty right catalog gives an empty result.\<close>

lemma cross_match_left_empty:
  "right \<noteq> [] \<Longrightarrow> cross_match_at tol pos_l pos_r [] right = Inr []"
  by (cases right) (simp_all add: cross_match_at_def match_to_catalog_sky_Cons model_eval)

lemma cross_match_left_empty_example:
  "cross_match_at arcsec3 id id [] [\<lparr>ra = 1, dec = 2\<rparr>] = Inr []"
  by (rule cross_match_left_empty) simp

text \<open>With a non-empty right catalog the cross-match never raises: the indices
  the search returns are in range and the index table is as long as the left catalog.\<close>

theorem cross_match_total:
  assumes "right \<noteq> []"
  shows "\<exists>out. cross_match_at tol pos_l pos_r left right = Inr out"
proof -
  obtain r rs where right: "right = r # rs" using assms by (cases right) auto
  let ?it = "map (\<lambda>l. nearest_in separation (pos_l l) (pos_r r) (map pos_r rs)) left"
  have ok: "list_all (\<lambda>m. index m < length right) ?it"
  proof -
    have "index (nearest_in separation q (pos_r r) (map pos_r rs)) < length right" for q
      using nearest_in_spec(1) [OF refl, where sep = separation and q = q and r = "pos_r r"
          and rs = "map pos_r rs"] right by simp
    then show ?thesis by (simp add: list_all_iff)
  qed
  have "match_to_catalog_sky separation (map pos_l left) (map pos_r right) = Inr ?it"
    by (rule cross_match_index_table [OF right])
  then have "cross_match_at tol pos_l pos_r left right = join_catalogs_at tol ?it left right"
    by (simp only: cross_match_at_def sum.case)
  also have "\<dots> = Inr (del_index_distance (join_table tol ?it left right))"
    using ok by (simp add: join_catalogs_at_eq)
  finally show ?thesis by blast
qed

theorem cross_match_total_witness:
  "\<exists>out. cross_match_at arcsec3 id id [\<lparr>ra = 0, dec = 0\<rparr>] [\<lparr>ra = 1, dec = 2\<rparr>] = Inr out"
  by (rule cross_match_total) simp

lemma separation_example:
  "separation \<lparr>ra = 10, dec = 0\<rparr> \<lparr>ra = 10001 / 1000, dec = 0\<rparr> = 1 / 1000"
  using separation_equator [of "10001 / 1000" 10] by simp

lemma cross_match_example_wide:
  "cross_match_at (10 / 3600) id id [\<lparr>ra = 10, dec = 0\<rparr>] [\<lparr>ra = 10001 / 1000, dec = 0\<rparr>]
     = Inr [(\<lparr>ra = 10, dec = 0\<rparr>, \<lparr>ra = 10001 / 1000, dec = 0\<rparr>)]"
  by (simp add: cross_match_at_def match_to_catalog_sky_def nearest_in_def
      separation_example model_eval)

theorem cross_match_pairs_witness:
  "separation \<lparr>ra = 10, dec = 0\<rparr> \<lparr>ra = 10001 / 1000, dec = 0\<rparr> < 10 / 3600"
  using cross_match_pairs [OF cross_match_example_wide, of "\<lparr>ra = 10, dec = 0\<rparr>"
      "\<lparr>ra = 10001 / 1000, dec = 0\<rparr>"] by simp

text \<open>The tolerance cutoff on a concrete pair: stars at right ascension 10 and
  10.001 degrees on the equator are 3.6 arcseconds apart; the notebook's three-arcsecond
  cutoff rejects the pair, a ten-arcsecond cutoff keeps it.\<close>

lemma cross_match_cutoff_example:
  "cross_match id id [\<lparr>ra = 10, dec = 0\<rparr>] [\<lparr>ra = 10001 / 1000, dec = 0\<rparr>] = Inr []
   \<and> cross_match_at (10 / 3600) id id [\<lparr>ra = 10, dec = 0\<rparr>] [\<lparr>ra = 10001 / 1000, dec = 0\<rparr>]
       = Inr [(\<lparr>ra = 10, dec = 0\<rparr>, \<lparr>ra = 10001 / 1000, dec = 0\<rparr>)]"
  by (simp add: cross_match_def cross_match_at_def match_to_catalog_sky_def nearest_in_def
      separation_example model_eval)

section \<open>The instrumental catalog between the two notebooks\<close>

lemma written_rows:
  "map2 (\<lambda>f (s, v). (f, s, py_str_bool v)) (concat (map (\<lambda>(f, g). replicate (length g) f) groups))
      (zip (concat (map snd groups)) (concat (map star_mask (map snd groups))))
   = concat (map (\<lambda>(f, g). map (\<lambda>s. (f, s, py_str_bool (valid_in g s))) g) groups)"
proof (induction groups)
  case Nil
  then show ?case by simp
next
  case (Cons fg groups)
  obtain f g where fg: "fg = (f, g)" by force
  have "zip (replicate (length g) f) (zip g (star_mask g)) = map (\<lambda>s. (f, s, valid_in g s)) g"
    by (simp add: star_mask_valid_in zip_replicate1 zip_map2 zip_same_conv_map comp_def)
  then show ?case using Cons.IH by (simp add: fg zip_append comp_def)
qed

text \<open>C12: writing the catalog with its \<open>valid\<close> column and reading it back with the
  standardisation notebook's selections (\<open>valid == 'True'\<close>, then \<open>Filename\<close>) gives,
  for every image, exactly the sources the photometry notebook flagged valid against the
  statistics of that image, in catalog order.\<close>

theorem catalog_roundtrip:
  "bind_result (write_catalog groups) (\<lambda>rows. Inr (read_image_catalog name rows))
   = Inr (concat (map (\<lambda>(f, g). if f = name then map (\<lambda>s. (f, s, ''True'')) (filter (valid_in g) g) else [])
                   groups))"
proof -
  have len: "length (concat (map star_mask (map snd groups))) = length (concat (map snd groups))"
    by (simp add: length_concat comp_def)
  have "write_catalog groups
      = Inr (concat (map (\<lambda>(f, g). map (\<lambda>s. (f, s, py_str_bool (valid_in g s))) g) groups))"
    unfolding write_catalog_def add_column_def if_P [OF len] bind_result_simps valid_loop_concat
      append.left_neutral written_rows ..
  then show ?thesis
    by (simp only: bind_result_simps read_image_catalog_def select_file_def select_valid_def
        filter_concat map_map comp_def split_def read_written_group)
qed
end
